(* ===== verification/Prelude.thy ===== *)
theory Prelude
  imports Main "HOL-Library.Char_ord" "HOL-Library.List_Lexorder" "HOL-Library.Product_Lexorder"
begin

text \<open>
  Shared vocabulary of the development.

  \<^item> Python text is a \<open>string\<close> whose characters stand for the code points 0 to 255
    (Python's Latin-1 representation of \<open>str\<close>): \<open>py_space\<close> lists the code points
    \<open>str.strip\<close> removes and \<open>utf8_len\<close> is \<open>len(s.encode("utf-8"))\<close>.
  \<^item> A Python function that may raise is a function into \<open>'e + 'a\<close>; \<open>bindE\<close> chains
    such results and stops at the first exception.
  \<^item> A table of the database is the list of its rows in insertion order;
    \<open>update_where\<close>, \<open>next_rowid\<close> and \<open>List.find\<close> are the SQL statements the source
    uses on it.
  \<^item> Instants (Python \<open>datetime\<close> values and the timestamp columns) are microseconds since
    1970-01-01T00:00:00Z, as an \<open>int\<close>.
\<close>

named_theorems store_simps \<open>unfolding rules for results, tables and rows\<close>
named_theorems frame_simps \<open>tables an operation leaves alone\<close>

type_synonym micros = int

subsection \<open>Results\<close>

definition bindE :: "'e + 'a \<Rightarrow> ('a \<Rightarrow> 'e + 'b) \<Rightarrow> 'e + 'b" where
  "bindE m f = (case m of Inl e \<Rightarrow> Inl e | Inr x \<Rightarrow> f x)"

definition ensure :: "bool \<Rightarrow> 'e \<Rightarrow> 'e + unit" where
  "ensure b e = (if b then Inr () else Inl e)"

lemma bindE_simps [simp, store_simps]:
  "bindE (Inl e) f = Inl e"
  "bindE (Inr x) f = f x"
  by (simp_all add: bindE_def)

lemma bindE_eq_Inr: "bindE m f = Inr y \<longleftrightarrow> (\<exists>x. m = Inr x \<and> f x = Inr y)"
  by (cases m) simp_all

lemma bindE_eq_Inl: "bindE m f = Inl e \<longleftrightarrow> m = Inl e \<or> (\<exists>x. m = Inr x \<and> f x = Inl e)"
  by (cases m) simp_all

lemma ensure_eq_Inr [simp]: "ensure b e = Inr u \<longleftrightarrow> b"
  by (simp add: ensure_def)

lemma ensure_eq_Inl [simp]: "ensure b e = Inl e' \<longleftrightarrow> \<not> b \<and> e' = e"
  by (auto simp: ensure_def)

lemma ensure_simps [simp, store_simps]: "ensure True e = Inr ()" "ensure False e = Inl e"
  by (simp_all add: ensure_def)

lemma bindE_ensure_eq_Inr [simp]: "bindE (ensure b e) f = Inr y \<longleftrightarrow> b \<and> f () = Inr y"
  by (simp add: ensure_def)

text \<open>All elements must be accepted, in order; the first refusal is the result.\<close>

fun mapE :: "('a \<Rightarrow> 'e + 'b) \<Rightarrow> 'a list \<Rightarrow> 'e + 'b list" where
  "mapE f [] = Inr []"
| "mapE f (x # xs) = bindE (f x) (\<lambda>y. bindE (mapE f xs) (\<lambda>ys. Inr (y # ys)))"

lemma mapE_length: "mapE f xs = Inr ys \<Longrightarrow> length ys = length xs"
  by (induction xs arbitrary: ys) (auto simp: bindE_eq_Inr)

lemma mapE_Inr_id: "(\<And>x. x \<in> set xs \<Longrightarrow> f x = Inr x) \<Longrightarrow> mapE f xs = Inr xs"
  by (induction xs) auto

subsection \<open>Text\<close>

definition code_point :: "char \<Rightarrow> nat" where
  "code_point c = of_char c"

definition NUL :: char where
  "NUL = char_of (0::nat)"

definition py_space :: "char \<Rightarrow> bool" where
  "py_space c \<longleftrightarrow>
     (let n = code_point c
      in 9 \<le> n \<and> n \<le> 13 \<or> 28 \<le> n \<and> n \<le> 32 \<or> n = 133 \<or> n = 160)"

definition lstrip :: "string \<Rightarrow> string" where
  "lstrip s = dropWhile py_space s"

definition rstrip :: "string \<Rightarrow> string" where
  "rstrip s = rev (dropWhile py_space (rev s))"

definition strip :: "string \<Rightarrow> string" where
  "strip s = rstrip (lstrip s)"

definition utf8_len :: "string \<Rightarrow> int" where
  "utf8_len s = sum_list (map (\<lambda>c. if code_point c < 128 then 1 else 2) s)"

text \<open>
  The guard every repository spells out as
  \<^verbatim>\<open>not value or value != value.strip() or "\x00" in value\<close>, negated.
\<close>

definition plain_text :: "string \<Rightarrow> bool" where
  "plain_text s \<longleftrightarrow> s \<noteq> [] \<and> s = strip s \<and> NUL \<notin> set s"

definition plain_text_opt :: "string option \<Rightarrow> bool" where
  "plain_text_opt t = (case t of None \<Rightarrow> True | Some s \<Rightarrow> plain_text s)"

text \<open>SQLite's one-argument \<open>trim\<close> removes blanks (U+0020) only.\<close>

definition sql_trim :: "string \<Rightarrow> string" where
  "sql_trim s = rev (dropWhile ((=) CHR '' '') (rev (dropWhile ((=) CHR '' '') s)))"

definition hex_digits :: string where
  "hex_digits = ''0123456789abcdef''"

definition hex64 :: "string \<Rightarrow> bool" where
  "hex64 s \<longleftrightarrow> length s = 64 \<and> (\<forall>c\<in>set s. c \<in> set hex_digits)"

lemma dropWhile_hd_id: "(xs = [] \<or> \<not> P (hd xs)) \<Longrightarrow> dropWhile P xs = xs"
  by (cases xs) auto

lemma hd_dropWhile_not: "dropWhile P xs = [] \<or> \<not> P (hd (dropWhile P xs))"
  using hd_dropWhile by blast

lemma strip_id_iff:
  "s = strip s \<longleftrightarrow> s = [] \<or> \<not> py_space (hd s) \<and> \<not> py_space (last s)"
proof
  assume eq: "s = strip s"
  show "s = [] \<or> \<not> py_space (hd s) \<and> \<not> py_space (last s)"
  proof (rule disjCI)
    assume "\<not> (\<not> py_space (hd s) \<and> \<not> py_space (last s))"
    show "s = []"
    proof (rule ccontr)
      assume ne: "s \<noteq> []"
      have last: "\<not> py_space (last s)"
        using eq ne hd_dropWhile_not [of py_space "rev (lstrip s)"]
        by (metis hd_rev rev_rev_ident rev_is_Nil_conv rstrip_def strip_def)
      have len: "length s \<le> length (lstrip s)"
        using eq length_dropWhile_le [of py_space "rev (lstrip s)"]
        by (metis length_rev rstrip_def strip_def)
      then have "lstrip s = s"
        unfolding lstrip_def
        by (metis append_self_conv2 length_dropWhile_le le_antisym length_append
            add_cancel_left_left length_0_conv takeWhile_dropWhile_id)
      then have "\<not> py_space (hd s)"
        using ne hd_dropWhile_not [of py_space s] by (simp add: lstrip_def)
      with last \<open>\<not> (\<not> py_space (hd s) \<and> \<not> py_space (last s))\<close> show False by blast
    qed
  qed
next
  assume "s = [] \<or> \<not> py_space (hd s) \<and> \<not> py_space (last s)"
  then show "s = strip s"
    by (auto simp: strip_def rstrip_def lstrip_def dropWhile_hd_id hd_rev)
qed

lemma plain_text_ends:
  "plain_text s \<Longrightarrow> s \<noteq> [] \<and> \<not> py_space (hd s) \<and> \<not> py_space (last s)"
  using strip_id_iff by (auto simp: plain_text_def)

lemma blank_is_space: "py_space CHR '' ''"
  by (simp add: py_space_def code_point_def Let_def)

text \<open>What Python's stricter \<open>strip\<close> accepts also satisfies the schema's \<open>x = trim(x)\<close>.\<close>

lemma plain_text_sql_trim: "plain_text s \<Longrightarrow> sql_trim s = s"
proof -
  assume p: "plain_text s"
  then have "hd s \<noteq> CHR '' ''" "last s \<noteq> CHR '' ''" "s \<noteq> []"
    using plain_text_ends [OF p] blank_is_space by metis+
  then show ?thesis
    by (simp add: sql_trim_def dropWhile_hd_id hd_rev)
qed

lemma dropWhile_both_ends_Nil:
  assumes "dropWhile P (rev (dropWhile P s)) = []" and "c \<in> set s"
  shows "P c"
proof (cases "c \<in> set (takeWhile P s)")
  case True
  then show ?thesis by (rule set_takeWhileD [THEN conjunct2])
next
  case False
  moreover have "set s = set (takeWhile P s) \<union> set (dropWhile P s)"
    by (subst takeWhile_dropWhile_id [of P s, symmetric], subst set_append) simp
  ultimately have "c \<in> set (dropWhile P s)" using assms(2) by blast
  then show ?thesis using assms(1) by simp
qed

lemma sql_trim_nonempty:
  assumes "strip s \<noteq> []"
  shows "sql_trim s \<noteq> []"
proof
  assume "sql_trim s = []"
  then have nil: "dropWhile ((=) CHR '' '') (rev (dropWhile ((=) CHR '' '') s)) = []"
    unfolding sql_trim_def rev_is_Nil_conv .
  have "py_space c" if "c \<in> set s" for c
    using dropWhile_both_ends_Nil [OF nil that] blank_is_space by (rule subst)
  then have "lstrip s = []"
    unfolding lstrip_def dropWhile_eq_Nil_conv by blast
  then show False using assms by (simp add: strip_def rstrip_def)
qed

subsection \<open>Tables as lists of rows\<close>

definition update_where :: "('r \<Rightarrow> bool) \<Rightarrow> ('r \<Rightarrow> 'r) \<Rightarrow> 'r list \<Rightarrow> 'r list" where
  "update_where p f rows = map (\<lambda>r. if p r then f r else r) rows"

definition count_where :: "('r \<Rightarrow> bool) \<Rightarrow> 'r list \<Rightarrow> nat" where
  "count_where p rows = length (filter p rows)"

text \<open>\<open>INTEGER PRIMARY KEY\<close> without \<open>AUTOINCREMENT\<close>: one more than the largest row id.\<close>

definition next_rowid :: "int list \<Rightarrow> int" where
  "next_rowid ids = fold max ids 0 + 1"

lemma fold_max_init: "m \<le> fold max ids (m::int)"
proof (induction ids arbitrary: m)
  case (Cons i ids)
  have "max i m \<le> fold max ids (max i m)" by (rule Cons.IH)
  then show ?case by simp
qed simp

lemma fold_max_ge: "i \<in> set ids \<Longrightarrow> i \<le> fold max ids (m::int)"
proof (induction ids arbitrary: m)
  case (Cons j ids)
  then show ?case
    using fold_max_init [of "max j m" ids] by auto
qed simp

lemma next_rowid_fresh: "i \<in> set ids \<Longrightarrow> i < next_rowid ids"
  using fold_max_ge [of i ids 0] by (simp add: next_rowid_def)

lemma next_rowid_pos: "0 < next_rowid ids"
  using fold_max_init [of 0 ids] by (simp add: next_rowid_def)

lemma next_rowid_notin: "next_rowid ids \<notin> set ids"
  using next_rowid_fresh by blast

lemma find_Some_iff:
  "List.find P xs = Some x \<Longrightarrow> x \<in> set xs \<and> P x"
  by (auto simp: find_Some_iff in_set_conv_nth)

lemma find_append: "List.find P (xs @ ys) = (case List.find P xs of None \<Rightarrow> List.find P ys | Some x \<Rightarrow> Some x)"
  by (induction xs) auto

lemma find_None_iff2: "List.find P xs = None \<longleftrightarrow> (\<forall>x\<in>set xs. \<not> P x)"
  by (auto simp: find_None_iff)

lemma find_unique:
  assumes "distinct (map f xs)" and "x \<in> set xs"
  shows "List.find (\<lambda>y. f y = f x) xs = Some x"
  using assms by (induction xs) (auto simp: rev_image_eqI)

lemma find_fresh:
  assumes "k \<notin> set (map f xs)" and "f x = k"
  shows "List.find (\<lambda>y. f y = k) (xs @ [x]) = Some x"
  using assms by (induction xs) auto

lemma update_where_simps [simp, store_simps]:
  "update_where p f [] = []"
  "update_where p f (r # rows) = (if p r then f r else r) # update_where p f rows"
  by (simp_all add: update_where_def)

lemma length_update_where [simp]: "length (update_where p f rows) = length rows"
  by (simp add: update_where_def)

lemma update_where_append [simp]:
  "update_where p f (xs @ ys) = update_where p f xs @ update_where p f ys"
  by (simp add: update_where_def)

lemma map_update_where_frame:
  "(\<And>r. g (f r) = g r) \<Longrightarrow> map g (update_where p f rows) = map g rows"
  by (induction rows) auto

lemma update_where_none: "(\<And>r. r \<in> set rows \<Longrightarrow> \<not> p r) \<Longrightarrow> update_where p f rows = rows"
  by (induction rows) auto

lemma set_update_where:
  "set (update_where p f rows) = {r \<in> set rows. \<not> p r} \<union> f ` {r \<in> set rows. p r}"
  by (induction rows) auto

lemma find_update_where:
  "(\<And>r. q (f r) = q r) \<Longrightarrow>
   List.find q (update_where p f rows) = map_option (\<lambda>r. if p r then f r else r) (List.find q rows)"
  by (induction rows) auto

lemma count_where_simps [simp, store_simps]:
  "count_where p [] = 0"
  "count_where p (r # rows) = (if p r then Suc (count_where p rows) else count_where p rows)"
  by (simp_all add: count_where_def)

lemma count_where_append [simp]:
  "count_where p (xs @ ys) = count_where p xs + count_where p ys"
  by (simp add: count_where_def)

lemma count_where_0_iff: "count_where p rows = 0 \<longleftrightarrow> (\<forall>r\<in>set rows. \<not> p r)"
  by (auto simp: count_where_def filter_empty_conv)

lemma count_where_update_where_le:
  "(\<And>r. q (f r) \<Longrightarrow> q r) \<Longrightarrow> count_where q (update_where p f rows) \<le> count_where q rows"
  by (induction rows) (auto simp: le_SucI)

lemma count_where_update_where_eq:
  "(\<And>r. r \<in> set rows \<Longrightarrow> p r \<Longrightarrow> q (f r) = q r) \<Longrightarrow>
   count_where q (update_where p f rows) = count_where q rows"
  by (induction rows) auto

text \<open>With a key, one row is selected, so an update by key changes a count by that row only.\<close>

lemma count_where_update_key:
  assumes "distinct (map key rows)" and "x \<in> set rows"
  shows "count_where q (update_where (\<lambda>r. key r = key x) f rows) + (if q x then 1 else 0)
    = count_where q rows + (if q (f x) then 1 else 0)"
  using assms
proof (induction rows)
  case (Cons r rows)
  show ?case
  proof (cases "key r = key x")
    case True
    then have "x = r" using Cons.prems by (auto simp: rev_image_eqI)
    moreover have "update_where (\<lambda>r. key r = key x) f rows = rows"
      using Cons.prems(1) True by (intro update_where_none) (auto simp: rev_image_eqI)
    ultimately show ?thesis by simp
  next
    case False
    with Cons show ?thesis by auto
  qed
qed simp

lemma distinct_update_where_key:
  assumes "distinct (map key rows)" and "distinct (map g rows)"
    and "\<And>r. key r = k \<Longrightarrow> g (f r) = v"
    and "\<And>r. r \<in> set rows \<Longrightarrow> key r \<noteq> k \<Longrightarrow> g r \<noteq> v"
  shows "distinct (map g (update_where (\<lambda>r. key r = k) f rows))"
  using assms
proof (induction rows)
  case (Cons r rows)
  show ?case
  proof (cases "key r = k")
    case True
    then have "update_where (\<lambda>r. key r = k) f rows = rows"
      using Cons.prems(1) by (intro update_where_none) (auto simp: rev_image_eqI)
    moreover have "v \<notin> g ` set rows"
    proof
      assume "v \<in> g ` set rows"
      then obtain x where x: "x \<in> set rows" "v = g x" by blast
      moreover have "key x \<noteq> k" using Cons.prems(1) True imageI [OF x(1), of key] by auto
      ultimately show False using Cons.prems(4) [of x] by simp
    qed
    ultimately show ?thesis using True Cons.prems by simp
  next
    case False
    then have "g r \<notin> g ` set (update_where (\<lambda>r. key r = k) f rows)"
      using Cons.prems by (auto simp: set_update_where)
    then show ?thesis using False Cons by simp
  qed
qed simp

lemma count_where_key:
  assumes "distinct (map key rows)" and "x \<in> set rows"
  shows "count_where (\<lambda>r. key r = key x) rows = 1"
  using assms
proof (induction rows)
  case (Cons r rows)
  show ?case
  proof (cases "x = r")
    case True
    have "\<forall>q\<in>set rows. key q \<noteq> key r"
    proof
      fix q assume q: "q \<in> set rows"
      show "key q \<noteq> key r" using Cons.prems(1) imageI [OF q, of key] by auto
    qed
    then show ?thesis using True by (simp add: count_where_0_iff [THEN iffD2])
  next
    case False
    then have x: "x \<in> set rows" using Cons.prems(2) by simp
    then show ?thesis using Cons imageI [OF x, of key] by auto
  qed
qed simp

end
