(* ===== verification/Errors.thy ===== *)
theory Errors
  imports Prelude
begin

text \<open>
  The exception classes of the persistence layer (db.py, native_store.py, team_store.py,
  team_config.py, phone_store.py, remote_commands.py, cancellation.py, event_stream.py, planning.py,
  job_submission.py, secret_gate.py, approval_service.py, write_boundary.py, diff_types.py,
  worktree.py, promotion_target.py, promotion.py, retention.py, review_bundle.py and engine.py), the constraint failures
  SQLite reports, and the class hierarchy that decides which \<open>except\<close> clause takes an exception. The messages are not
  modelled.
\<close>

datatype constraint_kind = PrimaryKeyViolation | UniqueViolation | ForeignKeyViolation
  | CheckViolation | NotNullViolation | TriggerAbort

text \<open>The classes of the repositories in db.py, below \<open>DatabaseError\<close>.\<close>

datatype repo_exn =
  ProjectRepositoryExn | ProjectValidationExn | ProjectAlreadyExistsExn | ProjectNotFoundExn
  | JobRepositoryExn | JobValidationExn | JobAlreadyExistsExn | JobNotFoundExn
  | EventRepositoryExn | EventValidationExn | EventNotFoundExn | EventIdempotencyConflictExn
  | AtomicTransitionExn | AtomicTransitionValidationExn | AtomicTransitionConflictExn
  | AtomicTransitionStateExn | ApprovalRepositoryExn | ApprovalValidationExn
  | ApprovalAlreadyExistsExn | ApprovalNotFoundExn | ApprovalExpiredExn
  | ApprovalPayloadMismatchExn | ApprovalDecisionConflictExn | ApprovalWorkflowConflictExn
  | PlannerRepositoryExn | PlannerValidationExn | PlannerAlreadyExistsExn | PlannerNotFoundExn
  | PlannerPromotionConflictExn | UsageRepositoryExn | UsageValidationExn | UsageNotFoundExn
  | MemoryReferenceRepositoryExn | MemoryReferenceValidationExn | MemoryReferenceNotFoundExn
  | VerificationRepositoryExn | VerificationValidationExn | VerificationNotFoundExn
  | ReviewBundleRepositoryExn | ReviewBundleConflictExn | ReviewBundleNotFoundExn

text \<open>The classes of the services above the repositories, and those of the adapters.\<close>

datatype service_exn =
  RemoteJournalExn | ProviderCapabilityExn | AdapterExn | AdapterUnsupportedExn | CancellationExn
  | CancellationConflictExn | CancellationProviderExn | CancellationPersistenceExn
  | EventStreamCursorExn | PlanningExn | PlanningNotFoundExn | PlanningConflictExn
  | PlanningUnavailableExn | JobSubmissionExn | JobSubmissionValidationExn
  | JobSubmissionNotFoundExn | JobSubmissionConflictExn | JobSubmissionUnavailableExn
  | SecretGateExn | SecretGateNotFoundExn | SecretGateConflictExn | SecretGateUnavailableExn
  | SecretGateBlockedExn | ApprovalServiceExn | ApprovalInputExn | ApprovalMissingExn
  | ApprovalStateExn | ApprovalUnavailableExn | ProcessRunnerExn | ConfigurationExn

text \<open>The classes of the code between a worktree, its review and the project it is promoted to.\<close>

datatype review_exn =
  WriteBoundaryExn | DiffServiceExn | DiffConflictExn | DiffLimitExn | DiffUnavailableExn
    | WorktreeExn | WorktreeNotFoundExn | WorktreeConflictExn | WorktreeUnavailableExn
    | TargetConflictExn | TargetUnavailableExn | PromotionExn | PromotionInputExn
    | PromotionMissingExn | PromotionConflictExn | PromotionUnavailableExn
    | PromotionReconciliationExn | RetentionExn | RetentionInputExn | RetentionMissingExn
    | RetentionConflictExn | RetentionUnavailableExn | ReviewBundleExn | ReviewBundleMissingExn
    | ReviewBundleStateExn | ReviewBundleUnavailableExn

datatype exn =
    IntegrityError constraint_kind
  | RuntimeErr
  | ValueErr
  | TypeErr
  | KeyErr
  | AttributeErr
  | StopIterationErr
  | OverflowErr
  | ForbiddenJobTransitionError
  | TeamConfigError
  | DatabaseError
  | MigrationDefinitionError
  | DatabaseVersionError
  | MigrationApplyError
  | RecoveryServiceError
  | BackupServiceError
  | NativeStoreError
  | NativeConflictError
  | TeamStoreError
  | TeamConflictError
  | TeamNotFoundError
  | PhoneError
  | Repo repo_exn
  | Service service_exn
  | Review review_exn
  | OsErr
  | FileNotFoundErr

abbreviation ProjectRepositoryError :: exn where "ProjectRepositoryError \<equiv> Repo ProjectRepositoryExn"
abbreviation ProjectValidationError :: exn where "ProjectValidationError \<equiv> Repo ProjectValidationExn"
abbreviation ProjectAlreadyExistsError :: exn where "ProjectAlreadyExistsError \<equiv> Repo ProjectAlreadyExistsExn"
abbreviation ProjectNotFoundError :: exn where "ProjectNotFoundError \<equiv> Repo ProjectNotFoundExn"
abbreviation JobRepositoryError :: exn where "JobRepositoryError \<equiv> Repo JobRepositoryExn"
abbreviation JobValidationError :: exn where "JobValidationError \<equiv> Repo JobValidationExn"
abbreviation JobAlreadyExistsError :: exn where "JobAlreadyExistsError \<equiv> Repo JobAlreadyExistsExn"
abbreviation JobNotFoundError :: exn where "JobNotFoundError \<equiv> Repo JobNotFoundExn"
abbreviation EventRepositoryError :: exn where "EventRepositoryError \<equiv> Repo EventRepositoryExn"
abbreviation EventValidationError :: exn where "EventValidationError \<equiv> Repo EventValidationExn"
abbreviation EventNotFoundError :: exn where "EventNotFoundError \<equiv> Repo EventNotFoundExn"
abbreviation EventIdempotencyConflictError :: exn where "EventIdempotencyConflictError \<equiv> Repo EventIdempotencyConflictExn"
abbreviation AtomicTransitionError :: exn where "AtomicTransitionError \<equiv> Repo AtomicTransitionExn"
abbreviation AtomicTransitionValidationError :: exn where "AtomicTransitionValidationError \<equiv> Repo AtomicTransitionValidationExn"
abbreviation AtomicTransitionConflictError :: exn where "AtomicTransitionConflictError \<equiv> Repo AtomicTransitionConflictExn"
abbreviation AtomicTransitionStateError :: exn where "AtomicTransitionStateError \<equiv> Repo AtomicTransitionStateExn"
abbreviation ApprovalRepositoryError :: exn where "ApprovalRepositoryError \<equiv> Repo ApprovalRepositoryExn"
abbreviation ApprovalValidationError :: exn where "ApprovalValidationError \<equiv> Repo ApprovalValidationExn"
abbreviation ApprovalAlreadyExistsError :: exn where "ApprovalAlreadyExistsError \<equiv> Repo ApprovalAlreadyExistsExn"
abbreviation ApprovalNotFoundError :: exn where "ApprovalNotFoundError \<equiv> Repo ApprovalNotFoundExn"
abbreviation ApprovalExpiredError :: exn where "ApprovalExpiredError \<equiv> Repo ApprovalExpiredExn"
abbreviation ApprovalPayloadMismatchError :: exn where "ApprovalPayloadMismatchError \<equiv> Repo ApprovalPayloadMismatchExn"
abbreviation ApprovalDecisionConflictError :: exn where "ApprovalDecisionConflictError \<equiv> Repo ApprovalDecisionConflictExn"
abbreviation ApprovalWorkflowConflictError :: exn where "ApprovalWorkflowConflictError \<equiv> Repo ApprovalWorkflowConflictExn"
abbreviation PlannerRepositoryError :: exn where "PlannerRepositoryError \<equiv> Repo PlannerRepositoryExn"
abbreviation PlannerValidationError :: exn where "PlannerValidationError \<equiv> Repo PlannerValidationExn"
abbreviation PlannerAlreadyExistsError :: exn where "PlannerAlreadyExistsError \<equiv> Repo PlannerAlreadyExistsExn"
abbreviation PlannerNotFoundError :: exn where "PlannerNotFoundError \<equiv> Repo PlannerNotFoundExn"
abbreviation PlannerPromotionConflictError :: exn where "PlannerPromotionConflictError \<equiv> Repo PlannerPromotionConflictExn"
abbreviation UsageRepositoryError :: exn where "UsageRepositoryError \<equiv> Repo UsageRepositoryExn"
abbreviation UsageValidationError :: exn where "UsageValidationError \<equiv> Repo UsageValidationExn"
abbreviation UsageNotFoundError :: exn where "UsageNotFoundError \<equiv> Repo UsageNotFoundExn"
abbreviation MemoryReferenceRepositoryError :: exn where "MemoryReferenceRepositoryError \<equiv> Repo MemoryReferenceRepositoryExn"
abbreviation MemoryReferenceValidationError :: exn where "MemoryReferenceValidationError \<equiv> Repo MemoryReferenceValidationExn"
abbreviation MemoryReferenceNotFoundError :: exn where "MemoryReferenceNotFoundError \<equiv> Repo MemoryReferenceNotFoundExn"
abbreviation VerificationRepositoryError :: exn where "VerificationRepositoryError \<equiv> Repo VerificationRepositoryExn"
abbreviation VerificationValidationError :: exn where "VerificationValidationError \<equiv> Repo VerificationValidationExn"
abbreviation VerificationNotFoundError :: exn where "VerificationNotFoundError \<equiv> Repo VerificationNotFoundExn"
abbreviation ReviewBundleRepositoryError :: exn where "ReviewBundleRepositoryError \<equiv> Repo ReviewBundleRepositoryExn"
abbreviation ReviewBundleConflictError :: exn where "ReviewBundleConflictError \<equiv> Repo ReviewBundleConflictExn"
abbreviation ReviewBundleNotFoundError :: exn where "ReviewBundleNotFoundError \<equiv> Repo ReviewBundleNotFoundExn"

abbreviation RemoteJournalError :: exn where "RemoteJournalError \<equiv> Service RemoteJournalExn"
abbreviation ProviderCapabilityError :: exn where "ProviderCapabilityError \<equiv> Service ProviderCapabilityExn"
abbreviation AdapterError :: exn where "AdapterError \<equiv> Service AdapterExn"
abbreviation AdapterUnsupportedError :: exn where "AdapterUnsupportedError \<equiv> Service AdapterUnsupportedExn"
abbreviation CancellationError :: exn where "CancellationError \<equiv> Service CancellationExn"
abbreviation CancellationConflictError :: exn where "CancellationConflictError \<equiv> Service CancellationConflictExn"
abbreviation CancellationProviderError :: exn where "CancellationProviderError \<equiv> Service CancellationProviderExn"
abbreviation CancellationPersistenceError :: exn where "CancellationPersistenceError \<equiv> Service CancellationPersistenceExn"
abbreviation EventStreamCursorError :: exn where "EventStreamCursorError \<equiv> Service EventStreamCursorExn"
abbreviation PlanningError :: exn where "PlanningError \<equiv> Service PlanningExn"
abbreviation PlanningNotFoundError :: exn where "PlanningNotFoundError \<equiv> Service PlanningNotFoundExn"
abbreviation PlanningConflictError :: exn where "PlanningConflictError \<equiv> Service PlanningConflictExn"
abbreviation PlanningUnavailableError :: exn where "PlanningUnavailableError \<equiv> Service PlanningUnavailableExn"
abbreviation JobSubmissionError :: exn where "JobSubmissionError \<equiv> Service JobSubmissionExn"
abbreviation JobSubmissionValidationError :: exn where "JobSubmissionValidationError \<equiv> Service JobSubmissionValidationExn"
abbreviation JobSubmissionNotFoundError :: exn where "JobSubmissionNotFoundError \<equiv> Service JobSubmissionNotFoundExn"
abbreviation JobSubmissionConflictError :: exn where "JobSubmissionConflictError \<equiv> Service JobSubmissionConflictExn"
abbreviation JobSubmissionUnavailableError :: exn where "JobSubmissionUnavailableError \<equiv> Service JobSubmissionUnavailableExn"
abbreviation SecretGateError :: exn where "SecretGateError \<equiv> Service SecretGateExn"
abbreviation SecretGateNotFoundError :: exn where "SecretGateNotFoundError \<equiv> Service SecretGateNotFoundExn"
abbreviation SecretGateConflictError :: exn where "SecretGateConflictError \<equiv> Service SecretGateConflictExn"
abbreviation SecretGateUnavailableError :: exn where "SecretGateUnavailableError \<equiv> Service SecretGateUnavailableExn"
abbreviation SecretGateBlockedError :: exn where "SecretGateBlockedError \<equiv> Service SecretGateBlockedExn"
abbreviation ApprovalServiceError :: exn where "ApprovalServiceError \<equiv> Service ApprovalServiceExn"
abbreviation ApprovalInputError :: exn where "ApprovalInputError \<equiv> Service ApprovalInputExn"
abbreviation ApprovalMissingError :: exn where "ApprovalMissingError \<equiv> Service ApprovalMissingExn"
abbreviation ApprovalStateError :: exn where "ApprovalStateError \<equiv> Service ApprovalStateExn"
abbreviation ApprovalUnavailableError :: exn where "ApprovalUnavailableError \<equiv> Service ApprovalUnavailableExn"
abbreviation ProcessRunnerError :: exn where "ProcessRunnerError \<equiv> Service ProcessRunnerExn"
abbreviation ConfigurationError :: exn where "ConfigurationError \<equiv> Service ConfigurationExn"

abbreviation WriteBoundaryError :: exn where "WriteBoundaryError \<equiv> Review WriteBoundaryExn"
abbreviation DiffServiceError :: exn where "DiffServiceError \<equiv> Review DiffServiceExn"
abbreviation DiffConflictError :: exn where "DiffConflictError \<equiv> Review DiffConflictExn"
abbreviation DiffLimitError :: exn where "DiffLimitError \<equiv> Review DiffLimitExn"
abbreviation DiffUnavailableError :: exn where "DiffUnavailableError \<equiv> Review DiffUnavailableExn"
abbreviation WorktreeError :: exn where "WorktreeError \<equiv> Review WorktreeExn"
abbreviation WorktreeNotFoundError :: exn where "WorktreeNotFoundError \<equiv> Review WorktreeNotFoundExn"
abbreviation WorktreeConflictError :: exn where "WorktreeConflictError \<equiv> Review WorktreeConflictExn"
abbreviation WorktreeUnavailableError :: exn where "WorktreeUnavailableError \<equiv> Review WorktreeUnavailableExn"
abbreviation TargetConflictError :: exn where "TargetConflictError \<equiv> Review TargetConflictExn"
abbreviation TargetUnavailableError :: exn where "TargetUnavailableError \<equiv> Review TargetUnavailableExn"
abbreviation PromotionError :: exn where "PromotionError \<equiv> Review PromotionExn"
abbreviation PromotionInputError :: exn where "PromotionInputError \<equiv> Review PromotionInputExn"
abbreviation PromotionMissingError :: exn where "PromotionMissingError \<equiv> Review PromotionMissingExn"
abbreviation PromotionConflictError :: exn where "PromotionConflictError \<equiv> Review PromotionConflictExn"
abbreviation PromotionUnavailableError :: exn where "PromotionUnavailableError \<equiv> Review PromotionUnavailableExn"
abbreviation PromotionReconciliationError :: exn where "PromotionReconciliationError \<equiv> Review PromotionReconciliationExn"
abbreviation RetentionError :: exn where "RetentionError \<equiv> Review RetentionExn"
abbreviation RetentionInputError :: exn where "RetentionInputError \<equiv> Review RetentionInputExn"
abbreviation RetentionMissingError :: exn where "RetentionMissingError \<equiv> Review RetentionMissingExn"
abbreviation RetentionConflictError :: exn where "RetentionConflictError \<equiv> Review RetentionConflictExn"
abbreviation RetentionUnavailableError :: exn where "RetentionUnavailableError \<equiv> Review RetentionUnavailableExn"
abbreviation ReviewBundleError :: exn where "ReviewBundleError \<equiv> Review ReviewBundleExn"
abbreviation ReviewBundleMissingError :: exn where "ReviewBundleMissingError \<equiv> Review ReviewBundleMissingExn"
abbreviation ReviewBundleStateError :: exn where "ReviewBundleStateError \<equiv> Review ReviewBundleStateExn"
abbreviation ReviewBundleUnavailableError :: exn where "ReviewBundleUnavailableError \<equiv> Review ReviewBundleUnavailableExn"

text \<open>The proper superclasses of an exception class, nearest first (the method resolution order).\<close>

fun bases :: "exn \<Rightarrow> exn list" where
  "bases ForbiddenJobTransitionError = [ValueErr]"
| "bases TeamConfigError = [ValueErr]"
| "bases DatabaseError = [RuntimeErr]"
| "bases MigrationDefinitionError = [DatabaseError, RuntimeErr]"
| "bases DatabaseVersionError = [DatabaseError, RuntimeErr]"
| "bases MigrationApplyError = [DatabaseError, RuntimeErr]"
| "bases ProjectRepositoryError = [DatabaseError, RuntimeErr]"
| "bases ProjectValidationError = [ProjectRepositoryError, DatabaseError, RuntimeErr]"
| "bases ProjectAlreadyExistsError = [ProjectRepositoryError, DatabaseError, RuntimeErr]"
| "bases ProjectNotFoundError = [ProjectRepositoryError, DatabaseError, RuntimeErr]"
| "bases JobRepositoryError = [DatabaseError, RuntimeErr]"
| "bases JobValidationError = [JobRepositoryError, DatabaseError, RuntimeErr]"
| "bases JobAlreadyExistsError = [JobRepositoryError, DatabaseError, RuntimeErr]"
| "bases JobNotFoundError = [JobRepositoryError, DatabaseError, RuntimeErr]"
| "bases EventRepositoryError = [DatabaseError, RuntimeErr]"
| "bases EventValidationError = [EventRepositoryError, DatabaseError, RuntimeErr]"
| "bases EventNotFoundError = [EventRepositoryError, DatabaseError, RuntimeErr]"
| "bases EventIdempotencyConflictError = [EventRepositoryError, DatabaseError, RuntimeErr]"
| "bases AtomicTransitionError = [DatabaseError, RuntimeErr]"
| "bases AtomicTransitionValidationError = [AtomicTransitionError, DatabaseError, RuntimeErr]"
| "bases AtomicTransitionConflictError = [AtomicTransitionError, DatabaseError, RuntimeErr]"
| "bases AtomicTransitionStateError = [AtomicTransitionConflictError, AtomicTransitionError, DatabaseError, RuntimeErr]"
| "bases ApprovalRepositoryError = [DatabaseError, RuntimeErr]"
| "bases ApprovalValidationError = [ApprovalRepositoryError, DatabaseError, RuntimeErr]"
| "bases ApprovalAlreadyExistsError = [ApprovalRepositoryError, DatabaseError, RuntimeErr]"
| "bases ApprovalNotFoundError = [ApprovalRepositoryError, DatabaseError, RuntimeErr]"
| "bases ApprovalExpiredError = [ApprovalRepositoryError, DatabaseError, RuntimeErr]"
| "bases ApprovalPayloadMismatchError = [ApprovalRepositoryError, DatabaseError, RuntimeErr]"
| "bases ApprovalDecisionConflictError = [ApprovalRepositoryError, DatabaseError, RuntimeErr]"
| "bases ApprovalWorkflowConflictError = [ApprovalRepositoryError, DatabaseError, RuntimeErr]"
| "bases PlannerRepositoryError = [DatabaseError, RuntimeErr]"
| "bases PlannerValidationError = [PlannerRepositoryError, DatabaseError, RuntimeErr]"
| "bases PlannerAlreadyExistsError = [PlannerRepositoryError, DatabaseError, RuntimeErr]"
| "bases PlannerNotFoundError = [PlannerRepositoryError, DatabaseError, RuntimeErr]"
| "bases PlannerPromotionConflictError = [PlannerRepositoryError, DatabaseError, RuntimeErr]"
| "bases UsageRepositoryError = [DatabaseError, RuntimeErr]"
| "bases UsageValidationError = [UsageRepositoryError, DatabaseError, RuntimeErr]"
| "bases UsageNotFoundError = [UsageRepositoryError, DatabaseError, RuntimeErr]"
| "bases MemoryReferenceRepositoryError = [DatabaseError, RuntimeErr]"
| "bases MemoryReferenceValidationError = [MemoryReferenceRepositoryError, DatabaseError, RuntimeErr]"
| "bases MemoryReferenceNotFoundError = [MemoryReferenceRepositoryError, DatabaseError, RuntimeErr]"
| "bases VerificationRepositoryError = [DatabaseError, RuntimeErr]"
| "bases VerificationValidationError = [VerificationRepositoryError, DatabaseError, RuntimeErr]"
| "bases VerificationNotFoundError = [VerificationRepositoryError, DatabaseError, RuntimeErr]"
| "bases ReviewBundleRepositoryError = [DatabaseError, RuntimeErr]"
| "bases ReviewBundleConflictError = [ReviewBundleRepositoryError, DatabaseError, RuntimeErr]"
| "bases ReviewBundleNotFoundError = [ReviewBundleRepositoryError, DatabaseError, RuntimeErr]"
| "bases RecoveryServiceError = [DatabaseError, RuntimeErr]"
| "bases BackupServiceError = [DatabaseError, RuntimeErr]"
| "bases NativeStoreError = [DatabaseError, RuntimeErr]"
| "bases NativeConflictError = [NativeStoreError, DatabaseError, RuntimeErr]"
| "bases TeamStoreError = [DatabaseError, RuntimeErr]"
| "bases TeamConflictError = [TeamStoreError, DatabaseError, RuntimeErr]"
| "bases TeamNotFoundError = [TeamStoreError, DatabaseError, RuntimeErr]"
| "bases PhoneError = [DatabaseError, RuntimeErr]"
| "bases RemoteJournalError = [DatabaseError, RuntimeErr]"
| "bases ProviderCapabilityError = [ValueErr]"
| "bases AdapterError = [RuntimeErr]"
| "bases AdapterUnsupportedError = [AdapterError, RuntimeErr]"
| "bases CancellationError = [RuntimeErr]"
| "bases CancellationConflictError = [CancellationError, RuntimeErr]"
| "bases CancellationProviderError = [CancellationError, RuntimeErr]"
| "bases CancellationPersistenceError = [CancellationError, RuntimeErr]"
| "bases EventStreamCursorError = [ValueErr]"
| "bases PlanningError = [RuntimeErr]"
| "bases PlanningNotFoundError = [PlanningError, RuntimeErr]"
| "bases PlanningConflictError = [PlanningError, RuntimeErr]"
| "bases PlanningUnavailableError = [PlanningError, RuntimeErr]"
| "bases JobSubmissionError = [RuntimeErr]"
| "bases JobSubmissionValidationError = [JobSubmissionError, RuntimeErr]"
| "bases JobSubmissionNotFoundError = [JobSubmissionError, RuntimeErr]"
| "bases JobSubmissionConflictError = [JobSubmissionError, RuntimeErr]"
| "bases JobSubmissionUnavailableError = [JobSubmissionError, RuntimeErr]"
| "bases SecretGateError = [RuntimeErr]"
| "bases SecretGateNotFoundError = [SecretGateError, RuntimeErr]"
| "bases SecretGateConflictError = [SecretGateError, RuntimeErr]"
| "bases SecretGateUnavailableError = [SecretGateError, RuntimeErr]"
| "bases SecretGateBlockedError = [SecretGateError, RuntimeErr]"
| "bases ApprovalServiceError = [RuntimeErr]"
| "bases ApprovalInputError = [ApprovalServiceError, RuntimeErr]"
| "bases ApprovalMissingError = [ApprovalServiceError, RuntimeErr]"
| "bases ApprovalStateError = [ApprovalServiceError, RuntimeErr]"
| "bases ApprovalUnavailableError = [ApprovalServiceError, RuntimeErr]"
| "bases ProcessRunnerError = [RuntimeErr]"
| "bases ConfigurationError = [ValueErr]"
| "bases WriteBoundaryError = [RuntimeErr]"
| "bases DiffServiceError = [RuntimeErr]"
| "bases DiffConflictError = [DiffServiceError, RuntimeErr]"
| "bases DiffLimitError = [DiffServiceError, RuntimeErr]"
| "bases DiffUnavailableError = [DiffServiceError, RuntimeErr]"
| "bases WorktreeError = [RuntimeErr]"
| "bases WorktreeNotFoundError = [WorktreeError, RuntimeErr]"
| "bases WorktreeConflictError = [WorktreeError, RuntimeErr]"
| "bases WorktreeUnavailableError = [WorktreeError, RuntimeErr]"
| "bases TargetConflictError = [RuntimeErr]"
| "bases TargetUnavailableError = [RuntimeErr]"
| "bases PromotionError = [RuntimeErr]"
| "bases PromotionInputError = [PromotionError, RuntimeErr]"
| "bases PromotionMissingError = [PromotionError, RuntimeErr]"
| "bases PromotionConflictError = [PromotionError, RuntimeErr]"
| "bases PromotionUnavailableError = [PromotionError, RuntimeErr]"
| "bases PromotionReconciliationError = [PromotionError, RuntimeErr]"
| "bases RetentionError = [RuntimeErr]"
| "bases RetentionInputError = [RetentionError, RuntimeErr]"
| "bases RetentionMissingError = [RetentionError, RuntimeErr]"
| "bases RetentionConflictError = [RetentionError, RuntimeErr]"
| "bases RetentionUnavailableError = [RetentionError, RuntimeErr]"
| "bases ReviewBundleError = [RuntimeErr]"
| "bases ReviewBundleMissingError = [ReviewBundleError, RuntimeErr]"
| "bases ReviewBundleStateError = [ReviewBundleError, RuntimeErr]"
| "bases ReviewBundleUnavailableError = [ReviewBundleError, RuntimeErr]"
| "bases FileNotFoundErr = [OsErr]"
| "bases e = []"

definition isa :: "exn \<Rightarrow> exn \<Rightarrow> bool" where
  "isa e c \<longleftrightarrow> e = c \<or> c \<in> set (bases e)"

definition is_integrity_error :: "exn \<Rightarrow> bool" where
  "is_integrity_error e = (case e of IntegrityError k \<Rightarrow> True | _ \<Rightarrow> False)"

text \<open>
  \<^verbatim>\<open>except C: raise E\<close> around a result: \<open>rethrow\<close> replaces the exceptions a predicate
  selects, \<open>on_integrity\<close> those SQLite raised, by their kind.
\<close>

definition rethrow :: "(exn \<Rightarrow> bool) \<Rightarrow> exn \<Rightarrow> exn + 'a \<Rightarrow> exn + 'a" where
  "rethrow p e' r = (case r of Inl e \<Rightarrow> Inl (if p e then e' else e) | Inr x \<Rightarrow> Inr x)"

definition on_integrity :: "(constraint_kind \<Rightarrow> exn) \<Rightarrow> exn + 'a \<Rightarrow> exn + 'a" where
  "on_integrity h r =
     (case r of
        Inl e \<Rightarrow> Inl (case e of IntegrityError k \<Rightarrow> h k | _ \<Rightarrow> e)
      | Inr x \<Rightarrow> Inr x)"

definition is_unique_violation :: "constraint_kind \<Rightarrow> bool" where
  "is_unique_violation k \<longleftrightarrow> k = PrimaryKeyViolation \<or> k = UniqueViolation"

lemma rethrow_Inr [simp, store_simps]: "rethrow p e (Inr x) = Inr x"
  by (simp add: rethrow_def)

lemma rethrow_Inl [simp, store_simps]: "rethrow p e' (Inl e) = Inl (if p e then e' else e)"
  by (simp add: rethrow_def)

lemma rethrow_eq_Inr [simp]: "rethrow p e r = Inr x \<longleftrightarrow> r = Inr x"
  by (cases r) simp_all

lemma on_integrity_Inr [simp, store_simps]: "on_integrity h (Inr x) = Inr x"
  by (simp add: on_integrity_def)

lemma on_integrity_eq_Inr [simp]: "on_integrity h r = Inr x \<longleftrightarrow> r = Inr x"
  by (cases r) (simp_all add: on_integrity_def)

lemma isa_refl [simp]: "isa e e"
  by (simp add: isa_def)

end
