(* ===== verification/Lifecycle.thy ===== *)
theory Lifecycle
  imports Errors
begin

text \<open>
  The enumerations of engine.py and the durable job lifecycle: the transition table
  \<open>ALLOWED_JOB_TRANSITIONS\<close>, the terminal states computed from it and
  \<open>validate_job_transition\<close>, with the paths a job can take through them.
\<close>

subsection \<open>Enumerations\<close>

datatype sensitivity = SPublic | SPrivate | SInternal | SRestricted

datatype permission_mode = ReadOnly | SandboxedWrite | NeverMode

datatype job_state =
    Created | Classified | Planning | Queued | Running | WaitingInput | WaitingApproval
  | Verifying | ReviewReady | Approved | Rejected | Applying | Completed | Failed | Blocked
  | Cancelled

datatype job_runtime = Auto | Claude | Codex | Local

datatype verification_outcome = Passed | FailedRun | TimedOut

datatype approval_decision = DApproved | DRejected | DChangesRequested

datatype planner_item_kind = Deadline | Blocker | Watcher

datatype recovery_action =
    SafeResume | WaitForInput | WaitForApproval | ReadyForReview | ReadyToApply
  | ReconcileInFlight | NeedsAttention

datatype recovery_issue =
    WorktreeRequired | WorktreeUnavailable | WorktreeOutsideRuntime | ApprovalRequired
  | MultiplePendingApprovals | ApprovalExpired | UnexpectedPendingApproval

text \<open>The \<open>value\<close> of the members that reach event payloads.\<close>

fun job_state_value :: "job_state \<Rightarrow> string" where
  "job_state_value Created = ''created''"
| "job_state_value Classified = ''classified''"
| "job_state_value Planning = ''planning''"
| "job_state_value Queued = ''queued''"
| "job_state_value Running = ''running''"
| "job_state_value WaitingInput = ''waiting_input''"
| "job_state_value WaitingApproval = ''waiting_approval''"
| "job_state_value Verifying = ''verifying''"
| "job_state_value ReviewReady = ''review_ready''"
| "job_state_value Approved = ''approved''"
| "job_state_value Rejected = ''rejected''"
| "job_state_value Applying = ''applying''"
| "job_state_value Completed = ''completed''"
| "job_state_value Failed = ''failed''"
| "job_state_value Blocked = ''blocked''"
| "job_state_value Cancelled = ''cancelled''"

fun approval_decision_value :: "approval_decision \<Rightarrow> string" where
  "approval_decision_value DApproved = ''approved''"
| "approval_decision_value DRejected = ''rejected''"
| "approval_decision_value DChangesRequested = ''changes_requested''"

definition all_job_states :: "job_state list" where
  "all_job_states =
     [Created, Classified, Planning, Queued, Running, WaitingInput, WaitingApproval, Verifying,
      ReviewReady, Approved, Rejected, Applying, Completed, Failed, Blocked, Cancelled]"

subsection \<open>The transition table\<close>

definition STOP_STATES :: "job_state list" where
  "STOP_STATES = [Failed, Blocked, Cancelled]"

definition with_stop_states :: "job_state list \<Rightarrow> job_state list" where
  "with_stop_states states = states @ STOP_STATES"

fun ALLOWED_JOB_TRANSITIONS :: "job_state \<Rightarrow> job_state list" where
  "ALLOWED_JOB_TRANSITIONS Created = with_stop_states [Classified]"
| "ALLOWED_JOB_TRANSITIONS Classified = with_stop_states [Planning]"
| "ALLOWED_JOB_TRANSITIONS Planning = with_stop_states [Queued, WaitingInput]"
| "ALLOWED_JOB_TRANSITIONS Queued = with_stop_states [Running]"
| "ALLOWED_JOB_TRANSITIONS Running = with_stop_states [WaitingInput, WaitingApproval, Verifying]"
| "ALLOWED_JOB_TRANSITIONS WaitingInput = with_stop_states [Planning, Queued, Running]"
| "ALLOWED_JOB_TRANSITIONS WaitingApproval = with_stop_states [Running, Approved, Rejected]"
| "ALLOWED_JOB_TRANSITIONS Verifying = with_stop_states [Running, ReviewReady]"
| "ALLOWED_JOB_TRANSITIONS ReviewReady =
     with_stop_states [Running, WaitingApproval, Approved, Rejected]"
| "ALLOWED_JOB_TRANSITIONS Approved = with_stop_states [Applying]"
| "ALLOWED_JOB_TRANSITIONS Applying = with_stop_states [Completed]"
| "ALLOWED_JOB_TRANSITIONS Completed = []"
| "ALLOWED_JOB_TRANSITIONS Rejected = []"
| "ALLOWED_JOB_TRANSITIONS Failed = []"
| "ALLOWED_JOB_TRANSITIONS Blocked = []"
| "ALLOWED_JOB_TRANSITIONS Cancelled = []"

definition TERMINAL_JOB_STATES :: "job_state list" where
  "TERMINAL_JOB_STATES = filter (\<lambda>s. ALLOWED_JOB_TRANSITIONS s = []) all_job_states"

definition validate_job_transition :: "job_state \<Rightarrow> job_state \<Rightarrow> exn + unit" where
  "validate_job_transition current target =
     (if target \<notin> set (ALLOWED_JOB_TRANSITIONS current)
      then Inl ForbiddenJobTransitionError else Inr ())"

lemmas transition_defs = with_stop_states_def STOP_STATES_def

lemma validate_job_transition_iff [simp]:
  "validate_job_transition s t = Inr u \<longleftrightarrow> t \<in> set (ALLOWED_JOB_TRANSITIONS s)"
  by (simp add: validate_job_transition_def)

lemma validate_job_transition_Inl:
  "validate_job_transition s t = Inl e \<Longrightarrow> e = ForbiddenJobTransitionError"
  by (simp add: validate_job_transition_def split: if_splits)

lemma all_job_states_complete: "s \<in> set all_job_states"
  by (cases s) (simp_all add: all_job_states_def)

lemma terminal_iff: "s \<in> set TERMINAL_JOB_STATES \<longleftrightarrow> ALLOWED_JOB_TRANSITIONS s = []"
  by (simp add: TERMINAL_JOB_STATES_def all_job_states_complete)

lemma terminal_list: "TERMINAL_JOB_STATES = [Rejected, Completed, Failed, Blocked, Cancelled]"
  by (simp add: TERMINAL_JOB_STATES_def all_job_states_def transition_defs)

subsection \<open>Lifecycles\<close>

text \<open>One accepted transition, and the states a job can pass through.\<close>

inductive lifecycle_step :: "job_state \<Rightarrow> job_state \<Rightarrow> bool" where
  accepted: "validate_job_transition s t = Inr () \<Longrightarrow> lifecycle_step s t"

fun lifecycle_path :: "job_state \<Rightarrow> job_state list \<Rightarrow> bool" where
  "lifecycle_path s [] = True"
| "lifecycle_path s (t # ts) = (validate_job_transition s t = Inr () \<and> lifecycle_path t ts)"

inductive_simps lifecycle_step_iff: "lifecycle_step s t"

inductive_cases lifecycle_step_from_completed: "lifecycle_step Completed t"

lemma no_step_from_terminal: "s \<in> set TERMINAL_JOB_STATES \<Longrightarrow> \<not> lifecycle_step s t"
  by (simp add: terminal_iff lifecycle_step_iff)

lemma stop_reachable:
  "s \<notin> set TERMINAL_JOB_STATES \<Longrightarrow> t \<in> set STOP_STATES \<Longrightarrow> lifecycle_step s t"
  by (cases s) (auto simp: terminal_list lifecycle_step_iff transition_defs)

text \<open>
  A state other than the human decision itself that still has a review ahead of it: everything
  that is neither approved nor already being applied.
\<close>

definition before_approval :: "job_state \<Rightarrow> bool" where
  "before_approval s \<longleftrightarrow> s \<notin> {Approved, Applying, Completed}"

lemma before_approval_step:
  "before_approval s \<Longrightarrow> t \<in> set (ALLOWED_JOB_TRANSITIONS s) \<Longrightarrow> t = Approved \<or> before_approval t"
  by (cases s) (auto simp: before_approval_def transition_defs)

lemma path_before_approval:
  "before_approval s \<Longrightarrow> lifecycle_path s ts \<Longrightarrow> Approved \<notin> set ts \<Longrightarrow>
   \<forall>t\<in>set ts. before_approval t"
  by (induction ts arbitrary: s) (auto dest: before_approval_step)

text \<open>Approval itself is entered only from a finished review.\<close>

lemma approved_from:
  "Approved \<in> set (ALLOWED_JOB_TRANSITIONS s) \<longleftrightarrow> s = WaitingApproval \<or> s = ReviewReady"
  by (cases s) (auto simp: transition_defs)

lemma completed_from: "Completed \<in> set (ALLOWED_JOB_TRANSITIONS s) \<longleftrightarrow> s = Applying"
  by (cases s) (auto simp: transition_defs)

lemma approved_tail: "lifecycle_path Approved ts \<Longrightarrow> Completed \<in> set ts \<Longrightarrow> ts = [Applying, Completed]"
proof -
  assume p: "lifecycle_path Approved ts" and c: "Completed \<in> set ts"
  obtain t ts' where ts: "ts = t # ts'" using c by (cases ts) auto
  have stop: "ts' = []" if "t \<in> set STOP_STATES" "lifecycle_path t ts'" for t ts'
    using that by (cases ts') (auto simp: transition_defs)
  have t: "t = Applying"
    using p c ts stop [of t ts'] by (auto simp: transition_defs)
  then obtain u us where us: "ts' = u # us" using c ts by (cases ts') auto
  have u: "u = Completed"
    using p c ts t us stop [of u us] by (auto simp: transition_defs)
  have "us = []" using p ts t us u by (cases us) (auto simp: transition_defs)
  then show ?thesis using ts t us u by simp
qed

subsection \<open>Properties\<close>

text \<open>
  Of the transition table: a path from a state before the approval to completed ends with the steps approved,
  applying, completed, and enters approved from waiting for approval or from a finished review.
\<close>

theorem completed_only_through_approval:
  assumes "before_approval s" and "lifecycle_path s ts" and "Completed \<in> set ts"
  shows "\<exists>pre. ts = pre @ [Approved, Applying, Completed] \<and>
    last (s # pre) \<in> {WaitingApproval, ReviewReady}"
  using assms
proof (induction ts arbitrary: s)
  case (Cons t ts)
  have step: "t \<in> set (ALLOWED_JOB_TRANSITIONS s)" and path: "lifecycle_path t ts"
    using Cons.prems by auto
  show ?case
  proof (cases "t = Approved")
    case True
    have "Completed \<in> set ts" using Cons.prems(3) True by simp
    then have "ts = [Applying, Completed]"
      using path True approved_tail by blast
    then show ?thesis using True step approved_from by (intro exI [of _ "[]"]) auto
  next
    case False
    then have "before_approval t" using before_approval_step [OF Cons.prems(1) step] by blast
    moreover from this have "Completed \<in> set ts"
      using Cons.prems(3) by (auto simp: before_approval_def)
    ultimately obtain pre where "ts = pre @ [Approved, Applying, Completed]"
      "last (t # pre) \<in> {WaitingApproval, ReviewReady}"
      using Cons.IH path by blast
    then show ?thesis by (intro exI [of _ "t # pre"]) auto
  qed
qed simp

theorem completed_only_through_approval_witness:
  "\<exists>pre. [ReviewReady, Approved, Applying, Completed] = pre @ [Approved, Applying, Completed] \<and>
    last (Verifying # pre) \<in> {WaitingApproval, ReviewReady}"
  by (rule completed_only_through_approval)
    (simp_all add: before_approval_def transition_defs)

text \<open>
  The table is decided for every pair of states: from a terminal state every request is
  refused, from any other state the three stop states are accepted.
\<close>

theorem terminal_or_stoppable:
  "if s \<in> set TERMINAL_JOB_STATES
   then validate_job_transition s t = Inl ForbiddenJobTransitionError
   else validate_job_transition s Failed = Inr () \<and> validate_job_transition s Blocked = Inr () \<and>
     validate_job_transition s Cancelled = Inr ()"
  by (cases s) (simp_all add: terminal_list validate_job_transition_def transition_defs)

end
