(* ===== verification/Json.thy ===== *)
theory Json
  imports Prelude
begin

text \<open>
  The JSON values the source writes with
  \<^verbatim>\<open>json.dumps(value, allow_nan=False, ensure_ascii=False, separators=(",", ":"), sort_keys=True)\<close>.

  A Python \<open>dict\<close> with text keys is an association list; \<open>canon\<close> puts every object into
  key order, so two dictionaries are equal in Python exactly when their canonical forms are
  equal. A float is its shortest decimal text; \<open>JNan\<close> stands for the non-finite floats, on
  which \<open>dumps\<close> raises \<open>ValueError\<close>. A JSON column of the database holds the canonical value
  its text spells; \<open>render\<close> is that text, used for sizes and hashes.
\<close>

datatype json =
    JNull
  | JBool bool
  | JInt int
  | JFloat string
  | JNan
  | JStr string
  | JList "json list"
  | JObj "(string \<times> json) list"

type_synonym payload = "(string \<times> json) list"

subsection \<open>Canonical form\<close>

fun canon :: "json \<Rightarrow> json"
  and canon_list :: "json list \<Rightarrow> json list"
  and canon_fields :: "payload \<Rightarrow> payload" where
  "canon (JList xs) = JList (canon_list xs)"
| "canon (JObj kvs) = JObj (sort_key fst (canon_fields kvs))"
| "canon j = j"
| "canon_list [] = []"
| "canon_list (x # xs) = canon x # canon_list xs"
| "canon_fields [] = []"
| "canon_fields ((k, v) # kvs) = (k, canon v) # canon_fields kvs"

definition canon_obj :: "payload \<Rightarrow> payload" where
  "canon_obj kvs = sort_key fst (canon_fields kvs)"

lemma canon_list_map: "canon_list xs = map canon xs"
  by (induction xs) auto

lemma canon_fields_map: "canon_fields kvs = map (\<lambda>(k, v). (k, canon v)) kvs"
  by (induction kvs) auto

lemma sort_key_id: "sorted (map f xs) \<Longrightarrow> sort_key f xs = xs"
  by (induction xs) (auto intro: insort_is_Cons)

lemma canon_fields_sort:
  "canon_fields (sort_key fst kvs) = sort_key fst (canon_fields kvs)"
proof (induction kvs)
  case (Cons kv kvs)
  have ins: "canon_fields (insort_key fst kv xs)
      = insort_key fst (fst kv, canon (snd kv)) (canon_fields xs)" for xs
    by (induction xs) (auto split: prod.splits, (cases kv; auto)+)
  show ?case
    using Cons.IH ins by (cases kv) simp
qed simp

lemma canon_idem [simp]:
  "canon (canon j) = canon j"
  "canon_list (canon_list js) = canon_list js"
  "canon_fields (canon_fields kvs) = canon_fields kvs"
  by (induction j and js and kvs rule: canon_canon_list_canon_fields.induct)
    (auto simp: canon_fields_sort sort_key_id)

lemma canon_obj_idem [simp]: "canon_obj (canon_obj kvs) = canon_obj kvs"
  by (simp add: canon_obj_def canon_fields_sort sort_key_id)

lemma canon_obj_Nil [simp]: "canon_obj [] = []"
  by (simp add: canon_obj_def)

lemma map_fst_canon_fields [simp]: "map fst (canon_fields kvs) = map fst kvs"
  by (induction kvs) auto

lemma map_of_canon_fields: "map_of (canon_fields kvs) k = map_option canon (map_of kvs k)"
  by (induction kvs) auto

lemma map_of_sort_key:
  "distinct (map fst xs) \<Longrightarrow> map_of (sort_key fst xs) = map_of xs"
proof (rule map_of_eqI)
  assume d: "distinct (map fst xs)"
  show "set (map fst (sort_key fst xs)) = set (map fst xs)" by simp
  have d': "distinct (map fst (sort_key fst xs))"
    using d by (simp add: distinct_map)
  show "\<forall>k\<in>set (map fst (sort_key fst xs)). map_of (sort_key fst xs) k = map_of xs k"
    using d d' by (metis map_of_eq_Some_iff set_sort weak_map_of_SomeI map_of_eq_None_iff
        option.exhaust)
qed

text \<open>\<^verbatim>\<open>payload.get(key)\<close> on the stored payload reads the field the caller supplied.\<close>

lemma map_of_canon_obj:
  "distinct (map fst kvs) \<Longrightarrow> map_of (canon_obj kvs) k = map_option canon (map_of kvs k)"
  by (simp add: canon_obj_def map_of_sort_key map_of_canon_fields)

subsection \<open>Text\<close>

function nat_text :: "int \<Rightarrow> string" where
  "nat_text n =
     (if n < 10 then [''0123456789'' ! nat n]
      else nat_text (n div 10) @ [''0123456789'' ! nat (n mod 10)])"
  by auto
termination by (relation "measure nat") auto

declare nat_text.simps [simp del]

definition int_text :: "int \<Rightarrow> string" where
  "int_text i = (if i < 0 then CHR ''-'' # nat_text (- i) else nat_text i)"

definition hex_digit :: "nat \<Rightarrow> char" where
  "hex_digit n = hex_digits ! n"

text \<open>String escapes of the C encoder with \<open>ensure_ascii=False\<close>.\<close>

definition escape_char :: "char \<Rightarrow> string" where
  "escape_char c =
     (let n = code_point c in
      if c = CHR 0x22 then [CHR 0x5C, CHR 0x22]
      else if c = CHR 0x5C then [CHR 0x5C, CHR 0x5C]
      else if n = 10 then [CHR 0x5C, CHR ''n'']
      else if n = 13 then [CHR 0x5C, CHR ''r'']
      else if n = 9 then [CHR 0x5C, CHR ''t'']
      else if n = 12 then [CHR 0x5C, CHR ''f'']
      else if n = 8 then [CHR 0x5C, CHR ''b'']
      else if n < 32 then [CHR 0x5C, CHR ''u'', CHR ''0'', CHR ''0'',
        hex_digit (n div 16), hex_digit (n mod 16)]
      else [c])"

definition quote :: "string \<Rightarrow> string" where
  "quote s = CHR 0x22 # concat (map escape_char s) @ [CHR 0x22]"

fun commas :: "string list \<Rightarrow> string" where
  "commas [] = []"
| "commas [x] = x"
| "commas (x # y # ys) = x @ CHR '','' # commas (y # ys)"

fun render :: "json \<Rightarrow> string"
  and render_list :: "json list \<Rightarrow> string list"
  and render_fields :: "payload \<Rightarrow> string list" where
  "render JNull = ''null''"
| "render (JBool b) = (if b then ''true'' else ''false'')"
| "render (JInt i) = int_text i"
| "render (JFloat t) = t"
| "render JNan = ''NaN''"
| "render (JStr s) = quote s"
| "render (JList xs) = CHR ''['' # commas (render_list xs) @ '']''"
| "render (JObj kvs) = CHR ''{'' # commas (render_fields kvs) @ ''}''"
| "render_list [] = []"
| "render_list (x # xs) = render x # render_list xs"
| "render_fields [] = []"
| "render_fields ((k, v) # kvs) = (quote k @ CHR '':'' # render v) # render_fields kvs"

fun has_nan :: "json \<Rightarrow> bool"
  and has_nan_list :: "json list \<Rightarrow> bool"
  and has_nan_fields :: "payload \<Rightarrow> bool" where
  "has_nan JNan = True"
| "has_nan (JList xs) = has_nan_list xs"
| "has_nan (JObj kvs) = has_nan_fields kvs"
| "has_nan j = False"
| "has_nan_list [] = False"
| "has_nan_list (x # xs) = (has_nan x \<or> has_nan_list xs)"
| "has_nan_fields [] = False"
| "has_nan_fields ((k, v) # kvs) = (has_nan v \<or> has_nan_fields kvs)"

text \<open>\<open>json.dumps\<close> of a dictionary, with \<open>None\<close> for its \<open>ValueError\<close>.\<close>

definition dumps :: "payload \<Rightarrow> string option" where
  "dumps p = (if has_nan_fields p then None else Some (render (JObj (canon_obj p))))"

lemma has_nan_fields_ex: "has_nan_fields kvs \<longleftrightarrow> (\<exists>kv\<in>set kvs. has_nan (snd kv))"
  by (induction kvs) auto

lemma has_nan_list_ex: "has_nan_list xs \<longleftrightarrow> (\<exists>x\<in>set xs. has_nan x)"
  by (induction xs) auto

lemma has_nan_canon [simp]:
  "has_nan (canon j) = has_nan j"
  "has_nan_list (canon_list js) = has_nan_list js"
  "has_nan_fields (canon_fields kvs) = has_nan_fields kvs"
  by (induction j and js and kvs rule: canon_canon_list_canon_fields.induct)
    (auto simp: has_nan_fields_ex)

lemma has_nan_canon_obj [simp]: "has_nan_fields (canon_obj p) = has_nan_fields p"
  using has_nan_canon(3) [of p] by (simp add: canon_obj_def has_nan_fields_ex)

lemma dumps_canon_obj [simp]: "dumps (canon_obj p) = dumps p"
  by (simp add: dumps_def)

subsection \<open>Timestamps\<close>

text \<open>
  \<^verbatim>\<open>value.astimezone(UTC).isoformat(timespec="microseconds").replace("+00:00", "Z")\<close>: the
  proleptic Gregorian date of the day number, then the time of day.
\<close>

definition civil_date :: "int \<Rightarrow> int \<times> int \<times> int" where
  "civil_date day =
     (let z = day + 719468;
          era = z div 146097;
          doe = z mod 146097;
          yoe = (doe - doe div 1460 + doe div 36524 - doe div 146096) div 365;
          doy = doe - (365 * yoe + yoe div 4 - yoe div 100);
          mp = (5 * doy + 2) div 153;
          d = doy - (153 * mp + 2) div 5 + 1;
          m = (if mp < 10 then mp + 3 else mp - 9);
          y = yoe + era * 400 + (if m \<le> 2 then 1 else 0)
      in (y, m, d))"

definition padded :: "nat \<Rightarrow> int \<Rightarrow> string" where
  "padded width i = (let t = int_text i in replicate (width - length t) CHR ''0'' @ t)"

definition format_timestamp :: "micros \<Rightarrow> string" where
  "format_timestamp us =
     (let (y, m, d) = civil_date (us div 86400000000);
          r = us mod 86400000000
      in padded 4 y @ ''-'' @ padded 2 m @ ''-'' @ padded 2 d @ ''T''
         @ padded 2 (r div 3600000000) @ '':'' @ padded 2 (r div 60000000 mod 60) @ '':''
         @ padded 2 (r div 1000000 mod 60) @ ''.'' @ padded 6 (r mod 1000000) @ ''Z'')"

end
