(* ===== verification/JsonText.thy ===== *)
theory JsonText
  imports Json "HOL-Library.AList"
begin

text \<open>
  \<^verbatim>\<open>json.loads\<close>: the value a JSON text spells, \<open>None\<close> where Python raises \<open>ValueError\<close>. White space is
  skipped between tokens, control characters in strings are refused, a name given twice keeps its first
  place and its last value. Text is Latin-1 here, so an escape of a code point above 255 is refused too.
  A float keeps the text of its token. The parsers of nested values take fuel; the length of the text is
  enough, which \<open>loads_render\<close> shows of every text \<open>render\<close> writes for a value without floats.
\<close>

definition skip_ws :: "string \<Rightarrow> string" where
  "skip_ws s = dropWhile (\<lambda>c. code_point c \<in> {32, 9, 10, 13}) s"

subsection \<open>Strings\<close>

definition hex_value :: "char \<Rightarrow> nat option" where
  "hex_value c =
     (let n = code_point c in
      if 48 \<le> n \<and> n \<le> 57 then Some (n - 48)
      else if 97 \<le> n \<and> n \<le> 102 then Some (n - 87)
      else if 65 \<le> n \<and> n \<le> 70 then Some (n - 55)
      else None)"

definition unicode_escape :: "char \<Rightarrow> char \<Rightarrow> char \<Rightarrow> char \<Rightarrow> char option" where
  "unicode_escape a b c d =
     (case (hex_value a, hex_value b, hex_value c, hex_value d) of
        (Some 0, Some 0, Some m, Some n) \<Rightarrow> Some (char_of (16 * m + n))
      | _ \<Rightarrow> None)"

definition simple_escape :: "char \<Rightarrow> char option" where
  "simple_escape c =
     (if c = CHR 0x22 \<or> c = CHR 0x5C \<or> c = CHR ''/'' then Some c
      else if c = CHR ''b'' then Some (CHR 0x08)
      else if c = CHR ''f'' then Some (CHR 0x0C)
      else if c = CHR ''n'' then Some (CHR 0x0A)
      else if c = CHR ''r'' then Some (CHR 0x0D)
      else if c = CHR ''t'' then Some (CHR 0x09)
      else None)"

definition more_chars :: "char option \<Rightarrow> (string \<times> string) option \<Rightarrow> (string \<times> string) option" where
  "more_chars c p =
     (case (c, p) of (Some x, Some (s, rest)) \<Rightarrow> Some (x # s, rest) | _ \<Rightarrow> None)"

text \<open>The rest of a string after its opening quote, and the text after its closing quote.\<close>

fun parse_chars :: "string \<Rightarrow> (string \<times> string) option" where
  "parse_chars [] = None"
| "parse_chars (c # s) =
     (if c = CHR 0x22 then Some ([], s)
      else if c = CHR 0x5C then
        (case s of
           CHR ''u'' # h1 # h2 # h3 # h4 # rest \<Rightarrow> more_chars (unicode_escape h1 h2 h3 h4) (parse_chars rest)
         | e # rest \<Rightarrow> more_chars (simple_escape e) (parse_chars rest)
         | [] \<Rightarrow> None)
      else if code_point c < 32 then None
      else more_chars (Some c) (parse_chars s))"

subsection \<open>Numbers and names\<close>

definition json_digit :: "char \<Rightarrow> bool" where
  "json_digit c \<longleftrightarrow> 48 \<le> code_point c \<and> code_point c \<le> 57"

definition whole_value :: "string \<Rightarrow> int" where
  "whole_value s = foldl (\<lambda>n c. 10 * n + (int (code_point c) - 48)) 0 s"

definition fraction_part :: "string \<Rightarrow> string" where
  "fraction_part s =
     (case s of
        [] \<Rightarrow> []
      | c # cs \<Rightarrow> let digits = takeWhile json_digit cs in
          if c = CHR ''.'' \<and> digits \<noteq> [] then c # digits else [])"

definition exponent_part :: "string \<Rightarrow> string" where
  "exponent_part s =
     (case s of
        [] \<Rightarrow> []
      | c # cs \<Rightarrow>
          let sign = (case cs of [] \<Rightarrow> [] | d # _ \<Rightarrow> if d \<in> {CHR ''+'', CHR ''-''} then [d] else []);
              digits = takeWhile json_digit (drop (length sign) cs)
          in if c \<in> {CHR ''e'', CHR ''E''} \<and> digits \<noteq> [] then c # sign @ digits else [])"

definition parse_number :: "string \<Rightarrow> (json \<times> string) option" where
  "parse_number s =
     (let sign = (case s of [] \<Rightarrow> [] | c # _ \<Rightarrow> if c = CHR ''-'' then [c] else []);
          unsigned = drop (length sign) s;
          digits = takeWhile json_digit unsigned;
          whole = (case digits of [] \<Rightarrow> [] | c # _ \<Rightarrow> if c = CHR ''0'' then [c] else digits);
          rest = drop (length whole) unsigned;
          frac = fraction_part rest;
          expo = exponent_part (drop (length frac) rest)
      in if digits = [] then None
         else Some (if frac = [] \<and> expo = []
                    then JInt (if sign = [] then whole_value whole else - whole_value whole)
                    else JFloat (sign @ whole @ frac @ expo),
                drop (length frac + length expo) rest))"

definition json_names :: "(string \<times> json) list" where
  "json_names = [(''null'', JNull), (''true'', JBool True), (''false'', JBool False), (''NaN'', JNan),
     (''Infinity'', JNan), (''-Infinity'', JNan)]"

definition parse_scalar :: "string \<Rightarrow> (json \<times> string) option" where
  "parse_scalar s =
     (case List.find (\<lambda>(t, v). take (length t) s = t) json_names of
        Some (t, v) \<Rightarrow> Some (v, drop (length t) s)
      | None \<Rightarrow> parse_number s)"

subsection \<open>Values\<close>

definition dict_of :: "payload \<Rightarrow> payload" where
  "dict_of kvs = foldl (\<lambda>d (k, v). AList.update k v d) [] kvs"

fun parse_value :: "nat \<Rightarrow> string \<Rightarrow> (json \<times> string) option"
  and parse_elements :: "nat \<Rightarrow> string \<Rightarrow> (json list \<times> string) option"
  and parse_members :: "nat \<Rightarrow> string \<Rightarrow> (payload \<times> string) option" where
  "parse_value 0 s = None"
| "parse_value (Suc n) s =
     (case s of
        [] \<Rightarrow> None
      | c # cs \<Rightarrow>
          if c = CHR 0x22 then map_option (\<lambda>(t, rest). (JStr t, rest)) (parse_chars cs)
          else if c = CHR ''['' then
            (case skip_ws cs of
               [] \<Rightarrow> None
             | d # ds \<Rightarrow> if d = CHR '']'' then Some (JList [], ds)
                 else map_option (\<lambda>(vs, rest). (JList vs, rest)) (parse_elements n (d # ds)))
          else if c = CHR ''{'' then
            (case skip_ws cs of
               [] \<Rightarrow> None
             | d # ds \<Rightarrow> if d = CHR ''}'' then Some (JObj [], ds)
                 else map_option (\<lambda>(kvs, rest). (JObj (dict_of kvs), rest)) (parse_members n (d # ds)))
          else parse_scalar s)"
| "parse_elements 0 s = None"
| "parse_elements (Suc n) s =
     (case parse_value n s of
        None \<Rightarrow> None
      | Some (v, rest) \<Rightarrow>
          (case skip_ws rest of
             [] \<Rightarrow> None
           | c # cs \<Rightarrow>
               if c = CHR '']'' then Some ([v], cs)
               else if c = CHR '','' then map_option (\<lambda>(vs, r). (v # vs, r)) (parse_elements n (skip_ws cs))
               else None))"
| "parse_members 0 s = None"
| "parse_members (Suc n) s =
     (case s of
        [] \<Rightarrow> None
      | q # t \<Rightarrow>
          if q \<noteq> CHR 0x22 then None
          else (case parse_chars t of
              None \<Rightarrow> None
            | Some (k, rest) \<Rightarrow>
                (case skip_ws rest of
                   [] \<Rightarrow> None
                 | c # cs \<Rightarrow>
                     if c \<noteq> CHR '':'' then None
                     else (case parse_value n (skip_ws cs) of
                         None \<Rightarrow> None
                       | Some (v, rest) \<Rightarrow>
                           (case skip_ws rest of
                              [] \<Rightarrow> None
                            | c # cs \<Rightarrow>
                                if c = CHR ''}'' then Some ([(k, v)], cs)
                                else if c = CHR '','' then
                                  map_option (\<lambda>(kvs, r). ((k, v) # kvs, r)) (parse_members n (skip_ws cs))
                                else None)))))"

definition loads :: "string \<Rightarrow> json option" where
  "loads s =
     (case parse_value (Suc (length s)) (skip_ws s) of
        None \<Rightarrow> None
      | Some (v, rest) \<Rightarrow> if skip_ws rest = [] then Some v else None)"

subsection \<open>What is written is read\<close>

lemma char_of_code_point [simp]: "char_of (code_point c) = c"
  by (simp add: code_point_def)

lemma code_point_is: "code_point c = n \<Longrightarrow> c = char_of n"
  by (metis char_of_code_point)

lemma hex_digit_value: "m < 16 \<Longrightarrow> hex_value (hex_digit m) = Some m"
proof -
  have "list_all (\<lambda>m. hex_value (hex_digit m) = Some m) [0..<16]" by code_simp
  then show "m < 16 \<Longrightarrow> ?thesis"
    unfolding list_all_iff by (rule bspec) (simp only: set_upt atLeastLessThan_iff zero_le)
qed

lemma control_escapes:
  assumes "n < 32"
  shows "unicode_escape CHR ''0'' CHR ''0'' (hex_digit (n div 16)) (hex_digit (n mod 16)) = Some (char_of n)"
proof -
  have "hex_value CHR ''0'' = Some 0" by code_simp
  moreover have "hex_value (hex_digit (n div 16)) = Some (n div 16)" "hex_value (hex_digit (n mod 16)) = Some (n mod 16)"
    using assms by (auto intro!: hex_digit_value)
  ultimately show ?thesis by (simp add: unicode_escape_def)
qed

lemma parse_escape: "parse_chars (escape_char c @ s) = more_chars (Some c) (parse_chars s)"
proof -
  have special: "char_of (10::nat) = CHR 0x0A" "char_of (13::nat) = CHR 0x0D" "char_of (9::nat) = CHR 0x09"
    "char_of (12::nat) = CHR 0x0C" "char_of (8::nat) = CHR 0x08" by code_simp+
  show ?thesis
    using code_point_is [of c 10] code_point_is [of c 13] code_point_is [of c 9] code_point_is [of c 12]
      code_point_is [of c 8] control_escapes [of "code_point c"]
    by (auto simp: escape_char_def Let_def simple_escape_def special)
qed

lemma parse_quoted: "parse_chars (concat (map escape_char s) @ CHR 0x22 # rest) = Some (s, rest)"
  by (induction s) (simp_all add: parse_escape more_chars_def)

lemma digit_code: "n < 10 \<Longrightarrow> int (code_point (''0123456789'' ! n)) - 48 = int n \<and> json_digit (''0123456789'' ! n)"
proof -
  have "list_all (\<lambda>n. int (code_point (''0123456789'' ! n)) - 48 = int n \<and> json_digit (''0123456789'' ! n)) [0..<10]"
    by code_simp
  then show "n < 10 \<Longrightarrow> ?thesis" by (simp add: list_all_iff)
qed

lemma nat_text_read:
  "0 \<le> n \<Longrightarrow> nat_text n \<noteq> [] \<and> list_all json_digit (nat_text n) \<and> whole_value (nat_text n) = n \<and>
     (hd (nat_text n) = CHR ''0'' \<longrightarrow> n = 0 \<and> nat_text n = ''0'')"
proof (induction n rule: nat_text.induct)
  case (1 n)
  show ?case
  proof (cases "n < 10")
    case True
    then have t: "nat_text n = [''0123456789'' ! nat n]" by (simp add: nat_text.simps [of n])
    have d: "int (code_point (''0123456789'' ! nat n)) - 48 = n" "json_digit (''0123456789'' ! nat n)"
      using digit_code [of "nat n"] True 1(2) by auto
    have "code_point CHR ''0'' = 48" by code_simp
    then show ?thesis using d 1(2) by (auto simp: t whole_value_def)
  next
    case False
    then have t: "nat_text n = nat_text (n div 10) @ [''0123456789'' ! nat (n mod 10)]"
      by (simp add: nat_text.simps [of n])
    have d: "int (code_point (''0123456789'' ! nat (n mod 10))) - 48 = n mod 10" "json_digit (''0123456789'' ! nat (n mod 10))"
      using digit_code [of "nat (n mod 10)"] by auto
    have ih: "nat_text (n div 10) \<noteq> []" "list_all json_digit (nat_text (n div 10))"
        "whole_value (nat_text (n div 10)) = n div 10" "hd (nat_text (n div 10)) = CHR ''0'' \<longrightarrow> n div 10 = 0"
      using 1 False by auto
    have "whole_value (nat_text n) = 10 * (n div 10) + n mod 10"
      using ih(3) d(1) by (simp add: t whole_value_def)
    then show ?thesis using ih d False by (auto simp: t)
  qed
qed

text \<open>A token ends where a text ends or the enclosing value goes on.\<close>

definition token_end :: "string \<Rightarrow> bool" where
  "token_end s = (case s of [] \<Rightarrow> True | c # _ \<Rightarrow> c \<in> {CHR '','', CHR '']'', CHR ''}''})"

lemma token_end_simps [simp]:
  "token_end []" "token_end (CHR '','' # s)" "token_end (CHR '']'' # s)" "token_end (CHR ''}'' # s)"
  by (simp_all add: token_end_def)

lemma token_end_number:
  assumes "token_end s"
  shows "takeWhile json_digit s = []" "fraction_part s = []" "exponent_part s = []"
  using assms
  by (auto simp: token_end_def fraction_part_def exponent_part_def json_digit_def code_point_def split: list.splits)

lemma parse_int:
  assumes "token_end s"
  shows "parse_number (int_text i @ s) = Some (JInt i, s)"
proof -
  have num: "0 \<le> n \<Longrightarrow> \<exists>c t. nat_text n = c # t \<and> json_digit c \<and> c \<noteq> CHR ''-'' \<and>
      takeWhile json_digit (t @ s) = t \<and> whole_value (c # t) = n \<and> (c = CHR ''0'' \<longrightarrow> t = [])" for n
    using nat_text_read [of n] token_end_number(1) [OF assms]
    by (cases "nat_text n") (auto simp: takeWhile_append2 list_all_iff json_digit_def code_point_def)
  show ?thesis
  proof (cases "i < 0")
    case True
    then obtain c t where "nat_text (- i) = c # t" "json_digit c" "takeWhile json_digit (t @ s) = t"
        "whole_value (c # t) = - i" "c = CHR ''0'' \<longrightarrow> t = []" using num [of "- i"] by auto
    then show ?thesis
      using token_end_number(2,3) [OF assms] True
      by (cases "c = CHR ''0''") (simp_all add: parse_number_def int_text_def Let_def)
  next
    case False
    then obtain c t where "nat_text i = c # t" "json_digit c" "c \<noteq> CHR ''-''" "takeWhile json_digit (t @ s) = t"
        "whole_value (c # t) = i" "c = CHR ''0'' \<longrightarrow> t = []" using num [of i] by auto
    then show ?thesis
      using token_end_number(2,3) [OF assms] False
      by (cases "c = CHR ''0''") (simp_all add: parse_number_def int_text_def Let_def)
  qed
qed

lemma int_text_first:
  "\<exists>c t. int_text i = c # t \<and> (json_digit c \<or> c = CHR ''-'' \<and> t \<noteq> [] \<and> json_digit (hd t))"
proof (cases "i < 0")
  case True
  then show ?thesis using nat_text_read [of "- i"] by (cases "nat_text (- i)") (auto simp: int_text_def)
next
  case False
  then show ?thesis using nat_text_read [of i] by (cases "nat_text i") (auto simp: int_text_def)
qed

lemma digit_not_minus: "json_digit c \<Longrightarrow> c \<noteq> CHR ''-''"
  by (auto simp: json_digit_def code_point_def)

lemma parse_scalar_int:
  assumes "token_end s"
  shows "parse_scalar (int_text i @ s) = Some (JInt i, s)"
proof -
  obtain c t where f: "int_text i = c # t" "json_digit c \<or> c = CHR ''-'' \<and> t \<noteq> [] \<and> json_digit (hd t)"
    using int_text_first by blast
  have no: "c \<noteq> CHR ''n'' \<and> c \<noteq> CHR ''t'' \<and> c \<noteq> CHR ''f'' \<and> c \<noteq> CHR ''N'' \<and> c \<noteq> CHR ''I''" if "json_digit c" for c
    using that by (auto simp: json_digit_def code_point_def)
  have "List.find (\<lambda>(t, v). take (length t) (int_text i @ s) = t) json_names = None"
  proof (cases "json_digit c")
    case True
    then show ?thesis using no [OF True] digit_not_minus [OF True] by (simp add: json_names_def f(1))
  next
    case False
    then obtain d u where "c = CHR ''-''" "t = d # u" "json_digit d" using f(2) by (cases t) auto
    then show ?thesis using no [of d] by (simp add: json_names_def f(1))
  qed
  then show ?thesis using parse_int [OF assms] by (simp add: parse_scalar_def)
qed

text \<open>The values without floats, whose objects name no field twice.\<close>

fun exact_json :: "json \<Rightarrow> bool"
  and exact_list :: "json list \<Rightarrow> bool"
  and exact_fields :: "payload \<Rightarrow> bool" where
  "exact_json JNull = True"
| "exact_json (JBool b) = True"
| "exact_json (JInt i) = True"
| "exact_json (JFloat t) = False"
| "exact_json JNan = True"
| "exact_json (JStr t) = True"
| "exact_json (JList xs) = exact_list xs"
| "exact_json (JObj kvs) = (distinct (map fst kvs) \<and> exact_fields kvs)"
| "exact_list [] = True"
| "exact_list (x # xs) = (exact_json x \<and> exact_list xs)"
| "exact_fields [] = True"
| "exact_fields ((k, v) # kvs) = (exact_json v \<and> exact_fields kvs)"

lemma update_fresh: "k \<notin> fst ` set al \<Longrightarrow> AList.update k v al = al @ [(k, v)]"
  by (induction al) auto

lemma dict_of_distinct: "distinct (map fst kvs) \<Longrightarrow> dict_of kvs = kvs"
proof -
  have "distinct (map fst (acc @ kvs)) \<Longrightarrow> foldl (\<lambda>d (k, v). AList.update k v d) acc kvs = acc @ kvs" for acc
  proof (induction kvs arbitrary: acc)
    case (Cons kv kvs)
    then show ?case using Cons.IH [of "acc @ [kv]"] update_fresh [of "fst kv" acc "snd kv"]
      by (cases kv) auto
  qed simp
  from this [of "[]"] show "distinct (map fst kvs) \<Longrightarrow> dict_of kvs = kvs" by (simp add: dict_of_def)
qed

definition value_start :: "char \<Rightarrow> bool" where
  "value_start c \<longleftrightarrow> code_point c \<notin> {32, 9, 10, 13} \<and> c \<noteq> CHR '']'' \<and> c \<noteq> CHR ''}''"

lemma render_start: "exact_json v \<Longrightarrow> \<exists>c t. render v = c # t \<and> value_start c"
  using int_text_first
  by (cases v; fastforce simp: quote_def value_start_def code_point_def json_digit_def)

lemma skip_value: "exact_json v \<Longrightarrow> skip_ws (render v @ s) = render v @ s"
  using render_start [of v] by (auto simp: skip_ws_def value_start_def)

lemma skip_punctuation [simp]:
  "skip_ws (CHR '','' # s) = CHR '','' # s" "skip_ws (CHR '']'' # s) = CHR '']'' # s"
  "skip_ws (CHR ''}'' # s) = CHR ''}'' # s" "skip_ws (CHR '':'' # s) = CHR '':'' # s"
  "skip_ws (CHR 0x22 # s) = CHR 0x22 # s" "skip_ws [] = []"
  by (simp_all add: skip_ws_def code_point_def)

lemma commas_Cons: "commas (x # xs) = x @ (if xs = [] then [] else CHR '','' # commas xs)"
  by (cases xs) auto

lemma render_Nil [simp]: "render_list vs = [] \<longleftrightarrow> vs = []" "render_fields kvs = [] \<longleftrightarrow> kvs = []"
  by (cases vs; simp) (cases kvs; auto)

lemma render_nonempty: "exact_json v \<Longrightarrow> 0 < length (render v)"
  using render_start by fastforce

lemma skip_elements:
  "vs \<noteq> [] \<Longrightarrow> exact_list vs \<Longrightarrow> skip_ws (commas (render_list vs) @ s) = commas (render_list vs) @ s"
  using skip_value [of "hd vs"] by (cases vs) (simp_all add: commas_Cons del: commas.simps)

lemma elements_start:
  "vs \<noteq> [] \<Longrightarrow> exact_list vs \<Longrightarrow> \<exists>c t. commas (render_list vs) = c # t \<and> c \<noteq> CHR '']''"
  using render_start [of "hd vs"] by (cases vs) (auto simp: commas_Cons value_start_def simp del: commas.simps)

lemma members_start: "kvs \<noteq> [] \<Longrightarrow> \<exists>t. commas (render_fields kvs) = CHR 0x22 # t"
  by (cases kvs) (auto simp: commas_Cons quote_def simp del: commas.simps)

lemma parse_render:
  "exact_json v \<Longrightarrow> length (render v) < n \<Longrightarrow> token_end s \<Longrightarrow> parse_value n (render v @ s) = Some (v, s)"
  "exact_list vs \<Longrightarrow> vs \<noteq> [] \<Longrightarrow> Suc (length (commas (render_list vs))) < m \<Longrightarrow>
     parse_elements m (commas (render_list vs) @ CHR '']'' # s) = Some (vs, s)"
  "exact_fields kvs \<Longrightarrow> kvs \<noteq> [] \<Longrightarrow> Suc (length (commas (render_fields kvs))) < k \<Longrightarrow>
     parse_members k (commas (render_fields kvs) @ CHR ''}'' # s) = Some (kvs, s)"
proof (induction v and vs and kvs arbitrary: n s and m s and k s rule: exact_json_exact_list_exact_fields.induct)
  case (7 xs)
  obtain n' where n: "n = Suc n'" using 7(3) by (cases n) auto
  show ?case
  proof (cases "xs = []")
    case False
    obtain c t where c: "commas (render_list xs) = c # t" "c \<noteq> CHR '']''" using elements_start [OF False] 7(2) by auto
    then have "parse_elements n' (c # t @ CHR '']'' # s) = Some (xs, s)" "skip_ws (c # t @ CHR '']'' # s) = c # t @ CHR '']'' # s"
      using 7 False n skip_elements [OF False, of "CHR '']'' # s"] by auto
    then show ?thesis by (simp add: n c)
  qed (simp add: n)
next
  case (8 kvs)
  obtain n' where n: "n = Suc n'" using 8(3) by (cases n) auto
  show ?case
  proof (cases "kvs = []")
    case False
    obtain t where c: "commas (render_fields kvs) = CHR 0x22 # t" using members_start [OF False] by auto
    then have "parse_members n' (CHR 0x22 # t @ CHR ''}'' # s) = Some (kvs, s)"
      using 8 False n by auto
    then show ?thesis using 8(2) by (simp add: n c dict_of_distinct)
  qed (simp add: n)
next
  case (1 n s)
  then show ?case by (cases n) (simp_all add: parse_scalar_def json_names_def)
next
  case (2 b n s)
  then show ?case by (cases n; cases b) (simp_all add: parse_scalar_def json_names_def)
next
  case (3 i n s)
  obtain c t where "int_text i = c # t" "json_digit c \<or> c = CHR ''-''" using int_text_first by blast
  moreover have "c \<noteq> CHR 0x22 \<and> c \<noteq> CHR ''['' \<and> c \<noteq> CHR ''{''"
    using calculation(2) by (auto simp: json_digit_def code_point_def)
  ultimately show ?case using 3 parse_scalar_int [of s i] by (cases n) auto
next
  case (5 n s)
  then show ?case by (cases n) (simp_all add: parse_scalar_def json_names_def)
next
  case (6 t n s)
  then show ?case by (cases n) (simp_all add: quote_def parse_quoted)
next
  case (10 x xs)
  obtain m' where m: "m = Suc m'" using 10(5) by (cases m) auto
  have x: "exact_json x" "exact_list xs" using 10(3) by auto
  have len: "Suc (length (render x) + (if xs = [] then 0 else Suc (length (commas (render_list xs))))) < Suc m'"
    using 10(5) unfolding m render_list.simps commas_Cons by (simp split: if_splits)
  have first: "parse_value m' (render x @ r) = Some (x, r)" if "token_end r" for r
    by (rule 10(1) [OF x(1) _ that]) (use len in simp)
  show ?case
  proof (cases "xs = []")
    case True
    then show ?thesis using first [of "CHR '']'' # s"] by (simp add: m)
  next
    case False
    have "parse_elements m' (commas (render_list xs) @ CHR '']'' # s) = Some (xs, s)"
      by (rule 10(2) [OF x(2) False]) (use len False render_nonempty [OF x(1)] in simp)
    then show ?thesis
      using first [of "CHR '','' # commas (render_list xs) @ CHR '']'' # s"] skip_elements [OF False x(2)] False
      by (simp add: m commas_Cons del: commas.simps)
  qed
next
  case (12 key v kvs)
  obtain k' where k: "k = Suc k'" using 12(5) by (cases k) auto
  have x: "exact_json v" "exact_fields kvs" using 12(3) by auto
  have len: "Suc (Suc (Suc (length (render v) + (if kvs = [] then 0 else Suc (length (commas (render_fields kvs))))))) < Suc k'"
    using 12(5) unfolding k render_fields.simps commas_Cons by (simp add: quote_def split: if_splits)
  have first: "parse_value k' (render v @ q) = Some (v, q)" if "token_end q" for q
    by (rule 12(1) [OF x(1) _ that]) (use len in simp)
  show ?case
  proof (cases "kvs = []")
    case True
    then show ?thesis
      using first [of "CHR ''}'' # s"] skip_value [OF x(1), of "CHR ''}'' # s"] by (simp add: k quote_def parse_quoted)
  next
    case False
    obtain t where t: "commas (render_fields kvs) = CHR 0x22 # t" using members_start [OF False] by auto
    have "parse_members k' (commas (render_fields kvs) @ CHR ''}'' # s) = Some (kvs, s)"
      by (rule 12(2) [OF x(2) False]) (use len False in simp)
    then show ?thesis
      using first [of "CHR '','' # commas (render_fields kvs) @ CHR ''}'' # s"] skip_value [OF x(1)] False t
      by (simp add: k quote_def parse_quoted commas_Cons del: commas.simps)
  qed
qed auto

theorem loads_render: "exact_json v \<Longrightarrow> loads (render v) = Some v"
  using parse_render(1) [of v "Suc (length (render v))" "[]"] skip_value [of v "[]"] by (simp add: loads_def)

end
