(* ===== verification/Schema.thy ===== *)
theory Schema
  imports Lifecycle JsonText
begin

text \<open>
  The relational schema of db.py (the embedded \<open>MIGRATIONS\<close>): one record per table row, the
  database as the record of its tables, and for each table what SQLite does with the inserts
  and updates the source runs: \<open>BEFORE\<close> triggers first, then the \<open>CHECK\<close> constraints, then
  primary key and unique indexes, then the foreign keys. A refused statement is
  \<open>Inl (IntegrityError kind)\<close>. An enumerated column has the enumeration as its type, a JSON
  column the value its text spells (in canonical order), a timestamp column an instant; the arguments of a
  verification run are stored as their JSON text.
  The source's record classes (\<open>JobRecord\<close>, \<open>EventRecord\<close>, ...) have the columns of their
  table as fields, so the row type stands for both (\<open>VerificationRecord\<close> is a type of its own).
\<close>

subsection \<open>Rows\<close>

record project_row =
  p_id :: string
  p_root :: string
  p_sensitivity :: sensitivity
  p_cloud_allowed :: bool
  p_permission_mode :: permission_mode
  p_created_at :: micros
  p_updated_at :: micros

record job_row =
  j_id :: string
  j_project_id :: string
  j_request :: string
  j_request_snapshot :: payload
  j_state :: job_state
  j_runtime :: job_runtime
  j_model :: "string option"
  j_worktree_path :: "string option"
  j_created_at :: micros
  j_updated_at :: micros

record event_row =
  e_id :: int
  e_job_id :: string
  e_sequence :: int
  e_event_type :: string
  e_payload :: payload
  e_payload_hash :: string
  e_idempotency_key :: "string option"
  e_created_at :: micros

record approval_row =
  a_id :: string
  a_job_id :: string
  a_payload_hash :: string
  a_decision :: "approval_decision option"
  a_actor :: "string option"
  a_channel :: "string option"
  a_expires_at :: micros
  a_created_at :: micros
  a_decided_at :: "micros option"

record planner_row =
  pl_id :: string
  pl_kind :: planner_item_kind
  pl_project_id :: "string option"
  pl_title :: string
  pl_details :: "string option"
  pl_due_at :: "micros option"
  pl_source :: "string option"
  pl_source_key :: "string option"
  pl_promoted_job_id :: "string option"
  pl_created_at :: micros
  pl_updated_at :: micros
  pl_promoted_at :: "micros option"

record memory_row =
  m_id :: int
  m_projmem_record_id :: string
  m_job_id :: string
  m_event_id :: "int option"
  m_created_at :: micros

record verification_row =
  v_id :: int
  v_job_id :: string
  v_command_args :: string
  v_outcome :: verification_outcome
  v_exit_code :: "int option"
  v_duration_ms :: int
  v_output_digest :: string
  v_stdout_bytes :: int
  v_stderr_bytes :: int
  v_created_at :: micros

record bundle_row =
  b_job_id :: string
  b_scan_event_id :: int
  b_payload :: payload
  b_payload_hash :: string
  b_created_at :: micros

text \<open>A decimal column holds the plain decimal text of the observed amount.\<close>

record usage_row =
  u_id :: int
  u_provider :: string
  u_job_id :: "string option"
  u_model :: "string option"
  u_input_tokens :: "int option"
  u_output_tokens :: "int option"
  u_cost_usd :: "string option"
  u_latency_ms :: "int option"
  u_quota_limit :: "string option"
  u_quota_remaining :: "string option"
  u_quota_unit :: "string option"
  u_quota_reset_at :: "micros option"
  u_rate_limited :: "bool option"
  u_recorded_at :: micros

datatype attempt_phase = Admitted | PhaseRunning | Reconcile | Settled

datatype native_outcome = OCompleted | OFailed | OCancelled

record attempt_row =
  n_id :: string
  n_job_id :: string
  n_owner :: string
  n_account_slot :: string
  n_worktree_path :: "string option"
  n_worktree_identity :: payload
  n_authorization :: payload
  n_phase :: attempt_phase
  n_held :: bool
  n_cancel_requested :: bool
  n_session_id :: "string option"
  n_outcome :: "native_outcome option"
  n_created_at :: micros

record team_row =
  t_project_id :: string
  t_revision :: int
  t_payload :: payload
  t_payload_hash :: string
  t_updated_at :: micros

datatype receipt_phase = RReceived | RReady | RSending | RSent | RUncertain | RIgnored | RExpired

record receipt_row =
  rr_channel :: string
  rr_update_id :: int
  rr_payload_hash :: string
  rr_scope_hash :: string
  rr_actor :: "int option"
  rr_chat :: "int option"
  rr_issued_at :: "int option"
  rr_expires_at :: int
  rr_phase :: receipt_phase
  rr_reply :: "string option"
  rr_message_id :: "int option"

datatype action_kind = AKCompose | AKSubmit | AKCancel | AKDecision

datatype action_phase = AReady | ARunning | ADone

record action_row =
  pa_token :: string
  pa_scope_hash :: string
  pa_kind :: action_kind
  pa_payload :: payload
  pa_payload_hash :: string
  pa_expires_at :: int
  pa_phase :: action_phase
  pa_choice :: "string option"
  pa_outcome :: "string option"

datatype delivery_kind = DKReply | DKReview | DKNotice

datatype delivery_phase = DReady | DSending | DSent | DUncertain | DDropped

record outbox_row =
  po_id :: int
  po_scope_hash :: string
  po_source_key :: string
  po_group_key :: string
  po_part :: int
  po_project_id :: "string option"
  po_kind :: delivery_kind
  po_subject :: payload
  po_packet :: payload
  po_packet_hash :: string
  po_action_token :: "string option"
  po_expires_at :: int
  po_phase :: delivery_phase
  po_message_id :: "int option"

record cursor_row =
  pk_scope_hash :: string
  pk_event_id :: int
  pk_muted :: bool
  pk_last_send :: int

text \<open>
  The tables of remote control; \<open>outbox_seq\<close> is the \<open>AUTOINCREMENT\<close> counter of the outbox.
\<close>

record phone_tables =
  receipts :: "receipt_row list"
  phone_actions :: "action_row list"
  phone_outbox :: "outbox_row list"
  outbox_seq :: int
  phone_cursors :: "cursor_row list"

record db =
  projects :: "project_row list"
  jobs :: "job_row list"
  events :: "event_row list"
  approvals :: "approval_row list"
  planner :: "planner_row list"
  memory_refs :: "memory_row list"
  verification_runs :: "verification_row list"
  review_bundles :: "bundle_row list"
  usage :: "usage_row list"
  native_attempts :: "attempt_row list"
  teams :: "team_row list"
  phone :: phone_tables

definition empty_db :: db where
  "empty_db = \<lparr>projects = [], jobs = [], events = [], approvals = [], planner = [],
     memory_refs = [], verification_runs = [], review_bundles = [], usage = [], native_attempts = [],
     teams = [], phone = \<lparr>receipts = [], phone_actions = [], phone_outbox = [], outbox_seq = 0,
       phone_cursors = []\<rparr>\<rparr>"

subsection \<open>SQL text checks\<close>

text \<open>\<open>length(text)\<close> counts the characters before the first NUL.\<close>

definition sql_length :: "string \<Rightarrow> nat" where
  "sql_length s = length (takeWhile (\<lambda>c. c \<noteq> NUL) s)"

definition sql_plain :: "string \<Rightarrow> bool" where
  "sql_plain s \<longleftrightarrow> 0 < sql_length s \<and> s = sql_trim s \<and> NUL \<notin> set s"

definition sql_plain_bounded :: "int \<Rightarrow> string \<Rightarrow> bool" where
  "sql_plain_bounded n s \<longleftrightarrow> sql_plain s \<and> utf8_len s \<le> n"

definition opt_check :: "('a \<Rightarrow> bool) \<Rightarrow> 'a option \<Rightarrow> bool" where
  "opt_check p x = (case x of None \<Rightarrow> True | Some y \<Rightarrow> p y)"

definition json_bytes :: "payload \<Rightarrow> int" where
  "json_bytes p = utf8_len (render (JObj p))"

lemma opt_check_simps [simp, store_simps]: "opt_check p None" "opt_check p (Some y) = p y"
  by (simp_all add: opt_check_def)

lemma sql_length_no_nul: "NUL \<notin> set s \<Longrightarrow> sql_length s = length s"
  by (induction s) (auto simp: sql_length_def)

text \<open>The Python guard is at least as strict as the schema's.\<close>

lemma plain_text_sql_plain: "plain_text s \<Longrightarrow> sql_plain s"
  by (auto simp: sql_plain_def plain_text_sql_trim sql_length_no_nul plain_text_def)

lemma plain_text_opt_sql: "plain_text_opt t \<Longrightarrow> opt_check sql_plain t"
  by (cases t) (auto simp: plain_text_opt_def plain_text_sql_plain)

lemma sql_length_trim_pos:
  assumes "strip s \<noteq> []" and "NUL \<notin> set s"
  shows "0 < sql_length (sql_trim s)"
proof -
  have "set (sql_trim s) \<subseteq> set s"
    unfolding sql_trim_def by (auto dest!: set_dropWhileD)
  then have "NUL \<notin> set (sql_trim s)" using assms(2) by blast
  then show ?thesis using assms(1) sql_trim_nonempty by (simp add: sql_length_no_nul)
qed

subsection \<open>Projects\<close>

definition project_check :: "project_row \<Rightarrow> bool" where
  "project_check r \<longleftrightarrow>
     0 < sql_length (p_id r) \<and> p_id r = sql_trim (p_id r) \<and>
     0 < sql_length (p_root r) \<and> p_root r = sql_trim (p_root r) \<and>
     (p_sensitivity r \<notin> {SInternal, SRestricted} \<or> \<not> p_cloud_allowed r)"

definition insert_project :: "db \<Rightarrow> project_row \<Rightarrow> exn + db" where
  "insert_project d r =
     (if \<not> project_check r then Inl (IntegrityError CheckViolation)
      else if \<exists>q\<in>set (projects d). p_id q = p_id r then Inl (IntegrityError PrimaryKeyViolation)
      else if \<exists>q\<in>set (projects d). p_root q = p_root r then Inl (IntegrityError UniqueViolation)
      else Inr (d\<lparr>projects := projects d @ [r]\<rparr>))"

definition update_project :: "db \<Rightarrow> string \<Rightarrow> (project_row \<Rightarrow> project_row) \<Rightarrow> exn + nat \<times> db" where
  "update_project d i f =
     (let hit = (\<lambda>q. p_id q = i) in
      if \<exists>q\<in>set (projects d). hit q \<and> \<not> project_check (f q)
      then Inl (IntegrityError CheckViolation)
      else if \<exists>q\<in>set (projects d). hit q \<and>
                (\<exists>q'\<in>set (projects d). \<not> hit q' \<and> p_root q' = p_root (f q))
      then Inl (IntegrityError UniqueViolation)
      else Inr (count_where hit (projects d), d\<lparr>projects := update_where hit f (projects d)\<rparr>))"

text \<open>Jobs, planner items, teams and queued deliveries refer to their project.\<close>

definition project_referenced :: "db \<Rightarrow> string \<Rightarrow> bool" where
  "project_referenced d i \<longleftrightarrow>
     (\<exists>j\<in>set (jobs d). j_project_id j = i) \<or> (\<exists>q\<in>set (planner d). pl_project_id q = Some i) \<or>
     (\<exists>t\<in>set (teams d). t_project_id t = i) \<or>
     (\<exists>o'\<in>set (phone_outbox (phone d)). po_project_id o' = Some i)"

definition delete_project :: "db \<Rightarrow> string \<Rightarrow> exn + nat \<times> db" where
  "delete_project d i =
     (if (\<exists>q\<in>set (projects d). p_id q = i) \<and> project_referenced d i
      then Inl (IntegrityError ForeignKeyViolation)
      else Inr (count_where (\<lambda>q. p_id q = i) (projects d),
                d\<lparr>projects := filter (\<lambda>q. p_id q \<noteq> i) (projects d)\<rparr>))"

subsection \<open>Jobs\<close>

definition job_check :: "job_row \<Rightarrow> bool" where
  "job_check r \<longleftrightarrow>
     sql_plain (j_id r) \<and>
     0 < sql_length (sql_trim (j_request r)) \<and> NUL \<notin> set (j_request r) \<and>
     opt_check sql_plain (j_model r) \<and> opt_check sql_plain (j_worktree_path r)"

definition insert_job :: "db \<Rightarrow> job_row \<Rightarrow> exn + db" where
  "insert_job d r =
     (if \<not> job_check r then Inl (IntegrityError CheckViolation)
      else if \<exists>j\<in>set (jobs d). j_id j = j_id r then Inl (IntegrityError PrimaryKeyViolation)
      else if \<forall>q\<in>set (projects d). p_id q \<noteq> j_project_id r
      then Inl (IntegrityError ForeignKeyViolation)
      else Inr (d\<lparr>jobs := jobs d @ [r]\<rparr>))"

definition update_job_row :: "db \<Rightarrow> string \<Rightarrow> (job_row \<Rightarrow> job_row) \<Rightarrow> exn + nat \<times> db" where
  "update_job_row d i f =
     (let hit = (\<lambda>j. j_id j = i) in
      if \<exists>j\<in>set (jobs d). hit j \<and> \<not> job_check (f j)
      then Inl (IntegrityError CheckViolation)
      else Inr (count_where hit (jobs d), d\<lparr>jobs := update_where hit f (jobs d)\<rparr>))"

subsection \<open>Events\<close>

definition event_check :: "event_row \<Rightarrow> bool" where
  "event_check r \<longleftrightarrow>
     0 < e_id r \<and> 0 < e_sequence r \<and> sql_plain_bounded 128 (e_event_type r) \<and>
     json_bytes (e_payload r) \<le> 1048576 \<and> hex64 (e_payload_hash r)"

definition event_key_check :: "event_row \<Rightarrow> bool" where
  "event_key_check r \<longleftrightarrow> opt_check (sql_plain_bounded 128) (e_idempotency_key r)"

text \<open>\<open>events_job_idempotency_idx\<close>: unique \<open>(job_id, idempotency_key)\<close> where the key is set.\<close>

definition event_key_taken :: "db \<Rightarrow> event_row \<Rightarrow> bool" where
  "event_key_taken d r \<longleftrightarrow>
     e_idempotency_key r \<noteq> None \<and>
     (\<exists>q\<in>set (events d). e_job_id q = e_job_id r \<and> e_idempotency_key q = e_idempotency_key r)"

definition insert_event :: "db \<Rightarrow> event_row \<Rightarrow> exn + db" where
  "insert_event d r =
     (if \<not> event_check r \<or> \<not> event_key_check r then Inl (IntegrityError CheckViolation)
      else if \<exists>q\<in>set (events d). e_id q = e_id r then Inl (IntegrityError PrimaryKeyViolation)
      else if \<exists>q\<in>set (events d). e_job_id q = e_job_id r \<and> e_sequence q = e_sequence r
      then Inl (IntegrityError UniqueViolation)
      else if event_key_taken d r then Inl (IntegrityError UniqueViolation)
      else if \<forall>j\<in>set (jobs d). j_id j \<noteq> e_job_id r then Inl (IntegrityError ForeignKeyViolation)
      else Inr (d\<lparr>events := events d @ [r]\<rparr>))"

text \<open>\<open>events_prevent_update\<close> and \<open>events_prevent_delete\<close>: any matched row aborts the statement.\<close>

definition update_events :: "db \<Rightarrow> (event_row \<Rightarrow> bool) \<Rightarrow> (event_row \<Rightarrow> event_row) \<Rightarrow> exn + nat \<times> db" where
  "update_events d p f =
     (if \<exists>r\<in>set (events d). p r then Inl (IntegrityError TriggerAbort) else Inr (0, d))"

definition delete_events :: "db \<Rightarrow> (event_row \<Rightarrow> bool) \<Rightarrow> exn + nat \<times> db" where
  "delete_events d p =
     (if \<exists>r\<in>set (events d). p r then Inl (IntegrityError TriggerAbort) else Inr (0, d))"

subsection \<open>Approvals\<close>

definition approval_check :: "approval_row \<Rightarrow> bool" where
  "approval_check r \<longleftrightarrow>
     sql_plain_bounded 128 (a_id r) \<and> hex64 (a_payload_hash r) \<and>
     opt_check (sql_plain_bounded 128) (a_actor r) \<and>
     opt_check (sql_plain_bounded 64) (a_channel r) \<and>
     0 < a_expires_at r \<and>
     (a_decision r = None \<and> a_actor r = None \<and> a_channel r = None \<and> a_decided_at r = None \<or>
      a_decision r \<noteq> None \<and> a_actor r \<noteq> None \<and> a_channel r \<noteq> None \<and> a_decided_at r \<noteq> None)"

text \<open>Trigger \<open>approvals_require_pending_insert\<close>.\<close>

definition approval_insert_aborts :: "approval_row \<Rightarrow> bool" where
  "approval_insert_aborts r \<longleftrightarrow>
     a_decision r \<noteq> None \<or> a_actor r \<noteq> None \<or> a_channel r \<noteq> None \<or> a_decided_at r \<noteq> None"

text \<open>Trigger \<open>approvals_validate_decision\<close>.\<close>

definition approval_update_aborts :: "approval_row \<Rightarrow> approval_row \<Rightarrow> bool" where
  "approval_update_aborts old new \<longleftrightarrow>
     a_decision old \<noteq> None \<or> a_id new \<noteq> a_id old \<or> a_job_id new \<noteq> a_job_id old \<or>
     a_payload_hash new \<noteq> a_payload_hash old \<or> a_expires_at new \<noteq> a_expires_at old \<or>
     a_created_at new \<noteq> a_created_at old \<or> a_decision new = None \<or> a_actor new = None \<or>
     a_channel new = None \<or> a_decided_at new = None"

definition insert_approval :: "db \<Rightarrow> approval_row \<Rightarrow> exn + db" where
  "insert_approval d r =
     (if approval_insert_aborts r then Inl (IntegrityError TriggerAbort)
      else if \<not> approval_check r then Inl (IntegrityError CheckViolation)
      else if \<exists>q\<in>set (approvals d). a_id q = a_id r then Inl (IntegrityError PrimaryKeyViolation)
      else if \<forall>j\<in>set (jobs d). j_id j \<noteq> a_job_id r then Inl (IntegrityError ForeignKeyViolation)
      else Inr (d\<lparr>approvals := approvals d @ [r]\<rparr>))"

definition update_approvals ::
  "db \<Rightarrow> (approval_row \<Rightarrow> bool) \<Rightarrow> (approval_row \<Rightarrow> approval_row) \<Rightarrow> exn + nat \<times> db" where
  "update_approvals d p f =
     (if \<exists>r\<in>set (approvals d). p r \<and> approval_update_aborts r (f r)
      then Inl (IntegrityError TriggerAbort)
      else if \<exists>r\<in>set (approvals d). p r \<and> \<not> approval_check (f r)
      then Inl (IntegrityError CheckViolation)
      else Inr (count_where p (approvals d),
                d\<lparr>approvals := update_where p f (approvals d)\<rparr>))"

definition delete_approvals :: "db \<Rightarrow> (approval_row \<Rightarrow> bool) \<Rightarrow> exn + nat \<times> db" where
  "delete_approvals d p =
     (if \<exists>r\<in>set (approvals d). p r then Inl (IntegrityError TriggerAbort) else Inr (0, d))"

subsection \<open>Planner\<close>

definition planner_check :: "planner_row \<Rightarrow> bool" where
  "planner_check r \<longleftrightarrow>
     sql_plain_bounded 128 (pl_id r) \<and>
     0 < sql_length (sql_trim (pl_title r)) \<and> sql_plain_bounded 4096 (pl_title r) \<and>
     opt_check (\<lambda>t. 0 < sql_length (sql_trim t) \<and> utf8_len t \<le> 262144 \<and> NUL \<notin> set t) (pl_details r) \<and>
     opt_check (\<lambda>t. 0 < t) (pl_due_at r) \<and>
     opt_check (sql_plain_bounded 128) (pl_source r) \<and>
     opt_check (sql_plain_bounded 512) (pl_source_key r) \<and>
     (pl_kind r = Deadline \<longrightarrow> pl_due_at r \<noteq> None) \<and>
     (pl_kind r = Watcher \<longrightarrow> pl_source r \<noteq> None) \<and>
     (pl_source_key r = None \<or> pl_source r \<noteq> None) \<and>
     (pl_promoted_job_id r = None \<longleftrightarrow> pl_promoted_at r = None)"

text \<open>Trigger \<open>planner_require_pending_insert\<close>.\<close>

definition planner_insert_aborts :: "planner_row \<Rightarrow> bool" where
  "planner_insert_aborts r \<longleftrightarrow> pl_promoted_job_id r \<noteq> None \<or> pl_promoted_at r \<noteq> None"

text \<open>Trigger \<open>planner_validate_promotion\<close>.\<close>

definition planner_update_aborts :: "planner_row \<Rightarrow> planner_row \<Rightarrow> bool" where
  "planner_update_aborts old new \<longleftrightarrow>
     pl_promoted_job_id old \<noteq> None \<or> pl_id new \<noteq> pl_id old \<or> pl_kind new \<noteq> pl_kind old \<or>
     pl_project_id new \<noteq> pl_project_id old \<or> pl_title new \<noteq> pl_title old \<or>
     pl_details new \<noteq> pl_details old \<or> pl_due_at new \<noteq> pl_due_at old \<or>
     pl_source new \<noteq> pl_source old \<or> pl_source_key new \<noteq> pl_source_key old \<or>
     pl_created_at new \<noteq> pl_created_at old \<or> pl_promoted_job_id new = None \<or>
     pl_promoted_at new = None"

definition insert_planner :: "db \<Rightarrow> planner_row \<Rightarrow> exn + db" where
  "insert_planner d r =
     (if planner_insert_aborts r then Inl (IntegrityError TriggerAbort)
      else if \<not> planner_check r then Inl (IntegrityError CheckViolation)
      else if \<exists>q\<in>set (planner d). pl_id q = pl_id r then Inl (IntegrityError PrimaryKeyViolation)
      else if (case pl_project_id r of None \<Rightarrow> False | Some p \<Rightarrow> \<forall>q\<in>set (projects d). p_id q \<noteq> p)
      then Inl (IntegrityError ForeignKeyViolation)
      else Inr (d\<lparr>planner := planner d @ [r]\<rparr>))"

text \<open>\<open>planner_promoted_job_idx\<close> makes a promoted job unique; the job itself must exist.\<close>

definition update_planner ::
  "db \<Rightarrow> (planner_row \<Rightarrow> bool) \<Rightarrow> (planner_row \<Rightarrow> planner_row) \<Rightarrow> exn + nat \<times> db" where
  "update_planner d p f =
     (if \<exists>r\<in>set (planner d). p r \<and> planner_update_aborts r (f r)
      then Inl (IntegrityError TriggerAbort)
      else if \<exists>r\<in>set (planner d). p r \<and> \<not> planner_check (f r)
      then Inl (IntegrityError CheckViolation)
      else if \<exists>r\<in>set (planner d). p r \<and> (\<exists>q\<in>set (planner d). pl_id q \<noteq> pl_id r \<and>
                pl_promoted_job_id q \<noteq> None \<and> pl_promoted_job_id q = pl_promoted_job_id (f r))
      then Inl (IntegrityError UniqueViolation)
      else if \<exists>r\<in>set (planner d). p r \<and> (case pl_promoted_job_id (f r) of None \<Rightarrow> False
                | Some j \<Rightarrow> \<forall>q\<in>set (jobs d). j_id q \<noteq> j)
      then Inl (IntegrityError ForeignKeyViolation)
      else Inr (count_where p (planner d), d\<lparr>planner := update_where p f (planner d)\<rparr>))"

subsection \<open>Memory references\<close>

definition memory_check :: "memory_row \<Rightarrow> bool" where
  "memory_check r \<longleftrightarrow>
     0 < m_id r \<and> sql_plain_bounded 512 (m_projmem_record_id r) \<and> opt_check (\<lambda>e. 0 < e) (m_event_id r)"

text \<open>Two partial unique indexes: one reference per job, and one per event of the job.\<close>

definition insert_memory :: "db \<Rightarrow> memory_row \<Rightarrow> exn + db" where
  "insert_memory d r =
     (if \<not> memory_check r then Inl (IntegrityError CheckViolation)
      else if \<exists>q\<in>set (memory_refs d). m_id q = m_id r then Inl (IntegrityError PrimaryKeyViolation)
      else if \<exists>q\<in>set (memory_refs d). m_projmem_record_id q = m_projmem_record_id r \<and>
                m_job_id q = m_job_id r \<and> m_event_id q = m_event_id r
      then Inl (IntegrityError UniqueViolation)
      else if (\<forall>j\<in>set (jobs d). j_id j \<noteq> m_job_id r) \<or>
              (case m_event_id r of None \<Rightarrow> False
               | Some e \<Rightarrow> \<forall>q\<in>set (events d). \<not> (e_id q = e \<and> e_job_id q = m_job_id r))
      then Inl (IntegrityError ForeignKeyViolation)
      else Inr (d\<lparr>memory_refs := memory_refs d @ [r]\<rparr>))"

subsection \<open>Verification evidence\<close>

text \<open>The arguments column is the text of a JSON array that is not empty.\<close>

definition verification_check :: "verification_row \<Rightarrow> bool" where
  "verification_check r \<longleftrightarrow>
     0 < v_id r \<and>
     (case loads (v_command_args r) of Some (JList args) \<Rightarrow> args \<noteq> [] | _ \<Rightarrow> False) \<and>
     utf8_len (v_command_args r) \<le> 65536 \<and>
     0 \<le> v_duration_ms r \<and> hex64 (v_output_digest r) \<and> 0 \<le> v_stdout_bytes r \<and>
     0 \<le> v_stderr_bytes r \<and>
     (v_outcome r = Passed \<and> v_exit_code r = Some 0 \<or>
      v_outcome r = FailedRun \<and> v_exit_code r \<noteq> None \<and> v_exit_code r \<noteq> Some 0 \<or>
      v_outcome r = TimedOut \<and> v_exit_code r = None)"

definition insert_verification :: "db \<Rightarrow> verification_row \<Rightarrow> exn + db" where
  "insert_verification d r =
     (if \<not> verification_check r then Inl (IntegrityError CheckViolation)
      else if \<exists>q\<in>set (verification_runs d). v_id q = v_id r
      then Inl (IntegrityError PrimaryKeyViolation)
      else if \<forall>j\<in>set (jobs d). j_id j \<noteq> v_job_id r then Inl (IntegrityError ForeignKeyViolation)
      else Inr (d\<lparr>verification_runs := verification_runs d @ [r]\<rparr>))"

subsection \<open>Review bundles\<close>

definition bundle_check :: "bundle_row \<Rightarrow> bool" where
  "bundle_check r \<longleftrightarrow> json_bytes (b_payload r) \<le> 2097152 \<and> hex64 (b_payload_hash r)"

definition insert_bundle :: "db \<Rightarrow> bundle_row \<Rightarrow> exn + db" where
  "insert_bundle d r =
     (if \<not> bundle_check r then Inl (IntegrityError CheckViolation)
      else if \<exists>q\<in>set (review_bundles d). b_job_id q = b_job_id r \<and> b_scan_event_id q = b_scan_event_id r
      then Inl (IntegrityError PrimaryKeyViolation)
      else if \<exists>q\<in>set (review_bundles d). b_scan_event_id q = b_scan_event_id r
      then Inl (IntegrityError UniqueViolation)
      else if (\<forall>j\<in>set (jobs d). j_id j \<noteq> b_job_id r) \<or>
              (\<forall>q\<in>set (events d). e_id q \<noteq> b_scan_event_id r)
      then Inl (IntegrityError ForeignKeyViolation)
      else Inr (d\<lparr>review_bundles := review_bundles d @ [r]\<rparr>))"

subsection \<open>Native attempts\<close>

definition attempt_check :: "attempt_row \<Rightarrow> bool" where
  "attempt_check r \<longleftrightarrow>
     n_phase r = Settled \<and> \<not> n_held r \<and> n_outcome r \<noteq> None \<or>
     n_phase r \<noteq> Settled \<and> n_held r \<and> n_outcome r = None"

text \<open>Trigger \<open>native_attempt_identity\<close>.\<close>

definition attempt_update_aborts :: "attempt_row \<Rightarrow> attempt_row \<Rightarrow> bool" where
  "attempt_update_aborts old new \<longleftrightarrow>
     n_id new \<noteq> n_id old \<or> n_job_id new \<noteq> n_job_id old \<or> n_owner new \<noteq> n_owner old \<or>
     n_account_slot new \<noteq> n_account_slot old \<or> n_worktree_path new \<noteq> n_worktree_path old \<or>
     n_worktree_identity new \<noteq> n_worktree_identity old \<or>
     n_authorization new \<noteq> n_authorization old \<or> n_created_at new \<noteq> n_created_at old \<or>
     n_session_id old \<noteq> None \<and> n_session_id new \<noteq> n_session_id old \<or>
     n_cancel_requested old \<and> \<not> n_cancel_requested new \<or> n_phase old = Settled"

text \<open>\<open>one_native_writer\<close> is the partial unique index on held attempts.\<close>

definition insert_attempt :: "db \<Rightarrow> attempt_row \<Rightarrow> exn + db" where
  "insert_attempt d r =
     (if n_worktree_path r = None then Inl (IntegrityError NotNullViolation)
      else if \<not> attempt_check r then Inl (IntegrityError CheckViolation)
      else if \<exists>q\<in>set (native_attempts d). n_id q = n_id r
      then Inl (IntegrityError PrimaryKeyViolation)
      else if \<exists>q\<in>set (native_attempts d). n_job_id q = n_job_id r
      then Inl (IntegrityError UniqueViolation)
      else if n_held r \<and> (\<exists>q\<in>set (native_attempts d). n_held q)
      then Inl (IntegrityError UniqueViolation)
      else if \<forall>j\<in>set (jobs d). j_id j \<noteq> n_job_id r then Inl (IntegrityError ForeignKeyViolation)
      else Inr (d\<lparr>native_attempts := native_attempts d @ [r]\<rparr>))"

definition update_attempts ::
  "db \<Rightarrow> (attempt_row \<Rightarrow> bool) \<Rightarrow> (attempt_row \<Rightarrow> attempt_row) \<Rightarrow> exn + nat \<times> db" where
  "update_attempts d p f =
     (if \<exists>r\<in>set (native_attempts d). p r \<and> attempt_update_aborts r (f r)
      then Inl (IntegrityError TriggerAbort)
      else if \<exists>r\<in>set (native_attempts d). p r \<and> \<not> attempt_check (f r)
      then Inl (IntegrityError CheckViolation)
      else if 1 < count_where n_held (update_where p f (native_attempts d))
      then Inl (IntegrityError UniqueViolation)
      else Inr (count_where p (native_attempts d),
                d\<lparr>native_attempts := update_where p f (native_attempts d)\<rparr>))"

subsection \<open>Teams\<close>

definition team_check :: "team_row \<Rightarrow> bool" where
  "team_check r \<longleftrightarrow>
     0 < t_revision r \<and> json_bytes (t_payload r) \<le> 1048576 \<and> sql_length (t_payload_hash r) = 64"

definition insert_team :: "db \<Rightarrow> team_row \<Rightarrow> exn + db" where
  "insert_team d r =
     (if \<not> team_check r then Inl (IntegrityError CheckViolation)
      else if \<exists>q\<in>set (teams d). t_project_id q = t_project_id r
      then Inl (IntegrityError PrimaryKeyViolation)
      else if \<forall>q\<in>set (projects d). p_id q \<noteq> t_project_id r
      then Inl (IntegrityError ForeignKeyViolation)
      else Inr (d\<lparr>teams := teams d @ [r]\<rparr>))"

end
