(* ===== verification/Store.thy ===== *)
theory Store
  imports Schema
begin

text \<open>
  The transaction layer of db.py: \<open>_Repository._connection\<close> turns a SQLite error into the
  repository's own error class, \<open>_write_connection\<close> runs its body inside
  \<open>BEGIN IMMEDIATE\<close> / \<open>COMMIT\<close> and rolls back on any exception. A body is a function from the
  database to an exception or a result with the new database; the exception carries no
  database, which is the rollback.

  The two locales are the contracts the components share: an atomic operation leaves the store
  alone when it raises, and an idempotent one answers a repeated delivery with the recorded
  result. The model assumes that the database file exists and that SQLite gets its lock within
  the busy timeout, so the only SQLite errors are constraint failures.
\<close>

definition connection :: "exn \<Rightarrow> exn + 'a \<Rightarrow> exn + 'a" where
  "connection error_type r = rethrow is_integrity_error error_type r"

definition write_connection :: "exn \<Rightarrow> (db \<Rightarrow> exn + 'a \<times> db) \<Rightarrow> db \<Rightarrow> (exn + 'a) \<times> db" where
  "write_connection error_type body d =
     (case connection error_type (body d) of
        Inl e \<Rightarrow> (Inl e, d)
      | Inr (x, d') \<Rightarrow> (Inr x, d'))"

text \<open>Arguments are validated before the connection is opened.\<close>

definition validated :: "exn + 'v \<Rightarrow> ('v \<Rightarrow> db \<Rightarrow> (exn + 'a) \<times> db) \<Rightarrow> db \<Rightarrow> (exn + 'a) \<times> db" where
  "validated v k d = (case v of Inl e \<Rightarrow> (Inl e, d) | Inr x \<Rightarrow> k x d)"

lemma connection_eq_Inr [simp]: "connection e r = Inr x \<longleftrightarrow> r = Inr x"
  by (simp add: connection_def)

lemma write_connection_Inr:
  "write_connection e body d = (Inr x, d') \<longleftrightarrow> body d = Inr (x, d')"
  by (cases "body d") (auto simp: write_connection_def connection_def split: sum.splits)

lemma write_connection_Inl: "write_connection e body d = (Inl x, d') \<Longrightarrow> d' = d"
  by (cases "body d") (auto simp: write_connection_def connection_def split: sum.splits)

lemma write_connection_error:
  "body d = Inl x \<Longrightarrow> \<not> is_integrity_error x \<Longrightarrow> write_connection e body d = (Inl x, d)"
  by (simp add: write_connection_def connection_def)

lemma write_connection_integrity:
  "body d = Inl (IntegrityError k) \<Longrightarrow> write_connection e body d = (Inl e, d)"
  by (simp add: write_connection_def connection_def is_integrity_error_def)

lemma write_connection_ok: "body d = Inr (x, d') \<Longrightarrow> write_connection e body d = (Inr x, d')"
  by (simp add: write_connection_def connection_def)

lemma validated_Inr:
  "validated v k d = (Inr x, d') \<longleftrightarrow> (\<exists>y. v = Inr y \<and> k y d = (Inr x, d'))"
  by (cases v) (auto simp: validated_def)

lemma validated_Inl_store:
  "(\<And>y e' d'. k y d = (Inl e', d') \<Longrightarrow> d' = d) \<Longrightarrow> validated v k d = (Inl e, d'') \<Longrightarrow> d'' = d"
  by (cases v) (auto simp: validated_def)

lemma validated_simps [simp, store_simps]:
  "validated (Inr y) k d = k y d"
  "validated (Inl e) k d = (Inl e, d)"
  by (simp_all add: validated_def)

lemmas tx_Inr = write_connection_Inr validated_Inr

text \<open>Every operation built from the two is atomic.\<close>

lemma tx_rollback:
  "validated v (\<lambda>y. write_connection e (body y)) d = (Inl x, d') \<Longrightarrow> d' = d"
  by (cases v) (auto simp: validated_def dest: write_connection_Inl)

subsection \<open>Contracts\<close>

fun deliver :: "('t \<Rightarrow> 's \<Rightarrow> 'r \<times> 's) \<Rightarrow> 't list \<Rightarrow> 's \<Rightarrow> 'r list \<times> 's" where
  "deliver run [] s = ([], s)"
| "deliver run (t # ts) s =
     (let (r, s') = run t s; (rs, s'') = deliver run ts s' in (r # rs, s''))"

text \<open>
  \<open>run t\<close> is the operation at time \<open>t\<close>; \<open>inv\<close> is what its store keeps.
\<close>

locale atomic_operation =
  fixes run :: "'t \<Rightarrow> 's \<Rightarrow> (exn + 'a) \<times> 's"
    and inv :: "'s \<Rightarrow> bool"
  assumes rollback: "run t s = (Inl e, s') \<Longrightarrow> s' = s"
    and keeps: "inv s \<Longrightarrow> run t s = (Inr x, s') \<Longrightarrow> inv s'"
begin

lemma inv_run: "inv s \<Longrightarrow> inv (snd (run t s))"
proof -
  assume i: "inv s"
  obtain r s' where eq: "run t s = (r, s')" by fastforce
  show ?thesis
  proof (cases r)
    case (Inl e)
    then show ?thesis using rollback [of t s e s'] eq i by simp
  next
    case (Inr x)
    then show ?thesis using keeps [OF i, of t x s'] eq by simp
  qed
qed

lemma inv_deliver: "inv s \<Longrightarrow> inv (snd (deliver run ts s))"
proof (induction ts arbitrary: s)
  case (Cons t ts)
  have "inv (snd (deliver run ts (snd (run t s))))"
    using Cons.prems by (intro Cons.IH inv_run)
  then show ?case by (simp add: Let_def split_beta)
qed simp

end

locale idempotent_operation = atomic_operation run inv
  for run :: "'t \<Rightarrow> 's \<Rightarrow> (exn + 'a) \<times> 's" and inv :: "'s \<Rightarrow> bool" +
  assumes retry: "inv s \<Longrightarrow> run t s = (Inr x, s') \<Longrightarrow> run t' s' = (Inr x, s')"
begin

text \<open>At-least-once delivery has the effect and the answers of a single delivery.\<close>

lemma deliver_again:
  assumes "inv s" and "run t s = (Inr x, s')"
  shows "deliver run ts s' = (replicate (length ts) (Inr x), s')"
proof (induction ts)
  case (Cons u us)
  then show ?case using retry [OF assms, of u] by simp
qed simp

lemma deliver_once:
  assumes "inv s" and "run t s = (Inr x, s')"
  shows "deliver run (t # ts) s = (replicate (Suc (length ts)) (Inr x), s')"
  using deliver_again [OF assms] assms(2) by simp

end

end
