(* ===== verification/Samples.thy ===== *)
theory Samples
  imports Store
begin

text \<open>
  A small concrete store the witnesses evaluate on: one project, one Codex job with a worktree,
  the readiness event of its first review round and the bundle of that round.
\<close>

definition sample_sha :: "string \<Rightarrow> string" where
  "sample_sha s = replicate 64 CHR ''0''"

definition sample_project :: project_row where
  "sample_project = \<lparr>p_id = ''demo'', p_root = ''/srv/demo'', p_sensitivity = SInternal,
     p_cloud_allowed = False, p_permission_mode = SandboxedWrite, p_created_at = 10,
     p_updated_at = 10\<rparr>"

definition sample_job :: "job_state \<Rightarrow> job_row" where
  "sample_job st = \<lparr>j_id = ''job-1'', j_project_id = ''demo'', j_request = ''tidy up'',
     j_request_snapshot = [], j_state = st, j_runtime = Codex, j_model = None,
     j_worktree_path = Some ''/srv/wt/job-1'', j_created_at = 20, j_updated_at = 20\<rparr>"

definition sample_ready :: event_row where
  "sample_ready = \<lparr>e_id = 1, e_job_id = ''job-1'', e_sequence = 1,
     e_event_type = ''job.review_ready'',
     e_payload = [(''scan_digest'', JStr ''d1''), (''status'', JStr ''passed'')],
     e_payload_hash = replicate 64 CHR ''0'', e_idempotency_key = None, e_created_at = 30\<rparr>"

definition sample_evidence :: payload where
  "sample_evidence = [(''diff_digest'', JStr ''d1''), (''job_id'', JStr ''job-1''),
     (''scan_event_id'', JInt 1)]"

definition sample_bundle :: bundle_row where
  "sample_bundle = \<lparr>b_job_id = ''job-1'', b_scan_event_id = 1, b_payload = sample_evidence,
     b_payload_hash = replicate 64 CHR ''0'', b_created_at = 40\<rparr>"

definition sample_db :: "job_state \<Rightarrow> db" where
  "sample_db st = empty_db\<lparr>projects := [sample_project], jobs := [sample_job st],
     events := [sample_ready], review_bundles := [sample_bundle]\<rparr>"

lemmas sample_defs = sample_sha_def sample_project_def sample_job_def sample_ready_def
  sample_evidence_def sample_bundle_def

lemma sample_db_simps [simp]:
  "projects (sample_db st) = [sample_project]"
  "jobs (sample_db st) = [sample_job st]"
  "events (sample_db st) = [sample_ready]"
  "approvals (sample_db st) = []"
  "planner (sample_db st) = []"
  "memory_refs (sample_db st) = []"
  "verification_runs (sample_db st) = []"
  "review_bundles (sample_db st) = [sample_bundle]"
  "usage (sample_db st) = []"
  "native_attempts (sample_db st) = []"
  "teams (sample_db st) = []"
  by (simp_all add: sample_db_def empty_db_def)

end
