(* ===== verification/Projects.thy ===== *)
theory Projects
  imports Samples
begin

text \<open>
  \<open>ProjectConfig\<close> (engine.py) and \<open>ProjectRepository\<close> (db.py): validation of a project, the
  repository's operations on the projects table, and the policy they keep: no stored project of
  internal or restricted sensitivity allows the cloud.
\<close>

record project_config =
  pc_id :: string
  pc_root :: string
  pc_sensitivity :: sensitivity
  pc_cloud_allowed :: bool
  pc_permission_mode :: permission_mode

definition to_config :: "project_row \<Rightarrow> project_config" where
  "to_config r = \<lparr>pc_id = p_id r, pc_root = p_root r, pc_sensitivity = p_sensitivity r,
     pc_cloud_allowed = p_cloud_allowed r, pc_permission_mode = p_permission_mode r\<rparr>"

definition validate_project :: "project_config \<Rightarrow> exn + unit" where
  "validate_project c =
     bindE (ensure (plain_text (pc_id c)) ProjectValidationError) (\<lambda>_.
     bindE (ensure (plain_text (pc_root c)) ProjectValidationError) (\<lambda>_.
     ensure (\<not> (pc_sensitivity c \<in> {SInternal, SRestricted} \<and> pc_cloud_allowed c))
       ProjectValidationError))"

definition validate_project_id :: "string \<Rightarrow> exn + string" where
  "validate_project_id i = (if plain_text i then Inr i else Inl ProjectValidationError)"

definition select_project :: "db \<Rightarrow> string \<Rightarrow> project_row option" where
  "select_project d i = List.find (\<lambda>r. p_id r = i) (projects d)"

definition project_to_record :: "project_row \<Rightarrow> exn + project_row" where
  "project_to_record r =
     rethrow (\<lambda>e. e = ProjectValidationError) ProjectRepositoryError
       (bindE (validate_project (to_config r)) (\<lambda>_. Inr r))"

definition project_integrity :: "constraint_kind \<Rightarrow> exn" where
  "project_integrity k =
     (if is_unique_violation k then ProjectAlreadyExistsError else ProjectRepositoryError)"

definition new_project_row :: "micros \<Rightarrow> project_config \<Rightarrow> project_row" where
  "new_project_row now c = \<lparr>p_id = pc_id c, p_root = pc_root c, p_sensitivity = pc_sensitivity c,
     p_cloud_allowed = pc_cloud_allowed c, p_permission_mode = pc_permission_mode c,
     p_created_at = now, p_updated_at = now\<rparr>"

definition project_create :: "project_config \<Rightarrow> micros \<Rightarrow> db \<Rightarrow> (exn + project_row) \<times> db" where
  "project_create c now =
     validated (validate_project c) (\<lambda>_. write_connection ProjectRepositoryError (\<lambda>d.
       on_integrity project_integrity
         (bindE (insert_project d (new_project_row now c)) (\<lambda>d'.
          case select_project d' (pc_id c) of
            None \<Rightarrow> Inl ProjectRepositoryError
          | Some row \<Rightarrow> bindE (project_to_record row) (\<lambda>stored. Inr (stored, d'))))))"

definition project_get :: "string \<Rightarrow> db \<Rightarrow> exn + project_row" where
  "project_get i d =
     bindE (validate_project_id i) (\<lambda>i'.
       case select_project d i' of
         None \<Rightarrow> Inl ProjectNotFoundError
       | Some row \<Rightarrow> project_to_record row)"

text \<open>Create a configured project once and reject conflicting restarts.\<close>

definition project_register :: "project_config \<Rightarrow> micros \<Rightarrow> db \<Rightarrow> (exn + project_row) \<times> db" where
  "project_register c now d =
     (case project_create c now d of
        (Inr r, d') \<Rightarrow> (Inr r, d')
      | (Inl e, d') \<Rightarrow>
          if \<not> isa e ProjectAlreadyExistsError then (Inl e, d')
          else (case project_get (pc_id c) d' of
              Inl e' \<Rightarrow> (Inl (if isa e' ProjectNotFoundError then ProjectAlreadyExistsError else e'), d')
            | Inr stored \<Rightarrow>
                if to_config stored \<noteq> c then (Inl ProjectAlreadyExistsError, d')
                else (Inr stored, d')))"

definition project_list :: "db \<Rightarrow> exn + project_row list" where
  "project_list d = mapE project_to_record (sort_key p_id (projects d))"

definition project_update :: "project_config \<Rightarrow> micros \<Rightarrow> db \<Rightarrow> (exn + project_row) \<times> db" where
  "project_update c now =
     validated (validate_project c) (\<lambda>_. write_connection ProjectRepositoryError (\<lambda>d.
       on_integrity project_integrity
         (bindE (update_project d (pc_id c) (\<lambda>r. r\<lparr>p_root := pc_root c,
              p_sensitivity := pc_sensitivity c, p_cloud_allowed := pc_cloud_allowed c,
              p_permission_mode := pc_permission_mode c, p_updated_at := now\<rparr>)) (\<lambda>(rowcount, d').
          if rowcount \<noteq> 1 then Inl ProjectNotFoundError
          else case select_project d' (pc_id c) of
            None \<Rightarrow> Inl ProjectRepositoryError
          | Some row \<Rightarrow> bindE (project_to_record row) (\<lambda>stored. Inr (stored, d'))))))"

definition project_delete :: "string \<Rightarrow> db \<Rightarrow> (exn + unit) \<times> db" where
  "project_delete i =
     validated (validate_project_id i) (\<lambda>i'. write_connection ProjectRepositoryError (\<lambda>d.
       bindE (delete_project d i') (\<lambda>(rowcount, d').
         if rowcount \<noteq> 1 then Inl ProjectNotFoundError else Inr ((), d'))))"

subsection \<open>Invariant\<close>

definition project_ok :: "project_row \<Rightarrow> bool" where
  "project_ok r \<longleftrightarrow> validate_project (to_config r) = Inr ()"

definition projects_wf :: "db \<Rightarrow> bool" where
  "projects_wf d \<longleftrightarrow>
     (\<forall>r\<in>set (projects d). project_ok r) \<and>
     distinct (map p_id (projects d)) \<and> distinct (map p_root (projects d))"

lemma validate_project_iff:
  "validate_project c = Inr u \<longleftrightarrow>
     plain_text (pc_id c) \<and> plain_text (pc_root c) \<and>
     \<not> (pc_sensitivity c \<in> {SInternal, SRestricted} \<and> pc_cloud_allowed c)"
  by (auto simp: validate_project_def)

lemma validate_project_Inl: "validate_project c = Inl e \<Longrightarrow> e = ProjectValidationError"
  by (auto simp: validate_project_def bindE_eq_Inl)

lemma validate_project_id_iff: "validate_project_id i = Inr x \<longleftrightarrow> plain_text i \<and> x = i"
  by (auto simp: validate_project_id_def)

lemma validate_project_id_ok [simp]: "plain_text i \<Longrightarrow> validate_project_id i = Inr i"
  by (simp add: validate_project_id_def)

lemma project_to_record_iff: "project_to_record r = Inr x \<longleftrightarrow> project_ok r \<and> x = r"
  by (auto simp: project_to_record_def project_ok_def bindE_eq_Inr)

lemma project_to_record_ok [simp]: "project_ok r \<Longrightarrow> project_to_record r = Inr r"
  by (simp add: project_to_record_iff)

lemma to_config_new_project_row [simp]: "to_config (new_project_row now c) = c"
  by (simp add: to_config_def new_project_row_def)

lemma new_project_row_simps [simp]:
  "p_id (new_project_row now c) = pc_id c"
  "p_root (new_project_row now c) = pc_root c"
  by (simp_all add: new_project_row_def)

lemma project_ok_check: "project_ok r \<Longrightarrow> project_check r"
  using plain_text_sql_plain [of "p_id r"] plain_text_sql_plain [of "p_root r"]
  by (auto simp: project_ok_def validate_project_iff project_check_def to_config_def sql_plain_def)

lemma select_project_Some: "select_project d i = Some r \<Longrightarrow> r \<in> set (projects d) \<and> p_id r = i"
  by (auto simp: select_project_def dest: Prelude.find_Some_iff)

lemma select_project_None: "select_project d i = None \<longleftrightarrow> (\<forall>r\<in>set (projects d). p_id r \<noteq> i)"
  by (simp add: select_project_def find_None_iff2)

lemma insert_project_Inr:
  "insert_project d r = Inr d' \<longleftrightarrow>
     project_check r \<and> (\<forall>q\<in>set (projects d). p_id q \<noteq> p_id r \<and> p_root q \<noteq> p_root r) \<and>
     d' = d\<lparr>projects := projects d @ [r]\<rparr>"
  by (auto simp: insert_project_def)

text \<open>
  A validated project never fails a \<open>CHECK\<close>, so the only constraint failures \<open>create\<close> meets are
  the uniqueness ones it reports as \<open>ProjectAlreadyExistsError\<close>.
\<close>

lemma project_create_cases:
  "project_create c now d =
     (if validate_project c \<noteq> Inr () then (Inl ProjectValidationError, d)
      else if \<exists>q\<in>set (projects d). p_id q = pc_id c \<or> p_root q = pc_root c
      then (Inl ProjectAlreadyExistsError, d)
      else (Inr (new_project_row now c),
            d\<lparr>projects := projects d @ [new_project_row now c]\<rparr>))"
proof (cases "validate_project c")
  case (Inl e)
  then show ?thesis
    using validate_project_Inl [OF Inl] by (simp add: project_create_def)
next
  case (Inr u)
  let ?r = "new_project_row now c"
  have ok: "project_ok ?r" using Inr by (simp add: project_ok_def)
  show ?thesis
  proof (cases "\<exists>q\<in>set (projects d). p_id q = pc_id c \<or> p_root q = pc_root c")
    case True
    then have "insert_project d ?r = Inl (IntegrityError PrimaryKeyViolation) \<or>
        insert_project d ?r = Inl (IntegrityError UniqueViolation)"
      using project_ok_check [OF ok] by (auto simp: insert_project_def)
    then have "on_integrity project_integrity
        (bindE (insert_project d ?r) k) = Inl ProjectAlreadyExistsError" for k :: "db \<Rightarrow> exn + project_row \<times> db"
      by (auto simp: on_integrity_def project_integrity_def is_unique_violation_def)
    then show ?thesis using Inr True
      by (simp add: project_create_def write_connection_error is_integrity_error_def)
  next
    case False
    let ?d = "d\<lparr>projects := projects d @ [?r]\<rparr>"
    have "insert_project d ?r = Inr ?d"
      using False project_ok_check [OF ok] by (auto simp: insert_project_Inr)
    moreover have "select_project ?d (pc_id c) = Some ?r"
      using False by (auto simp: select_project_def find_append find_None_iff2
          split: option.splits dest: Prelude.find_Some_iff)
    ultimately show ?thesis using Inr False ok
      by (simp add: project_create_def write_connection_ok)
  qed
qed

lemma project_create_wf:
  "projects_wf d \<Longrightarrow> project_create c now d = (r, d') \<Longrightarrow> projects_wf d'"
  by (fastforce simp: project_create_cases projects_wf_def project_ok_def split: if_splits)

lemma project_get_Inr:
  "project_get i d = Inr r \<Longrightarrow> r \<in> set (projects d) \<and> p_id r = i \<and> project_ok r"
  by (auto simp: project_get_def bindE_eq_Inr validate_project_id_iff project_to_record_iff
      split: option.splits dest: select_project_Some)

lemma project_register_state:
  "project_register c now d = (r, d') \<Longrightarrow> d' = snd (project_create c now d)"
  by (cases "project_create c now d")
    (auto simp: project_register_def split: sum.splits if_splits)

lemma project_register_rollback: "project_register c now d = (Inl e, d') \<Longrightarrow> d' = d"
  by (auto simp: project_register_def project_create_cases split: prod.splits sum.splits if_splits)

lemma project_register_wf:
  "projects_wf d \<Longrightarrow> project_register c now d = (r, d') \<Longrightarrow> projects_wf d'"
  by (cases "project_create c now d") (auto dest!: project_register_state intro: project_create_wf)

text \<open>A registered project is stored with exactly the configured identity and policy.\<close>

lemma project_register_stored:
  "project_register c now d = (Inr r, d') \<Longrightarrow> r \<in> set (projects d') \<and> to_config r = c \<and> project_ok r"
  by (auto simp: project_register_def project_create_cases project_ok_def
      split: prod.splits sum.splits if_splits dest: project_get_Inr)

lemma select_project_wf:
  "projects_wf d \<Longrightarrow> r \<in> set (projects d) \<Longrightarrow> select_project d (p_id r) = Some r"
  by (auto simp: select_project_def projects_wf_def intro: find_unique)

lemma project_register_retry:
  assumes wf: "projects_wf d" and reg: "project_register c now d = (Inr r, d')"
  shows "project_register c now' d' = (Inr r, d')"
proof -
  have r: "r \<in> set (projects d')" "to_config r = c" "project_ok r"
    using project_register_stored [OF reg] by auto
  have wf': "projects_wf d'" using project_register_wf [OF wf reg] .
  have id: "p_id r = pc_id c" using r(2) by (auto simp: to_config_def)
  have v: "validate_project c = Inr ()" using r by (simp add: project_ok_def)
  have "project_create c now' d' = (Inl ProjectAlreadyExistsError, d')"
    using v r id by (auto simp: project_create_cases)
  moreover have "project_get (pc_id c) d' = Inr r"
    using select_project_wf [OF wf' r(1)] v r(3) id
    by (simp add: project_get_def validate_project_iff)
  ultimately show ?thesis using r(2) by (simp add: project_register_def)
qed

interpretation project_registration: idempotent_operation "project_register c" projects_wf for c
proof
  fix t s e s' assume "project_register c t s = (Inl e, s')"
  then show "s' = s" by (rule project_register_rollback)
next
  fix s t x s' assume "projects_wf s" "project_register c t s = (Inr x, s')"
  then show "projects_wf s'" by (rule project_register_wf)
next
  fix s t x s' t' assume "projects_wf s" "project_register c t s = (Inr x, s')"
  then show "project_register c t' s' = (Inr x, s')" by (rule project_register_retry)
qed

lemma project_update_wf:
  assumes wf: "projects_wf d" and up: "project_update c now d = (r, d')"
  shows "projects_wf d'"
proof (cases r)
  case (Inl e)
  have "d' = d" using up unfolding Inl project_update_def by (rule tx_rollback)
  then show ?thesis using wf by simp
next
  case (Inr x)
  let ?f = "\<lambda>r. r\<lparr>p_root := pc_root c, p_sensitivity := pc_sensitivity c,
      p_cloud_allowed := pc_cloud_allowed c, p_permission_mode := pc_permission_mode c,
      p_updated_at := now\<rparr>"
  let ?hit = "\<lambda>q. p_id q = pc_id c"
  from up Inr have v: "validate_project c = Inr ()"
    and upd: "update_project d (pc_id c) ?f = Inr (1, d')"
    by (auto simp: project_update_def tx_Inr bindE_eq_Inr split: if_splits option.splits prod.splits)
  have d': "projects d' = update_where ?hit ?f (projects d)"
    and roots: "\<And>q q'. q \<in> set (projects d) \<Longrightarrow> ?hit q \<Longrightarrow> q' \<in> set (projects d) \<Longrightarrow>
        \<not> ?hit q' \<Longrightarrow> p_root q' \<noteq> pc_root c"
    using upd by (auto simp: update_project_def Let_def split: if_splits)
  have ids: "map p_id (projects d') = map p_id (projects d)"
    unfolding d' by (rule map_update_where_frame) simp
  have cfg: "p_id q = pc_id c \<Longrightarrow> to_config (?f q) = c" for q
    by (cases c) (simp add: to_config_def)
  have ok: "\<forall>r\<in>set (projects d'). project_ok r"
    using wf v cfg by (auto simp: d' set_update_where projects_wf_def project_ok_def)
  have "\<exists>q\<in>set (projects d). ?hit q"
    using upd count_where_0_iff [of ?hit "projects d"]
    by (auto simp: update_project_def Let_def split: if_splits)
  then have "distinct (map p_root (projects d'))"
    using wf roots unfolding d' projects_wf_def
    by (intro distinct_update_where_key [where v = "pc_root c"]) auto
  then show ?thesis using ok ids wf by (simp add: projects_wf_def)
qed

lemma project_delete_wf:
  assumes wf: "projects_wf d" and del: "project_delete i d = (r, d')"
  shows "projects_wf d'"
proof (cases r)
  case (Inl e)
  have "d' = d" using del unfolding Inl project_delete_def by (rule tx_rollback)
  then show ?thesis using wf by simp
next
  case (Inr x)
  then have "d' = d\<lparr>projects := filter (\<lambda>q. p_id q \<noteq> i) (projects d)\<rparr>"
    using del by (auto simp: project_delete_def tx_Inr bindE_eq_Inr delete_project_def
        validate_project_id_iff split: if_splits prod.splits)
  then show ?thesis using wf by (auto simp: projects_wf_def distinct_map_filter)
qed

lemma sample_projects_wf [simp]: "projects_wf (sample_db st)"
  by (simp add: projects_wf_def project_ok_def sample_defs) code_simp

subsection \<open>Properties\<close>

text \<open>
  Registering a configured project is idempotent: once it succeeded, any number of restarts
  with the same configuration returns the same record and writes nothing, and the record has
  exactly the configured root and policy.
\<close>

theorem project_register_once:
  assumes "projects_wf d" and "project_register c now d = (Inr r, d')"
  shows "deliver (project_register c) (now # ts) d = (replicate (Suc (length ts)) (Inr r), d') \<and>
    to_config r = c"
  using project_registration.deliver_once [OF assms] project_register_stored [OF assms(2)] by simp

theorem project_register_once_witness:
  "\<exists>r d'. deliver (project_register (to_config sample_project)) [11, 12, 13] (sample_db Queued)
     = ([Inr r, Inr r, Inr r], d') \<and> to_config r = to_config sample_project"
proof -
  have wf: "projects_wf (sample_db Queued)" by simp
  have "project_register (to_config sample_project) 11 (sample_db Queued)
      = (Inr sample_project, sample_db Queued)" by code_simp
  from project_register_once [OF wf this, of "[12, 13]"] show ?thesis
    by (simp add: numeral_eq_Suc)
qed

end
