(* ===== verification/Jobs.thy ===== *)
theory Jobs
  imports Projects
begin

text \<open>
  \<open>JobCreate\<close>, \<open>JobUpdate\<close> (engine.py) and \<open>JobRepository\<close> (db.py): the validation of a job
  and its request snapshot, insertion, update, and the listings with their cursor.
\<close>

record job_create =
  jc_id :: string
  jc_project_id :: string
  jc_request :: string
  jc_request_snapshot :: payload
  jc_state :: job_state
  jc_runtime :: job_runtime
  jc_model :: "string option"
  jc_worktree_path :: "string option"

record job_update =
  ju_id :: string
  ju_state :: job_state
  ju_runtime :: job_runtime
  ju_model :: "string option"
  ju_worktree_path :: "string option"

subsection \<open>Validation\<close>

definition validate_job_text :: "string \<Rightarrow> exn + string" where
  "validate_job_text s = (if plain_text s then Inr s else Inl JobValidationError)"

definition validate_job_optional_text :: "string option \<Rightarrow> exn + unit" where
  "validate_job_optional_text t = ensure (plain_text_opt t) JobValidationError"

text \<open>
  The result is the canonical snapshot that the insert stores. \<open>json.dumps\<close> raises on a
  non-finite float; the comparison of the decoded snapshot with its source only fails for
  Python values outside the model (keys that are not text, tuples).
\<close>

definition validate_job :: "job_create \<Rightarrow> exn + payload" where
  "validate_job job =
     bindE (validate_job_text (jc_id job)) (\<lambda>_.
     bindE (validate_job_text (jc_project_id job)) (\<lambda>_.
     bindE (ensure (strip (jc_request job) \<noteq> [] \<and> NUL \<notin> set (jc_request job)) JobValidationError) (\<lambda>_.
     bindE (ensure (utf8_len (jc_request job) \<le> 262144) JobValidationError) (\<lambda>_.
     bindE (validate_job_optional_text (jc_model job)) (\<lambda>_.
     bindE (validate_job_optional_text (jc_worktree_path job)) (\<lambda>_.
     case dumps (jc_request_snapshot job) of
       None \<Rightarrow> Inl JobValidationError
     | Some snapshot \<Rightarrow>
         if utf8_len snapshot > 1048576 then Inl JobValidationError
         else Inr (canon_obj (jc_request_snapshot job))))))))"

definition validate_job_update :: "job_update \<Rightarrow> exn + unit" where
  "validate_job_update u =
     bindE (validate_job_text (ju_id u)) (\<lambda>_.
     bindE (validate_job_optional_text (ju_model u)) (\<lambda>_.
     validate_job_optional_text (ju_worktree_path u)))"

definition job_row_create :: "job_row \<Rightarrow> job_create" where
  "job_row_create r = \<lparr>jc_id = j_id r, jc_project_id = j_project_id r, jc_request = j_request r,
     jc_request_snapshot = j_request_snapshot r, jc_state = j_state r, jc_runtime = j_runtime r,
     jc_model = j_model r, jc_worktree_path = j_worktree_path r\<rparr>"

definition job_to_record :: "job_row \<Rightarrow> exn + job_row" where
  "job_to_record r =
     rethrow (\<lambda>e. isa e JobValidationError) JobRepositoryError
       (bindE (validate_job (job_row_create r)) (\<lambda>_. Inr r))"

subsection \<open>Operations\<close>

definition select_job :: "db \<Rightarrow> string \<Rightarrow> job_row option" where
  "select_job d i = List.find (\<lambda>r. j_id r = i) (jobs d)"

definition new_job_row :: "micros \<Rightarrow> job_create \<Rightarrow> payload \<Rightarrow> job_row" where
  "new_job_row now job snapshot = \<lparr>j_id = jc_id job, j_project_id = jc_project_id job,
     j_request = jc_request job, j_request_snapshot = snapshot, j_state = jc_state job,
     j_runtime = jc_runtime job, j_model = jc_model job, j_worktree_path = jc_worktree_path job,
     j_created_at = now, j_updated_at = now\<rparr>"

definition job_insert :: "micros \<Rightarrow> job_create \<Rightarrow> payload \<Rightarrow> db \<Rightarrow> exn + job_row \<times> db" where
  "job_insert now job snapshot d =
     bindE (insert_job d (new_job_row now job snapshot)) (\<lambda>d'.
       case select_job d' (jc_id job) of
         None \<Rightarrow> Inl JobRepositoryError
       | Some row \<Rightarrow> bindE (job_to_record row) (\<lambda>stored. Inr (stored, d')))"

definition set_job :: "micros \<Rightarrow> job_update \<Rightarrow> job_row \<Rightarrow> job_row" where
  "set_job now u r = r\<lparr>j_state := ju_state u, j_runtime := ju_runtime u, j_model := ju_model u,
     j_worktree_path := ju_worktree_path u, j_updated_at := now\<rparr>"

definition job_apply_update :: "micros \<Rightarrow> job_update \<Rightarrow> db \<Rightarrow> exn + job_row \<times> db" where
  "job_apply_update now u d =
     bindE (update_job_row d (ju_id u) (set_job now u)) (\<lambda>(rowcount, d').
       if rowcount \<noteq> 1 then Inl JobNotFoundError
       else case select_job d' (ju_id u) of
         None \<Rightarrow> Inl JobRepositoryError
       | Some row \<Rightarrow> bindE (job_to_record row) (\<lambda>stored. Inr (stored, d')))"

definition job_integrity :: "constraint_kind \<Rightarrow> exn" where
  "job_integrity k =
     (if is_unique_violation k then JobAlreadyExistsError
      else if k = ForeignKeyViolation then JobValidationError
      else JobRepositoryError)"

definition job_create_op :: "job_create \<Rightarrow> micros \<Rightarrow> db \<Rightarrow> (exn + job_row) \<times> db" where
  "job_create_op job now =
     validated (validate_job job) (\<lambda>snapshot. write_connection JobRepositoryError (\<lambda>d.
       on_integrity job_integrity (job_insert now job snapshot d)))"

definition job_update_op :: "job_update \<Rightarrow> micros \<Rightarrow> db \<Rightarrow> (exn + job_row) \<times> db" where
  "job_update_op u now =
     validated (validate_job_update u) (\<lambda>_. write_connection JobRepositoryError
       (job_apply_update now u))"

definition job_get :: "string \<Rightarrow> db \<Rightarrow> exn + job_row" where
  "job_get i d =
     bindE (validate_job_text i) (\<lambda>i'.
       case select_job d i' of None \<Rightarrow> Inl JobNotFoundError | Some row \<Rightarrow> job_to_record row)"

text \<open>\<open>ORDER BY created_at, id\<close>.\<close>

definition job_key :: "job_row \<Rightarrow> int \<times> string" where
  "job_key j = (j_created_at j, j_id j)"

definition job_list :: "string option \<Rightarrow> db \<Rightarrow> exn + job_row list" where
  "job_list pid d =
     (case pid of
        None \<Rightarrow> mapE job_to_record (sort_key job_key (jobs d))
      | Some p \<Rightarrow> bindE (validate_job_text p) (\<lambda>p'.
          mapE job_to_record (sort_key job_key (filter (\<lambda>j. j_project_id j = p') (jobs d)))))"

text \<open>\<open>WHERE project_id = ? AND (created_at, id) < (?, ?) ORDER BY created_at DESC, id DESC LIMIT ?\<close>.\<close>

definition recent_rows :: "string \<Rightarrow> db \<Rightarrow> job_row list" where
  "recent_rows p d = rev (sort_key job_key (filter (\<lambda>j. j_project_id j = p) (jobs d)))"

definition job_list_recent :: "string \<Rightarrow> int \<Rightarrow> string option \<Rightarrow> db \<Rightarrow> exn + job_row list" where
  "job_list_recent p limit before d =
     bindE (validate_job_text p) (\<lambda>p'.
     bindE (ensure (1 \<le> limit \<and> limit \<le> 200) JobValidationError) (\<lambda>_.
     bindE
       (case before of
          None \<Rightarrow> Inr (recent_rows p' d)
        | Some b \<Rightarrow> bindE (validate_job_text b) (\<lambda>b'.
            case select_job d b' of
              None \<Rightarrow> Inl JobValidationError
            | Some cursor \<Rightarrow>
                if j_project_id cursor \<noteq> p' then Inl JobValidationError
                else Inr (filter (\<lambda>j. job_key j < job_key cursor) (recent_rows p' d))))
       (\<lambda>rows. mapE job_to_record (take (nat limit) rows))))"

definition job_counts :: "string \<Rightarrow> db \<Rightarrow> exn + (job_runtime \<Rightarrow> job_state \<Rightarrow> nat option)" where
  "job_counts p d =
     bindE (validate_job_text p) (\<lambda>p'. Inr (\<lambda>rt st.
       let n = count_where (\<lambda>j. j_project_id j = p' \<and> j_runtime j = rt \<and> j_state j = st) (jobs d)
       in if n = 0 then None else Some n))"

subsection \<open>Invariant\<close>

definition job_ok :: "job_row \<Rightarrow> bool" where
  "job_ok r \<longleftrightarrow> validate_job (job_row_create r) = Inr (j_request_snapshot r)"

definition jobs_wf :: "db \<Rightarrow> bool" where
  "jobs_wf d \<longleftrightarrow>
     (\<forall>r\<in>set (jobs d). job_ok r) \<and> distinct (map j_id (jobs d)) \<and>
     (\<forall>r\<in>set (jobs d). \<exists>q\<in>set (projects d). p_id q = j_project_id r)"

lemma validate_job_text_iff: "validate_job_text s = Inr x \<longleftrightarrow> plain_text s \<and> x = s"
  by (auto simp: validate_job_text_def)

lemma validate_job_text_ok [simp]: "plain_text s \<Longrightarrow> validate_job_text s = Inr s"
  by (simp add: validate_job_text_def)

lemma validate_job_iff:
  "validate_job job = Inr s \<longleftrightarrow>
     plain_text (jc_id job) \<and> plain_text (jc_project_id job) \<and>
     strip (jc_request job) \<noteq> [] \<and> NUL \<notin> set (jc_request job) \<and>
     utf8_len (jc_request job) \<le> 262144 \<and>
     plain_text_opt (jc_model job) \<and> plain_text_opt (jc_worktree_path job) \<and>
     \<not> has_nan_fields (jc_request_snapshot job) \<and>
     json_bytes (canon_obj (jc_request_snapshot job)) \<le> 1048576 \<and>
     s = canon_obj (jc_request_snapshot job)"
  by (auto simp: validate_job_def bindE_eq_Inr validate_job_text_iff validate_job_optional_text_def
      dumps_def json_bytes_def split: if_splits)

lemma validate_job_Inl: "validate_job job = Inl e \<Longrightarrow> e = JobValidationError"
  by (auto simp: validate_job_def bindE_eq_Inl validate_job_text_def validate_job_optional_text_def
      split: if_splits option.splits)

lemma validate_job_update_iff:
  "validate_job_update u = Inr x \<longleftrightarrow>
     plain_text (ju_id u) \<and> plain_text_opt (ju_model u) \<and> plain_text_opt (ju_worktree_path u)"
  by (auto simp: validate_job_update_def bindE_eq_Inr validate_job_text_iff
      validate_job_optional_text_def)

lemma validate_job_update_Inl: "validate_job_update u = Inl e \<Longrightarrow> e = JobValidationError"
  by (auto simp: validate_job_update_def bindE_eq_Inl validate_job_text_def
      validate_job_optional_text_def split: if_splits)

lemma job_to_record_Inr: "job_to_record r = Inr x \<Longrightarrow> x = r"
  by (auto simp: job_to_record_def bindE_eq_Inr)

lemma job_to_record_ok [simp]: "job_ok r \<Longrightarrow> job_to_record r = Inr r"
  by (simp add: job_to_record_def job_ok_def)

lemma job_to_record_canonical:
  "job_to_record r = Inr x \<Longrightarrow> canon_obj (j_request_snapshot r) = j_request_snapshot r \<Longrightarrow> job_ok r"
  by (auto simp: job_to_record_def job_ok_def bindE_eq_Inr validate_job_iff job_row_create_def)

lemma job_ok_check: "job_ok r \<Longrightarrow> job_check r"
  by (auto simp: job_ok_def validate_job_iff job_check_def job_row_create_def plain_text_sql_plain
      plain_text_opt_sql sql_length_trim_pos)

lemma job_ok_snapshot: "job_ok r \<Longrightarrow> canon_obj (j_request_snapshot r) = j_request_snapshot r"
  by (simp add: job_ok_def validate_job_iff job_row_create_def)

lemma set_job_simps [simp]:
  "j_id (set_job now u r) = j_id r"
  "j_project_id (set_job now u r) = j_project_id r"
  "j_request (set_job now u r) = j_request r"
  "j_request_snapshot (set_job now u r) = j_request_snapshot r"
  "j_state (set_job now u r) = ju_state u"
  "j_runtime (set_job now u r) = ju_runtime u"
  "j_model (set_job now u r) = ju_model u"
  "j_worktree_path (set_job now u r) = ju_worktree_path u"
  "j_created_at (set_job now u r) = j_created_at r"
  by (simp_all add: set_job_def)

lemma new_job_row_simps [simp]:
  "j_id (new_job_row now job s) = jc_id job"
  "j_project_id (new_job_row now job s) = jc_project_id job"
  "j_state (new_job_row now job s) = jc_state job"
  "j_request_snapshot (new_job_row now job s) = s"
  by (simp_all add: new_job_row_def)

lemma job_ok_new: "validate_job job = Inr s \<Longrightarrow> job_ok (new_job_row now job s)"
  by (auto simp: job_ok_def validate_job_iff job_row_create_def new_job_row_def)

lemma job_ok_set_job:
  "job_ok r \<Longrightarrow> validate_job_update u = Inr x \<Longrightarrow> job_ok (set_job now u r)"
  by (auto simp: job_ok_def validate_job_iff validate_job_update_iff job_row_create_def)

lemma select_job_Some: "select_job d i = Some r \<Longrightarrow> r \<in> set (jobs d) \<and> j_id r = i"
  by (auto simp: select_job_def dest: Prelude.find_Some_iff)

lemma select_job_None: "select_job d i = None \<longleftrightarrow> (\<forall>r\<in>set (jobs d). j_id r \<noteq> i)"
  by (simp add: select_job_def find_None_iff2)

lemma select_job_wf: "jobs_wf d \<Longrightarrow> r \<in> set (jobs d) \<Longrightarrow> select_job d (j_id r) = Some r"
  by (auto simp: select_job_def jobs_wf_def intro: find_unique)

lemma select_job_ok: "jobs_wf d \<Longrightarrow> select_job d i = Some r \<Longrightarrow> job_ok r"
  by (auto simp: jobs_wf_def dest: select_job_Some)

lemma jobs_wf_frame: "jobs d' = jobs d \<Longrightarrow> projects d' = projects d \<Longrightarrow> jobs_wf d' = jobs_wf d"
  by (simp add: jobs_wf_def)

lemma select_job_cong: "jobs d' = jobs d \<Longrightarrow> select_job d' i = select_job d i"
  by (simp add: select_job_def)

subsection \<open>The update inside a transaction\<close>

text \<open>
  On a well-formed database a validated update of an existing job succeeds, writes that job and
  nothing else.
\<close>

definition put_job :: "micros \<Rightarrow> job_update \<Rightarrow> db \<Rightarrow> db" where
  "put_job now u d = d\<lparr>jobs := update_where (\<lambda>j. j_id j = ju_id u) (set_job now u) (jobs d)\<rparr>"

lemma put_job_frame [simp]:
  "projects (put_job now u d) = projects d"
  "events (put_job now u d) = events d"
  "approvals (put_job now u d) = approvals d"
  "planner (put_job now u d) = planner d"
  "memory_refs (put_job now u d) = memory_refs d"
  "verification_runs (put_job now u d) = verification_runs d"
  "review_bundles (put_job now u d) = review_bundles d"
  "usage (put_job now u d) = usage d"
  "native_attempts (put_job now u d) = native_attempts d"
  "teams (put_job now u d) = teams d"
  "phone (put_job now u d) = phone d"
  "map j_id (jobs (put_job now u d)) = map j_id (jobs d)"
  by (simp_all add: put_job_def map_update_where_frame)

lemma select_put_job:
  "select_job (put_job now u d) i =
     map_option (\<lambda>r. if j_id r = ju_id u then set_job now u r else r) (select_job d i)"
  by (simp add: select_job_def put_job_def find_update_where)

lemma job_apply_update_Inr:
  "job_apply_update now u d = Inr (stored, d') \<Longrightarrow>
     d' = put_job now u d \<and>
     (\<exists>old. select_job d (ju_id u) = Some old \<and> stored = set_job now u old)"
  by (auto simp: job_apply_update_def update_job_row_def Let_def bindE_eq_Inr
      put_job_def [symmetric] select_put_job split: if_splits option.splits
      dest!: job_to_record_Inr select_job_Some)

lemma job_apply_update_ok:
  assumes wf: "jobs_wf d" and v: "validate_job_update u = Inr ()"
    and old: "select_job d (ju_id u) = Some old"
  shows "job_apply_update now u d = Inr (set_job now u old, put_job now u d)"
proof -
  have m: "old \<in> set (jobs d)" "j_id old = ju_id u" using select_job_Some [OF old] by auto
  have "\<forall>j\<in>set (jobs d). job_ok (set_job now u j)"
    using wf v by (auto simp: jobs_wf_def intro: job_ok_set_job)
  then have upd: "update_job_row d (ju_id u) (set_job now u)
      = Inr (count_where (\<lambda>j. j_id j = ju_id u) (jobs d), put_job now u d)"
    by (auto simp: update_job_row_def Let_def put_job_def dest: job_ok_check)
  have "count_where (\<lambda>j. j_id j = ju_id u) (jobs d) = 1"
    using count_where_key [of j_id "jobs d" old] wf m by (simp add: jobs_wf_def)
  moreover have "job_ok (set_job now u old)"
    using \<open>\<forall>j\<in>set (jobs d). job_ok (set_job now u j)\<close> m by blast
  ultimately show ?thesis
    by (simp add: job_apply_update_def upd select_put_job old m)
qed

lemma job_apply_update_missing:
  assumes "select_job d (ju_id u) = None"
  shows "job_apply_update now u d = Inl JobNotFoundError"
proof -
  have none: "\<forall>r\<in>set (jobs d). j_id r \<noteq> ju_id u" using assms by (simp add: select_job_None)
  then have "count_where (\<lambda>j. j_id j = ju_id u) (jobs d) = 0" by (simp add: count_where_0_iff)
  then show ?thesis using none by (auto simp: job_apply_update_def update_job_row_def Let_def)
qed

lemma jobs_wf_put_job:
  assumes "jobs_wf d" and "validate_job_update u = Inr x"
  shows "jobs_wf (put_job now u d)"
proof -
  have "distinct (map j_id (jobs (put_job now u d)))"
    using assms(1) by (simp add: jobs_wf_def)
  moreover have "\<forall>r\<in>set (jobs (put_job now u d)). job_ok r \<and>
      (\<exists>q\<in>set (projects d). p_id q = j_project_id r)"
    using assms by (auto simp: jobs_wf_def put_job_def set_update_where intro: job_ok_set_job)
  ultimately show ?thesis by (simp add: jobs_wf_def)
qed

subsection \<open>Insertion\<close>

lemma job_insert_Inr:
  assumes "job_insert now job s d = Inr (stored, d')"
  shows "d' = d\<lparr>jobs := jobs d @ [new_job_row now job s]\<rparr> \<and>
    (\<forall>j\<in>set (jobs d). j_id j \<noteq> jc_id job) \<and>
    (\<exists>q\<in>set (projects d). p_id q = jc_project_id job) \<and> stored = new_job_row now job s"
  using assms
  by (auto simp: job_insert_def insert_job_def bindE_eq_Inr select_job_def find_append
      find_None_iff2 split: if_splits option.splits
      dest!: job_to_record_Inr Prelude.find_Some_iff)

text \<open>Every branch of \<open>create\<close>: the generic repository error is never raised.\<close>

lemma job_create_cases:
  "job_create_op job now d =
     (case validate_job job of
        Inl e \<Rightarrow> (Inl JobValidationError, d)
      | Inr s \<Rightarrow>
          if \<exists>j\<in>set (jobs d). j_id j = jc_id job then (Inl JobAlreadyExistsError, d)
          else if \<forall>q\<in>set (projects d). p_id q \<noteq> jc_project_id job
          then (Inl JobValidationError, d)
          else (Inr (new_job_row now job s), d\<lparr>jobs := jobs d @ [new_job_row now job s]\<rparr>))"
proof (cases "validate_job job")
  case (Inl e)
  then show ?thesis using validate_job_Inl [OF Inl] by (simp add: job_create_op_def)
next
  case (Inr s)
  let ?r = "new_job_row now job s"
  have ok: "job_ok ?r" using Inr by (rule job_ok_new)
  have chk: "job_check ?r" using ok by (rule job_ok_check)
  show ?thesis
  proof (cases "(\<exists>j\<in>set (jobs d). j_id j = jc_id job) \<or>
      (\<forall>q\<in>set (projects d). p_id q \<noteq> jc_project_id job)")
    case True
    then have "on_integrity job_integrity (job_insert now job s d) =
        Inl (if \<exists>j\<in>set (jobs d). j_id j = jc_id job then JobAlreadyExistsError
             else JobValidationError)"
      using chk by (auto simp: job_insert_def insert_job_def on_integrity_def job_integrity_def
          is_unique_violation_def)
    then show ?thesis using Inr True
      by (auto simp: job_create_op_def write_connection_error is_integrity_error_def)
  next
    case False
    then have "job_insert now job s d = Inr (?r, d\<lparr>jobs := jobs d @ [?r]\<rparr>)"
      using chk ok by (auto simp: job_insert_def insert_job_def select_job_def find_append
          find_None_iff2 split: option.splits dest: Prelude.find_Some_iff)
    then show ?thesis using Inr False by (simp add: job_create_op_def write_connection_ok)
  qed
qed

lemma jobs_wf_insert:
  assumes "jobs_wf d" and "validate_job job = Inr s"
    and "\<forall>j\<in>set (jobs d). j_id j \<noteq> jc_id job"
    and "\<exists>q\<in>set (projects d). p_id q = jc_project_id job"
  shows "jobs_wf (d\<lparr>jobs := jobs d @ [new_job_row now job s]\<rparr>)"
  using assms job_ok_new [OF assms(2)] by (auto simp: jobs_wf_def)

lemma job_create_wf: "jobs_wf d \<Longrightarrow> job_create_op job now d = (r, d') \<Longrightarrow> jobs_wf d'"
  by (auto simp: job_create_cases intro: jobs_wf_insert split: sum.splits if_splits)

lemma job_update_op_wf:
  assumes wf: "jobs_wf d" and up: "job_update_op u now d = (r, d')"
  shows "jobs_wf d'"
proof (cases r)
  case (Inl e)
  have "d' = d" using up unfolding Inl job_update_op_def by (rule tx_rollback)
  then show ?thesis using wf by simp
next
  case (Inr x)
  then obtain u' where v: "validate_job_update u = Inr u'"
    and "job_apply_update now u d = Inr (x, d')"
    using up by (auto simp: job_update_op_def tx_Inr)
  then show ?thesis using job_apply_update_Inr jobs_wf_put_job [OF wf v] by blast
qed

subsection \<open>Listings\<close>

lemma job_list_recent_first:
  assumes wf: "jobs_wf d" and p: "plain_text p" and l: "1 \<le> limit" "limit \<le> 200"
  shows "job_list_recent p limit None d = Inr (take (nat limit) (recent_rows p d))"
proof -
  have "mapE job_to_record (take (nat limit) (recent_rows p d)) = Inr (take (nat limit) (recent_rows p d))"
    using wf by (intro mapE_Inr_id)
      (auto simp: jobs_wf_def recent_rows_def dest!: in_set_takeD)
  then show ?thesis using p l by (simp add: job_list_recent_def)
qed

lemma recent_rows_strict:
  assumes "jobs_wf d"
  shows "sorted_wrt (\<lambda>a b. job_key b < job_key a) (recent_rows p d)"
proof -
  let ?xs = "filter (\<lambda>j. j_project_id j = p) (jobs d)"
  have "distinct (map j_id ?xs)" using assms by (auto simp: jobs_wf_def intro: distinct_map_filter)
  then have "distinct (map job_key ?xs)"
    by (auto simp: distinct_map inj_on_def job_key_def)
  then have d: "distinct (map job_key (sort_key job_key ?xs))"
    by (simp add: distinct_map)
  have s: "sorted (map job_key (sort_key job_key ?xs))" by simp
  have "sorted_wrt (<) (map job_key (sort_key job_key ?xs))"
    using s d by (simp add: strict_sorted_iff)
  then show ?thesis
    by (simp add: recent_rows_def sorted_wrt_rev sorted_wrt_map)
qed

lemma filter_below_nth:
  assumes "sorted_wrt (\<lambda>a b. (f b :: 'k::linorder) < f a) xs" and "k < length xs"
  shows "filter (\<lambda>x. f x < f (xs ! k)) xs = drop (Suc k) xs"
proof -
  have lt: "f (xs ! j) < f (xs ! i)" if "i < j" "j < length xs" for i j
    using sorted_wrt_nth_less [OF assms(1) that] .
  have low: "filter (\<lambda>x. f x < f (xs ! k)) (take (Suc k) xs) = []"
    unfolding filter_empty_conv
  proof
    fix x assume "x \<in> set (take (Suc k) xs)"
    then obtain i where i: "i < Suc k" "x = xs ! i"
      using assms(2) by (auto simp: in_set_conv_nth)
    show "\<not> f x < f (xs ! k)"
    proof (cases "i = k")
      case False
      then show ?thesis using lt [of i k] i assms(2) by simp
    qed (simp add: i)
  qed
  have high: "filter (\<lambda>x. f x < f (xs ! k)) (drop (Suc k) xs) = drop (Suc k) xs"
    unfolding filter_id_conv
  proof
    fix x assume "x \<in> set (drop (Suc k) xs)"
    then obtain i where "i < length xs - Suc k" "x = xs ! (Suc k + i)"
      by (auto simp: in_set_conv_nth)
    then show "f x < f (xs ! k)" using lt [of k "Suc k + i"] by simp
  qed
  have "filter (\<lambda>x. f x < f (xs ! k)) (take (Suc k) xs @ drop (Suc k) xs) = drop (Suc k) xs"
    unfolding filter_append low high by simp
  then show ?thesis by simp
qed

text \<open>A page that starts at a listed job continues right after it.\<close>

lemma job_list_recent_after:
  assumes wf: "jobs_wf d" and p: "plain_text p" and l: "1 \<le> limit" "limit \<le> 200"
    and k: "k < length (recent_rows p d)"
  shows "job_list_recent p limit (Some (j_id (recent_rows p d ! k))) d =
    Inr (take (nat limit) (drop (Suc k) (recent_rows p d)))"
proof -
  let ?c = "recent_rows p d ! k"
  have "?c \<in> set (recent_rows p d)" using k by simp
  then have c: "?c \<in> set (jobs d)" "j_project_id ?c = p" by (auto simp: recent_rows_def)
  have sel: "select_job d (j_id ?c) = Some ?c" using wf c(1) by (rule select_job_wf)
  have idt: "plain_text (j_id ?c)"
    using wf c(1) by (auto simp: jobs_wf_def job_ok_def validate_job_iff job_row_create_def)
  have rows: "filter (\<lambda>j. job_key j < job_key ?c) (recent_rows p d) = drop (Suc k) (recent_rows p d)"
    using recent_rows_strict [OF wf] k by (rule filter_below_nth)
  have "mapE job_to_record (take (nat limit) (drop (Suc k) (recent_rows p d)))
      = Inr (take (nat limit) (drop (Suc k) (recent_rows p d)))"
    using wf by (intro mapE_Inr_id)
      (auto simp: jobs_wf_def recent_rows_def dest!: in_set_takeD in_set_dropD)
  then show ?thesis using p l idt sel c(2) rows by (simp add: job_list_recent_def)
qed

lemma sample_job_ok [simp]: "job_ok (sample_job st)"
  by code_simp

lemma sample_jobs_wf [simp]: "jobs_wf (sample_db st)"
  using sample_job_ok [of st] by (simp add: jobs_wf_def sample_project_def) (simp add: sample_job_def)

subsection \<open>A client that pages\<close>

text \<open>
  A client walks the listing page by page, passing the last job it saw as the cursor, until a
  page comes back empty; the first argument bounds the number of pages it asks for.
\<close>

fun job_pages :: "nat \<Rightarrow> string \<Rightarrow> int \<Rightarrow> string option \<Rightarrow> db \<Rightarrow> exn + job_row list" where
  "job_pages 0 p limit before d = Inr []"
| "job_pages (Suc n) p limit before d =
     bindE (job_list_recent p limit before d) (\<lambda>rows.
       if rows = [] then Inr []
       else bindE (job_pages n p limit (Some (j_id (last rows))) d) (\<lambda>rest. Inr (rows @ rest)))"

lemma last_take_nth: "xs \<noteq> [] \<Longrightarrow> 0 < k \<Longrightarrow> last (take k xs) = xs ! (min k (length xs) - 1)"
  by (simp add: last_conv_nth min.commute)

lemma job_pages_after:
  assumes wf: "jobs_wf d" and p: "plain_text p" and l: "1 \<le> limit" "limit \<le> 200"
  shows "k < length (recent_rows p d) \<Longrightarrow> length (recent_rows p d) \<le> k + n \<Longrightarrow>
    job_pages n p limit (Some (j_id (recent_rows p d ! k))) d = Inr (drop (Suc k) (recent_rows p d))"
proof (induction n arbitrary: k)
  case (Suc n)
  let ?xs = "recent_rows p d"
  let ?rest = "drop (Suc k) ?xs"
  have page: "job_list_recent p limit (Some (j_id (?xs ! k))) d = Inr (take (nat limit) ?rest)"
    using wf p l Suc.prems(1) by (rule job_list_recent_after)
  show ?case
  proof (cases "?rest = []")
    case False
    let ?m = "k + min (nat limit) (length ?rest)"
    have lim: "0 < nat limit" using l by simp
    have m: "k < ?m" "?m < length ?xs" using False lim Suc.prems(1) by (auto simp: min_def)
    have "last (take (nat limit) ?rest) = ?xs ! ?m"
      using last_take_nth [OF False lim] m lim False by (simp add: min_def split: if_splits)
    moreover have "job_pages n p limit (Some (j_id (?xs ! ?m))) d = Inr (drop (Suc ?m) ?xs)"
      using m Suc.prems(2) by (intro Suc.IH) auto
    moreover have "take (nat limit) ?rest @ drop (Suc ?m) ?xs = ?rest"
    proof -
      have "drop (Suc ?m) ?xs = drop (min (nat limit) (length ?rest)) ?rest"
        by (simp add: add.commute)
      moreover have "take (nat limit) ?rest @ drop (min (nat limit) (length ?rest)) ?rest = ?rest"
        by (cases "nat limit \<le> length ?rest") (simp_all del: drop_drop add: min_def)
      ultimately show ?thesis by (simp only:)
    qed
    ultimately show ?thesis using page False lim by simp
  qed (simp add: page)
qed simp

subsection \<open>Properties\<close>

text \<open>
  Every branch of \<open>JobRepository.create\<close>: an invalid job, a taken id and an unknown project
  are told apart and leave the store alone, everything else is stored with the canonical request
  snapshot, and the new store is well-formed again.
\<close>

theorem job_create_outcome:
  assumes "jobs_wf d"
  shows "job_create_op job now d =
     (case validate_job job of
        Inl e \<Rightarrow> (Inl JobValidationError, d)
      | Inr s \<Rightarrow>
          if \<exists>j\<in>set (jobs d). j_id j = jc_id job then (Inl JobAlreadyExistsError, d)
          else if \<forall>q\<in>set (projects d). p_id q \<noteq> jc_project_id job
          then (Inl JobValidationError, d)
          else (Inr (new_job_row now job s), d\<lparr>jobs := jobs d @ [new_job_row now job s]\<rparr>)) \<and>
    jobs_wf (snd (job_create_op job now d))"
proof (rule conjI [OF job_create_cases])
  obtain r d' where "job_create_op job now d = (r, d')" by fastforce
  then show "jobs_wf (snd (job_create_op job now d))" using job_create_wf [OF assms] by simp
qed

theorem job_create_outcome_witness:
  "job_create_op (job_row_create (sample_job Queued)) 7 (sample_db Running)
     = (Inl JobAlreadyExistsError, sample_db Running)"
proof -
  have wf: "jobs_wf (sample_db Running)" by simp
  have "validate_job (job_row_create (sample_job Queued)) = Inr []"
    using sample_job_ok [of Queued] by (simp add: job_ok_def) (simp add: sample_job_def)
  then show ?thesis
    using job_create_outcome [OF wf, of "job_row_create (sample_job Queued)" 7]
    by (simp add: job_row_create_def) (simp add: sample_job_def)
qed

text \<open>
  Paging through \<open>list_recent\<close> with the last job of each page as the cursor, at any page size
  the repository accepts, returns every job of the project exactly once, newest first: no job is
  skipped at a page border and none comes twice.
\<close>

theorem job_pages_complete:
  assumes "jobs_wf d" and "plain_text p" and "1 \<le> limit" and "limit \<le> 200"
    and "length (recent_rows p d) \<le> n"
  shows "job_pages (Suc n) p limit None d = Inr (recent_rows p d) \<and>
    distinct (recent_rows p d) \<and>
    set (recent_rows p d) = {j \<in> set (jobs d). j_project_id j = p}"
proof -
  let ?xs = "recent_rows p d"
  have d: "distinct ?xs" and s: "set ?xs = {j \<in> set (jobs d). j_project_id j = p}"
    using assms(1) by (auto simp: recent_rows_def jobs_wf_def distinct_map)
  have page: "job_list_recent p limit None d = Inr (take (nat limit) ?xs)"
    using assms by (intro job_list_recent_first)
  have "job_pages (Suc n) p limit None d = Inr ?xs"
  proof (cases "?xs = []")
    case False
    let ?m = "min (nat limit) (length ?xs) - 1"
    have lim: "0 < nat limit" using assms(3) by simp
    have m: "?m < length ?xs" "Suc ?m = min (nat limit) (length ?xs)"
      using False lim by (auto simp: min_def)
    have "last (take (nat limit) ?xs) = ?xs ! ?m" using last_take_nth [OF False lim] .
    moreover have "job_pages n p limit (Some (j_id (?xs ! ?m))) d = Inr (drop (Suc ?m) ?xs)"
      using assms m lim False by (intro job_pages_after) (auto simp: min_def)
    moreover have "take (nat limit) ?xs @ drop (Suc ?m) ?xs = ?xs"
      unfolding m(2) by (simp add: min_def)
    ultimately show ?thesis using page False lim by simp
  qed (simp add: page)
  then show ?thesis using d s by blast
qed

theorem job_pages_complete_witness:
  "job_pages 2 ''demo'' 50 None (sample_db Queued) = Inr [sample_job Queued]"
proof -
  have r: "recent_rows ''demo'' (sample_db Queued) = [sample_job Queued]" by code_simp
  have p: "plain_text ''demo''" by code_simp
  show ?thesis
    using job_pages_complete [of "sample_db Queued" "''demo''" 50 1] p
    by (simp add: r numeral_2_eq_2)
qed

end
