(* ===== verification/Events.thy ===== *)
theory Events
  imports Jobs
begin

text \<open>
  \<open>EventCreate\<close> (engine.py) and \<open>EventRepository\<close> (db.py): the append-only event ledger of a
  job. \<open>sha\<close> is \<open>hashlib.sha256(text).hexdigest()\<close>; all that is assumed of it, where a lemma
  needs it, is that it returns 64 hexadecimal digits (\<open>digest_fun\<close>). The invariant
  \<open>events_wf\<close> says that every job's events are numbered 1, 2, ..., n in insertion order, that
  row ids and idempotency keys are unique and that every payload matches its stored hash.
\<close>

record event_create =
  ec_job_id :: string
  ec_event_type :: string
  ec_payload :: payload
  ec_idempotency_key :: "string option"

definition digest_fun :: "(string \<Rightarrow> string) \<Rightarrow> bool" where
  "digest_fun sha \<longleftrightarrow> (\<forall>t. hex64 (sha t))"

definition max_sequence :: int where
  "max_sequence = 9223372036854775807"

subsection \<open>Validation\<close>

definition validate_event_text :: "int option \<Rightarrow> string \<Rightarrow> exn + string" where
  "validate_event_text maximum_bytes s =
     (if \<not> plain_text s then Inl EventValidationError
      else if (case maximum_bytes of None \<Rightarrow> False | Some n \<Rightarrow> utf8_len s > n)
      then Inl EventValidationError
      else Inr s)"

definition validate_event_optional_text :: "int option \<Rightarrow> string option \<Rightarrow> exn + string option" where
  "validate_event_optional_text maximum_bytes t =
     (case t of
        None \<Rightarrow> Inr None
      | Some s \<Rightarrow> bindE (validate_event_text maximum_bytes s) (\<lambda>s'. Inr (Some s')))"

text \<open>The canonical payload and the hash of its text.\<close>

definition canonical_payload :: "(string \<Rightarrow> string) \<Rightarrow> payload \<Rightarrow> exn + payload \<times> string" where
  "canonical_payload sha p =
     (case dumps p of
        None \<Rightarrow> Inl EventValidationError
      | Some canonical \<Rightarrow>
          if utf8_len canonical > 1048576 then Inl EventValidationError
          else Inr (canon_obj p, sha canonical))"

definition validate_event ::
  "(string \<Rightarrow> string) \<Rightarrow> event_create \<Rightarrow> exn + payload \<times> string \<times> string option" where
  "validate_event sha e =
     bindE (validate_event_text None (ec_job_id e)) (\<lambda>_.
     bindE (validate_event_text (Some 128) (ec_event_type e)) (\<lambda>_.
     bindE (validate_event_optional_text (Some 128) (ec_idempotency_key e)) (\<lambda>key.
     bindE (canonical_payload sha (ec_payload e)) (\<lambda>(payload, hash).
     Inr (payload, hash, key)))))"

definition validate_event_id :: "int \<Rightarrow> exn + int" where
  "validate_event_id i = (if i < 1 then Inl EventValidationError else Inr i)"

definition event_to_record :: "(string \<Rightarrow> string) \<Rightarrow> event_row \<Rightarrow> exn + event_row" where
  "event_to_record sha r =
     rethrow (\<lambda>e. isa e EventValidationError) EventRepositoryError
       (bindE (validate_event_id (e_id r)) (\<lambda>_.
        bindE (validate_event_text None (e_job_id r)) (\<lambda>_.
        bindE (ensure (1 \<le> e_sequence r) EventValidationError) (\<lambda>_.
        bindE (validate_event_text (Some 128) (e_event_type r)) (\<lambda>_.
        bindE (canonical_payload sha (e_payload r)) (\<lambda>(canonical, expected_hash).
        bindE (ensure (canonical = e_payload r \<and> e_payload_hash r = expected_hash)
          EventValidationError) (\<lambda>_.
        bindE (validate_event_optional_text (Some 128) (e_idempotency_key r)) (\<lambda>_.
        Inr r))))))))"

subsection \<open>Appending inside a transaction\<close>

definition select_event :: "db \<Rightarrow> int \<Rightarrow> event_row option" where
  "select_event d i = List.find (\<lambda>r. e_id r = i) (events d)"

definition select_event_by_key :: "db \<Rightarrow> string \<Rightarrow> string \<Rightarrow> event_row option" where
  "select_event_by_key d job key =
     List.find (\<lambda>r. e_job_id r = job \<and> e_idempotency_key r = Some key) (events d)"

definition matching_idempotent_event ::
  "(string \<Rightarrow> string) \<Rightarrow> event_create \<Rightarrow> string \<Rightarrow> string option \<Rightarrow> db \<Rightarrow> exn + event_row option" where
  "matching_idempotent_event sha e payload_hash key d =
     (case key of
        None \<Rightarrow> Inr None
      | Some k \<Rightarrow> (case select_event_by_key d (ec_job_id e) k of
            None \<Rightarrow> Inr None
          | Some existing \<Rightarrow> bindE (event_to_record sha existing) (\<lambda>stored.
              if e_event_type stored \<noteq> ec_event_type e \<or> e_payload_hash stored \<noteq> payload_hash
              then Inl EventIdempotencyConflictError
              else Inr (Some stored))))"

definition job_events :: "db \<Rightarrow> string \<Rightarrow> event_row list" where
  "job_events d job = filter (\<lambda>r. e_job_id r = job) (events d)"

text \<open>\<open>SELECT sequence ... ORDER BY sequence DESC LIMIT 1\<close>, 0 when there is none.\<close>

definition previous_sequence :: "db \<Rightarrow> string \<Rightarrow> int" where
  "previous_sequence d job =
     (case map e_sequence (job_events d job) of [] \<Rightarrow> 0 | s # ss \<Rightarrow> fold max ss s)"

definition new_event_row ::
  "micros \<Rightarrow> event_create \<Rightarrow> payload \<times> string \<times> string option \<Rightarrow> int \<Rightarrow> int \<Rightarrow> event_row" where
  "new_event_row now e data eid sequence = \<lparr>e_id = eid, e_job_id = ec_job_id e,
     e_sequence = sequence, e_event_type = ec_event_type e, e_payload = fst data,
     e_payload_hash = fst (snd data), e_idempotency_key = snd (snd data), e_created_at = now\<rparr>"

definition event_append_tx ::
  "(string \<Rightarrow> string) \<Rightarrow> micros \<Rightarrow> event_create \<Rightarrow> payload \<times> string \<times> string option \<Rightarrow> db
   \<Rightarrow> exn + event_row \<times> db" where
  "event_append_tx sha now e data d =
     bindE (matching_idempotent_event sha e (fst (snd data)) (snd (snd data)) d) (\<lambda>existing.
       case existing of
         Some stored \<Rightarrow> Inr (stored, d)
       | None \<Rightarrow>
           let previous = previous_sequence d (ec_job_id e);
               eid = next_rowid (map e_id (events d)) in
           if previous < 0 \<or> previous \<ge> max_sequence then Inl EventRepositoryError
           else bindE (insert_event d (new_event_row now e data eid (previous + 1))) (\<lambda>d'.
             if eid < 1 then Inl EventRepositoryError
             else case select_event d' eid of
                 None \<Rightarrow> Inl EventRepositoryError
               | Some row \<Rightarrow> bindE (event_to_record sha row) (\<lambda>stored. Inr (stored, d'))))"

subsection \<open>Operations\<close>

definition event_integrity :: "constraint_kind \<Rightarrow> exn" where
  "event_integrity k =
     (if k = ForeignKeyViolation then EventValidationError else EventRepositoryError)"

definition event_append ::
  "(string \<Rightarrow> string) \<Rightarrow> event_create \<Rightarrow> micros \<Rightarrow> db \<Rightarrow> (exn + event_row) \<times> db" where
  "event_append sha e now =
     validated (validate_event sha e) (\<lambda>data. write_connection EventRepositoryError (\<lambda>d.
       on_integrity event_integrity (event_append_tx sha now e data d)))"

definition event_get :: "(string \<Rightarrow> string) \<Rightarrow> int \<Rightarrow> db \<Rightarrow> exn + event_row" where
  "event_get sha i d =
     bindE (validate_event_id i) (\<lambda>i'.
       case select_event d i' of
         None \<Rightarrow> Inl EventNotFoundError
       | Some row \<Rightarrow> event_to_record sha row)"

definition event_list :: "(string \<Rightarrow> string) \<Rightarrow> string \<Rightarrow> db \<Rightarrow> exn + event_row list" where
  "event_list sha job d =
     bindE (validate_event_text None job) (\<lambda>job'.
       mapE (event_to_record sha) (sort_key e_sequence (job_events d job')))"

definition event_list_after ::
  "(string \<Rightarrow> string) \<Rightarrow> string \<Rightarrow> int \<Rightarrow> int \<Rightarrow> db \<Rightarrow> exn + event_row list" where
  "event_list_after sha job sequence limit d =
     bindE (validate_event_text None job) (\<lambda>job'.
     bindE (ensure (0 \<le> sequence) EventValidationError) (\<lambda>_.
     bindE (ensure (1 \<le> limit \<and> limit \<le> 1000) EventValidationError) (\<lambda>_.
       mapE (event_to_record sha)
         (take (nat limit)
           (sort_key e_sequence (filter (\<lambda>r. e_sequence r > sequence) (job_events d job')))))))"

subsection \<open>Invariant\<close>

definition event_ok :: "(string \<Rightarrow> string) \<Rightarrow> event_row \<Rightarrow> bool" where
  "event_ok sha r \<longleftrightarrow> event_to_record sha r = Inr r"

definition key_of :: "event_row \<Rightarrow> string \<times> string option" where
  "key_of r = (e_job_id r, e_idempotency_key r)"

definition keyed_events :: "db \<Rightarrow> event_row list" where
  "keyed_events d = filter (\<lambda>r. e_idempotency_key r \<noteq> None) (events d)"

definition numbered :: "int list \<Rightarrow> bool" where
  "numbered ns \<longleftrightarrow> (\<forall>i<length ns. ns ! i = int i + 1)"

definition events_wf :: "(string \<Rightarrow> string) \<Rightarrow> db \<Rightarrow> bool" where
  "events_wf sha d \<longleftrightarrow>
     (\<forall>r\<in>set (events d). event_ok sha r) \<and>
     distinct (map e_id (events d)) \<and>
     (\<forall>job. numbered (map e_sequence (job_events d job))) \<and>
     distinct (map key_of (keyed_events d)) \<and>
     (\<forall>r\<in>set (events d). \<exists>j\<in>set (jobs d). j_id j = e_job_id r)"

lemma validate_event_text_iff:
  "validate_event_text m s = Inr x \<longleftrightarrow>
     plain_text s \<and> (\<forall>n. m = Some n \<longrightarrow> utf8_len s \<le> n) \<and> x = s"
  by (auto simp: validate_event_text_def split: option.splits)

lemma validate_event_text_Inl: "validate_event_text m s = Inl e \<Longrightarrow> e = EventValidationError"
  by (auto simp: validate_event_text_def split: if_splits)

lemma validate_event_optional_text_iff:
  "validate_event_optional_text m t = Inr x \<longleftrightarrow>
     (\<forall>s. t = Some s \<longrightarrow> plain_text s \<and> (\<forall>n. m = Some n \<longrightarrow> utf8_len s \<le> n)) \<and> x = t"
  by (auto simp: validate_event_optional_text_def bindE_eq_Inr validate_event_text_iff
      split: option.splits)

lemma canonical_payload_iff:
  "canonical_payload sha p = Inr x \<longleftrightarrow>
     \<not> has_nan_fields p \<and> json_bytes (canon_obj p) \<le> 1048576 \<and>
     x = (canon_obj p, sha (render (JObj (canon_obj p))))"
  by (auto simp: canonical_payload_def dumps_def json_bytes_def split: if_splits)

lemma validate_event_iff:
  "validate_event sha e = Inr (p, h, k) \<longleftrightarrow>
     plain_text (ec_job_id e) \<and> plain_text (ec_event_type e) \<and> utf8_len (ec_event_type e) \<le> 128 \<and>
     (\<forall>s. ec_idempotency_key e = Some s \<longrightarrow> plain_text s \<and> utf8_len s \<le> 128) \<and>
     canonical_payload sha (ec_payload e) = Inr (p, h) \<and> k = ec_idempotency_key e"
  by (auto simp: validate_event_def bindE_eq_Inr validate_event_text_iff
      validate_event_optional_text_iff)

lemma validate_event_Inl: "validate_event sha e = Inl x \<Longrightarrow> x = EventValidationError"
  by (auto simp: validate_event_def bindE_eq_Inl validate_event_optional_text_def
      canonical_payload_def dest: validate_event_text_Inl split: if_splits option.splits)

lemma event_to_record_iff:
  "event_to_record sha r = Inr x \<longleftrightarrow>
     x = r \<and> 1 \<le> e_id r \<and> plain_text (e_job_id r) \<and> 1 \<le> e_sequence r \<and>
     plain_text (e_event_type r) \<and> utf8_len (e_event_type r) \<le> 128 \<and>
     canonical_payload sha (e_payload r) = Inr (e_payload r, e_payload_hash r) \<and>
     (\<forall>s. e_idempotency_key r = Some s \<longrightarrow> plain_text s \<and> utf8_len s \<le> 128)"
  by (auto simp: event_to_record_def bindE_eq_Inr validate_event_text_iff validate_event_id_def
      validate_event_optional_text_iff split: if_splits)

lemma event_to_record_ok [simp]: "event_ok sha r \<Longrightarrow> event_to_record sha r = Inr r"
  by (simp add: event_ok_def)

lemma event_to_record_Inr: "event_to_record sha r = Inr x \<Longrightarrow> x = r \<and> event_ok sha r"
  by (auto simp: event_ok_def event_to_record_iff)

lemma event_ok_new:
  "validate_event sha e = Inr data \<Longrightarrow> 1 \<le> eid \<Longrightarrow> 1 \<le> n \<Longrightarrow> event_ok sha (new_event_row now e data eid n)"
  by (cases data) (auto simp: event_ok_def event_to_record_iff validate_event_iff new_event_row_def
      canonical_payload_iff)

lemma event_ok_check:
  "digest_fun sha \<Longrightarrow> event_ok sha r \<Longrightarrow> event_check r \<and> event_key_check r"
  by (cases "e_idempotency_key r")
    (auto simp: event_ok_def event_to_record_iff event_check_def event_key_check_def
      sql_plain_bounded_def plain_text_sql_plain canonical_payload_iff digest_fun_def)

lemma new_event_row_simps [simp]:
  "e_id (new_event_row now e data eid n) = eid"
  "e_job_id (new_event_row now e data eid n) = ec_job_id e"
  "e_sequence (new_event_row now e data eid n) = n"
  "e_event_type (new_event_row now e data eid n) = ec_event_type e"
  "e_payload (new_event_row now e data eid n) = fst data"
  "e_payload_hash (new_event_row now e data eid n) = fst (snd data)"
  "e_idempotency_key (new_event_row now e data eid n) = snd (snd data)"
  by (simp_all add: new_event_row_def)

lemma numbered_Nil [simp]: "numbered []"
  by (simp add: numbered_def)

lemma numbered_snoc: "numbered ns \<Longrightarrow> numbered (ns @ [int (length ns) + 1])"
  by (auto simp: numbered_def nth_append less_Suc_eq)

lemma numbered_nth: "numbered ns \<Longrightarrow> i < length ns \<Longrightarrow> ns ! i = int i + 1"
  by (simp add: numbered_def)

lemma numbered_bounds: "numbered ns \<Longrightarrow> n \<in> set ns \<Longrightarrow> 1 \<le> n \<and> n \<le> int (length ns)"
  by (auto simp: in_set_conv_nth numbered_def)

lemma numbered_sorted: "numbered ns \<Longrightarrow> sorted_wrt (<) ns"
  by (auto simp: sorted_wrt_iff_nth_less numbered_def)

lemma numbered_last:
  assumes "numbered ns"
  shows "(case ns of [] \<Rightarrow> 0 | s # ss \<Rightarrow> fold max ss s) = int (length ns)"
proof (cases ns)
  case (Cons s ss)
  have "ns ! (length ns - 1) = int (length ns)"
    using assms Cons by (simp add: numbered_def)
  then have "int (length ns) \<in> set ns"
    using Cons by (metis diff_less length_greater_0_conv less_one list.distinct(1) nth_mem)
  then have "Max (set (s # ss)) = int (length ns)"
    using numbered_bounds [OF assms] Cons by (intro Max_eqI) auto
  then show ?thesis using Cons by (metis Max.set_eq_fold list.simps(5))
qed simp

subsection \<open>What an append does\<close>

lemma find_key_distinct:
  assumes "distinct (map g (filter P xs))" and "x \<in> set xs" and "P x"
    and "\<And>y. P y \<Longrightarrow> Q y = (g y = g x)" and "\<And>y. \<not> P y \<Longrightarrow> \<not> Q y"
  shows "List.find Q xs = Some x"
  using assms(1,2)
proof (induction xs)
  case (Cons y ys)
  show ?case
  proof (cases "Q y")
    case True
    then have "P y" "g y = g x" using assms(4,5) by blast+
    then have "y = x"
      using Cons.prems assms(3) by (auto simp: image_iff)
    then show ?thesis using True by simp
  next
    case False
    then have "x \<noteq> y" using assms(3,4) by blast
    then show ?thesis using False Cons by (auto split: if_splits)
  qed
qed simp

lemma select_by_key_wf:
  assumes wf: "events_wf sha d" and r: "r \<in> set (events d)" "e_idempotency_key r = Some k"
  shows "select_event_by_key d (e_job_id r) k = Some r"
  unfolding select_event_by_key_def
  using wf r by (intro find_key_distinct [where P = "\<lambda>q. e_idempotency_key q \<noteq> None" and g = key_of])
    (auto simp: events_wf_def keyed_events_def key_of_def)

lemma select_event_by_key_Some:
  "select_event_by_key d job k = Some r \<Longrightarrow>
   r \<in> set (events d) \<and> e_job_id r = job \<and> e_idempotency_key r = Some k"
  by (auto simp: select_event_by_key_def dest: Prelude.find_Some_iff)

lemma select_event_by_key_None:
  "select_event_by_key d job k = None \<longleftrightarrow>
   (\<forall>r\<in>set (events d). \<not> (e_job_id r = job \<and> e_idempotency_key r = Some k))"
  by (simp add: select_event_by_key_def find_None_iff2)

lemma select_event_wf:
  "events_wf sha d \<Longrightarrow> r \<in> set (events d) \<Longrightarrow> select_event d (e_id r) = Some r"
  by (auto simp: select_event_def events_wf_def intro: find_unique)

lemma select_event_Some: "select_event d i = Some r \<Longrightarrow> r \<in> set (events d) \<and> e_id r = i"
  by (auto simp: select_event_def dest: Prelude.find_Some_iff)

lemma matching_None:
  "matching_idempotent_event sha e h key d = Inr None \<longleftrightarrow>
     (\<forall>k. key = Some k \<longrightarrow> select_event_by_key d (ec_job_id e) k = None)"
  by (auto simp: matching_idempotent_event_def bindE_eq_Inr split: option.splits)

lemma matching_Some:
  "matching_idempotent_event sha e h key d = Inr (Some r) \<longleftrightarrow>
     (\<exists>k. key = Some k \<and> select_event_by_key d (ec_job_id e) k = Some r \<and> event_ok sha r \<and>
        e_event_type r = ec_event_type e \<and> e_payload_hash r = h)"
  by (auto simp: matching_idempotent_event_def bindE_eq_Inr split: option.splits
      dest: event_to_record_Inr)

lemma previous_sequence_wf:
  "events_wf sha d \<Longrightarrow> previous_sequence d job = int (length (job_events d job))"
  using numbered_last [of "map e_sequence (job_events d job)"]
  by (simp add: previous_sequence_def events_wf_def)

text \<open>The row the next event of a job gets.\<close>

definition next_event ::
  "micros \<Rightarrow> event_create \<Rightarrow> payload \<times> string \<times> string option \<Rightarrow> db \<Rightarrow> event_row" where
  "next_event now e data d =
     new_event_row now e data (next_rowid (map e_id (events d)))
       (previous_sequence d (ec_job_id e) + 1)"

definition add_event :: "event_row \<Rightarrow> db \<Rightarrow> db" where
  "add_event r d = d\<lparr>events := events d @ [r]\<rparr>"

lemma add_event_frame [simp]:
  "projects (add_event r d) = projects d"
  "jobs (add_event r d) = jobs d"
  "events (add_event r d) = events d @ [r]"
  "approvals (add_event r d) = approvals d"
  "planner (add_event r d) = planner d"
  "memory_refs (add_event r d) = memory_refs d"
  "verification_runs (add_event r d) = verification_runs d"
  "review_bundles (add_event r d) = review_bundles d"
  "usage (add_event r d) = usage d"
  "native_attempts (add_event r d) = native_attempts d"
  "teams (add_event r d) = teams d"
  "phone (add_event r d) = phone d"
  by (simp_all add: add_event_def)

lemma insert_event_Inr:
  "insert_event d r = Inr d' \<Longrightarrow>
   d' = add_event r d \<and> (\<forall>q\<in>set (events d). e_id q \<noteq> e_id r) \<and>
   (\<exists>j\<in>set (jobs d). j_id j = e_job_id r)"
  by (auto simp: insert_event_def add_event_def split: if_splits)

lemma select_added_event:
  "\<forall>q\<in>set (events d). e_id q \<noteq> e_id r \<Longrightarrow> select_event (add_event r d) (e_id r) = Some r"
  by (auto simp: select_event_def find_append find_None_iff2
      split: option.splits dest: Prelude.find_Some_iff)

lemma event_append_tx_Inr:
  assumes app: "event_append_tx sha now e data d = Inr (stored, d')"
  shows "d' = d \<and> matching_idempotent_event sha e (fst (snd data)) (snd (snd data)) d = Inr (Some stored)
    \<or> matching_idempotent_event sha e (fst (snd data)) (snd (snd data)) d = Inr None \<and>
      d' = add_event (next_event now e data d) d \<and> stored = next_event now e data d \<and>
      (\<exists>j\<in>set (jobs d). j_id j = ec_job_id e) \<and> event_ok sha stored"
proof -
  obtain existing where
    m: "matching_idempotent_event sha e (fst (snd data)) (snd (snd data)) d = Inr existing"
    using app by (auto simp: event_append_tx_def bindE_eq_Inr)
  show ?thesis
  proof (cases existing)
    case None
    let ?r = "next_event now e data d"
    have eid: "e_id ?r = next_rowid (map e_id (events d))" by (simp add: next_event_def)
    obtain d1 where ins: "insert_event d ?r = Inr d1"
      and sel: "\<exists>row. select_event d1 (e_id ?r) = Some row \<and> event_to_record sha row = Inr stored"
      and d': "d' = d1"
      using app m None unfolding eid
      by (auto simp: event_append_tx_def Let_def bindE_eq_Inr next_event_def [symmetric]
          split: if_splits option.splits)
    have "d1 = add_event ?r d" "select_event d1 (e_id ?r) = Some ?r"
      using insert_event_Inr [OF ins] select_added_event by auto
    then show ?thesis using m None sel d' insert_event_Inr [OF ins]
      by (auto simp: next_event_def dest!: event_to_record_Inr)
  next
    case (Some r)
    then show ?thesis using app m by (simp add: event_append_tx_def)
  qed
qed

lemma next_event_ok:
  assumes "events_wf sha d" and "validate_event sha e = Inr data"
  shows "event_ok sha (next_event now e data d)"
proof -
  have "1 \<le> next_rowid (map e_id (events d))" using next_rowid_pos by (simp add: int_one_le_iff_zero_less)
  then show ?thesis
    unfolding next_event_def using assms by (intro event_ok_new) (simp_all add: previous_sequence_wf)
qed

text \<open>The insert of the next event can only fail because its job does not exist.\<close>

lemma insert_next_event:
  assumes dig: "digest_fun sha" and wf: "events_wf sha d" and v: "validate_event sha e = Inr data"
    and fresh: "\<forall>k. ec_idempotency_key e = Some k \<longrightarrow> select_event_by_key d (ec_job_id e) k = None"
  shows "insert_event d (next_event now e data d) =
    (if \<forall>j\<in>set (jobs d). j_id j \<noteq> ec_job_id e then Inl (IntegrityError ForeignKeyViolation)
     else Inr (add_event (next_event now e data d) d))"
proof -
  let ?r = "next_event now e data d"
  have key: "snd (snd data) = ec_idempotency_key e"
    using v by (cases data) (simp add: validate_event_iff)
  have chk: "event_check ?r" "event_key_check ?r"
    using event_ok_check [OF dig next_event_ok [OF wf v]] by auto
  have fresh_id: "\<forall>q\<in>set (events d). e_id q \<noteq> next_rowid (map e_id (events d))"
    using next_rowid_notin [of "map e_id (events d)"] by force
  have fresh_seq: "\<forall>q\<in>set (events d). \<not> (e_job_id q = ec_job_id e \<and>
      e_sequence q = previous_sequence d (ec_job_id e) + 1)"
  proof (intro ballI notI)
    fix q assume q: "q \<in> set (events d)"
      and h: "e_job_id q = ec_job_id e \<and> e_sequence q = previous_sequence d (ec_job_id e) + 1"
    have "e_sequence q \<in> set (map e_sequence (job_events d (ec_job_id e)))"
      unfolding set_map by (rule imageI) (use q h in \<open>simp add: job_events_def\<close>)
    moreover have "numbered (map e_sequence (job_events d (ec_job_id e)))"
      using wf by (simp add: events_wf_def)
    ultimately have "e_sequence q \<le> int (length (job_events d (ec_job_id e)))"
      using numbered_bounds by fastforce
    then show False using h by (simp add: previous_sequence_wf [OF wf])
  qed
  have fresh_key: "\<not> event_key_taken d ?r"
    using fresh key by (auto simp: event_key_taken_def next_event_def select_event_by_key_None)
  show ?thesis
    using chk fresh_id fresh_seq fresh_key
    by (auto simp: insert_event_def add_event_def next_event_def)
qed

lemma event_append_tx_new:
  assumes dig: "digest_fun sha" and wf: "events_wf sha d" and v: "validate_event sha e = Inr data"
    and job: "\<exists>j\<in>set (jobs d). j_id j = ec_job_id e"
    and fresh: "\<forall>k. ec_idempotency_key e = Some k \<longrightarrow> select_event_by_key d (ec_job_id e) k = None"
    and room: "int (length (job_events d (ec_job_id e))) < max_sequence"
  shows "event_append_tx sha now e data d
    = Inr (next_event now e data d, add_event (next_event now e data d) d)"
proof -
  let ?r = "next_event now e data d"
  have key: "snd (snd data) = ec_idempotency_key e"
    using v by (cases data) (simp add: validate_event_iff)
  have eid: "1 \<le> next_rowid (map e_id (events d))" using next_rowid_pos by (simp add: int_one_le_iff_zero_less)
  have ok: "event_ok sha ?r" using next_event_ok [OF wf v] .
  have ins: "insert_event d ?r = Inr (add_event ?r d)"
    using insert_next_event [OF dig wf v fresh] job by auto
  have fresh_id: "\<forall>q\<in>set (events d). e_id q \<noteq> e_id ?r"
    using next_rowid_notin [of "map e_id (events d)"] by (force simp: next_event_def)
  have sel: "select_event (add_event ?r d) (next_rowid (map e_id (events d))) = Some ?r"
    using select_added_event [OF fresh_id] by (simp add: next_event_def)
  have m: "matching_idempotent_event sha e (fst (snd data)) (snd (snd data)) d = Inr None"
    using fresh key by (simp add: matching_None)
  have bounds: "\<not> (previous_sequence d (ec_job_id e) < 0 \<or> previous_sequence d (ec_job_id e) \<ge> max_sequence)"
    using room by (simp add: previous_sequence_wf [OF wf])
  show ?thesis
    using m ins sel ok eid bounds
    by (simp add: event_append_tx_def Let_def next_event_def [symmetric])
qed

text \<open>Every branch of an append inside a transaction, on a well-formed ledger.\<close>

definition known_event :: "event_create \<Rightarrow> db \<Rightarrow> event_row option" where
  "known_event e d =
     (case ec_idempotency_key e of None \<Rightarrow> None | Some k \<Rightarrow> select_event_by_key d (ec_job_id e) k)"

lemma known_event_None:
  "known_event e d = None \<longleftrightarrow>
     (\<forall>k. ec_idempotency_key e = Some k \<longrightarrow> select_event_by_key d (ec_job_id e) k = None)"
  by (auto simp: known_event_def split: option.splits)

lemma matching_wf:
  assumes wf: "events_wf sha d" and v: "validate_event sha e = Inr data"
  shows "matching_idempotent_event sha e (fst (snd data)) (snd (snd data)) d =
    (case known_event e d of
       None \<Rightarrow> Inr None
     | Some r \<Rightarrow> if e_event_type r = ec_event_type e \<and> e_payload_hash r = fst (snd data)
                 then Inr (Some r) else Inl EventIdempotencyConflictError)"
proof -
  have key: "snd (snd data) = ec_idempotency_key e"
    using v by (cases data) (simp add: validate_event_iff)
  have "event_ok sha r" if "known_event e d = Some r" for r
    using that wf by (auto simp: known_event_def events_wf_def split: option.splits
        dest!: select_event_by_key_Some)
  then show ?thesis
    by (auto simp: matching_idempotent_event_def known_event_def key split: option.splits)
qed

lemma event_append_tx_cases:
  assumes dig: "digest_fun sha" and wf: "events_wf sha d" and v: "validate_event sha e = Inr data"
  shows "event_append_tx sha now e data d =
    (case known_event e d of
       Some r \<Rightarrow> if e_event_type r = ec_event_type e \<and> e_payload_hash r = fst (snd data)
                 then Inr (r, d) else Inl EventIdempotencyConflictError
     | None \<Rightarrow>
         if max_sequence \<le> int (length (job_events d (ec_job_id e))) then Inl EventRepositoryError
         else if \<forall>j\<in>set (jobs d). j_id j \<noteq> ec_job_id e
         then Inl (IntegrityError ForeignKeyViolation)
         else Inr (next_event now e data d, add_event (next_event now e data d) d))"
proof (cases "known_event e d")
  case None
  note fresh = None [unfolded known_event_None]
  have m: "matching_idempotent_event sha e (fst (snd data)) (snd (snd data)) d = Inr None"
    using matching_wf [OF wf v] None by simp
  show ?thesis
  proof (cases "(\<exists>j\<in>set (jobs d). j_id j = ec_job_id e) \<and>
      int (length (job_events d (ec_job_id e))) < max_sequence")
    case True
    then show ?thesis using event_append_tx_new [OF dig wf v _ fresh] None by auto
  next
    case False
    have ins: "insert_event d (next_event now e data d) = Inl (IntegrityError ForeignKeyViolation)"
      if "int (length (job_events d (ec_job_id e))) < max_sequence"
      using insert_next_event [OF dig wf v fresh] False that by auto
    note ins = ins [unfolded next_event_def previous_sequence_wf [OF wf]]
    show ?thesis using m None False ins
      by (auto simp: event_append_tx_def Let_def previous_sequence_wf [OF wf])
  qed
next
  case (Some r)
  then show ?thesis using matching_wf [OF wf v] by (simp add: event_append_tx_def)
qed

text \<open>An event appended as the ledger's next one keeps the ledger well-formed.\<close>

lemma events_wf_add:
  assumes wf: "events_wf sha d" and ok: "event_ok sha (next_event now e data d)"
    and job: "\<exists>j\<in>set (jobs d). j_id j = ec_job_id e"
    and key: "snd (snd data) = ec_idempotency_key e"
    and fresh: "\<forall>k. ec_idempotency_key e = Some k \<longrightarrow> select_event_by_key d (ec_job_id e) k = None"
  shows "events_wf sha (add_event (next_event now e data d) d)"
proof -
  let ?r = "next_event now e data d"
  have id: "e_id ?r \<notin> set (map e_id (events d))"
    using next_rowid_notin [of "map e_id (events d)"] by (simp add: next_event_def)
  have num: "numbered (map e_sequence (job_events (add_event ?r d) job'))" for job'
  proof (cases "job' = ec_job_id e")
    case True
    then have "map e_sequence (job_events (add_event ?r d) job')
        = map e_sequence (job_events d job') @ [int (length (map e_sequence (job_events d job'))) + 1]"
      by (simp add: job_events_def next_event_def previous_sequence_wf [OF wf, unfolded job_events_def])
    then show ?thesis using wf numbered_snoc by (simp only: events_wf_def)
  next
    case False
    then have "job_events (add_event ?r d) job' = job_events d job'"
      by (simp add: job_events_def next_event_def)
    then show ?thesis using wf by (simp add: events_wf_def)
  qed
  have keys: "distinct (map key_of (keyed_events (add_event ?r d)))"
  proof (cases "ec_idempotency_key e")
    case None
    then have "keyed_events (add_event ?r d) = keyed_events d"
      using key by (simp add: keyed_events_def next_event_def)
    then show ?thesis using wf by (simp add: events_wf_def)
  next
    case (Some k)
    then have "keyed_events (add_event ?r d) = keyed_events d @ [?r]"
      using key by (simp add: keyed_events_def next_event_def)
    moreover have "key_of ?r \<notin> key_of ` set (keyed_events d)"
      using fresh Some key
      by (force simp: key_of_def keyed_events_def next_event_def select_event_by_key_None)
    ultimately show ?thesis using wf by (simp add: events_wf_def)
  qed
  show ?thesis
    using wf ok id num keys job unfolding events_wf_def
    by (auto simp: next_event_def)
qed


text \<open>A committed append: the old ledger is a prefix of the new one.\<close>

lemma event_append_tx_prefix:
  "event_append_tx sha now e data d = Inr (stored, d') \<Longrightarrow> \<exists>new. events d' = events d @ new"
  by (drule event_append_tx_Inr) auto

lemma event_append_tx_frame:
  "event_append_tx sha now e data d = Inr (stored, d') \<Longrightarrow>
   projects d' = projects d \<and> jobs d' = jobs d \<and> approvals d' = approvals d \<and>
   planner d' = planner d \<and> memory_refs d' = memory_refs d \<and>
   verification_runs d' = verification_runs d \<and> review_bundles d' = review_bundles d \<and>
   native_attempts d' = native_attempts d \<and> teams d' = teams d \<and> phone d' = phone d"
  by (drule event_append_tx_Inr) auto

lemma event_append_tx_wf:
  assumes wf: "events_wf sha d" and v: "validate_event sha e = Inr data"
    and app: "event_append_tx sha now e data d = Inr (stored, d')"
  shows "events_wf sha d'"
proof -
  have key: "snd (snd data) = ec_idempotency_key e"
    using v by (cases data) (simp add: validate_event_iff)
  from event_append_tx_Inr [OF app] show ?thesis
  proof (elim disjE conjE)
    assume "d' = d"
    then show ?thesis using wf by simp
  next
    assume "matching_idempotent_event sha e (fst (snd data)) (snd (snd data)) d = Inr None"
      and d': "d' = add_event (next_event now e data d) d" "stored = next_event now e data d"
      and "\<exists>j\<in>set (jobs d). j_id j = ec_job_id e" "event_ok sha stored"
    then show ?thesis
      using wf key unfolding d' by (intro events_wf_add) (simp_all add: matching_None)
  qed
qed

text \<open>What a caller gets back is a stored event with the requested type, payload hash and key.\<close>

lemma event_append_tx_stored:
  assumes wf: "events_wf sha d" and v: "validate_event sha e = Inr data"
    and app: "event_append_tx sha now e data d = Inr (stored, d')"
  shows "stored \<in> set (events d') \<and> event_ok sha stored \<and> e_job_id stored = ec_job_id e \<and>
    e_event_type stored = ec_event_type e \<and> e_payload_hash stored = fst (snd data) \<and>
    e_idempotency_key stored = ec_idempotency_key e"
proof -
  have key: "snd (snd data) = ec_idempotency_key e"
    using v by (cases data) (simp add: validate_event_iff)
  from event_append_tx_Inr [OF app] show ?thesis
    using key by (auto simp: matching_Some next_event_def dest!: select_event_by_key_Some)
qed

lemma event_append_tx_retry:
  assumes wf: "events_wf sha d" and v: "validate_event sha e = Inr data"
    and key: "ec_idempotency_key e = Some k"
    and app: "event_append_tx sha now e data d = Inr (stored, d')"
  shows "event_append_tx sha now' e data d' = Inr (stored, d')"
proof -
  have st: "stored \<in> set (events d')" "event_ok sha stored" "e_job_id stored = ec_job_id e"
    "e_event_type stored = ec_event_type e" "e_payload_hash stored = fst (snd data)"
    "e_idempotency_key stored = Some k"
    using event_append_tx_stored [OF wf v app] key by auto
  have dk: "snd (snd data) = Some k"
    using v key by (cases data) (simp add: validate_event_iff)
  have "select_event_by_key d' (ec_job_id e) k = Some stored"
    using select_by_key_wf [OF event_append_tx_wf [OF wf v app] st(1,6)] st(3) by simp
  then have "matching_idempotent_event sha e (fst (snd data)) (snd (snd data)) d' = Inr (Some stored)"
    using st dk by (simp add: matching_Some)
  then show ?thesis by (simp add: event_append_tx_def)
qed

subsection \<open>The repository operation\<close>

lemma event_append_Inr:
  "event_append sha e now d = (Inr r, d') \<longleftrightarrow>
     (\<exists>data. validate_event sha e = Inr data \<and> event_append_tx sha now e data d = Inr (r, d'))"
  by (auto simp: event_append_def tx_Inr)

lemma event_append_rollback: "event_append sha e now d = (Inl x, d') \<Longrightarrow> d' = d"
  unfolding event_append_def by (rule tx_rollback)

interpretation keyed_append:
  idempotent_operation "event_append sha (e\<lparr>ec_idempotency_key := Some k\<rparr>)" "events_wf sha"
  for sha e k
proof
  fix t s x s'
  assume "event_append sha (e\<lparr>ec_idempotency_key := Some k\<rparr>) t s = (Inl x, s')"
  then show "s' = s" by (rule event_append_rollback)
next
  fix s t x s'
  assume "events_wf sha s" "event_append sha (e\<lparr>ec_idempotency_key := Some k\<rparr>) t s = (Inr x, s')"
  then show "events_wf sha s'" by (auto simp: event_append_Inr intro: event_append_tx_wf)
next
  fix s t x s' t'
  assume "events_wf sha s" "event_append sha (e\<lparr>ec_idempotency_key := Some k\<rparr>) t s = (Inr x, s')"
  then show "event_append sha (e\<lparr>ec_idempotency_key := Some k\<rparr>) t' s' = (Inr x, s')"
    by (fastforce simp: event_append_Inr intro: event_append_tx_retry)
qed

interpretation event_appending: atomic_operation "event_append sha e" "events_wf sha" for sha e
proof
  fix t s x s' assume "event_append sha e t s = (Inl x, s')"
  then show "s' = s" by (rule event_append_rollback)
next
  fix s t x s' assume "events_wf sha s" "event_append sha e t s = (Inr x, s')"
  then show "events_wf sha s'" by (auto simp: event_append_Inr intro: event_append_tx_wf)
qed

subsection \<open>Reading the ledger\<close>

lemma job_events_sorted:
  assumes "events_wf sha d"
  shows "sort_key e_sequence (job_events d job) = job_events d job"
proof -
  have "sorted_wrt (<) (map e_sequence (job_events d job))"
    using assms by (auto simp: events_wf_def intro: numbered_sorted)
  then show ?thesis by (intro sort_key_id) (simp add: strict_sorted_imp_sorted)
qed

lemma job_events_ok: "events_wf sha d \<Longrightarrow> r \<in> set (job_events d job) \<Longrightarrow> event_ok sha r"
  by (auto simp: events_wf_def job_events_def)

lemma event_list_wf:
  assumes "events_wf sha d" and "plain_text job"
  shows "event_list sha job d = Inr (job_events d job)"
  using assms job_events_ok [OF assms(1)]
  by (simp add: event_list_def validate_event_text_iff [THEN iffD2] job_events_sorted mapE_Inr_id)

text \<open>The rows above a cursor are the ledger without its first \<open>sequence\<close> events.\<close>

lemma filter_after_drop:
  assumes "numbered (map f xs)"
  shows "filter (\<lambda>r. f r > int n) xs = drop n xs"
proof -
  have nth: "f (xs ! i) = int i + 1" if "i < length xs" for i
    using numbered_nth [OF assms, of i] that by simp
  have "filter (\<lambda>r. f r > int n) (take n xs) = []"
    unfolding filter_empty_conv by (auto simp: in_set_conv_nth nth)
  moreover have "filter (\<lambda>r. f r > int n) (drop n xs) = drop n xs"
    unfolding filter_id_conv by (auto simp: in_set_conv_nth nth)
  ultimately have "filter (\<lambda>r. f r > int n) (take n xs @ drop n xs) = drop n xs"
    unfolding filter_append by simp
  then show ?thesis by simp
qed

lemma event_list_after_wf:
  assumes wf: "events_wf sha d" and job: "plain_text job" and l: "1 \<le> limit" "limit \<le> 1000"
  shows "event_list_after sha job (int n) limit d = Inr (take (nat limit) (drop n (job_events d job)))"
proof -
  have num: "numbered (map e_sequence (job_events d job))" using wf by (simp add: events_wf_def)
  have rows: "filter (\<lambda>r. e_sequence r > int n) (job_events d job) = drop n (job_events d job)"
    using num by (rule filter_after_drop)
  have "sorted (map e_sequence (job_events d job))"
    using numbered_sorted [OF num] by (simp add: strict_sorted_imp_sorted)
  then have "sort_key e_sequence (drop n (job_events d job)) = drop n (job_events d job)"
    by (intro sort_key_id) (simp add: drop_map [symmetric] sorted_wrt_drop)
  moreover have "mapE (event_to_record sha) (take (nat limit) (drop n (job_events d job)))
      = Inr (take (nat limit) (drop n (job_events d job)))"
    using job_events_ok [OF wf] by (intro mapE_Inr_id) (auto dest!: in_set_takeD in_set_dropD)
  ultimately show ?thesis
    using job l by (simp add: event_list_after_def validate_event_text_iff [THEN iffD2] rows)
qed

subsection \<open>A client that replays\<close>

text \<open>
  A client replays the ledger page by page from the last sequence it has, until a page comes back
  empty; the first argument bounds the number of pages.
\<close>

fun event_pages ::
  "(string \<Rightarrow> string) \<Rightarrow> nat \<Rightarrow> string \<Rightarrow> int \<Rightarrow> int \<Rightarrow> db \<Rightarrow> exn + event_row list" where
  "event_pages sha 0 job sequence limit d = Inr []"
| "event_pages sha (Suc n) job sequence limit d =
     bindE (event_list_after sha job sequence limit d) (\<lambda>rows.
       if rows = [] then Inr []
       else bindE (event_pages sha n job (e_sequence (last rows)) limit d) (\<lambda>rest. Inr (rows @ rest)))"

lemma job_events_nth:
  "events_wf sha d \<Longrightarrow> i < length (job_events d job) \<Longrightarrow> e_sequence (job_events d job ! i) = int i + 1"
  using numbered_nth [of "map e_sequence (job_events d job)" i] by (simp add: events_wf_def)

lemma event_pages_from:
  assumes wf: "events_wf sha d" and job: "plain_text job" and l: "1 \<le> limit" "limit \<le> 1000"
  shows "length (job_events d job) < k + n \<Longrightarrow>
    event_pages sha n job (int k) limit d = Inr (drop k (job_events d job))"
proof (induction n arbitrary: k)
  case (Suc n)
  let ?xs = "job_events d job"
  have page: "event_list_after sha job (int k) limit d = Inr (take (nat limit) (drop k ?xs))"
    using wf job l by (rule event_list_after_wf)
  show ?case
  proof (cases "drop k ?xs = []")
    case False
    let ?a = "min (nat limit) (length (drop k ?xs))"
    have a: "0 < ?a" "k + ?a \<le> length ?xs" using False l by auto
    have ne: "take (nat limit) (drop k ?xs) \<noteq> []" using False l by simp
    have "last (take (nat limit) (drop k ?xs)) = drop k ?xs ! (?a - 1)"
      using False l by (intro last_take_nth) auto
    moreover obtain m where m: "?a = Suc m" using a(1) by (cases ?a) auto
    ultimately have "last (take (nat limit) (drop k ?xs)) = ?xs ! (k + m)"
      using a by simp
    moreover have "e_sequence (?xs ! (k + m)) = int (k + m) + 1"
      using a(2) unfolding m by (intro job_events_nth [OF wf]) simp
    ultimately have "e_sequence (last (take (nat limit) (drop k ?xs))) = int (k + ?a)"
      unfolding m by simp
    moreover have "event_pages sha n job (int (k + ?a)) limit d = Inr (drop (k + ?a) ?xs)"
    proof (rule Suc.IH)
      show "length ?xs < k + ?a + n" using a(1) Suc.prems by linarith
    qed
    moreover have "take (nat limit) (drop k ?xs) @ drop (k + ?a) ?xs = drop k ?xs"
    proof -
      have "drop (k + ?a) ?xs = drop ?a (drop k ?xs)" by (simp add: add.commute)
      moreover have "take (nat limit) (drop k ?xs) @ drop ?a (drop k ?xs) = drop k ?xs"
        by (cases "nat limit \<le> length (drop k ?xs)") (simp_all del: drop_drop add: min_def)
      ultimately show ?thesis by (simp only:)
    qed
    ultimately show ?thesis using page ne by simp
  qed (simp add: page)
qed simp

lemma sample_sha_digest [simp]: "digest_fun sample_sha"
  by (simp add: digest_fun_def hex64_def sample_sha_def hex_digits_def)

lemma sample_ready_ok [simp]: "event_ok sample_sha sample_ready"
  by code_simp

lemma sample_events_wf [simp]: "events_wf sample_sha (sample_db st)"
proof -
  have "numbered (map e_sequence (job_events (sample_db st) job))" for job
    by (simp add: job_events_def numbered_def sample_ready_def)
  then show ?thesis
    by (simp add: events_wf_def keyed_events_def) (simp add: sample_ready_def sample_job_def)
qed

definition sample_note :: event_create where
  "sample_note = \<lparr>ec_job_id = ''job-1'', ec_event_type = ''note'', ec_payload = [],
     ec_idempotency_key = Some ''n1''\<rparr>"

lemma sample_note_valid:
  "validate_event sample_sha sample_note = Inr ([], replicate 64 CHR ''0'', Some ''n1'')"
  by code_simp

subsection \<open>Properties\<close>

text \<open>
  C12: every branch of \<open>EventRepository.append\<close> on a well-formed ledger. A key the job already
  used returns the stored event when type and payload hash agree and is a conflict otherwise; a
  fresh event gets the next sequence number of its job and the next row id; every refusal leaves
  the ledger alone.
\<close>

theorem event_append_outcome:
  assumes dig: "digest_fun sha" and wf: "events_wf sha d"
  shows "event_append sha e now d =
    (case validate_event sha e of
       Inl x \<Rightarrow> (Inl EventValidationError, d)
     | Inr data \<Rightarrow>
         (case known_event e d of
            Some r \<Rightarrow> (if e_event_type r = ec_event_type e \<and> e_payload_hash r = fst (snd data)
                       then Inr r else Inl EventIdempotencyConflictError, d)
          | None \<Rightarrow>
              if max_sequence \<le> int (length (job_events d (ec_job_id e)))
              then (Inl EventRepositoryError, d)
              else if \<forall>j\<in>set (jobs d). j_id j \<noteq> ec_job_id e then (Inl EventValidationError, d)
              else (Inr (next_event now e data d), add_event (next_event now e data d) d)))"
proof (cases "validate_event sha e")
  case (Inl x)
  then show ?thesis using validate_event_Inl [OF Inl] by (simp add: event_append_def)
next
  case (Inr data)
  note tx = event_append_tx_cases [OF dig wf Inr]
  show ?thesis
    using Inr by (simp add: event_append_def tx write_connection_def connection_def on_integrity_def
        event_integrity_def is_integrity_error_def split: option.splits)
qed

theorem event_append_outcome_witness:
  "fst (event_append sample_sha sample_note 50 (sample_db Running))
     = Inr (next_event 50 sample_note ([], replicate 64 CHR ''0'', Some ''n1'') (sample_db Running)) \<and>
   fst (event_append sample_sha (sample_note\<lparr>ec_job_id := ''none''\<rparr>) 50 (sample_db Running))
     = Inl EventValidationError"
proof -
  note out = event_append_outcome [OF sample_sha_digest sample_events_wf]
  have none: "validate_event sample_sha (sample_note\<lparr>ec_job_id := ''none''\<rparr>)
      = Inr ([], replicate 64 CHR ''0'', Some ''n1'')" by code_simp
  have small: "\<not> max_sequence \<le> 0" "\<not> max_sequence \<le> 1" by (simp_all add: max_sequence_def)
  show ?thesis
    using small
    by (simp add: out sample_note_valid none)
      (simp add: known_event_def select_event_by_key_def sample_note_def sample_ready_def
        sample_job_def job_events_def)
qed

text \<open>
  Delivering a keyed event any number of times, at any times, stores it once and answers every
  delivery with the stored event.
\<close>

theorem event_delivered_once:
  assumes "events_wf sha d"
    and "event_append sha (e\<lparr>ec_idempotency_key := Some k\<rparr>) now d = (Inr r, d')"
  shows "deliver (event_append sha (e\<lparr>ec_idempotency_key := Some k\<rparr>)) (now # later) d
    = (replicate (Suc (length later)) (Inr r), d') \<and> events_wf sha d'"
  using keyed_append.deliver_once [OF assms] keyed_append.keeps [OF assms] by simp

theorem event_delivered_once_witness:
  "\<exists>r d'. deliver (event_append sample_sha sample_note) [50, 60, 70] (sample_db Running)
     = ([Inr r, Inr r, Inr r], d') \<and> e_sequence r = 2"
proof -
  have "case event_append sample_sha sample_note 50 (sample_db Running) of
      (Inr r, d') \<Rightarrow> e_sequence r = 2 | _ \<Rightarrow> False" by code_simp
  then obtain r d' where "event_append sample_sha sample_note 50 (sample_db Running) = (Inr r, d')"
    and seq: "e_sequence r = 2" by (auto split: prod.splits sum.splits)
  moreover have "sample_note\<lparr>ec_idempotency_key := Some ''n1''\<rparr> = sample_note"
    by (simp add: sample_note_def)
  ultimately have "event_append sample_sha (sample_note\<lparr>ec_idempotency_key := Some ''n1''\<rparr>) 50
      (sample_db Running) = (Inr r, d')" by simp
  from event_delivered_once [OF sample_events_wf this, of "[60, 70]"] seq
  show ?thesis by (simp add: sample_note_def numeral_eq_Suc)
qed

text \<open>
  C13: replaying a job's ledger with \<open>list_after\<close> from a sequence the client has already seen, in
  pages of any accepted size, returns exactly the events after it, in order and without gaps:
  their sequence numbers are \<open>seen + 1\<close>, \<open>seen + 2\<close>, ... .
\<close>

theorem event_replay_complete:
  assumes "events_wf sha d" and "plain_text job" and "1 \<le> limit" and "limit \<le> 1000"
    and "length (job_events d job) < seen + n"
  shows "event_pages sha n job (int seen) limit d = Inr (drop seen (job_events d job)) \<and>
    map e_sequence (drop seen (job_events d job))
      = map (\<lambda>i. int (seen + i) + 1) [0..<length (job_events d job) - seen]"
proof
  show "event_pages sha n job (int seen) limit d = Inr (drop seen (job_events d job))"
    using assms by (intro event_pages_from)
  show "map e_sequence (drop seen (job_events d job))
      = map (\<lambda>i. int (seen + i) + 1) [0..<length (job_events d job) - seen]"
    using job_events_nth [OF assms(1)] by (intro nth_equalityI) auto
qed

theorem event_replay_complete_witness:
  "event_pages sample_sha 2 ''job-1'' 0 10 (sample_db Running) = Inr [sample_ready]"
proof -
  have p: "plain_text ''job-1''" by code_simp
  have r: "job_events (sample_db Running) ''job-1'' = [sample_ready]"
    by (simp add: job_events_def sample_ready_def)
  show ?thesis
    using event_replay_complete [of sample_sha "sample_db Running" "''job-1''" 10 0 2] p
    by (simp add: r)
qed

end
