(* ===== verification/Transitions.thy ===== *)
theory Transitions
  imports Events
begin

text \<open>
  \<open>AtomicTransitionService\<close> (db.py): a job update and its event in one transaction, checked
  against the lifecycle, with a retry by idempotency key answered from the ledger; and
  \<open>bind_worktree\<close>, which records a worktree path without a change of state.
\<close>

definition handle :: "(exn \<Rightarrow> exn) \<Rightarrow> exn + 'a \<Rightarrow> exn + 'a" where
  "handle h r = (case r of Inl e \<Rightarrow> Inl (h e) | Inr x \<Rightarrow> Inr x)"

definition matches_requested_state :: "job_row \<Rightarrow> job_update \<Rightarrow> bool" where
  "matches_requested_state stored u \<longleftrightarrow>
     j_state stored = ju_state u \<and> j_runtime stored = ju_runtime u \<and>
     j_model stored = ju_model u \<and> j_worktree_path stored = ju_worktree_path u"

definition resolve_retry :: "job_update \<Rightarrow> event_row \<Rightarrow> db \<Rightarrow> exn + job_row \<times> event_row" where
  "resolve_retry u event d =
     (case select_job d (ju_id u) of
        None \<Rightarrow> Inl JobNotFoundError
      | Some row \<Rightarrow> bindE (job_to_record row) (\<lambda>stored.
          if \<not> matches_requested_state stored u then Inl AtomicTransitionConflictError
          else Inr (stored, event)))"

text \<open>The validation both operations start with.\<close>

definition transition_request ::
  "(string \<Rightarrow> string) \<Rightarrow> job_update \<Rightarrow> event_create
   \<Rightarrow> exn + payload \<times> string \<times> string option" where
  "transition_request sha u e =
     rethrow (\<lambda>x. isa x JobValidationError \<or> isa x EventValidationError)
       AtomicTransitionValidationError
       (bindE (validate_job_update u) (\<lambda>_. validate_event sha e))"

definition transition_handler :: "exn \<Rightarrow> exn" where
  "transition_handler x =
     (if isa x JobNotFoundError then AtomicTransitionValidationError
      else if isa x EventIdempotencyConflictError then AtomicTransitionConflictError
      else if isa x ForbiddenJobTransitionError then AtomicTransitionStateError
      else if is_integrity_error x then AtomicTransitionError
      else if isa x JobRepositoryError \<or> isa x EventRepositoryError then AtomicTransitionError
      else x)"

definition transition_tx ::
  "(string \<Rightarrow> string) \<Rightarrow> micros \<Rightarrow> job_update \<Rightarrow> event_create \<Rightarrow> payload \<times> string \<times> string option
   \<Rightarrow> job_row option \<Rightarrow> db \<Rightarrow> exn + (job_row \<times> event_row) \<times> db" where
  "transition_tx sha now u e data expected d =
     bindE (matching_idempotent_event sha e (fst (snd data)) (snd (snd data)) d) (\<lambda>existing.
       case existing of
         Some event \<Rightarrow> bindE (resolve_retry u event d) (\<lambda>r. Inr (r, d))
       | None \<Rightarrow> (case select_job d (ju_id u) of
             None \<Rightarrow> Inl JobNotFoundError
           | Some row \<Rightarrow> bindE (job_to_record row) (\<lambda>current.
               if expected \<noteq> None \<and> Some current \<noteq> expected
               then Inl AtomicTransitionConflictError
               else bindE (validate_job_transition (j_state current) (ju_state u)) (\<lambda>_.
                    bindE (job_apply_update now u d) (\<lambda>(stored_job, d1).
                    bindE (event_append_tx sha now e data d1) (\<lambda>(stored_event, d2).
                    Inr ((stored_job, stored_event), d2)))))))"

definition transition ::
  "(string \<Rightarrow> string) \<Rightarrow> job_update \<Rightarrow> event_create \<Rightarrow> job_row option \<Rightarrow> micros \<Rightarrow> db
   \<Rightarrow> (exn + job_row \<times> event_row) \<times> db" where
  "transition sha u e expected now =
     validated
       (bindE (transition_request sha u e) (\<lambda>data.
        if ju_id u \<noteq> ec_job_id e then Inl AtomicTransitionValidationError else Inr data))
       (\<lambda>data. write_connection AtomicTransitionError
          (\<lambda>d. handle transition_handler (transition_tx sha now u e data expected d)))"

definition bind_handler :: "exn \<Rightarrow> exn" where
  "bind_handler x =
     (if isa x JobNotFoundError then AtomicTransitionValidationError
      else if isa x EventIdempotencyConflictError then AtomicTransitionConflictError
      else if is_integrity_error x then AtomicTransitionError
      else if isa x JobRepositoryError \<or> isa x EventRepositoryError then AtomicTransitionError
      else x)"

definition bind_worktree_tx ::
  "(string \<Rightarrow> string) \<Rightarrow> micros \<Rightarrow> job_update \<Rightarrow> event_create \<Rightarrow> payload \<times> string \<times> string option
   \<Rightarrow> db \<Rightarrow> exn + (job_row \<times> event_row) \<times> db" where
  "bind_worktree_tx sha now u e data d =
     bindE (matching_idempotent_event sha e (fst (snd data)) (snd (snd data)) d) (\<lambda>existing.
       case existing of
         Some event \<Rightarrow> bindE (resolve_retry u event d) (\<lambda>r. Inr (r, d))
       | None \<Rightarrow> (case select_job d (ju_id u) of
             None \<Rightarrow> Inl JobNotFoundError
           | Some row \<Rightarrow> bindE (job_to_record row) (\<lambda>current.
               if j_state current \<noteq> ju_state u \<or> j_runtime current \<noteq> ju_runtime u \<or>
                  j_model current \<noteq> ju_model u \<or> j_worktree_path current \<noteq> None
               then Inl AtomicTransitionConflictError
               else bindE (job_apply_update now u d) (\<lambda>(stored_job, d1).
                    bindE (event_append_tx sha now e data d1) (\<lambda>(stored_event, d2).
                    Inr ((stored_job, stored_event), d2))))))"

definition bind_worktree ::
  "(string \<Rightarrow> string) \<Rightarrow> job_update \<Rightarrow> event_create \<Rightarrow> micros \<Rightarrow> db
   \<Rightarrow> (exn + job_row \<times> event_row) \<times> db" where
  "bind_worktree sha u e now =
     validated
       (bindE (transition_request sha u e) (\<lambda>data.
        if ju_id u \<noteq> ec_job_id e \<or> ju_worktree_path u = None
        then Inl AtomicTransitionValidationError else Inr data))
       (\<lambda>data. write_connection AtomicTransitionError
          (\<lambda>d. handle bind_handler (bind_worktree_tx sha now u e data d)))"

subsection \<open>The core of the store\<close>

definition core_wf :: "(string \<Rightarrow> string) \<Rightarrow> db \<Rightarrow> bool" where
  "core_wf sha d \<longleftrightarrow> projects_wf d \<and> jobs_wf d \<and> events_wf sha d"

lemma handle_simps [simp]:
  "handle h (Inr x) = Inr x"
  "handle h (Inl e) = Inl (h e)"
  "handle h r = Inr x \<longleftrightarrow> r = Inr x"
  by (cases r; simp add: handle_def)+

lemma transition_request_iff:
  "transition_request sha u e = Inr data \<longleftrightarrow>
     validate_job_update u = Inr () \<and> validate_event sha e = Inr data"
  by (auto simp: transition_request_def bindE_eq_Inr)

lemma transition_request_Inl:
  "transition_request sha u e = Inl x \<Longrightarrow> x = AtomicTransitionValidationError"
  by (auto simp: transition_request_def rethrow_def bindE_eq_Inl split: sum.splits if_splits
      dest!: validate_job_update_Inl validate_event_Inl)

lemma ex_key_image: "(\<exists>j\<in>A. f j = i) \<longleftrightarrow> i \<in> f ` A"
  by auto

lemma put_job_ids: "(\<exists>j\<in>set (jobs (put_job now u d)). j_id j = i) \<longleftrightarrow> (\<exists>j\<in>set (jobs d). j_id j = i)"
  unfolding ex_key_image set_map [symmetric] by simp

lemma put_job_events [simp]:
  "job_events (put_job now u d) job = job_events d job"
  "keyed_events (put_job now u d) = keyed_events d"
  by (simp_all add: job_events_def keyed_events_def)

lemma events_wf_put_job: "events_wf sha d \<Longrightarrow> events_wf sha (put_job now u d)"
  by (simp add: events_wf_def put_job_ids)

lemma projects_wf_frame: "projects d' = projects d \<Longrightarrow> projects_wf d' = projects_wf d"
  by (simp add: projects_wf_def)

lemma core_wf_put_job:
  "core_wf sha d \<Longrightarrow> validate_job_update u = Inr x \<Longrightarrow> core_wf sha (put_job now u d)"
  by (auto simp: core_wf_def events_wf_put_job projects_wf_frame [of "put_job now u d" d]
      intro: jobs_wf_put_job)

lemma core_wf_append:
  assumes "core_wf sha d" and "validate_event sha e = Inr data"
    and "event_append_tx sha now e data d = Inr (r, d')"
  shows "core_wf sha d'"
  using event_append_tx_frame [OF assms(3)] event_append_tx_wf [OF _ assms(2,3)] assms(1)
    jobs_wf_frame [of d' d] projects_wf_frame [of d' d]
  by (auto simp: core_wf_def)

lemma select_event_by_key_put_job [simp]:
  "select_event_by_key (put_job now u d) job k = select_event_by_key d job k"
  by (simp add: select_event_by_key_def)

lemma matching_put_job [simp]:
  "matching_idempotent_event sha e h k (put_job now u d) = matching_idempotent_event sha e h k d"
  by (simp add: matching_idempotent_event_def cong: option.case_cong)

lemma next_event_put_job [simp]: "next_event now e data (put_job now' u d) = next_event now e data d"
  by (simp add: next_event_def previous_sequence_def)

subsection \<open>What a transition does\<close>

lemma resolve_retry_Inr:
  "resolve_retry u event d = Inr (j, ev) \<Longrightarrow>
   select_job d (ju_id u) = Some j \<and> matches_requested_state j u \<and> ev = event"
  by (auto simp: resolve_retry_def bindE_eq_Inr split: option.splits if_splits
      dest!: job_to_record_Inr)

text \<open>
  Either the ledger already holds the event and nothing is written, or the job moved along an
  allowed transition and its event became the next of the ledger.
\<close>

lemma transition_tx_Inr:
  assumes tx: "transition_tx sha now u e data expected d = Inr ((j, ev), d')"
  shows "(d' = d \<and> matching_idempotent_event sha e (fst (snd data)) (snd (snd data)) d = Inr (Some ev)
       \<and> select_job d (ju_id u) = Some j \<and> matches_requested_state j u) \<or>
     (\<exists>old. select_job d (ju_id u) = Some old \<and> (expected \<noteq> None \<longrightarrow> expected = Some old) \<and>
        ju_state u \<in> set (ALLOWED_JOB_TRANSITIONS (j_state old)) \<and> j = set_job now u old \<and>
        event_append_tx sha now e data (put_job now u d) = Inr (ev, d') \<and>
        matching_idempotent_event sha e (fst (snd data)) (snd (snd data)) d = Inr None)"
proof -
  obtain existing where
    m: "matching_idempotent_event sha e (fst (snd data)) (snd (snd data)) d = Inr existing"
    using tx unfolding transition_tx_def bindE_eq_Inr by blast
  show ?thesis
  proof (cases existing)
    case None
    obtain old where old: "select_job d (ju_id u) = Some old" "job_to_record old = Inr old"
      using tx m None by (auto simp: transition_tx_def bindE_eq_Inr split: option.splits
          dest: job_to_record_Inr)
    have exp: "expected \<noteq> None \<longrightarrow> expected = Some old"
      using tx m None old by (auto simp: transition_tx_def split: if_splits)
    have tr: "validate_job_transition (j_state old) (ju_state u) = Inr ()"
      using tx m None old exp by (auto simp: transition_tx_def bindE_eq_Inr split: if_splits)
    obtain j' d1 where upd: "job_apply_update now u d = Inr (j', d1)"
      and app: "event_append_tx sha now e data d1 = Inr (ev, d')" "j' = j"
      using tx m None old exp tr by (auto simp: transition_tx_def bindE_eq_Inr split: if_splits)
    show ?thesis
      using job_apply_update_Inr [OF upd] app old(1) exp tr m None by auto
  next
    case (Some r)
    then have "resolve_retry u r d = Inr (j, ev)" "d' = d"
      using tx m by (auto simp: transition_tx_def bindE_eq_Inr)
    then show ?thesis using m Some resolve_retry_Inr by blast
  qed
qed

lemma bind_worktree_tx_Inr:
  assumes tx: "bind_worktree_tx sha now u e data d = Inr ((j, ev), d')"
  shows "(d' = d \<and> matching_idempotent_event sha e (fst (snd data)) (snd (snd data)) d = Inr (Some ev)
       \<and> select_job d (ju_id u) = Some j \<and> matches_requested_state j u) \<or>
     (\<exists>old. select_job d (ju_id u) = Some old \<and> j_state old = ju_state u \<and>
        j_runtime old = ju_runtime u \<and> j_model old = ju_model u \<and> j_worktree_path old = None \<and>
        j = set_job now u old \<and>
        event_append_tx sha now e data (put_job now u d) = Inr (ev, d') \<and>
        matching_idempotent_event sha e (fst (snd data)) (snd (snd data)) d = Inr None)"
proof -
  obtain existing where
    m: "matching_idempotent_event sha e (fst (snd data)) (snd (snd data)) d = Inr existing"
    using tx unfolding bind_worktree_tx_def bindE_eq_Inr by blast
  show ?thesis
  proof (cases existing)
    case None
    obtain old where old: "select_job d (ju_id u) = Some old" "job_to_record old = Inr old"
      using tx m None by (auto simp: bind_worktree_tx_def bindE_eq_Inr split: option.splits
          dest: job_to_record_Inr)
    have free: "j_state old = ju_state u" "j_runtime old = ju_runtime u" "j_model old = ju_model u"
      "j_worktree_path old = None"
      using tx m None old by (auto simp: bind_worktree_tx_def split: if_splits)
    obtain j' d1 where upd: "job_apply_update now u d = Inr (j', d1)"
      and app: "event_append_tx sha now e data d1 = Inr (ev, d')" "j' = j"
      using tx m None old free by (auto simp: bind_worktree_tx_def bindE_eq_Inr split: if_splits)
    show ?thesis
      using job_apply_update_Inr [OF upd] app old(1) free m None by auto
  next
    case (Some r)
    then have "resolve_retry u r d = Inr (j, ev)" "d' = d"
      using tx m by (auto simp: bind_worktree_tx_def bindE_eq_Inr)
    then show ?thesis using m Some resolve_retry_Inr by blast
  qed
qed

lemma transition_Inr:
  "transition sha u e expected now d = (Inr r, d') \<longleftrightarrow>
     (\<exists>data. validate_job_update u = Inr () \<and> validate_event sha e = Inr data \<and>
        ju_id u = ec_job_id e \<and> transition_tx sha now u e data expected d = Inr (r, d'))"
  by (auto simp: transition_def tx_Inr bindE_eq_Inr transition_request_iff split: if_splits)

lemma bind_worktree_Inr:
  "bind_worktree sha u e now d = (Inr r, d') \<longleftrightarrow>
     (\<exists>data. validate_job_update u = Inr () \<and> validate_event sha e = Inr data \<and>
        ju_id u = ec_job_id e \<and> ju_worktree_path u \<noteq> None \<and>
        bind_worktree_tx sha now u e data d = Inr (r, d'))"
  by (auto simp: bind_worktree_def tx_Inr bindE_eq_Inr transition_request_iff split: if_splits)

lemma transition_rollback: "transition sha u e expected now d = (Inl x, d') \<Longrightarrow> d' = d"
  unfolding transition_def by (rule tx_rollback)

lemma bind_worktree_rollback: "bind_worktree sha u e now d = (Inl x, d') \<Longrightarrow> d' = d"
  unfolding bind_worktree_def by (rule tx_rollback)

lemma transition_wf:
  assumes wf: "core_wf sha d" and tr: "transition sha u e expected now d = (Inr (j, ev), d')"
  shows "core_wf sha d'"
proof -
  obtain data where v: "validate_job_update u = Inr ()" "validate_event sha e = Inr data"
    and tx: "transition_tx sha now u e data expected d = Inr ((j, ev), d')"
    using tr by (auto simp: transition_Inr)
  from transition_tx_Inr [OF tx] show ?thesis
    using wf core_wf_append [OF core_wf_put_job [OF wf v(1)] v(2)] by auto
qed

lemma bind_worktree_wf:
  assumes wf: "core_wf sha d" and tr: "bind_worktree sha u e now d = (Inr (j, ev), d')"
  shows "core_wf sha d'"
proof -
  obtain data where v: "validate_job_update u = Inr ()" "validate_event sha e = Inr data"
    and tx: "bind_worktree_tx sha now u e data d = Inr ((j, ev), d')"
    using tr by (auto simp: bind_worktree_Inr)
  from bind_worktree_tx_Inr [OF tx] show ?thesis
    using wf core_wf_append [OF core_wf_put_job [OF wf v(1)] v(2)] by auto
qed

text \<open>After a write, the key is in the ledger and the job is in the requested state.\<close>

lemma written_then_retry:
  assumes wf: "core_wf sha d" and v: "validate_job_update u = Inr ()" "validate_event sha e = Inr data"
    and key: "ec_idempotency_key e = Some k"
    and old: "select_job d (ju_id u) = Some old"
    and app: "event_append_tx sha now e data (put_job now u d) = Inr (ev, d')"
  shows "matching_idempotent_event sha e (fst (snd data)) (snd (snd data)) d' = Inr (Some ev) \<and>
    resolve_retry u ev d' = Inr (set_job now u old, ev)"
proof -
  have wf1: "core_wf sha (put_job now u d)" using core_wf_put_job [OF wf v(1)] .
  have wf2: "core_wf sha d'" using core_wf_append [OF wf1 v(2) app] .
  have ev: "ev \<in> set (events d')" "event_ok sha ev" "e_job_id ev = ec_job_id e"
    "e_event_type ev = ec_event_type e" "e_payload_hash ev = fst (snd data)"
    "e_idempotency_key ev = Some k"
    using event_append_tx_stored [OF _ v(2) app] wf1 key by (auto simp: core_wf_def)
  have dk: "snd (snd data) = Some k"
    using v(2) key by (cases data) (simp add: validate_event_iff)
  have ewf2: "events_wf sha d'" using wf2 by (simp add: core_wf_def)
  have "select_event_by_key d' (e_job_id ev) k = Some ev"
    using ewf2 ev(1,6) by (rule select_by_key_wf)
  then have m: "matching_idempotent_event sha e (fst (snd data)) (snd (snd data)) d' = Inr (Some ev)"
    using ev dk by (simp add: matching_Some)
  have sel: "select_job d' (ju_id u) = Some (set_job now u old)"
    using old event_append_tx_frame [OF app] select_job_Some [OF old]
    by (simp add: select_job_cong [of d' "put_job now u d"] select_put_job)
  then have "job_ok (set_job now u old)"
    using select_job_ok wf2 by (auto simp: core_wf_def)
  then show ?thesis
    using m sel by (simp add: resolve_retry_def matches_requested_state_def)
qed

lemma transition_tx_retry:
  assumes wf: "core_wf sha d" and v: "validate_job_update u = Inr ()" "validate_event sha e = Inr data"
    and key: "ec_idempotency_key e = Some k"
    and tx: "transition_tx sha now u e data expected d = Inr (r, d')"
  shows "transition_tx sha now' u e data expected d' = Inr (r, d')"
proof -
  obtain j ev where r: "r = (j, ev)" by (cases r)
  from transition_tx_Inr [OF tx [unfolded r]] show ?thesis
  proof (elim disjE exE conjE)
    assume "d' = d" "matching_idempotent_event sha e (fst (snd data)) (snd (snd data)) d = Inr (Some ev)"
    then show ?thesis using tx r by (simp add: transition_tx_def)
  next
    fix old
    assume old: "select_job d (ju_id u) = Some old" "j = set_job now u old"
      and app: "event_append_tx sha now e data (put_job now u d) = Inr (ev, d')"
    then show ?thesis
      using written_then_retry [OF wf v key old(1) app] r by (simp add: transition_tx_def)
  qed
qed

lemma bind_worktree_tx_retry:
  assumes wf: "core_wf sha d" and v: "validate_job_update u = Inr ()" "validate_event sha e = Inr data"
    and key: "ec_idempotency_key e = Some k"
    and tx: "bind_worktree_tx sha now u e data d = Inr (r, d')"
  shows "bind_worktree_tx sha now' u e data d' = Inr (r, d')"
proof -
  obtain j ev where r: "r = (j, ev)" by (cases r)
  from bind_worktree_tx_Inr [OF tx [unfolded r]] show ?thesis
  proof (elim disjE exE conjE)
    assume "d' = d" "matching_idempotent_event sha e (fst (snd data)) (snd (snd data)) d = Inr (Some ev)"
    then show ?thesis using tx r by (simp add: bind_worktree_tx_def)
  next
    fix old
    assume old: "select_job d (ju_id u) = Some old" "j = set_job now u old"
      and app: "event_append_tx sha now e data (put_job now u d) = Inr (ev, d')"
    then show ?thesis
      using written_then_retry [OF wf v key old(1) app] r by (simp add: bind_worktree_tx_def)
  qed
qed

interpretation keyed_transition:
  idempotent_operation "transition sha u (e\<lparr>ec_idempotency_key := Some k\<rparr>) expected" "core_wf sha"
  for sha u e k expected
proof
  fix t s x s'
  assume "transition sha u (e\<lparr>ec_idempotency_key := Some k\<rparr>) expected t s = (Inl x, s')"
  then show "s' = s" by (rule transition_rollback)
next
  fix s t x s'
  assume "core_wf sha s" "transition sha u (e\<lparr>ec_idempotency_key := Some k\<rparr>) expected t s = (Inr x, s')"
  then show "core_wf sha s'" by (cases x) (auto intro: transition_wf)
next
  fix s t x s' t'
  assume wf: "core_wf sha s"
    and tr: "transition sha u (e\<lparr>ec_idempotency_key := Some k\<rparr>) expected t s = (Inr x, s')"
  from tr obtain data where v: "validate_job_update u = Inr ()"
      "validate_event sha (e\<lparr>ec_idempotency_key := Some k\<rparr>) = Inr data"
      "ju_id u = ec_job_id (e\<lparr>ec_idempotency_key := Some k\<rparr>)"
    and tx: "transition_tx sha t u (e\<lparr>ec_idempotency_key := Some k\<rparr>) data expected s = Inr (x, s')"
    unfolding transition_Inr by blast
  have "transition_tx sha t' u (e\<lparr>ec_idempotency_key := Some k\<rparr>) data expected s' = Inr (x, s')"
    using wf v(1,2) _ tx by (rule transition_tx_retry) simp
  then show "transition sha u (e\<lparr>ec_idempotency_key := Some k\<rparr>) expected t' s' = (Inr x, s')"
    unfolding transition_Inr using v by blast
qed

interpretation keyed_bind_worktree:
  idempotent_operation "bind_worktree sha u (e\<lparr>ec_idempotency_key := Some k\<rparr>)" "core_wf sha"
  for sha u e k
proof
  fix t s x s'
  assume "bind_worktree sha u (e\<lparr>ec_idempotency_key := Some k\<rparr>) t s = (Inl x, s')"
  then show "s' = s" by (rule bind_worktree_rollback)
next
  fix s t x s'
  assume "core_wf sha s" "bind_worktree sha u (e\<lparr>ec_idempotency_key := Some k\<rparr>) t s = (Inr x, s')"
  then show "core_wf sha s'" by (cases x) (auto intro: bind_worktree_wf)
next
  fix s t x s' t'
  assume wf: "core_wf sha s"
    and tr: "bind_worktree sha u (e\<lparr>ec_idempotency_key := Some k\<rparr>) t s = (Inr x, s')"
  from tr obtain data where v: "validate_job_update u = Inr ()"
      "validate_event sha (e\<lparr>ec_idempotency_key := Some k\<rparr>) = Inr data"
      "ju_id u = ec_job_id (e\<lparr>ec_idempotency_key := Some k\<rparr>)" "ju_worktree_path u \<noteq> None"
    and tx: "bind_worktree_tx sha t u (e\<lparr>ec_idempotency_key := Some k\<rparr>) data s = Inr (x, s')"
    unfolding bind_worktree_Inr by blast
  have "bind_worktree_tx sha t' u (e\<lparr>ec_idempotency_key := Some k\<rparr>) data s' = Inr (x, s')"
    using wf v(1,2) _ tx by (rule bind_worktree_tx_retry) simp
  then show "bind_worktree sha u (e\<lparr>ec_idempotency_key := Some k\<rparr>) t' s' = (Inr x, s')"
    unfolding bind_worktree_Inr using v by blast
qed

subsection \<open>Every branch\<close>

text \<open>A validated request inside its transaction, on a well-formed store.\<close>

lemma event_append_after_update:
  assumes dig: "digest_fun sha" and wf: "core_wf sha d" and v: "validate_event sha e = Inr data"
    and fresh: "known_event e d = None" and job: "select_job d (ec_job_id e) = Some old"
  shows "event_append_tx sha now e data (put_job now u d) =
    (if max_sequence \<le> int (length (job_events d (ec_job_id e))) then Inl EventRepositoryError
     else Inr (next_event now e data d, add_event (next_event now e data d) (put_job now u d)))"
proof -
  have ewf: "events_wf sha (put_job now u d)"
    using wf events_wf_put_job by (simp add: core_wf_def)
  have known: "known_event e (put_job now u d) = None"
    using fresh by (simp add: known_event_def cong: option.case_cong)
  have ex: "\<exists>j\<in>set (jobs (put_job now u d)). j_id j = ec_job_id e"
    using select_job_Some [OF job] unfolding put_job_ids by auto
  then show ?thesis
    unfolding event_append_tx_cases [OF dig ewf v] known by auto
qed

lemma transition_tx_cases:
  assumes dig: "digest_fun sha" and wf: "core_wf sha d"
    and v: "validate_job_update u = Inr ()" "validate_event sha e = Inr data"
    and id: "ju_id u = ec_job_id e"
  shows "transition_tx sha now u e data expected d =
    (case known_event e d of
       Some r \<Rightarrow>
         if e_event_type r = ec_event_type e \<and> e_payload_hash r = fst (snd data)
         then bindE (resolve_retry u r d) (\<lambda>x. Inr (x, d)) else Inl EventIdempotencyConflictError
     | None \<Rightarrow> (case select_job d (ju_id u) of
           None \<Rightarrow> Inl JobNotFoundError
         | Some old \<Rightarrow>
             if expected \<noteq> None \<and> expected \<noteq> Some old then Inl AtomicTransitionConflictError
             else if ju_state u \<notin> set (ALLOWED_JOB_TRANSITIONS (j_state old))
             then Inl ForbiddenJobTransitionError
             else if max_sequence \<le> int (length (job_events d (ec_job_id e)))
             then Inl EventRepositoryError
             else Inr ((set_job now u old, next_event now e data d),
                       add_event (next_event now e data d) (put_job now u d))))"
proof -
  have ewf: "events_wf sha d" and jwf: "jobs_wf d" using wf by (auto simp: core_wf_def)
  note m = matching_wf [OF ewf v(2)]
  show ?thesis
  proof (cases "known_event e d")
    case None
    show ?thesis
    proof (cases "select_job d (ju_id u)")
      case (Some old)
      have ok: "job_ok old" using select_job_ok [OF jwf Some] .
      have upd: "job_apply_update now u d = Inr (set_job now u old, put_job now u d)"
        using job_apply_update_ok [OF jwf v(1) Some] .
      have app: "event_append_tx sha now e data (put_job now u d) =
          (if max_sequence \<le> int (length (job_events d (ec_job_id e))) then Inl EventRepositoryError
           else Inr (next_event now e data d, add_event (next_event now e data d) (put_job now u d)))"
        using event_append_after_update [OF dig wf v(2) None] Some id by auto
      show ?thesis
        by (auto simp: transition_tx_def m None Some ok upd app validate_job_transition_def)
    qed (simp add: transition_tx_def m None)
  qed (simp add: transition_tx_def m)
qed

lemma select_job_put_event:
  "select_job (add_event r (put_job now u d)) q =
     (if q = ju_id u then map_option (set_job now u) (select_job d q) else select_job d q)"
proof -
  have "select_job (add_event r (put_job now u d)) q =
      map_option (\<lambda>x. if j_id x = ju_id u then set_job now u x else x) (select_job d q)"
    by (simp only: select_job_cong [OF add_event_frame(2)] select_put_job)
  then show ?thesis
    by (cases "select_job d q") (auto dest: select_job_Some)
qed

lemma resolve_retry_wf:
  assumes "jobs_wf d"
  shows "resolve_retry u r d =
    (case select_job d (ju_id u) of
       None \<Rightarrow> Inl JobNotFoundError
     | Some j \<Rightarrow> if matches_requested_state j u then Inr (j, r) else Inl AtomicTransitionConflictError)"
  using select_job_ok [OF assms] by (simp add: resolve_retry_def split: option.splits)

lemma sample_core_wf [simp]: "core_wf sample_sha (sample_db st)"
  by (simp add: core_wf_def)

definition sample_move :: "job_state \<Rightarrow> job_update" where
  "sample_move st = \<lparr>ju_id = ''job-1'', ju_state = st, ju_runtime = Codex, ju_model = None,
     ju_worktree_path = Some ''/srv/wt/job-1''\<rparr>"

lemma sample_move_valid: "validate_job_update (sample_move st) = Inr ()"
  by code_simp

subsection \<open>Properties\<close>

text \<open>
  C1: every branch of \<open>AtomicTransitionService.transition\<close> on a well-formed store. A retry is
  answered from the ledger when the stored event and the stored job still say what it asks for;
  a first request commits the job update and its event together, or is refused with the error of
  the first check that fails and changes neither.
\<close>

theorem transition_outcome:
  assumes dig: "digest_fun sha" and wf: "core_wf sha d"
  shows "transition sha u e expected now d =
    (case transition_request sha u e of
       Inl x \<Rightarrow> (Inl AtomicTransitionValidationError, d)
     | Inr data \<Rightarrow>
         if ju_id u \<noteq> ec_job_id e then (Inl AtomicTransitionValidationError, d)
         else (case known_event e d of
             Some r \<Rightarrow>
               (if e_event_type r \<noteq> ec_event_type e \<or> e_payload_hash r \<noteq> fst (snd data)
                then Inl AtomicTransitionConflictError
                else (case select_job d (ju_id u) of
                    None \<Rightarrow> Inl AtomicTransitionValidationError
                  | Some j \<Rightarrow> if matches_requested_state j u then Inr (j, r)
                              else Inl AtomicTransitionConflictError), d)
           | None \<Rightarrow> (case select_job d (ju_id u) of
                 None \<Rightarrow> (Inl AtomicTransitionValidationError, d)
               | Some old \<Rightarrow>
                   if expected \<noteq> None \<and> expected \<noteq> Some old
                   then (Inl AtomicTransitionConflictError, d)
                   else if ju_state u \<notin> set (ALLOWED_JOB_TRANSITIONS (j_state old))
                   then (Inl AtomicTransitionStateError, d)
                   else if max_sequence \<le> int (length (job_events d (ec_job_id e)))
                   then (Inl AtomicTransitionError, d)
                   else (Inr (set_job now u old, next_event now e data d),
                         add_event (next_event now e data d) (put_job now u d)))))"
proof (cases "transition_request sha u e")
  case (Inl x)
  then show ?thesis using transition_request_Inl [OF Inl] by (simp add: transition_def)
next
  case (Inr data)
  then have v: "validate_job_update u = Inr ()" "validate_event sha e = Inr data"
    by (auto simp: transition_request_iff)
  have jwf: "jobs_wf d" using wf by (simp add: core_wf_def)
  show ?thesis
  proof (cases "ju_id u = ec_job_id e")
    case True
    note tx = transition_tx_cases [OF dig wf v True, unfolded resolve_retry_wf [OF jwf]]
    show ?thesis
      using Inr True
      by (auto simp: transition_def tx write_connection_def connection_def handle_def
          transition_handler_def isa_def is_integrity_error_def split: option.splits)
  qed (simp add: transition_def Inr)
qed

theorem transition_outcome_witness:
  "fst (transition sample_sha (sample_move Verifying) sample_note None 60 (sample_db Running))
     = Inr (set_job 60 (sample_move Verifying) (sample_job Running),
            next_event 60 sample_note ([], replicate 64 CHR ''0'', Some ''n1'') (sample_db Running)) \<and>
   transition sample_sha (sample_move Completed) sample_note None 60 (sample_db Running)
     = (Inl AtomicTransitionStateError, sample_db Running)"
proof -
  note out = transition_outcome [OF sample_sha_digest sample_core_wf]
  have rq: "transition_request sample_sha (sample_move st) sample_note
      = Inr ([], replicate 64 CHR ''0'', Some ''n1'')" for st
    by (simp add: transition_request_iff sample_move_valid sample_note_valid)
  have ids: "ju_id (sample_move st) = ec_job_id sample_note" for st
    by (simp add: sample_move_def sample_note_def)
  have known: "known_event sample_note (sample_db st) = None" for st
    by (simp add: known_event_def select_event_by_key_def sample_note_def sample_ready_def)
  have sel: "select_job (sample_db st) (ec_job_id sample_note) = Some (sample_job st)" for st
    by (simp add: select_job_def sample_note_def sample_job_def)
  have room: "\<not> max_sequence \<le> int (length (job_events (sample_db Running) (ec_job_id sample_note)))"
    by (simp add: max_sequence_def job_events_def)
  have al: "ju_state (sample_move st) = st" "j_state (sample_job st') = st'" for st st'
    by (simp_all add: sample_move_def sample_job_def)
  show ?thesis
    using room by (simp add: out rq ids known sel al transition_defs)
qed

text \<open>
  C5: whatever \<open>transition\<close> commits moves exactly one job, along a step the lifecycle allows, and
  adds exactly one event, the next one of that job; the rest of the store is untouched.
\<close>

theorem transition_moves_along_lifecycle:
  assumes "transition sha u e expected now d = (r, d')" and "d' \<noteq> d"
  shows "\<exists>old event. select_job d (ju_id u) = Some old \<and> lifecycle_step (j_state old) (ju_state u) \<and>
    r = Inr (set_job now u old, event) \<and>
    jobs d' = update_where (\<lambda>j. j_id j = ju_id u) (set_job now u) (jobs d) \<and>
    events d' = events d @ [event] \<and> e_job_id event = ju_id u \<and>
    e_sequence event = previous_sequence d (ju_id u) + 1 \<and>
    d' = d\<lparr>jobs := jobs d', events := events d'\<rparr>"
proof -
  obtain j ev where r: "r = Inr (j, ev)"
    using assms transition_rollback by (cases r) fastforce+
  obtain data where v: "ju_id u = ec_job_id e"
    and tx: "transition_tx sha now u e data expected d = Inr ((j, ev), d')"
    using assms(1) r by (auto simp: transition_Inr)
  obtain old where old: "select_job d (ju_id u) = Some old"
      "ju_state u \<in> set (ALLOWED_JOB_TRANSITIONS (j_state old))" "j = set_job now u old"
    and app: "event_append_tx sha now e data (put_job now u d) = Inr (ev, d')"
    and m: "matching_idempotent_event sha e (fst (snd data)) (snd (snd data)) d = Inr None"
    using transition_tx_Inr [OF tx] assms(2) by blast
  have ev: "ev = next_event now e data d" "d' = add_event ev (put_job now u d)"
    using event_append_tx_Inr [OF app] m by auto
  then show ?thesis
    using old r v by (auto simp: lifecycle_step_iff next_event_def put_job_def add_event_def)
qed

theorem transition_moves_along_lifecycle_witness:
  "\<exists>d' event. snd (transition sample_sha (sample_move Verifying) sample_note None 60 (sample_db Running)) = d' \<and>
     events d' = [sample_ready, event] \<and> lifecycle_step Running Verifying"
proof -
  let ?t = "transition sample_sha (sample_move Verifying) sample_note None 60 (sample_db Running)"
  have "length (events (snd ?t)) = 2" by code_simp
  then have ne: "snd ?t \<noteq> sample_db Running" by auto
  have t: "?t = (fst ?t, snd ?t)" by simp
  from transition_moves_along_lifecycle [OF t ne] show ?thesis
    by (auto simp: select_job_def sample_move_def sample_job_def)
qed

text \<open>
  C6: a keyed transition that committed is answered the same way on every later delivery, without
  a second event and without touching the job again.
\<close>

theorem transition_delivered_once:
  assumes "core_wf sha d"
    and "transition sha u (e\<lparr>ec_idempotency_key := Some k\<rparr>) expected now d = (Inr r, d')"
  shows "deliver (transition sha u (e\<lparr>ec_idempotency_key := Some k\<rparr>) expected) (now # later) d
    = (replicate (Suc (length later)) (Inr r), d') \<and> core_wf sha d'"
  using keyed_transition.deliver_once [OF assms] keyed_transition.keeps [OF assms] by simp

theorem transition_delivered_once_witness:
  "\<exists>r d'. deliver (transition sample_sha (sample_move Verifying) sample_note None) [60, 61, 62]
     (sample_db Running) = ([Inr r, Inr r, Inr r], d')"
proof -
  let ?t = "transition sample_sha (sample_move Verifying) sample_note None 60 (sample_db Running)"
  have "case fst ?t of Inr r \<Rightarrow> True | Inl x \<Rightarrow> False" by code_simp
  then obtain r where r: "?t = (Inr r, snd ?t)" by (cases "fst ?t") (auto simp: prod_eq_iff)
  have k: "sample_note\<lparr>ec_idempotency_key := Some ''n1''\<rparr> = sample_note"
    by (simp add: sample_note_def)
  show ?thesis
    using transition_delivered_once [where e = sample_note and k = "''n1''" and
        later = "[61, 62]", unfolded k, OF sample_core_wf r]
    by (simp add: numeral_eq_Suc)
qed

text \<open>
  A worktree is bound to a job at most once: a bind that writes found no path, keeps the state,
  runtime and model, and a later bind of another path to the job is refused.
\<close>

theorem worktree_bound_once:
  assumes wf: "core_wf sha d" and b: "bind_worktree sha u e now d = (Inr (j, ev), d')" and ne: "d' \<noteq> d"
    and again: "bind_worktree sha u' e' now' d' = (r, d'')" and same: "ju_id u' = ju_id u" "r = Inr x"
  shows "(\<exists>old. select_job d (ju_id u) = Some old \<and> j_worktree_path old = None \<and>
      j = old\<lparr>j_worktree_path := ju_worktree_path u, j_updated_at := now\<rparr>) \<and>
    d'' = d' \<and> j_worktree_path (fst x) = ju_worktree_path u"
proof -
  obtain data where v: "ju_worktree_path u \<noteq> None"
    and tx: "bind_worktree_tx sha now u e data d = Inr ((j, ev), d')"
    using b by (auto simp: bind_worktree_Inr)
  obtain old where old: "select_job d (ju_id u) = Some old" "j_state old = ju_state u"
      "j_runtime old = ju_runtime u" "j_model old = ju_model u" "j_worktree_path old = None"
      "j = set_job now u old"
    and app: "event_append_tx sha now e data (put_job now u d) = Inr (ev, d')"
    using bind_worktree_tx_Inr [OF tx] ne by blast
  have j: "j = old\<lparr>j_worktree_path := ju_worktree_path u, j_updated_at := now\<rparr>"
    using old by (simp add: set_job_def)
  have sel: "select_job d' (ju_id u) = Some j"
    using old event_append_tx_frame [OF app] select_job_Some [OF old(1)]
    by (simp add: select_job_cong [of d' "put_job now u d"] select_put_job)
  obtain j' ev' where x: "x = (j', ev')" by (cases x)
  obtain data' where tx': "bind_worktree_tx sha now' u' e' data' d' = Inr ((j', ev'), d'')"
    using again same(2) x by (auto simp: bind_worktree_Inr)
  have "j_worktree_path j \<noteq> None" using j v by simp
  then have "d'' = d' \<and> j' = j"
    using bind_worktree_tx_Inr [OF tx'] sel same(1) by auto
  then show ?thesis using old(1,5) j x by auto
qed

theorem worktree_bound_once_witness:
  "\<exists>d'. snd (bind_worktree sample_sha (sample_move Running) sample_note 60
        ((sample_db Running)\<lparr>jobs := [(sample_job Running)\<lparr>j_worktree_path := None\<rparr>]\<rparr>)) = d' \<and>
     snd (bind_worktree sample_sha (sample_move Running) sample_note 61 d') = d'"
proof -
  let ?d = "(sample_db Running)\<lparr>jobs := [(sample_job Running)\<lparr>j_worktree_path := None\<rparr>]\<rparr>"
  let ?b = "bind_worktree sample_sha (sample_move Running) sample_note 60 ?d"
  have wf: "core_wf sample_sha ?d"
  proof -
    have "job_ok ((sample_job Running)\<lparr>j_worktree_path := None\<rparr>)" by code_simp
    then show ?thesis
      using sample_core_wf [of Running]
      by (simp add: core_wf_def projects_wf_def jobs_wf_def events_wf_def job_events_def
          keyed_events_def sample_job_def)
  qed
  have "case fst ?b of Inr r \<Rightarrow> True | Inl x \<Rightarrow> False" by code_simp
  then obtain j ev where b: "?b = (Inr (j, ev), snd ?b)"
    by (cases "fst ?b") (auto simp: prod_eq_iff)
  have "length (events (snd ?b)) = 2" by code_simp
  then have ne: "snd ?b \<noteq> ?d" by auto
  let ?c = "bind_worktree sample_sha (sample_move Running) sample_note 61 (snd ?b)"
  have c: "?c = (fst ?c, snd ?c)" by simp
  show ?thesis
  proof (cases "fst ?c")
    case (Inl x)
    then show ?thesis using bind_worktree_rollback by (metis prod.collapse)
  next
    case (Inr x)
    then show ?thesis using worktree_bound_once [OF wf b ne c refl Inr] by blast
  qed
qed

end
