(* ===== verification/History.thy ===== *)
theory History
  imports Prelude
begin

text \<open>
  Tables that only grow: rows are appended or updated in place, never removed, and every update
  respects what a row must keep. The locale is the contract of such a relation on rows; approvals,
  native attempts and remote receipts interpret it.
\<close>

definition grows :: "('r \<Rightarrow> 'r \<Rightarrow> bool) \<Rightarrow> 'r list \<Rightarrow> 'r list \<Rightarrow> bool" where
  "grows evolves rs ss \<longleftrightarrow>
     length rs \<le> length ss \<and> (\<forall>i<length rs. evolves (rs ! i) (ss ! i))"

locale row_history =
  fixes evolves :: "'r \<Rightarrow> 'r \<Rightarrow> bool"
  assumes evolves_refl: "evolves r r"
    and evolves_trans: "evolves r s \<Longrightarrow> evolves s t \<Longrightarrow> evolves r t"
begin

lemma grows_refl [simp]: "grows evolves rs rs"
  by (simp add: grows_def evolves_refl)

lemma grows_trans: "grows evolves rs ss \<Longrightarrow> grows evolves ss ts \<Longrightarrow> grows evolves rs ts"
  unfolding grows_def by (meson evolves_trans less_le_trans order_trans)

lemma grows_append: "grows evolves rs (rs @ ss)"
  by (simp add: grows_def nth_append evolves_refl)

lemma grows_update:
  "(\<And>r. r \<in> set rs \<Longrightarrow> p r \<Longrightarrow> evolves r (f r)) \<Longrightarrow> grows evolves rs (update_where p f rs)"
  by (auto simp: grows_def update_where_def evolves_refl)

lemma grows_mem:
  assumes "grows evolves rs ss" and "r \<in> set rs"
  shows "\<exists>s\<in>set ss. evolves r s"
proof -
  obtain i where "i < length rs" "rs ! i = r" using assms(2) by (auto simp: in_set_conv_nth)
  then show ?thesis using assms(1) by (intro bexI [of _ "ss ! i"]) (auto simp: grows_def)
qed

end

end
