(* ===== verification/Approvals.thy ===== *)
theory Approvals
  imports Transitions History
begin

text \<open>
  \<open>ApprovalCreate\<close>, \<open>ApprovalResolution\<close> (engine.py) and \<open>ApprovalRepository\<close> (db.py): a human
  decision bound to the hash of the payload it approves, with an expiry. Two clocks are
  involved: \<open>clock\<close> is the injected Python clock that expiry is measured on, \<open>now\<close> is
  SQLite's, which stamps \<open>created_at\<close>. The invariant is \<open>approvals_wf\<close>; \<open>approval_evolves\<close> is
  what every operation keeps of a table of approvals: rows are never removed, a decided row
  never changes and a pending one may only receive its decision.
\<close>

record approval_create =
  ac_id :: string
  ac_job_id :: string
  ac_payload :: payload
  ac_expires_at :: micros

record approval_resolution =
  ar_decision :: approval_decision
  ar_actor :: string
  ar_channel :: string
  ar_payload :: payload

text \<open>The last instant a \<open>datetime\<close> in UTC can name, 9999-12-31T23:59:59.999999Z.\<close>

definition max_instant :: micros where
  "max_instant = 253402300799999999"

definition valid_instant :: "micros \<Rightarrow> bool" where
  "valid_instant t \<longleftrightarrow> 0 < t \<and> t \<le> max_instant"

subsection \<open>Validation\<close>

definition validate_approval_text :: "int option \<Rightarrow> string \<Rightarrow> exn + string" where
  "validate_approval_text maximum_bytes s =
     (if \<not> plain_text s then Inl ApprovalValidationError
      else if (case maximum_bytes of None \<Rightarrow> False | Some n \<Rightarrow> utf8_len s > n)
      then Inl ApprovalValidationError
      else Inr s)"

definition validate_approval_optional_text :: "int \<Rightarrow> string option \<Rightarrow> exn + string option" where
  "validate_approval_optional_text maximum_bytes t =
     (case t of
        None \<Rightarrow> Inr None
      | Some s \<Rightarrow> bindE (validate_approval_text (Some maximum_bytes) s) (\<lambda>s'. Inr (Some s')))"

definition payload_hash :: "(string \<Rightarrow> string) \<Rightarrow> payload \<Rightarrow> exn + string" where
  "payload_hash sha p =
     (case dumps p of
        None \<Rightarrow> Inl ApprovalValidationError
      | Some canonical \<Rightarrow>
          if utf8_len canonical > 1048576 then Inl ApprovalValidationError
          else Inr (sha canonical))"

text \<open>An aware \<open>datetime\<close> whose UTC value does not exist or is not after the epoch is refused.\<close>

definition normalize_datetime :: "micros \<Rightarrow> exn + micros" where
  "normalize_datetime t = (if valid_instant t then Inr t else Inl ApprovalValidationError)"

definition validate_approval :: "(string \<Rightarrow> string) \<Rightarrow> approval_create \<Rightarrow> exn + string \<times> micros" where
  "validate_approval sha a =
     bindE (validate_approval_text (Some 128) (ac_id a)) (\<lambda>_.
     bindE (validate_approval_text None (ac_job_id a)) (\<lambda>_.
     bindE (payload_hash sha (ac_payload a)) (\<lambda>h.
     bindE (normalize_datetime (ac_expires_at a)) (\<lambda>expires_at. Inr (h, expires_at)))))"

definition validate_resolution :: "(string \<Rightarrow> string) \<Rightarrow> approval_resolution \<Rightarrow> exn + string" where
  "validate_resolution sha res =
     bindE (validate_approval_text (Some 128) (ar_actor res)) (\<lambda>_.
     bindE (validate_approval_text (Some 64) (ar_channel res)) (\<lambda>_.
     payload_hash sha (ar_payload res)))"

definition read_clock :: "micros \<Rightarrow> exn + micros" where
  "read_clock clock =
     rethrow (\<lambda>e. isa e ApprovalValidationError) ApprovalRepositoryError (normalize_datetime clock)"

definition validate_approval_timestamp :: "micros option \<Rightarrow> exn + micros option" where
  "validate_approval_timestamp t =
     (case t of
        None \<Rightarrow> Inr None
      | Some v \<Rightarrow> bindE (normalize_datetime v) (\<lambda>v'. Inr (Some v')))"

definition approval_to_record :: "approval_row \<Rightarrow> exn + approval_row" where
  "approval_to_record r =
     rethrow (\<lambda>e. isa e ApprovalValidationError) ApprovalRepositoryError
       (bindE (validate_approval_text (Some 128) (a_id r)) (\<lambda>_.
        bindE (validate_approval_text None (a_job_id r)) (\<lambda>_.
        bindE (ensure (hex64 (a_payload_hash r)) ApprovalValidationError) (\<lambda>_.
        bindE (validate_approval_optional_text 128 (a_actor r)) (\<lambda>actor.
        bindE (validate_approval_optional_text 64 (a_channel r)) (\<lambda>channel.
        bindE (normalize_datetime (a_expires_at r)) (\<lambda>_.
        bindE (normalize_datetime (a_created_at r)) (\<lambda>_.
        bindE (validate_approval_timestamp (a_decided_at r)) (\<lambda>decided_at.
        bindE (ensure
          (if a_decision r = None then actor = None \<and> channel = None \<and> decided_at = None
           else actor \<noteq> None \<and> channel \<noteq> None \<and> decided_at \<noteq> None)
          ApprovalValidationError) (\<lambda>_. Inr r))))))))))"

subsection \<open>Operations\<close>

definition select_approval :: "db \<Rightarrow> string \<Rightarrow> approval_row option" where
  "select_approval d i = List.find (\<lambda>r. a_id r = i) (approvals d)"

definition new_approval_row :: "micros \<Rightarrow> approval_create \<Rightarrow> string \<times> micros \<Rightarrow> approval_row" where
  "new_approval_row now a data = \<lparr>a_id = ac_id a, a_job_id = ac_job_id a,
     a_payload_hash = fst data, a_decision = None, a_actor = None, a_channel = None,
     a_expires_at = snd data, a_created_at = now, a_decided_at = None\<rparr>"

definition approval_integrity :: "constraint_kind \<Rightarrow> exn" where
  "approval_integrity k =
     (if is_unique_violation k then ApprovalAlreadyExistsError
      else if k = ForeignKeyViolation then ApprovalValidationError
      else ApprovalRepositoryError)"

definition approval_create_op ::
  "(string \<Rightarrow> string) \<Rightarrow> approval_create \<Rightarrow> micros \<times> micros \<Rightarrow> db \<Rightarrow> (exn + approval_row) \<times> db" where
  "approval_create_op sha a t =
     validated (validate_approval sha a) (\<lambda>data. write_connection ApprovalRepositoryError (\<lambda>d.
       bindE (read_clock (fst t)) (\<lambda>now_us.
         if snd data \<le> now_us then Inl ApprovalExpiredError
         else on_integrity approval_integrity
           (bindE (insert_approval d (new_approval_row (snd t) a data)) (\<lambda>d'.
            case select_approval d' (ac_id a) of
              None \<Rightarrow> Inl ApprovalRepositoryError
            | Some row \<Rightarrow> bindE (approval_to_record row) (\<lambda>stored. Inr (stored, d')))))))"

definition decide_row :: "micros \<Rightarrow> approval_resolution \<Rightarrow> approval_row \<Rightarrow> approval_row" where
  "decide_row clock res r = r\<lparr>a_decision := Some (ar_decision res), a_actor := Some (ar_actor res),
     a_channel := Some (ar_channel res), a_decided_at := Some clock\<rparr>"

definition same_resolution :: "approval_row \<Rightarrow> approval_resolution \<Rightarrow> bool" where
  "same_resolution r res \<longleftrightarrow>
     a_decision r = Some (ar_decision res) \<and> a_actor r = Some (ar_actor res) \<and>
     a_channel r = Some (ar_channel res)"

text \<open>\<open>UPDATE approvals SET ... WHERE id = ? AND decision IS NULL\<close>.\<close>

definition record_decision ::
  "micros \<Rightarrow> string \<Rightarrow> approval_resolution \<Rightarrow> db \<Rightarrow> exn + nat \<times> db" where
  "record_decision clock i res d =
     update_approvals d (\<lambda>r. a_id r = i \<and> a_decision r = None) (decide_row clock res)"

definition approval_decide_tx ::
  "micros \<Rightarrow> string \<Rightarrow> approval_resolution \<Rightarrow> string \<Rightarrow> db \<Rightarrow> exn + approval_row \<times> db" where
  "approval_decide_tx clock i res hash d =
     (case select_approval d i of
        None \<Rightarrow> Inl ApprovalNotFoundError
      | Some row \<Rightarrow> bindE (approval_to_record row) (\<lambda>stored.
          if a_payload_hash stored \<noteq> hash then Inl ApprovalPayloadMismatchError
          else if a_decision stored \<noteq> None then
            (if same_resolution stored res then Inr (stored, d)
             else Inl ApprovalDecisionConflictError)
          else bindE (read_clock clock) (\<lambda>now_us.
            if now_us \<ge> a_expires_at stored then Inl ApprovalExpiredError
            else on_integrity (\<lambda>_. ApprovalRepositoryError)
              (bindE (record_decision now_us i res d) (\<lambda>(rowcount, d').
               if rowcount \<noteq> 1 then Inl ApprovalDecisionConflictError
               else case select_approval d' i of
                 None \<Rightarrow> Inl ApprovalRepositoryError
               | Some decided \<Rightarrow> bindE (approval_to_record decided) (\<lambda>s. Inr (s, d')))))))"

definition approval_decide ::
  "(string \<Rightarrow> string) \<Rightarrow> string \<Rightarrow> approval_resolution \<Rightarrow> micros \<Rightarrow> db \<Rightarrow> (exn + approval_row) \<times> db" where
  "approval_decide sha i res clock =
     validated
       (bindE (validate_approval_text (Some 128) i) (\<lambda>i'.
        bindE (validate_resolution sha res) (\<lambda>h. Inr (i', h))))
       (\<lambda>(i', h). write_connection ApprovalRepositoryError (approval_decide_tx clock i' res h))"

definition approval_get :: "string \<Rightarrow> db \<Rightarrow> exn + approval_row" where
  "approval_get i d =
     bindE (validate_approval_text (Some 128) i) (\<lambda>i'.
       case select_approval d i' of
         None \<Rightarrow> Inl ApprovalNotFoundError
       | Some row \<Rightarrow> approval_to_record row)"

definition approval_list :: "string option \<Rightarrow> db \<Rightarrow> exn + approval_row list" where
  "approval_list job d =
     bindE (case job of
              None \<Rightarrow> Inr (approvals d)
            | Some j \<Rightarrow> bindE (validate_approval_text None j) (\<lambda>j'.
                Inr (filter (\<lambda>r. a_job_id r = j') (approvals d))))
       (\<lambda>rows. mapE approval_to_record (sort_key (\<lambda>r. (a_created_at r, a_id r)) rows))"

subsection \<open>Invariant and history\<close>

definition approval_ok :: "approval_row \<Rightarrow> bool" where
  "approval_ok r \<longleftrightarrow> approval_to_record r = Inr r"

definition approvals_wf :: "db \<Rightarrow> bool" where
  "approvals_wf d \<longleftrightarrow>
     (\<forall>r\<in>set (approvals d). approval_ok r) \<and> distinct (map a_id (approvals d)) \<and>
     (\<forall>r\<in>set (approvals d). \<exists>j\<in>set (jobs d). j_id j = a_job_id r)"

text \<open>One row's possible future.\<close>

definition approval_evolves :: "approval_row \<Rightarrow> approval_row \<Rightarrow> bool" where
  "approval_evolves r s \<longleftrightarrow>
     s = r \<or>
     a_decision r = None \<and> a_decision s \<noteq> None \<and>
     a_id s = a_id r \<and> a_job_id s = a_job_id r \<and> a_payload_hash s = a_payload_hash r \<and>
     a_expires_at s = a_expires_at r \<and> a_created_at s = a_created_at r"

lemma approval_evolves_refl [simp]: "approval_evolves r r"
  by (simp add: approval_evolves_def)

lemma approval_evolves_trans:
  "approval_evolves r s \<Longrightarrow> approval_evolves s t \<Longrightarrow> approval_evolves r t"
  by (auto simp: approval_evolves_def)

interpretation approval_history: row_history approval_evolves
  by unfold_locales (simp, rule approval_evolves_trans)

text \<open>Once decided, a row is found unchanged in every later table.\<close>

lemma approvals_evolve_settled:
  assumes "grows approval_evolves rs ss" and "r \<in> set rs" and "a_decision r \<noteq> None"
  shows "r \<in> set ss"
  using approval_history.grows_mem [OF assms(1,2)] assms(3) by (auto simp: approval_evolves_def)

lemma validate_approval_text_iff:
  "validate_approval_text m s = Inr x \<longleftrightarrow>
     plain_text s \<and> (\<forall>n. m = Some n \<longrightarrow> utf8_len s \<le> n) \<and> x = s"
  by (auto simp: validate_approval_text_def split: option.splits)

lemma validate_approval_text_Inl:
  "validate_approval_text m s = Inl e \<Longrightarrow> e = ApprovalValidationError"
  by (auto simp: validate_approval_text_def split: if_splits)

lemma validate_approval_optional_text_iff:
  "validate_approval_optional_text n t = Inr x \<longleftrightarrow>
     (\<forall>s. t = Some s \<longrightarrow> plain_text s \<and> utf8_len s \<le> n) \<and> x = t"
  by (auto simp: validate_approval_optional_text_def bindE_eq_Inr validate_approval_text_iff
      split: option.splits)

lemma payload_hash_iff:
  "payload_hash sha p = Inr h \<longleftrightarrow>
     \<not> has_nan_fields p \<and> json_bytes (canon_obj p) \<le> 1048576 \<and> h = sha (render (JObj (canon_obj p)))"
  by (auto simp: payload_hash_def dumps_def json_bytes_def split: if_splits)

lemma payload_hash_Inl: "payload_hash sha p = Inl e \<Longrightarrow> e = ApprovalValidationError"
  by (auto simp: payload_hash_def split: option.splits if_splits)

lemma normalize_datetime_iff: "normalize_datetime t = Inr u \<longleftrightarrow> valid_instant t \<and> u = t"
  by (auto simp: normalize_datetime_def)

lemma read_clock_iff: "read_clock c = Inr u \<longleftrightarrow> valid_instant c \<and> u = c"
  by (auto simp: read_clock_def normalize_datetime_iff)

lemma read_clock_ok [simp]: "valid_instant c \<Longrightarrow> read_clock c = Inr c"
  by (simp add: read_clock_iff)

lemma validate_approval_timestamp_iff:
  "validate_approval_timestamp t = Inr x \<longleftrightarrow> (\<forall>v. t = Some v \<longrightarrow> valid_instant v) \<and> x = t"
  by (auto simp: validate_approval_timestamp_def bindE_eq_Inr normalize_datetime_iff
      split: option.splits)

lemma validate_approval_iff:
  "validate_approval sha a = Inr (h, e) \<longleftrightarrow>
     plain_text (ac_id a) \<and> utf8_len (ac_id a) \<le> 128 \<and> plain_text (ac_job_id a) \<and>
     payload_hash sha (ac_payload a) = Inr h \<and> valid_instant (ac_expires_at a) \<and>
     e = ac_expires_at a"
  by (auto simp: validate_approval_def bindE_eq_Inr validate_approval_text_iff normalize_datetime_iff)

lemma validate_approval_Inl: "validate_approval sha a = Inl e \<Longrightarrow> e = ApprovalValidationError"
  by (auto simp: validate_approval_def bindE_eq_Inl normalize_datetime_def
      dest: validate_approval_text_Inl payload_hash_Inl split: if_splits)

lemma validate_resolution_iff:
  "validate_resolution sha res = Inr h \<longleftrightarrow>
     plain_text (ar_actor res) \<and> utf8_len (ar_actor res) \<le> 128 \<and>
     plain_text (ar_channel res) \<and> utf8_len (ar_channel res) \<le> 64 \<and>
     payload_hash sha (ar_payload res) = Inr h"
  by (auto simp: validate_resolution_def bindE_eq_Inr validate_approval_text_iff)

definition decision_state_ok :: "approval_row \<Rightarrow> bool" where
  "decision_state_ok r \<longleftrightarrow>
     (if a_decision r = None then a_actor r = None \<and> a_channel r = None \<and> a_decided_at r = None
      else a_actor r \<noteq> None \<and> a_channel r \<noteq> None \<and> a_decided_at r \<noteq> None)"

lemma approval_to_record_iff:
  "approval_to_record r = Inr x \<longleftrightarrow>
     x = r \<and> plain_text (a_id r) \<and> utf8_len (a_id r) \<le> 128 \<and> plain_text (a_job_id r) \<and>
     hex64 (a_payload_hash r) \<and>
     (\<forall>s. a_actor r = Some s \<longrightarrow> plain_text s \<and> utf8_len s \<le> 128) \<and>
     (\<forall>s. a_channel r = Some s \<longrightarrow> plain_text s \<and> utf8_len s \<le> 64) \<and>
     valid_instant (a_expires_at r) \<and> valid_instant (a_created_at r) \<and>
     (\<forall>t. a_decided_at r = Some t \<longrightarrow> valid_instant t) \<and> decision_state_ok r"
  by (auto simp: approval_to_record_def bindE_eq_Inr validate_approval_text_iff
      validate_approval_optional_text_iff normalize_datetime_iff validate_approval_timestamp_iff
      decision_state_ok_def split: if_splits)

lemma approval_to_record_ok [simp]: "approval_ok r \<Longrightarrow> approval_to_record r = Inr r"
  by (simp add: approval_ok_def)

lemma approval_to_record_Inr: "approval_to_record r = Inr x \<Longrightarrow> x = r \<and> approval_ok r"
  by (auto simp: approval_ok_def approval_to_record_iff)

lemma approval_ok_check: "approval_ok r \<Longrightarrow> approval_check r"
  by (cases "a_actor r"; cases "a_channel r")
    (auto simp: approval_ok_def approval_to_record_iff approval_check_def sql_plain_bounded_def
      plain_text_sql_plain valid_instant_def decision_state_ok_def split: if_splits)

lemma new_approval_row_simps [simp]:
  "a_id (new_approval_row now a data) = ac_id a"
  "a_job_id (new_approval_row now a data) = ac_job_id a"
  "a_payload_hash (new_approval_row now a data) = fst data"
  "a_decision (new_approval_row now a data) = None"
  "a_actor (new_approval_row now a data) = None"
  "a_channel (new_approval_row now a data) = None"
  "a_expires_at (new_approval_row now a data) = snd data"
  "a_created_at (new_approval_row now a data) = now"
  "a_decided_at (new_approval_row now a data) = None"
  by (simp_all add: new_approval_row_def)

lemma decide_row_simps [simp]:
  "a_id (decide_row clock res r) = a_id r"
  "a_job_id (decide_row clock res r) = a_job_id r"
  "a_payload_hash (decide_row clock res r) = a_payload_hash r"
  "a_decision (decide_row clock res r) = Some (ar_decision res)"
  "a_actor (decide_row clock res r) = Some (ar_actor res)"
  "a_channel (decide_row clock res r) = Some (ar_channel res)"
  "a_expires_at (decide_row clock res r) = a_expires_at r"
  "a_created_at (decide_row clock res r) = a_created_at r"
  "a_decided_at (decide_row clock res r) = Some clock"
  by (simp_all add: decide_row_def)

lemma approval_ok_new:
  assumes "digest_fun sha" and "validate_approval sha a = Inr data" and "valid_instant now"
  shows "approval_ok (new_approval_row now a data)"
proof -
  obtain h e where data: "data = (h, e)" by (cases data)
  have "hex64 h" using assms(1,2) data
    by (auto simp: validate_approval_iff payload_hash_iff digest_fun_def)
  then show ?thesis using assms(2,3) data
    by (auto simp: approval_ok_def approval_to_record_iff validate_approval_iff decision_state_ok_def)
qed

lemma approval_ok_decide:
  "approval_ok r \<Longrightarrow> validate_resolution sha res = Inr h \<Longrightarrow> valid_instant clock \<Longrightarrow>
   approval_ok (decide_row clock res r)"
  by (auto simp: approval_ok_def approval_to_record_iff validate_resolution_iff decision_state_ok_def)

lemma decide_row_evolves: "a_decision r = None \<Longrightarrow> approval_evolves r (decide_row clock res r)"
  by (simp add: approval_evolves_def)

lemma select_approval_Some: "select_approval d i = Some r \<Longrightarrow> r \<in> set (approvals d) \<and> a_id r = i"
  by (auto simp: select_approval_def dest: Prelude.find_Some_iff)

lemma select_approval_None: "select_approval d i = None \<longleftrightarrow> (\<forall>r\<in>set (approvals d). a_id r \<noteq> i)"
  by (simp add: select_approval_def find_None_iff2)

lemma select_approval_wf:
  "approvals_wf d \<Longrightarrow> r \<in> set (approvals d) \<Longrightarrow> select_approval d (a_id r) = Some r"
  by (auto simp: select_approval_def approvals_wf_def intro: find_unique)

lemma select_approval_ok: "approvals_wf d \<Longrightarrow> select_approval d i = Some r \<Longrightarrow> approval_ok r"
  by (auto simp: approvals_wf_def dest: select_approval_Some)

subsection \<open>What the statements write\<close>

definition add_approval :: "approval_row \<Rightarrow> db \<Rightarrow> db" where
  "add_approval r d = d\<lparr>approvals := approvals d @ [r]\<rparr>"

definition put_decision :: "micros \<Rightarrow> string \<Rightarrow> approval_resolution \<Rightarrow> db \<Rightarrow> db" where
  "put_decision clock i res d = d\<lparr>approvals :=
     update_where (\<lambda>r. a_id r = i \<and> a_decision r = None) (decide_row clock res) (approvals d)\<rparr>"

lemma add_approval_frame [simp]:
  "projects (add_approval r d) = projects d"
  "jobs (add_approval r d) = jobs d"
  "events (add_approval r d) = events d"
  "approvals (add_approval r d) = approvals d @ [r]"
  "planner (add_approval r d) = planner d"
  "memory_refs (add_approval r d) = memory_refs d"
  "verification_runs (add_approval r d) = verification_runs d"
  "review_bundles (add_approval r d) = review_bundles d"
  "native_attempts (add_approval r d) = native_attempts d"
  "teams (add_approval r d) = teams d"
  "phone (add_approval r d) = phone d"
  by (simp_all add: add_approval_def)

lemma put_decision_frame [simp]:
  "projects (put_decision clock i res d) = projects d"
  "jobs (put_decision clock i res d) = jobs d"
  "events (put_decision clock i res d) = events d"
  "planner (put_decision clock i res d) = planner d"
  "memory_refs (put_decision clock i res d) = memory_refs d"
  "verification_runs (put_decision clock i res d) = verification_runs d"
  "review_bundles (put_decision clock i res d) = review_bundles d"
  "native_attempts (put_decision clock i res d) = native_attempts d"
  "teams (put_decision clock i res d) = teams d"
  "phone (put_decision clock i res d) = phone d"
  "map a_id (approvals (put_decision clock i res d)) = map a_id (approvals d)"
  by (simp_all add: put_decision_def map_update_where_frame)

lemma select_add_approval:
  "\<forall>q\<in>set (approvals d). a_id q \<noteq> a_id r \<Longrightarrow> select_approval (add_approval r d) (a_id r) = Some r"
  by (auto simp: select_approval_def find_append find_None_iff2
      split: option.splits dest: Prelude.find_Some_iff)

lemma select_put_decision:
  "select_approval (put_decision clock i res d) k =
     map_option (\<lambda>r. if a_id r = i \<and> a_decision r = None then decide_row clock res r else r)
       (select_approval d k)"
  by (simp add: select_approval_def put_decision_def find_update_where)

lemma insert_approval_Inr:
  "insert_approval d r = Inr d' \<longleftrightarrow>
     \<not> approval_insert_aborts r \<and> approval_check r \<and> (\<forall>q\<in>set (approvals d). a_id q \<noteq> a_id r) \<and>
     (\<exists>j\<in>set (jobs d). j_id j = a_job_id r) \<and> d' = add_approval r d"
  by (auto simp: insert_approval_def add_approval_def)

lemma insert_new_approval:
  assumes "approval_ok (new_approval_row now a data)"
  shows "insert_approval d (new_approval_row now a data) =
    (if \<exists>q\<in>set (approvals d). a_id q = ac_id a then Inl (IntegrityError PrimaryKeyViolation)
     else if \<forall>j\<in>set (jobs d). j_id j \<noteq> ac_job_id a then Inl (IntegrityError ForeignKeyViolation)
     else Inr (add_approval (new_approval_row now a data) d))"
  using approval_ok_check [OF assms]
  by (simp add: insert_approval_def approval_insert_aborts_def add_approval_def)

lemma record_decision_Inr:
  assumes "record_decision clock i res d = Inr (n, d')"
  shows "d' = put_decision clock i res d \<and>
    n = count_where (\<lambda>r. a_id r = i \<and> a_decision r = None) (approvals d)"
  using assms by (auto simp: record_decision_def update_approvals_def put_decision_def split: if_splits)

lemma record_decision_ok:
  assumes wf: "approvals_wf d" and r: "select_approval d i = Some r" "a_decision r = None"
    and v: "validate_resolution sha res = Inr h" and c: "valid_instant clock"
  shows "record_decision clock i res d = Inr (1, put_decision clock i res d)"
proof -
  let ?hit = "\<lambda>q. a_id q = i \<and> a_decision q = None"
  have m: "r \<in> set (approvals d)" "a_id r = i" using select_approval_Some [OF r(1)] by auto
  have only: "q = r" if "q \<in> set (approvals d)" "a_id q = i" for q
    using select_approval_wf [OF wf that(1)] that(2) r(1) by simp
  have "?hit q = (a_id q = a_id r)" if "q \<in> set (approvals d)" for q
    using only [OF that] m r(2) by auto
  then have "filter ?hit (approvals d) = filter (\<lambda>q. a_id q = a_id r) (approvals d)"
    by (intro filter_cong) auto
  then have n: "count_where ?hit (approvals d) = 1"
    using count_where_key [of a_id "approvals d" r] wf m(1)
    by (simp add: count_where_def approvals_wf_def)
  have ok: "approval_ok (decide_row clock res q)" if "q \<in> set (approvals d)" for q
    using approval_ok_decide [OF _ v c] wf that by (simp add: approvals_wf_def)
  then have "\<not> (\<exists>q\<in>set (approvals d). ?hit q \<and> \<not> approval_check (decide_row clock res q))"
    using approval_ok_check by blast
  moreover have "\<not> (\<exists>q\<in>set (approvals d). ?hit q \<and> approval_update_aborts q (decide_row clock res q))"
    by (auto simp: approval_update_aborts_def)
  ultimately show ?thesis
    by (simp add: record_decision_def update_approvals_def put_decision_def n)
qed

lemma approvals_wf_put_decision:
  assumes wf: "approvals_wf d" and v: "validate_resolution sha res = Inr h" and c: "valid_instant clock"
  shows "approvals_wf (put_decision clock i res d)"
proof -
  have ok: "approval_ok (decide_row clock res q)" if "q \<in> set (approvals d)" for q
    using approval_ok_decide [OF _ v c] wf that by (simp add: approvals_wf_def)
  have "distinct (map a_id (approvals (put_decision clock i res d)))"
    using wf by (simp add: approvals_wf_def)
  then show ?thesis
    using wf ok by (auto simp: approvals_wf_def put_decision_def set_update_where)
qed

lemma approvals_wf_add:
  assumes "approvals_wf d" and "approval_ok r" and "\<forall>q\<in>set (approvals d). a_id q \<noteq> a_id r"
    and "\<exists>j\<in>set (jobs d). j_id j = a_job_id r"
  shows "approvals_wf (add_approval r d)"
  using assms by (auto simp: approvals_wf_def)

lemma put_decision_evolves: "grows approval_evolves (approvals d) (approvals (put_decision clock i res d))"
  unfolding put_decision_def by (auto intro: approval_history.grows_update decide_row_evolves)

subsection \<open>Creation\<close>

lemma approval_create_cases:
  assumes dig: "digest_fun sha" and now: "valid_instant (snd t)" and clk: "valid_instant (fst t)"
  shows "approval_create_op sha a t d =
    (case validate_approval sha a of
       Inl e \<Rightarrow> (Inl ApprovalValidationError, d)
     | Inr data \<Rightarrow>
         if snd data \<le> fst t then (Inl ApprovalExpiredError, d)
         else if \<exists>q\<in>set (approvals d). a_id q = ac_id a then (Inl ApprovalAlreadyExistsError, d)
         else if \<forall>j\<in>set (jobs d). j_id j \<noteq> ac_job_id a then (Inl ApprovalValidationError, d)
         else (Inr (new_approval_row (snd t) a data), add_approval (new_approval_row (snd t) a data) d))"
proof (cases "validate_approval sha a")
  case (Inl e)
  then show ?thesis using validate_approval_Inl [OF Inl] by (simp add: approval_create_op_def)
next
  case (Inr data)
  let ?r = "new_approval_row (snd t) a data"
  have ok: "approval_ok ?r" using dig Inr now by (rule approval_ok_new)
  have sel: "select_approval (add_approval ?r d) (ac_id a) = Some ?r"
    if "\<not> (\<exists>q\<in>set (approvals d). a_id q = ac_id a)"
    using select_add_approval [of d ?r] that by simp
  show ?thesis
    using Inr clk sel
    by (simp add: approval_create_op_def insert_new_approval [OF ok] write_connection_def
        connection_def on_integrity_def approval_integrity_def is_unique_violation_def
        is_integrity_error_def ok)
qed

lemma approval_create_rollback: "approval_create_op sha a t d = (Inl e, d') \<Longrightarrow> d' = d"
  unfolding approval_create_op_def by (rule tx_rollback)

lemma approval_create_Inr:
  assumes "approval_create_op sha a t d = (Inr r, d')"
  shows "\<exists>data. validate_approval sha a = Inr data \<and> fst t < snd data \<and>
    r = new_approval_row (snd t) a data \<and> d' = add_approval r d \<and> approval_ok r \<and>
    (\<forall>q\<in>set (approvals d). a_id q \<noteq> ac_id a) \<and> (\<exists>j\<in>set (jobs d). j_id j = ac_job_id a)"
proof -
  obtain data d1 row where v: "validate_approval sha a = Inr data" and c: "read_clock (fst t) = Inr (fst t)"
    "\<not> snd data \<le> fst t"
    and ins: "insert_approval d (new_approval_row (snd t) a data) = Inr d1"
    and row: "select_approval d1 (ac_id a) = Some row" "approval_to_record row = Inr r" "d' = d1"
    using assms by (auto simp: approval_create_op_def tx_Inr bindE_eq_Inr read_clock_iff
        split: if_splits option.splits)
  have "d1 = add_approval (new_approval_row (snd t) a data) d"
    "\<forall>q\<in>set (approvals d). a_id q \<noteq> ac_id a" "\<exists>j\<in>set (jobs d). j_id j = ac_job_id a"
    using ins by (auto simp: insert_approval_Inr)
  moreover from this have "row = new_approval_row (snd t) a data"
    using row(1) select_add_approval [of d "new_approval_row (snd t) a data"] by simp
  ultimately show ?thesis using v c row approval_to_record_Inr [OF row(2)] by auto
qed

lemma approval_create_wf:
  "approvals_wf d \<Longrightarrow> approval_create_op sha a t d = (Inr r, d') \<Longrightarrow> approvals_wf d'"
  by (drule approval_create_Inr) (auto intro!: approvals_wf_add)

subsection \<open>Decision\<close>

lemma approval_decide_rollback: "approval_decide sha i res clock d = (Inl e, d') \<Longrightarrow> d' = d"
  unfolding approval_decide_def split_def by (rule tx_rollback)

lemma approval_decide_Inr_tx:
  "approval_decide sha i res clock d = (Inr r, d') \<longleftrightarrow>
     plain_text i \<and> utf8_len i \<le> 128 \<and>
     (\<exists>h. validate_resolution sha res = Inr h \<and> approval_decide_tx clock i res h d = Inr (r, d'))"
  by (auto simp: approval_decide_def tx_Inr bindE_eq_Inr validate_approval_text_iff)

text \<open>
  An accepted decision either was already recorded, identically, or is recorded now, before the
  approval expired.
\<close>

lemma approval_decide_tx_Inr:
  assumes tx: "approval_decide_tx clock i res h d = Inr (r, d')"
  shows "\<exists>row. select_approval d i = Some row \<and> a_payload_hash row = h \<and> approval_ok row \<and>
     (d' = d \<and> r = row \<and> same_resolution row res \<or>
      a_decision row = None \<and> valid_instant clock \<and> clock < a_expires_at row \<and>
      r = decide_row clock res row \<and> d' = put_decision clock i res d)"
proof -
  obtain row where row: "select_approval d i = Some row" "approval_to_record row = Inr row" "approval_ok row"
    using tx by (auto simp: approval_decide_tx_def bindE_eq_Inr split: option.splits
        dest: approval_to_record_Inr)
  have h: "a_payload_hash row = h"
    using tx row by (auto simp: approval_decide_tx_def split: if_splits)
  show ?thesis
  proof (cases "a_decision row")
    case None
    obtain n where c: "valid_instant clock" "clock < a_expires_at row"
      and rd: "record_decision clock i res d = Inr (n, d')"
      and sel: "\<exists>q. select_approval d' i = Some q \<and> approval_to_record q = Inr r"
      using tx row h None
      by (auto simp: approval_decide_tx_def bindE_eq_Inr read_clock_iff split: if_splits option.splits)
    have d': "d' = put_decision clock i res d" using record_decision_Inr [OF rd] by simp
    then have "select_approval d' i = Some (decide_row clock res row)"
      using row(1) None select_approval_Some [OF row(1)] by (simp add: select_put_decision)
    then have "r = decide_row clock res row" using sel approval_to_record_Inr by fastforce
    then show ?thesis using row h None c d' by blast
  next
    case (Some x)
    then show ?thesis using tx row h by (auto simp: approval_decide_tx_def split: if_splits)
  qed
qed

lemma approval_decide_evolves:
  "approval_decide sha i res clock d = (r, d') \<Longrightarrow> grows approval_evolves (approvals d) (approvals d')"
proof (cases r)
  case (Inl e)
  assume "approval_decide sha i res clock d = (r, d')"
  then show ?thesis using approval_decide_rollback Inl by fastforce
next
  case (Inr x)
  assume "approval_decide sha i res clock d = (r, d')"
  then obtain h where "approval_decide_tx clock i res h d = Inr (x, d')"
    using Inr by (auto simp: approval_decide_Inr_tx)
  from approval_decide_tx_Inr [OF this] show ?thesis by (auto intro: put_decision_evolves)
qed

lemma approval_decide_wf:
  assumes wf: "approvals_wf d" and dec: "approval_decide sha i res clock d = (Inr r, d')"
  shows "approvals_wf d'"
proof -
  obtain h where v: "validate_resolution sha res = Inr h"
    and tx: "approval_decide_tx clock i res h d = Inr (r, d')"
    using dec by (auto simp: approval_decide_Inr_tx)
  from approval_decide_tx_Inr [OF tx] show ?thesis
    using wf approvals_wf_put_decision [OF wf v] by auto
qed

lemma approval_decide_retry:
  assumes wf: "approvals_wf d" and dec: "approval_decide sha i res clock d = (Inr r, d')"
  shows "approval_decide sha i res clock' d' = (Inr r, d')"
proof -
  obtain h where v: "validate_resolution sha res = Inr h" and i: "plain_text i" "utf8_len i \<le> 128"
    and tx: "approval_decide_tx clock i res h d = Inr (r, d')"
    using dec by (auto simp: approval_decide_Inr_tx)
  have wf': "approvals_wf d'" using wf dec by (rule approval_decide_wf)
  have r: "select_approval d' i = Some r" "a_payload_hash r = h" "same_resolution r res"
    using approval_decide_tx_Inr [OF tx]
    by (auto simp: select_put_decision same_resolution_def dest: select_approval_Some)
  have "approval_ok r" using wf' r(1) by (rule select_approval_ok)
  then have "approval_decide_tx clock' i res h d' = Inr (r, d')"
    using r by (simp add: approval_decide_tx_def same_resolution_def)
  then show ?thesis using v i by (auto simp: approval_decide_Inr_tx)
qed

interpretation approval_decision: idempotent_operation "approval_decide sha i res" approvals_wf
  for sha i res
proof
  fix t s e s' assume "approval_decide sha i res t s = (Inl e, s')"
  then show "s' = s" by (rule approval_decide_rollback)
next
  fix s t x s' assume "approvals_wf s" "approval_decide sha i res t s = (Inr x, s')"
  then show "approvals_wf s'" by (rule approval_decide_wf)
next
  fix s t x s' t' assume "approvals_wf s" "approval_decide sha i res t s = (Inr x, s')"
  then show "approval_decide sha i res t' s' = (Inr x, s')" by (rule approval_decide_retry)
qed

interpretation approval_creation: atomic_operation "approval_create_op sha a" approvals_wf for sha a
proof
  fix t s e s' assume "approval_create_op sha a t s = (Inl e, s')"
  then show "s' = s" by (rule approval_create_rollback)
next
  fix s t x s' assume "approvals_wf s" "approval_create_op sha a t s = (Inr x, s')"
  then show "approvals_wf s'" by (rule approval_create_wf)
qed

text \<open>Every branch of \<open>decide\<close> on a well-formed store: the generic repository error is never raised.\<close>

lemma approval_decide_cases:
  assumes wf: "approvals_wf d" and i: "plain_text i" "utf8_len i \<le> 128"
    and v: "validate_resolution sha res = Inr h" and clk: "valid_instant clock"
  shows "approval_decide sha i res clock d =
    (case select_approval d i of
       None \<Rightarrow> (Inl ApprovalNotFoundError, d)
     | Some row \<Rightarrow>
         if a_payload_hash row \<noteq> h then (Inl ApprovalPayloadMismatchError, d)
         else if a_decision row \<noteq> None then
           (if same_resolution row res then Inr row else Inl ApprovalDecisionConflictError, d)
         else if a_expires_at row \<le> clock then (Inl ApprovalExpiredError, d)
         else (Inr (decide_row clock res row), put_decision clock i res d))"
proof (cases "select_approval d i")
  case None
  then show ?thesis using i v
    by (simp add: approval_decide_def validate_approval_text_iff [THEN iffD2] approval_decide_tx_def
        write_connection_error is_integrity_error_def)
next
  case (Some row)
  have ok: "approval_ok row" using wf Some by (rule select_approval_ok)
  have id: "a_id row = i" using select_approval_Some [OF Some] by simp
  have rd: "record_decision clock i res d = Inr (1, put_decision clock i res d)"
    if "a_decision row = None"
    using wf Some that v clk by (rule record_decision_ok)
  have okd: "approval_ok (decide_row clock res row)" using ok v clk by (rule approval_ok_decide)
  show ?thesis
    using i v Some ok okd id clk rd
    by (auto simp: approval_decide_def validate_approval_text_iff [THEN iffD2]
        approval_decide_tx_def write_connection_def connection_def is_integrity_error_def
        select_put_decision)
qed

subsection \<open>Later attempts\<close>

text \<open>A sequence of attempts at deciding approvals, by anybody, at any times.\<close>

fun decide_all ::
  "(string \<Rightarrow> string) \<Rightarrow> (string \<times> approval_resolution \<times> micros) list \<Rightarrow> db \<Rightarrow> db" where
  "decide_all sha [] d = d"
| "decide_all sha ((i, res, clock) # attempts) d =
     decide_all sha attempts (snd (approval_decide sha i res clock d))"

lemma decide_all_evolves: "grows approval_evolves (approvals d) (approvals (decide_all sha attempts d))"
proof (induction sha attempts d rule: decide_all.induct)
  case (2 sha i res clock attempts d)
  have "grows approval_evolves (approvals d) (approvals (snd (approval_decide sha i res clock d)))"
    using approval_decide_evolves [of sha i res clock d "fst (approval_decide sha i res clock d)"
        "snd (approval_decide sha i res clock d)"] by simp
  then show ?case using 2 by (auto intro: approval_history.grows_trans)
qed simp

definition sample_pending_row :: approval_row where
  "sample_pending_row = \<lparr>a_id = ''appr-1'', a_job_id = ''job-1'',
     a_payload_hash = replicate 64 CHR ''0'', a_decision = None, a_actor = None, a_channel = None,
     a_expires_at = 5000, a_created_at = 20, a_decided_at = None\<rparr>"

definition sample_approvals_db :: db where
  "sample_approvals_db = (sample_db WaitingApproval)\<lparr>approvals := [sample_pending_row]\<rparr>"

definition sample_resolution :: "approval_decision \<Rightarrow> approval_resolution" where
  "sample_resolution dc = \<lparr>ar_decision = dc, ar_actor = ''owner'', ar_channel = ''local'', ar_payload = []\<rparr>"

lemma sample_pending_ok: "approval_ok sample_pending_row"
  by code_simp

lemma sample_approvals_wf: "approvals_wf sample_approvals_db"
  using sample_pending_ok
  by (simp add: approvals_wf_def sample_approvals_db_def sample_pending_row_def sample_job_def)

lemma sample_resolution_valid:
  "validate_resolution sample_sha (sample_resolution dc) = Inr (replicate 64 CHR ''0'')"
  by code_simp

subsection \<open>Properties\<close>

text \<open>
  Every branch of \<open>ApprovalRepository.decide\<close> on a well-formed store. Only the payload the
  approval was created for can be decided, a recorded decision is repeated or refused but never
  replaced, and a pending one is decided only before its expiry on the repository's clock.
\<close>

theorem approval_decide_outcome:
  assumes "approvals_wf d" and "validate_resolution sha res = Inr h" and "valid_instant clock"
  shows "approval_decide sha i res clock d =
    (if \<not> (plain_text i \<and> utf8_len i \<le> 128) then (Inl ApprovalValidationError, d)
     else case select_approval d i of
       None \<Rightarrow> (Inl ApprovalNotFoundError, d)
     | Some row \<Rightarrow>
         if a_payload_hash row \<noteq> h then (Inl ApprovalPayloadMismatchError, d)
         else if a_decision row \<noteq> None then
           (if same_resolution row res then Inr row else Inl ApprovalDecisionConflictError, d)
         else if a_expires_at row \<le> clock then (Inl ApprovalExpiredError, d)
         else (Inr (decide_row clock res row), put_decision clock i res d))"
proof (cases "plain_text i \<and> utf8_len i \<le> 128")
  case True
  then show ?thesis using approval_decide_cases [OF assms(1) _ _ assms(2,3), of i] by simp
next
  case False
  then have "validate_approval_text (Some 128) i = Inl ApprovalValidationError"
    by (auto simp: validate_approval_text_def)
  then show ?thesis using False by (auto simp: approval_decide_def)
qed

theorem approval_decide_outcome_witness:
  "fst (approval_decide sample_sha ''appr-1'' (sample_resolution DApproved) 100 sample_approvals_db)
     = Inr (decide_row 100 (sample_resolution DApproved) sample_pending_row) \<and>
   approval_decide sample_sha ''appr-1'' (sample_resolution DApproved) 5000 sample_approvals_db
     = (Inl ApprovalExpiredError, sample_approvals_db)"
proof -
  have v: "valid_instant 100" "valid_instant 5000" by (simp_all add: valid_instant_def max_instant_def)
  have p: "plain_text ''appr-1'' \<and> utf8_len ''appr-1'' \<le> 128" by code_simp
  have sel: "select_approval sample_approvals_db ''appr-1'' = Some sample_pending_row"
    by (simp add: select_approval_def sample_approvals_db_def sample_pending_row_def)
  have f: "a_payload_hash sample_pending_row = replicate 64 CHR ''0''"
    "a_decision sample_pending_row = None" "a_expires_at sample_pending_row = 5000"
    by (simp_all add: sample_pending_row_def)
  show ?thesis
    using p approval_decide_outcome [OF sample_approvals_wf sample_resolution_valid v(1),
        of "''appr-1''" DApproved]
      approval_decide_outcome [OF sample_approvals_wf sample_resolution_valid v(2),
        of "''appr-1''" DApproved]
    by (simp only: sel f option.case if_True if_False not_True_eq_False not_not simp_thms) simp
qed

text \<open>
  A decision is final. Once an approval is decided, no sequence of later attempts, on any
  approval, with any resolution and clock, changes or removes the decided record.
\<close>

theorem approval_decision_final:
  assumes "approval_decide sha i res clock d = (Inr r, d')"
  shows "r \<in> set (approvals (decide_all sha attempts d')) \<and> same_resolution r res"
proof -
  obtain h where tx: "approval_decide_tx clock i res h d = Inr (r, d')"
    using assms by (auto simp: approval_decide_Inr_tx)
  have r: "r \<in> set (approvals d')" "same_resolution r res"
    using approval_decide_tx_Inr [OF tx]
    by (auto simp: same_resolution_def put_decision_def set_update_where dest!: select_approval_Some)
  then have "a_decision r \<noteq> None" by (simp add: same_resolution_def)
  then show ?thesis
    using approvals_evolve_settled [OF decide_all_evolves r(1)] r(2) by blast
qed

theorem approval_decision_final_witness:
  "\<exists>r. a_decision r = Some DRejected \<and> r \<in> set (approvals (decide_all sample_sha
     [(''appr-1'', sample_resolution DApproved, 300)]
     (snd (approval_decide sample_sha ''appr-1'' (sample_resolution DRejected) 100 sample_approvals_db))))"
proof -
  let ?d = "approval_decide sample_sha ''appr-1'' (sample_resolution DRejected) 100 sample_approvals_db"
  have "case fst ?d of Inr r \<Rightarrow> True | Inl x \<Rightarrow> False" by code_simp
  then obtain r where "?d = (Inr r, snd ?d)" by (cases "fst ?d") (auto simp: prod_eq_iff)
  from approval_decision_final [OF this, of "[(''appr-1'', sample_resolution DApproved, 300)]"]
  show ?thesis by (auto simp: same_resolution_def sample_resolution_def)
qed

end
