(* ===== verification/ReviewBundles.thy ===== *)
theory ReviewBundles
  imports Approvals
begin

text \<open>
  \<open>ReviewBundleRepository\<close> (db.py): one immutable snapshot of the review evidence per review
  round, bound to the \<open>job.review_ready\<close> event of that round. The invariant \<open>bundles_wf\<close> says
  that every stored bundle matches its hash and names a stored readiness event of its own job.
\<close>

text \<open>\<open>payload.get(key)\<close>: a missing key reads as \<open>None\<close>, which is JSON's null.\<close>

definition get_field :: "payload \<Rightarrow> string \<Rightarrow> json" where
  "get_field p k = (case map_of p k of None \<Rightarrow> JNull | Some v \<Rightarrow> v)"

definition canonical_bundle :: "(string \<Rightarrow> string) \<Rightarrow> payload \<Rightarrow> exn + payload \<times> string" where
  "canonical_bundle sha p =
     (case dumps p of
        None \<Rightarrow> Inl ReviewBundleConflictError
      | Some canonical \<Rightarrow>
          if utf8_len canonical > 2097152 then Inl ReviewBundleConflictError
          else Inr (canon_obj p, sha canonical))"

definition bundle_to_record :: "(string \<Rightarrow> string) \<Rightarrow> bundle_row \<Rightarrow> exn + bundle_row" where
  "bundle_to_record sha r =
     rethrow (\<lambda>e. isa e ValueErr \<or> isa e ReviewBundleConflictError) ReviewBundleRepositoryError
       (bindE (canonical_bundle sha (b_payload r)) (\<lambda>(canonical, expected_hash).
        bindE (ensure
          (b_job_id r \<noteq> [] \<and> 1 \<le> b_scan_event_id r \<and>
           get_field (b_payload r) ''job_id'' = JStr (b_job_id r) \<and>
           get_field (b_payload r) ''scan_event_id'' = JInt (b_scan_event_id r) \<and>
           b_payload r = canonical \<and> b_payload_hash r = expected_hash) ValueErr) (\<lambda>_. Inr r)))"

definition job_bundles :: "db \<Rightarrow> string \<Rightarrow> bundle_row list" where
  "job_bundles d job = filter (\<lambda>r. b_job_id r = job) (review_bundles d)"

text \<open>\<open>ORDER BY scan_event_id DESC LIMIT 1\<close>.\<close>

definition select_bundle :: "db \<Rightarrow> string \<Rightarrow> bundle_row option" where
  "select_bundle d job =
     (case rev (sort_key b_scan_event_id (job_bundles d job)) of [] \<Rightarrow> None | r # _ \<Rightarrow> Some r)"

definition select_bundle_by_event :: "db \<Rightarrow> string \<Rightarrow> int \<Rightarrow> bundle_row option" where
  "select_bundle_by_event d job i =
     List.find (\<lambda>r. b_job_id r = job \<and> b_scan_event_id r = i) (review_bundles d)"

definition bundle_request ::
  "(string \<Rightarrow> string) \<Rightarrow> job_row \<Rightarrow> event_row \<Rightarrow> payload \<Rightarrow> exn + payload \<times> string" where
  "bundle_request sha job scan p =
     bindE (canonical_bundle sha p) (\<lambda>(canonical, h).
       if j_state job \<noteq> ReviewReady \<or> e_job_id scan \<noteq> j_id job \<or>
          e_event_type scan \<noteq> ''job.review_ready'' \<or>
          get_field (e_payload scan) ''status'' \<noteq> JStr ''passed'' \<or>
          get_field canonical ''job_id'' \<noteq> JStr (j_id job) \<or>
          get_field canonical ''scan_event_id'' \<noteq> JInt (e_id scan) \<or>
          get_field canonical ''diff_digest'' \<noteq> get_field (e_payload scan) ''scan_digest''
       then Inl ReviewBundleConflictError else Inr (canonical, h))"

definition bundle_handler :: "exn \<Rightarrow> exn" where
  "bundle_handler x =
     (if is_integrity_error x \<or> isa x JobRepositoryError \<or> isa x EventRepositoryError
      then ReviewBundleRepositoryError else x)"

definition new_bundle_row :: "micros \<Rightarrow> string \<Rightarrow> int \<Rightarrow> payload \<times> string \<Rightarrow> bundle_row" where
  "new_bundle_row now job i data = \<lparr>b_job_id = job, b_scan_event_id = i, b_payload = fst data,
     b_payload_hash = snd data, b_created_at = now\<rparr>"

definition store_bundle ::
  "(string \<Rightarrow> string) \<Rightarrow> micros \<Rightarrow> string \<Rightarrow> int \<Rightarrow> payload \<times> string \<Rightarrow> db \<Rightarrow> exn + bundle_row \<times> db" where
  "store_bundle sha now job i data d =
     bindE (insert_bundle d (new_bundle_row now job i data)) (\<lambda>d'.
       case select_bundle_by_event d' job i of
         None \<Rightarrow> Inl ReviewBundleRepositoryError
       | Some row \<Rightarrow> bindE (bundle_to_record sha row) (\<lambda>stored. Inr (stored, d')))"

definition bundle_create_tx ::
  "(string \<Rightarrow> string) \<Rightarrow> micros \<Rightarrow> job_row \<Rightarrow> event_row \<Rightarrow> payload \<times> string \<Rightarrow> db
   \<Rightarrow> exn + bundle_row \<times> db" where
  "bundle_create_tx sha now job scan data d =
     (case (select_job d (j_id job), select_event d (e_id scan)) of
        (Some job_row, Some scan_row) \<Rightarrow>
          bindE (job_to_record job_row) (\<lambda>j.
          if j \<noteq> job then Inl ReviewBundleConflictError
          else bindE (event_to_record sha scan_row) (\<lambda>e.
          if e \<noteq> scan then Inl ReviewBundleConflictError
          else (case select_bundle d (j_id job) of
              None \<Rightarrow> store_bundle sha now (j_id job) (e_id scan) data d
            | Some existing \<Rightarrow> bindE (bundle_to_record sha existing) (\<lambda>stored.
                if b_scan_event_id stored = e_id scan then
                  (if b_payload_hash stored \<noteq> snd data then Inl ReviewBundleConflictError
                   else Inr (stored, d))
                else if b_scan_event_id stored > e_id scan then Inl ReviewBundleConflictError
                else store_bundle sha now (j_id job) (e_id scan) data d))))
      | _ \<Rightarrow> Inl ReviewBundleConflictError)"

definition bundle_create ::
  "(string \<Rightarrow> string) \<Rightarrow> job_row \<Rightarrow> event_row \<Rightarrow> payload \<Rightarrow> micros \<Rightarrow> db \<Rightarrow> (exn + bundle_row) \<times> db" where
  "bundle_create sha job scan p now =
     validated (bundle_request sha job scan p)
       (\<lambda>data. write_connection ReviewBundleRepositoryError
          (\<lambda>d. handle bundle_handler (bundle_create_tx sha now job scan data d)))"

definition bundle_get :: "(string \<Rightarrow> string) \<Rightarrow> string \<Rightarrow> db \<Rightarrow> exn + bundle_row" where
  "bundle_get sha job d =
     (if \<not> plain_text job then Inl ReviewBundleNotFoundError
      else case select_bundle d job of
          None \<Rightarrow> Inl ReviewBundleNotFoundError
        | Some row \<Rightarrow> bundle_to_record sha row)"

definition bundle_get_for_event ::
  "(string \<Rightarrow> string) \<Rightarrow> string \<Rightarrow> int \<Rightarrow> db \<Rightarrow> exn + bundle_row" where
  "bundle_get_for_event sha job i d =
     (if \<not> plain_text job \<or> i < 1 then Inl ReviewBundleNotFoundError
      else case select_bundle_by_event d job i of
          None \<Rightarrow> Inl ReviewBundleNotFoundError
        | Some row \<Rightarrow> bundle_to_record sha row)"

subsection \<open>Invariant\<close>

definition bundle_ok :: "(string \<Rightarrow> string) \<Rightarrow> bundle_row \<Rightarrow> bool" where
  "bundle_ok sha r \<longleftrightarrow> bundle_to_record sha r = Inr r"

definition bundles_wf :: "(string \<Rightarrow> string) \<Rightarrow> db \<Rightarrow> bool" where
  "bundles_wf sha d \<longleftrightarrow>
     (\<forall>r\<in>set (review_bundles d). bundle_ok sha r) \<and>
     distinct (map b_scan_event_id (review_bundles d)) \<and>
     (\<forall>r\<in>set (review_bundles d). \<exists>e\<in>set (events d). e_id e = b_scan_event_id r \<and>
        e_job_id e = b_job_id r \<and> e_event_type e = ''job.review_ready'')"

lemma get_field_simps [simp]:
  "get_field [] k = JNull"
  "get_field ((k', v) # p) k = (if k = k' then v else get_field p k)"
  by (simp_all add: get_field_def)

lemma canonical_bundle_iff:
  "canonical_bundle sha p = Inr x \<longleftrightarrow>
     \<not> has_nan_fields p \<and> json_bytes (canon_obj p) \<le> 2097152 \<and>
     x = (canon_obj p, sha (render (JObj (canon_obj p))))"
  by (auto simp: canonical_bundle_def dumps_def json_bytes_def split: if_splits)

lemma bundle_to_record_iff:
  "bundle_to_record sha r = Inr x \<longleftrightarrow>
     x = r \<and> canonical_bundle sha (b_payload r) = Inr (b_payload r, b_payload_hash r) \<and>
     b_job_id r \<noteq> [] \<and> 1 \<le> b_scan_event_id r \<and>
     get_field (b_payload r) ''job_id'' = JStr (b_job_id r) \<and>
     get_field (b_payload r) ''scan_event_id'' = JInt (b_scan_event_id r)"
  by (auto simp: bundle_to_record_def bindE_eq_Inr canonical_bundle_iff)

lemma bundle_to_record_ok [simp]: "bundle_ok sha r \<Longrightarrow> bundle_to_record sha r = Inr r"
  by (simp add: bundle_ok_def)

lemma bundle_to_record_Inr: "bundle_to_record sha r = Inr x \<Longrightarrow> x = r \<and> bundle_ok sha r"
  by (auto simp: bundle_ok_def bundle_to_record_iff)

lemma bundle_request_iff:
  "bundle_request sha job scan p = Inr data \<longleftrightarrow>
     canonical_bundle sha p = Inr data \<and> j_state job = ReviewReady \<and> e_job_id scan = j_id job \<and>
     e_event_type scan = ''job.review_ready'' \<and>
     get_field (e_payload scan) ''status'' = JStr ''passed'' \<and>
     get_field (fst data) ''job_id'' = JStr (j_id job) \<and>
     get_field (fst data) ''scan_event_id'' = JInt (e_id scan) \<and>
     get_field (fst data) ''diff_digest'' = get_field (e_payload scan) ''scan_digest''"
  by (cases data) (auto simp: bundle_request_def bindE_eq_Inr split: if_splits)

lemma new_bundle_row_simps [simp]:
  "b_job_id (new_bundle_row now job i data) = job"
  "b_scan_event_id (new_bundle_row now job i data) = i"
  "b_payload (new_bundle_row now job i data) = fst data"
  "b_payload_hash (new_bundle_row now job i data) = snd data"
  by (simp_all add: new_bundle_row_def)

definition add_bundle :: "bundle_row \<Rightarrow> db \<Rightarrow> db" where
  "add_bundle r d = d\<lparr>review_bundles := review_bundles d @ [r]\<rparr>"

lemma add_bundle_frame [simp]:
  "projects (add_bundle r d) = projects d"
  "jobs (add_bundle r d) = jobs d"
  "events (add_bundle r d) = events d"
  "approvals (add_bundle r d) = approvals d"
  "planner (add_bundle r d) = planner d"
  "memory_refs (add_bundle r d) = memory_refs d"
  "verification_runs (add_bundle r d) = verification_runs d"
  "review_bundles (add_bundle r d) = review_bundles d @ [r]"
  "native_attempts (add_bundle r d) = native_attempts d"
  "teams (add_bundle r d) = teams d"
  "phone (add_bundle r d) = phone d"
  by (simp_all add: add_bundle_def)

lemma select_bundle_Some:
  assumes "select_bundle d job = Some r"
  shows "r \<in> set (review_bundles d) \<and> b_job_id r = job \<and>
    (\<forall>q\<in>set (job_bundles d job). b_scan_event_id q \<le> b_scan_event_id r)"
proof -
  let ?xs = "sort_key b_scan_event_id (job_bundles d job)"
  obtain rest where rev: "rev ?xs = r # rest"
    using assms by (auto simp: select_bundle_def split: list.splits)
  then have xs: "?xs = rev rest @ [r]" by (simp add: rev_eq_Cons_iff)
  have "r \<in> set ?xs" unfolding xs by simp
  moreover have "\<forall>q\<in>set ?xs. b_scan_event_id q \<le> b_scan_event_id r"
  proof -
    have "sorted (map b_scan_event_id ?xs)" by simp
    then show ?thesis unfolding xs by (auto simp: sorted_append)
  qed
  ultimately show ?thesis by (auto simp: job_bundles_def)
qed

lemma select_bundle_None: "select_bundle d job = None \<longleftrightarrow> job_bundles d job = []"
proof -
  have "sort_key b_scan_event_id (job_bundles d job) = [] \<longleftrightarrow> job_bundles d job = []"
    by (metis length_0_conv length_sort)
  then show ?thesis by (auto simp: select_bundle_def split: list.splits)
qed

text \<open>The latest round of a job, when its rounds are told apart by their event.\<close>

lemma select_bundle_latest:
  assumes d: "distinct (map b_scan_event_id (review_bundles d))"
    and r: "r \<in> set (review_bundles d)"
    and top: "\<forall>q\<in>set (job_bundles d (b_job_id r)). b_scan_event_id q \<le> b_scan_event_id r"
  shows "select_bundle d (b_job_id r) = Some r"
proof -
  have "r \<in> set (job_bundles d (b_job_id r))" using r by (simp add: job_bundles_def)
  then obtain q where q: "select_bundle d (b_job_id r) = Some q"
    by (cases "select_bundle d (b_job_id r)") (auto simp: select_bundle_None)
  then have "q \<in> set (review_bundles d)" "b_scan_event_id q = b_scan_event_id r"
    using select_bundle_Some [OF q] top \<open>r \<in> set (job_bundles d (b_job_id r))\<close>
    by (auto simp: job_bundles_def intro: antisym)
  then have "q = r" using d r by (auto simp: distinct_map dest: inj_onD)
  then show ?thesis using q by simp
qed

lemma select_bundle_by_event_Some:
  "select_bundle_by_event d job i = Some r \<Longrightarrow>
   r \<in> set (review_bundles d) \<and> b_job_id r = job \<and> b_scan_event_id r = i"
  by (auto simp: select_bundle_by_event_def dest: Prelude.find_Some_iff)

lemma store_bundle_Inr:
  assumes st: "store_bundle sha now job i data d = Inr (r, d')"
  shows "r = new_bundle_row now job i data \<and> d' = add_bundle r d \<and> bundle_ok sha r \<and>
    (\<forall>q\<in>set (review_bundles d). b_scan_event_id q \<noteq> i)"
proof -
  let ?r = "new_bundle_row now job i data"
  obtain d1 row where ins: "insert_bundle d ?r = Inr d1"
    and sel: "select_bundle_by_event d1 job i = Some row" "bundle_to_record sha row = Inr r" "d' = d1"
    using st by (auto simp: store_bundle_def bindE_eq_Inr split: option.splits)
  have d1: "d1 = add_bundle ?r d" and fresh: "\<forall>q\<in>set (review_bundles d). b_scan_event_id q \<noteq> i"
    using ins by (auto simp: insert_bundle_def add_bundle_def split: if_splits)
  have "select_bundle_by_event d1 job i = Some ?r"
    using fresh by (auto simp: d1 select_bundle_by_event_def find_append find_None_iff2
        split: option.splits dest: Prelude.find_Some_iff)
  then show ?thesis using sel d1 fresh by (auto dest: bundle_to_record_Inr)
qed

text \<open>
  Creation checks that job and readiness event are still the stored ones; then the round's bundle
  is already there with the same hash, or it is stored as the latest round.
\<close>

lemma bundle_create_tx_Inr:
  assumes tx: "bundle_create_tx sha now job scan data d = Inr (r, d')"
  shows "select_job d (j_id job) = Some job \<and> select_event d (e_id scan) = Some scan \<and>
    job_to_record job = Inr job \<and> event_ok sha scan \<and>
    (d' = d \<and> select_bundle d (j_id job) = Some r \<and> bundle_ok sha r \<and>
       b_scan_event_id r = e_id scan \<and> b_payload_hash r = snd data \<or>
     (\<forall>q\<in>set (job_bundles d (j_id job)). b_scan_event_id q < e_id scan) \<and>
       store_bundle sha now (j_id job) (e_id scan) data d = Inr (r, d'))"
proof -
  obtain job_row scan_row where sel: "select_job d (j_id job) = Some job_row"
      "select_event d (e_id scan) = Some scan_row"
    using tx by (auto simp: bundle_create_tx_def split: option.splits)
  have j: "job_to_record job_row = Inr job"
    using tx sel by (auto simp: bundle_create_tx_def bindE_eq_Inr split: if_splits)
  have e: "event_to_record sha scan_row = Inr scan"
    using tx sel j by (auto simp: bundle_create_tx_def bindE_eq_Inr split: if_splits)
  have eq: "job_row = job" "scan_row = scan" "event_ok sha scan"
    using j e by (auto dest: job_to_record_Inr event_to_record_Inr)
  have jok: "job_to_record job = Inr job" and eok: "event_to_record sha scan = Inr scan"
    using j e eq by auto
  show ?thesis
  proof (cases "select_bundle d (j_id job)")
    case None
    then have "store_bundle sha now (j_id job) (e_id scan) data d = Inr (r, d')"
      using tx sel eq jok eok by (simp add: bundle_create_tx_def)
    then show ?thesis using sel eq jok None by (auto simp: select_bundle_None)
  next
    case (Some b)
    have b: "bundle_to_record sha b = Inr b"
      using tx sel eq jok eok Some
      by (auto simp: bundle_create_tx_def bindE_eq_Inr dest: bundle_to_record_Inr)
    have top: "\<forall>q\<in>set (job_bundles d (j_id job)). b_scan_event_id q \<le> b_scan_event_id b"
      using select_bundle_Some [OF Some] by blast
    show ?thesis
    proof (cases "b_scan_event_id b = e_id scan")
      case True
      then show ?thesis using tx sel eq jok eok Some b
        by (auto simp: bundle_create_tx_def split: if_splits dest: bundle_to_record_Inr)
    next
      case False
      then have lt: "b_scan_event_id b < e_id scan"
        and "store_bundle sha now (j_id job) (e_id scan) data d = Inr (r, d')"
        using tx sel eq jok eok Some b by (auto simp: bundle_create_tx_def split: if_splits)
      then show ?thesis using sel eq jok top by fastforce
    qed
  qed
qed

lemma bundle_create_Inr:
  "bundle_create sha job scan p now d = (Inr r, d') \<longleftrightarrow>
     (\<exists>data. bundle_request sha job scan p = Inr data \<and>
        bundle_create_tx sha now job scan data d = Inr (r, d'))"
  by (auto simp: bundle_create_def tx_Inr)

lemma bundle_create_rollback: "bundle_create sha job scan p now d = (Inl e, d') \<Longrightarrow> d' = d"
  unfolding bundle_create_def by (rule tx_rollback)

lemma bundle_create_prefix:
  "bundle_create sha job scan p now d = (r, d') \<Longrightarrow> \<exists>new. review_bundles d' = review_bundles d @ new"
proof (cases r)
  case (Inl e)
  assume "bundle_create sha job scan p now d = (r, d')"
  then show ?thesis using bundle_create_rollback Inl by fastforce
next
  case (Inr x)
  assume "bundle_create sha job scan p now d = (r, d')"
  then obtain data where "bundle_create_tx sha now job scan data d = Inr (x, d')"
    using Inr by (auto simp: bundle_create_Inr)
  from bundle_create_tx_Inr [OF this] show ?thesis by (auto dest: store_bundle_Inr)
qed

lemma bundle_create_wf:
  assumes wf: "bundles_wf sha d" and cr: "bundle_create sha job scan p now d = (Inr r, d')"
  shows "bundles_wf sha d'"
proof -
  obtain data where req: "bundle_request sha job scan p = Inr data"
    and tx: "bundle_create_tx sha now job scan data d = Inr (r, d')"
    using cr by (auto simp: bundle_create_Inr)
  note facts = bundle_create_tx_Inr [OF tx]
  show ?thesis
  proof (cases "d' = d")
    case False
    then have st: "store_bundle sha now (j_id job) (e_id scan) data d = Inr (r, d')"
      using facts by blast
    have ev: "scan \<in> set (events d)" using facts select_event_Some by blast
    show ?thesis
      using wf store_bundle_Inr [OF st] ev req
      by (auto simp: bundles_wf_def bundle_request_iff)
  qed (simp add: wf)
qed

lemma bundle_create_retry:
  assumes wf: "bundles_wf sha d" and cr: "bundle_create sha job scan p now d = (Inr r, d')"
  shows "bundle_create sha job scan p now' d' = (Inr r, d')"
proof -
  obtain data where req: "bundle_request sha job scan p = Inr data"
    and tx: "bundle_create_tx sha now job scan data d = Inr (r, d')"
    using cr by (auto simp: bundle_create_Inr)
  note facts = bundle_create_tx_Inr [OF tx]
  have wf': "bundles_wf sha d'" using wf cr by (rule bundle_create_wf)
  have r: "bundle_ok sha r \<and> b_scan_event_id r = e_id scan \<and> b_payload_hash r = snd data \<and>
      b_job_id r = j_id job \<and> jobs d' = jobs d \<and> events d' = events d \<and>
      select_bundle d' (j_id job) = Some r"
  proof (cases "d' = d")
    case True
    then show ?thesis using facts
    proof (elim conjE disjE)
      assume st: "store_bundle sha now (j_id job) (e_id scan) data d = Inr (r, d')"
      have "review_bundles d' = review_bundles d @ [r]" using store_bundle_Inr [OF st] by simp
      then show ?thesis using True by simp
    qed (auto dest: select_bundle_Some)
  next
    case False
    then have st: "store_bundle sha now (j_id job) (e_id scan) data d = Inr (r, d')"
      and top: "\<forall>q\<in>set (job_bundles d (j_id job)). b_scan_event_id q < e_id scan"
      using facts by blast+
    note s = store_bundle_Inr [OF st]
    have "select_bundle d' (b_job_id r) = Some r"
      using wf' s top by (intro select_bundle_latest) (auto simp: bundles_wf_def job_bundles_def)
    then show ?thesis using s by auto
  qed
  have "select_job d' (j_id job) = Some job" "select_event d' (e_id scan) = Some scan"
    using facts r by (auto simp: select_job_def select_event_def)
  then have "bundle_create_tx sha now' job scan data d' = Inr (r, d')"
    using facts r by (simp add: bundle_create_tx_def)
  then show ?thesis using req by (auto simp: bundle_create_Inr)
qed

interpretation bundle_creation: idempotent_operation "bundle_create sha job scan p" "bundles_wf sha"
  for sha job scan p
proof
  fix t s e s' assume "bundle_create sha job scan p t s = (Inl e, s')"
  then show "s' = s" by (rule bundle_create_rollback)
next
  fix s t x s' assume "bundles_wf sha s" "bundle_create sha job scan p t s = (Inr x, s')"
  then show "bundles_wf sha s'" by (rule bundle_create_wf)
next
  fix s t x s' t' assume "bundles_wf sha s" "bundle_create sha job scan p t s = (Inr x, s')"
  then show "bundle_create sha job scan p t' s' = (Inr x, s')" by (rule bundle_create_retry)
qed

text \<open>Reading the round of a stored bundle returns it.\<close>

lemma bundle_get_for_event_wf:
  assumes wf: "bundles_wf sha d" and r: "r \<in> set (review_bundles d)" and j: "plain_text (b_job_id r)"
  shows "bundle_get_for_event sha (b_job_id r) (b_scan_event_id r) d = Inr r"
proof -
  have u: "q = r" if "q \<in> set (review_bundles d)" "b_scan_event_id q = b_scan_event_id r" for q
    using wf r that by (auto simp: bundles_wf_def distinct_map dest: inj_onD)
  have "select_bundle_by_event d (b_job_id r) (b_scan_event_id r) \<noteq> None"
    using r by (auto simp: select_bundle_by_event_def find_None_iff2)
  then have "select_bundle_by_event d (b_job_id r) (b_scan_event_id r) = Some r"
    using u select_bundle_by_event_Some by blast
  moreover have "bundle_ok sha r" using wf r by (simp add: bundles_wf_def)
  moreover have "1 \<le> b_scan_event_id r" using \<open>bundle_ok sha r\<close>
    by (simp add: bundle_ok_def bundle_to_record_iff)
  ultimately show ?thesis using j by (simp add: bundle_get_for_event_def)
qed

lemma sample_bundle_ok [simp]: "bundle_ok sample_sha sample_bundle"
  by code_simp

lemma sample_bundles_wf [simp]: "bundles_wf sample_sha (sample_db st)"
  by (simp add: bundles_wf_def) (simp add: sample_bundle_def sample_ready_def)

subsection \<open>Properties\<close>

text \<open>
  The review bundle of a round is frozen. After a bundle was stored, creating it again from the
  same evidence returns the stored record and writes nothing, and creating another one for the same
  readiness event is a conflict, as long as its hash differs.
\<close>

theorem review_round_frozen:
  assumes wf: "bundles_wf sha d" and cr: "bundle_create sha job scan p now d = (Inr r, d')"
    and other: "bundle_request sha job scan p' = Inr data" "snd data \<noteq> b_payload_hash r"
  shows "deliver (bundle_create sha job scan p) later d' = (replicate (length later) (Inr r), d') \<and>
    bundle_create sha job scan p' now' d' = (Inl ReviewBundleConflictError, d')"
proof
  show "deliver (bundle_create sha job scan p) later d' = (replicate (length later) (Inr r), d')"
    using wf cr by (rule bundle_creation.deliver_again)
  obtain mine where req: "bundle_request sha job scan p = Inr mine"
    and tx: "bundle_create_tx sha now' job scan mine d' = Inr (r, d')"
    using bundle_create_retry [OF wf cr, of now'] by (auto simp: bundle_create_Inr)
  have wf': "bundles_wf sha d'" using wf cr by (rule bundle_create_wf)
  have f: "select_job d' (j_id job) = Some job" "select_event d' (e_id scan) = Some scan"
    "job_to_record job = Inr job" "event_ok sha scan"
    using bundle_create_tx_Inr [OF tx] by auto
  have same: "select_bundle d' (j_id job) = Some r" "bundle_ok sha r" "b_scan_event_id r = e_id scan"
  proof -
    have "\<not> store_bundle sha now' (j_id job) (e_id scan) mine d' = Inr (r, d')"
    proof
      assume st: "store_bundle sha now' (j_id job) (e_id scan) mine d' = Inr (r, d')"
      have "review_bundles d' = review_bundles d' @ [r]"
        using store_bundle_Inr [OF st] add_bundle_frame(8) [of r d'] by metis
      then show False by simp
    qed
    then show "select_bundle d' (j_id job) = Some r" "bundle_ok sha r" "b_scan_event_id r = e_id scan"
      using bundle_create_tx_Inr [OF tx] by auto
  qed
  have "bundle_create_tx sha now' job scan data d' = Inl ReviewBundleConflictError"
    using f same other(2) by (auto simp: bundle_create_tx_def)
  then show "bundle_create sha job scan p' now' d' = (Inl ReviewBundleConflictError, d')"
    by (simp add: bundle_create_def other(1) write_connection_def connection_def handle_def
        bundle_handler_def isa_def is_integrity_error_def)
qed

definition counting_sha :: "string \<Rightarrow> string" where
  "counting_sha s = replicate 64 (if length s < 80 then CHR ''0'' else CHR ''1'')"

definition counted_ready :: event_row where
  "counted_ready = sample_ready\<lparr>e_payload_hash := counting_sha (render (JObj (e_payload sample_ready)))\<rparr>"

definition counted_db :: db where
  "counted_db = (sample_db ReviewReady)\<lparr>events := [counted_ready], review_bundles := []\<rparr>"

theorem review_round_frozen_witness:
  "\<exists>r d'. bundle_create counting_sha (sample_job ReviewReady) counted_ready sample_evidence 40 counted_db
      = (Inr r, d') \<and>
    bundle_create counting_sha (sample_job ReviewReady) counted_ready
      (sample_evidence @ [(''note'', JStr ''a longer bundle of the same round'')]) 41 d'
      = (Inl ReviewBundleConflictError, d')"
proof -
  let ?b = "bundle_create counting_sha (sample_job ReviewReady) counted_ready sample_evidence 40 counted_db"
  let ?p = "sample_evidence @ [(''note'', JStr ''a longer bundle of the same round'')]"
  let ?q = "bundle_request counting_sha (sample_job ReviewReady) counted_ready ?p"
  have wf: "bundles_wf counting_sha counted_db" by (simp add: bundles_wf_def counted_db_def)
  have "case fst ?b of Inr r \<Rightarrow> b_payload_hash r = replicate 64 CHR ''0'' | Inl x \<Rightarrow> False" by code_simp
  then obtain r where b: "?b = (Inr r, snd ?b)" and h: "b_payload_hash r = replicate 64 CHR ''0''"
    by (cases "fst ?b") (auto simp: prod_eq_iff)
  have "case ?q of Inr data \<Rightarrow> snd data = replicate 64 CHR ''1'' | Inl x \<Rightarrow> False" by code_simp
  then obtain data where q: "?q = Inr data" "snd data = replicate 64 CHR ''1''"
    by (cases ?q) auto
  then have ne: "snd data \<noteq> b_payload_hash r" using h by simp
  from review_round_frozen [OF wf b q(1) ne, where now' = 41] b show ?thesis by blast
qed

end
