(* ===== verification/Workflow.thy ===== *)
theory Workflow
  imports ReviewBundles
begin

text \<open>
  \<open>ApprovalWorkflowRepository\<close> (db.py): the approval, the job state and the audit event of a
  review decision committed in one transaction, with the snapshot check that ties a request or a
  decision to the latest review round. \<open>clock\<close> is the injected Python clock, \<open>now\<close> SQLite's.
\<close>

record approval_review =
  rv_job :: job_row
  rv_bundle :: "bundle_row option"
  rv_current :: bool
  rv_approval :: "approval_row option"
  rv_requested :: "event_row option"
  rv_decided :: "event_row option"

subsection \<open>Payloads and keys\<close>

definition review_binding :: "string \<Rightarrow> bundle_row \<Rightarrow> payload" where
  "review_binding job b = [(''bundle_hash'', JStr (b_payload_hash b)), (''job_id'', JStr job),
     (''scan_event_id'', JInt (b_scan_event_id b))]"

definition request_key :: "string \<Rightarrow> string" where
  "request_key i = ''approval.requested:'' @ i"

definition decision_key :: "string \<Rightarrow> string" where
  "decision_key i = ''approval.decided:'' @ i"

definition request_payload :: "string \<Rightarrow> bundle_row \<Rightarrow> micros \<Rightarrow> payload" where
  "request_payload i b expires_at = [(''approval_id'', JStr i),
     (''bundle_hash'', JStr (b_payload_hash b)),
     (''expires_at'', JStr (format_timestamp expires_at)),
     (''scan_event_id'', JInt (b_scan_event_id b))]"

definition decision_payload ::
  "string \<Rightarrow> json \<Rightarrow> json \<Rightarrow> approval_decision \<Rightarrow> job_state \<Rightarrow> payload" where
  "decision_payload i bundle_hash channel decision target = [(''approval_id'', JStr i),
     (''bundle_hash'', bundle_hash), (''channel'', channel),
     (''decision'', JStr (approval_decision_value decision)),
     (''job_state'', JStr (job_state_value target))]"

definition retained_payload ::
  "string \<Rightarrow> bundle_row \<Rightarrow> micros \<Rightarrow> int \<Rightarrow> payload option \<Rightarrow> payload" where
  "retained_payload i b retain_until days identity = [(''approval_id'', JStr i),
     (''bundle_hash'', JStr (b_payload_hash b)),
     (''retain_until'', JStr (format_timestamp retain_until)), (''retention_days'', JInt days),
     (''worktree_identity'', case identity of None \<Rightarrow> JNull | Some p \<Rightarrow> JObj p)]"

fun decision_target :: "approval_decision \<Rightarrow> job_state" where
  "decision_target DApproved = Approved"
| "decision_target DRejected = Rejected"
| "decision_target DChangesRequested = Running"

definition state_update :: "job_row \<Rightarrow> job_state \<Rightarrow> job_update" where
  "state_update job target = \<lparr>ju_id = j_id job, ju_state = target, ju_runtime = j_runtime job,
     ju_model = j_model job, ju_worktree_path = j_worktree_path job\<rparr>"

subsection \<open>Reading\<close>

definition request_event :: "(string \<Rightarrow> string) \<Rightarrow> string \<Rightarrow> string \<Rightarrow> db \<Rightarrow> exn + event_row" where
  "request_event sha job i d =
     (case select_event_by_key d job (request_key i) of
        None \<Rightarrow> Inl ApprovalWorkflowConflictError
      | Some row \<Rightarrow> bindE (event_to_record sha row) (\<lambda>e.
          if e_event_type e \<noteq> ''approval.requested'' then Inl ApprovalWorkflowConflictError
          else Inr e))"

definition decision_event :: "(string \<Rightarrow> string) \<Rightarrow> string \<Rightarrow> string \<Rightarrow> db \<Rightarrow> exn + event_row" where
  "decision_event sha job i d =
     (case select_event_by_key d job (decision_key i) of
        None \<Rightarrow> Inl ApprovalWorkflowConflictError
      | Some row \<Rightarrow> bindE (event_to_record sha row) (\<lambda>e.
          if e_event_type e \<noteq> ''approval.decided'' then Inl ApprovalWorkflowConflictError
          else Inr e))"

text \<open>The id of the job's last \<open>job.review_ready\<close> event.\<close>

definition latest_readiness :: "db \<Rightarrow> string \<Rightarrow> int option" where
  "latest_readiness d job =
     (case rev (sort_key e_sequence
             (filter (\<lambda>e. e_event_type e = ''job.review_ready'') (job_events d job))) of
        [] \<Rightarrow> None | e # _ \<Rightarrow> Some (e_id e))"

definition pending_rows :: "db \<Rightarrow> string \<Rightarrow> approval_row list" where
  "pending_rows d job = filter (\<lambda>r. a_job_id r = job \<and> a_decision r = None) (approvals d)"

definition assert_snapshot ::
  "(string \<Rightarrow> string) \<Rightarrow> job_row \<Rightarrow> bundle_row \<Rightarrow> bool \<Rightarrow> db \<Rightarrow> exn + job_row" where
  "assert_snapshot sha expected_job expected_bundle allow_waiting_retry d =
     (case (select_job d (j_id expected_job), select_bundle d (j_id expected_job)) of
        (Some job_row, Some bundle_row) \<Rightarrow>
          bindE (job_to_record job_row) (\<lambda>stored_job.
          bindE (bundle_to_record sha bundle_row) (\<lambda>bundle.
            if bundle \<noteq> expected_bundle then Inl ApprovalWorkflowConflictError
            else if latest_readiness d (j_id expected_job) \<noteq> Some (b_scan_event_id expected_bundle)
            then Inl ApprovalWorkflowConflictError
            else if stored_job \<noteq> expected_job \<and>
                \<not> (allow_waiting_retry \<and> j_state expected_job = ReviewReady \<and>
                   j_state stored_job = WaitingApproval \<and>
                   stored_job\<lparr>j_state := j_state expected_job,
                     j_updated_at := j_updated_at expected_job\<rparr> = expected_job)
            then Inl ApprovalWorkflowConflictError
            else Inr stored_job))
      | _ \<Rightarrow> Inl ApprovalWorkflowConflictError)"

definition read_review :: "(string \<Rightarrow> string) \<Rightarrow> string \<Rightarrow> db \<Rightarrow> exn + approval_review" where
  "read_review sha job_id d =
     bindE (validate_approval_text None job_id) (\<lambda>_.
     case select_job d job_id of
       None \<Rightarrow> Inl JobNotFoundError
     | Some job_row \<Rightarrow> bindE (job_to_record job_row) (\<lambda>job.
       bindE (case select_bundle d job_id of
                None \<Rightarrow> Inr None
              | Some row \<Rightarrow> bindE (bundle_to_record sha row) (\<lambda>b. Inr (Some b))) (\<lambda>bundle.
       let current = (case (bundle, latest_readiness d job_id) of
             (Some b, Some i) \<Rightarrow> i = b_scan_event_id b | _ \<Rightarrow> False) in
       bindE (mapE approval_to_record (filter (\<lambda>r. a_job_id r = job_id) (approvals d))) (\<lambda>records.
       let pending = filter (\<lambda>r. a_decision r = None) records in
       bindE (case bundle of
                None \<Rightarrow> Inr None
              | Some b \<Rightarrow> bindE (payload_hash sha (review_binding job_id b)) (\<lambda>h. Inr (Some h)))
         (\<lambda>binding_hash.
       let matches = filter (\<lambda>r. Some (a_payload_hash r) = binding_hash) records in
       if 1 < length matches \<or>
          pending \<noteq> [] \<and> (length pending \<noteq> 1 \<or> matches \<noteq> pending \<or> \<not> current \<or>
            j_state job \<noteq> WaitingApproval) \<or>
          j_state job = WaitingApproval \<and> pending = []
       then Inl ApprovalWorkflowConflictError
       else (case matches of
           [] \<Rightarrow> Inr \<lparr>rv_job = job, rv_bundle = bundle, rv_current = current, rv_approval = None,
                   rv_requested = None, rv_decided = None\<rparr>
         | approval # _ \<Rightarrow>
             bindE (request_event sha job_id (a_id approval) d) (\<lambda>requested.
             bindE (if a_decision approval = None then Inr None
                    else bindE (decision_event sha job_id (a_id approval) d) (\<lambda>e. Inr (Some e)))
               (\<lambda>decided.
             Inr \<lparr>rv_job = job, rv_bundle = bundle, rv_current = current,
               rv_approval = Some approval, rv_requested = Some requested,
               rv_decided = decided\<rparr>))))))))"

definition get_request_event :: "(string \<Rightarrow> string) \<Rightarrow> string \<Rightarrow> string \<Rightarrow> db \<Rightarrow> exn + event_row" where
  "get_request_event sha i job d =
     bindE (validate_approval_text (Some 128) i) (\<lambda>_.
     bindE (validate_approval_text None job) (\<lambda>_. request_event sha job i d))"

definition get_decision_event :: "(string \<Rightarrow> string) \<Rightarrow> string \<Rightarrow> string \<Rightarrow> db \<Rightarrow> exn + event_row" where
  "get_decision_event sha i job d =
     bindE (validate_approval_text (Some 128) i) (\<lambda>_.
     bindE (validate_approval_text None job) (\<lambda>_. decision_event sha job i d))"

subsection \<open>Requesting a decision\<close>

definition workflow_error :: "exn \<Rightarrow> bool" where
  "workflow_error e \<longleftrightarrow> is_integrity_error e \<or> isa e ForbiddenJobTransitionError"

definition request_create :: "approval_create \<Rightarrow> bundle_row \<Rightarrow> event_create" where
  "request_create a b = \<lparr>ec_job_id = ac_job_id a, ec_event_type = ''approval.requested'',
     ec_payload = request_payload (ac_id a) b (ac_expires_at a),
     ec_idempotency_key = Some (request_key (ac_id a))\<rparr>"

definition request_valid ::
  "(string \<Rightarrow> string) \<Rightarrow> approval_create \<Rightarrow> job_row \<Rightarrow> bundle_row
   \<Rightarrow> exn + (string \<times> micros) \<times> (payload \<times> string \<times> string option)" where
  "request_valid sha a job b =
     bindE (validate_approval sha a) (\<lambda>data.
       if ac_job_id a \<noteq> j_id job \<or> b_job_id b \<noteq> j_id job \<or>
          canon_obj (ac_payload a) \<noteq> review_binding (j_id job) b
       then Inl ApprovalValidationError
       else bindE (validate_event sha (request_create a b)) (\<lambda>event_data. Inr (data, event_data)))"

definition request_write ::
  "(string \<Rightarrow> string) \<Rightarrow> micros \<Rightarrow> approval_create \<Rightarrow> job_row \<Rightarrow> bundle_row \<Rightarrow> string \<times> micros
   \<Rightarrow> payload \<times> string \<times> string option \<Rightarrow> db \<Rightarrow> exn + (approval_row \<times> event_row) \<times> db" where
  "request_write sha now a job b data event_data d =
     rethrow workflow_error ApprovalRepositoryError
       (bindE (insert_approval d (new_approval_row now a data)) (\<lambda>d1.
        bindE (validate_job_transition (j_state job) WaitingApproval) (\<lambda>_.
        bindE (job_apply_update now (state_update job WaitingApproval) d1) (\<lambda>(_, d2).
        bindE (event_append_tx sha now (request_create a b) event_data d2) (\<lambda>(stored_event, d3).
        case select_approval d3 (ac_id a) of
          None \<Rightarrow> Inl ApprovalRepositoryError
        | Some row \<Rightarrow> bindE (approval_to_record row) (\<lambda>stored.
            Inr ((stored, stored_event), d3)))))))"

definition request_tx ::
  "(string \<Rightarrow> string) \<Rightarrow> micros \<times> micros \<Rightarrow> approval_create \<Rightarrow> job_row \<Rightarrow> bundle_row
   \<Rightarrow> string \<times> micros \<Rightarrow> payload \<times> string \<times> string option \<Rightarrow> db
   \<Rightarrow> exn + (approval_row \<times> event_row) \<times> db" where
  "request_tx sha t a job b data event_data d =
     bindE (assert_snapshot sha job b True d) (\<lambda>current_job.
     bindE (read_clock (fst t)) (\<lambda>now_us.
     if j_state current_job = WaitingApproval then
       (case pending_rows d (ac_job_id a) of
          [row] \<Rightarrow> bindE (approval_to_record row) (\<lambda>pending.
            if a_payload_hash pending \<noteq> fst data then Inl ApprovalWorkflowConflictError
            else if a_expires_at pending \<le> now_us then Inl ApprovalExpiredError
            else bindE (request_event sha (ac_job_id a) (a_id pending) d) (\<lambda>requested.
              if e_payload requested \<noteq> request_payload (a_id pending) b (a_expires_at pending)
              then Inl ApprovalWorkflowConflictError
              else Inr ((pending, requested), d)))
        | _ \<Rightarrow> Inl ApprovalWorkflowConflictError)
     else if j_state current_job \<noteq> ReviewReady \<or> pending_rows d (ac_job_id a) \<noteq> []
     then Inl ApprovalWorkflowConflictError
     else if snd data \<le> now_us then Inl ApprovalExpiredError
     else request_write sha (snd t) a job b data event_data d))"

definition workflow_request ::
  "(string \<Rightarrow> string) \<Rightarrow> approval_create \<Rightarrow> job_row \<Rightarrow> bundle_row \<Rightarrow> micros \<times> micros \<Rightarrow> db
   \<Rightarrow> (exn + approval_row \<times> event_row) \<times> db" where
  "workflow_request sha a job b t =
     validated (request_valid sha a job b)
       (\<lambda>v. write_connection ApprovalRepositoryError (request_tx sha t a job b (fst v) (snd v)))"

subsection \<open>Resolving it\<close>

definition decision_create :: "string \<Rightarrow> string \<Rightarrow> approval_resolution \<Rightarrow> bundle_row \<Rightarrow> event_create" where
  "decision_create i job res b = \<lparr>ec_job_id = job, ec_event_type = ''approval.decided'',
     ec_payload = decision_payload i (JStr (b_payload_hash b)) (JStr (ar_channel res))
       (ar_decision res) (decision_target (ar_decision res)),
     ec_idempotency_key = Some (decision_key i)\<rparr>"

definition retained_create ::
  "string \<Rightarrow> string \<Rightarrow> bundle_row \<Rightarrow> micros \<Rightarrow> int \<Rightarrow> payload option \<Rightarrow> event_create" where
  "retained_create i job b retain_until days identity = \<lparr>ec_job_id = job,
     ec_event_type = ''job.worktree.retained'',
     ec_payload = retained_payload i b retain_until days identity,
     ec_idempotency_key = Some (''worktree.retained:'' @ i)\<rparr>"

text \<open>A rejection also records until when the rejected worktree is kept.\<close>

definition record_retention ::
  "(string \<Rightarrow> string) \<Rightarrow> micros \<times> micros \<Rightarrow> int \<Rightarrow> string \<Rightarrow> string \<Rightarrow> approval_resolution \<Rightarrow> bundle_row
   \<Rightarrow> payload option \<Rightarrow> db \<Rightarrow> exn + db" where
  "record_retention sha t days i job res b identity d =
     (if ar_decision res \<noteq> DRejected then Inr d
      else let retain_until = fst t + days * 86400000000 in
        if retain_until > max_instant then Inl ApprovalValidationError
        else let event = retained_create i job b retain_until days identity in
          bindE (validate_event sha event) (\<lambda>data.
          bindE (event_append_tx sha (snd t) event data d) (\<lambda>(_, d'). Inr d')))"

definition resolve_write ::
  "(string \<Rightarrow> string) \<Rightarrow> micros \<times> micros \<Rightarrow> int \<Rightarrow> string \<Rightarrow> approval_resolution \<Rightarrow> job_row \<Rightarrow> bundle_row
   \<Rightarrow> payload option \<Rightarrow> payload \<times> string \<times> string option \<Rightarrow> db
   \<Rightarrow> exn + (approval_row \<times> event_row) \<times> db" where
  "resolve_write sha t days i res job b identity event_data d =
     rethrow workflow_error ApprovalRepositoryError
       (bindE (validate_job_transition (j_state job) (decision_target (ar_decision res))) (\<lambda>_.
        bindE (record_decision (fst t) i res d) (\<lambda>(rowcount, d1).
        if rowcount \<noteq> 1 then Inl ApprovalDecisionConflictError
        else
          bindE (job_apply_update (snd t) (state_update job (decision_target (ar_decision res))) d1)
            (\<lambda>(_, d2).
          bindE (record_retention sha t days i (j_id job) res b identity d2) (\<lambda>d3.
          bindE (event_append_tx sha (snd t) (decision_create i (j_id job) res b) event_data d3)
            (\<lambda>(decided, d4).
          case select_approval d4 i of
            None \<Rightarrow> Inl ApprovalRepositoryError
          | Some row \<Rightarrow> bindE (approval_to_record row) (\<lambda>stored. Inr ((stored, decided), d4))))))))"

text \<open>A decision that is already recorded is answered from the ledger.\<close>

definition resolve_recorded ::
  "(string \<Rightarrow> string) \<Rightarrow> string \<Rightarrow> approval_resolution \<Rightarrow> approval_row \<Rightarrow> event_row \<Rightarrow> db
   \<Rightarrow> exn + (approval_row \<times> event_row) \<times> db" where
  "resolve_recorded sha i res stored requested d =
     (if \<not> same_resolution stored res then Inl ApprovalDecisionConflictError
      else bindE (decision_event sha (a_job_id stored) i d) (\<lambda>decided.
        if e_payload decided \<noteq> decision_payload i (get_field (e_payload requested) ''bundle_hash'')
             (JStr (ar_channel res)) (ar_decision res) (decision_target (ar_decision res))
        then Inl ApprovalWorkflowConflictError
        else Inr ((stored, decided), d)))"

definition resolve_tx ::
  "(string \<Rightarrow> string) \<Rightarrow> micros \<times> micros \<Rightarrow> int \<Rightarrow> string \<Rightarrow> approval_resolution \<Rightarrow> string
   \<Rightarrow> (job_row \<times> bundle_row) option \<Rightarrow> payload option \<Rightarrow> db
   \<Rightarrow> exn + (approval_row \<times> event_row) \<times> db" where
  "resolve_tx sha t days i res hash expected identity d =
     (case select_approval d i of
        None \<Rightarrow> Inl ApprovalNotFoundError
      | Some row \<Rightarrow> bindE (approval_to_record row) (\<lambda>stored.
          if a_payload_hash stored \<noteq> hash then Inl ApprovalPayloadMismatchError
          else bindE (request_event sha (a_job_id stored) i d) (\<lambda>requested.
          if a_decision stored \<noteq> None then resolve_recorded sha i res stored requested d
          else (case expected of
              None \<Rightarrow> Inl ApprovalWorkflowConflictError
            | Some (job, b) \<Rightarrow>
                bindE (assert_snapshot sha job b False d) (\<lambda>_.
                if j_id job \<noteq> a_job_id stored \<or> j_state job \<noteq> WaitingApproval \<or>
                   get_field (e_payload requested) ''bundle_hash'' \<noteq> JStr (b_payload_hash b) \<or>
                   get_field (e_payload requested) ''scan_event_id'' \<noteq> JInt (b_scan_event_id b)
                then Inl ApprovalWorkflowConflictError
                else if length (pending_rows d (a_job_id stored)) \<noteq> 1
                then Inl ApprovalWorkflowConflictError
                else bindE (read_clock (fst t)) (\<lambda>now_us.
                if now_us \<ge> a_expires_at stored then Inl ApprovalExpiredError
                else bindE (validate_event sha (decision_create i (j_id job) res b)) (\<lambda>event_data.
                  resolve_write sha t days i res job b identity event_data d)))))))"

definition workflow_resolve ::
  "(string \<Rightarrow> string) \<Rightarrow> int \<Rightarrow> string \<Rightarrow> approval_resolution \<Rightarrow> (job_row \<times> bundle_row) option
   \<Rightarrow> payload option \<Rightarrow> micros \<times> micros \<Rightarrow> db \<Rightarrow> (exn + approval_row \<times> event_row) \<times> db" where
  "workflow_resolve sha days i res expected identity t =
     validated
       (bindE (validate_approval_text (Some 128) i) (\<lambda>_. validate_resolution sha res))
       (\<lambda>h. write_connection ApprovalRepositoryError
          (resolve_tx sha t days i res h expected identity))"

subsection \<open>Cleanup evidence\<close>

definition cleanup_valid ::
  "(string \<Rightarrow> string) \<Rightarrow> job_row \<Rightarrow> approval_row \<Rightarrow> event_create
   \<Rightarrow> exn + payload \<times> string \<times> string option" where
  "cleanup_valid sha job approval event =
     (if j_state job \<noteq> Rejected \<or> a_job_id approval \<noteq> j_id job \<or>
         a_decision approval \<noteq> Some DRejected \<or> ec_job_id event \<noteq> j_id job \<or>
         ec_event_type event \<notin> {''job.worktree.cleanup.started'', ''job.worktree.cleanup.completed''}
      then Inl ApprovalValidationError
      else validate_event sha event)"

definition record_cleanup ::
  "(string \<Rightarrow> string) \<Rightarrow> job_row \<Rightarrow> approval_row \<Rightarrow> bundle_row \<Rightarrow> event_row \<Rightarrow> event_create \<Rightarrow> micros
   \<Rightarrow> db \<Rightarrow> (exn + event_row) \<times> db" where
  "record_cleanup sha job approval b retained event now =
     validated (cleanup_valid sha job approval event)
       (\<lambda>data. write_connection ApprovalRepositoryError (\<lambda>d.
          bindE (assert_snapshot sha job b False d) (\<lambda>_.
          case select_approval d (a_id approval) of
            None \<Rightarrow> Inl ApprovalWorkflowConflictError
          | Some row \<Rightarrow> bindE (approval_to_record row) (\<lambda>stored.
              if stored \<noteq> approval then Inl ApprovalWorkflowConflictError
              else case select_event d (e_id retained) of
                None \<Rightarrow> Inl ApprovalWorkflowConflictError
              | Some retention_row \<Rightarrow> bindE (event_to_record sha retention_row) (\<lambda>stored_retention.
                  if stored_retention \<noteq> retained \<or> e_job_id retained \<noteq> j_id job \<or>
                     e_event_type retained \<noteq> ''job.worktree.retained'' \<or>
                     get_field (e_payload retained) ''approval_id'' \<noteq> JStr (a_id approval) \<or>
                     get_field (e_payload retained) ''bundle_hash'' \<noteq> JStr (b_payload_hash b)
                  then Inl ApprovalWorkflowConflictError
                  else event_append_tx sha now event data d)))))"

subsection \<open>Invariant\<close>

definition review_wf :: "(string \<Rightarrow> string) \<Rightarrow> db \<Rightarrow> bool" where
  "review_wf sha d \<longleftrightarrow> core_wf sha d \<and> approvals_wf d \<and> bundles_wf sha d"

text \<open>No decision is announced in the ledger before it is recorded.\<close>

definition undecided_silent :: "db \<Rightarrow> bool" where
  "undecided_silent d \<longleftrightarrow>
     (\<forall>r\<in>set (approvals d). a_decision r = None \<longrightarrow>
        select_event_by_key d (a_job_id r) (decision_key (a_id r)) = None)"

lemma canon_payloads [simp]:
  "canon_obj (request_payload i b e) = request_payload i b e"
  "canon_obj (decision_payload i (JStr h) (JStr c) dc target) = decision_payload i (JStr h) (JStr c) dc target"
  "canon_obj (review_binding j b) = review_binding j b"
  by (simp_all add: canon_obj_def request_payload_def decision_payload_def review_binding_def)

lemma workflow_keys [simp]:
  "request_key i = request_key k \<longleftrightarrow> i = k"
  "decision_key i = decision_key k \<longleftrightarrow> i = k"
  "request_key i \<noteq> decision_key k"
  "decision_key k \<noteq> request_key i"
  "''worktree.retained:'' @ i \<noteq> decision_key k"
  "''worktree.retained:'' @ i \<noteq> request_key k"
  by (auto simp: request_key_def decision_key_def)

lemma approvals_wf_frame:
  "approvals d' = approvals d \<Longrightarrow> (\<And>i. \<exists>j\<in>set (jobs d). j_id j = i \<Longrightarrow> \<exists>j\<in>set (jobs d'). j_id j = i) \<Longrightarrow>
   approvals_wf d \<Longrightarrow> approvals_wf d'"
  by (simp add: approvals_wf_def)

lemma bundles_wf_frame:
  "review_bundles d' = review_bundles d \<Longrightarrow> set (events d) \<subseteq> set (events d') \<Longrightarrow>
   bundles_wf sha d \<Longrightarrow> bundles_wf sha d'"
  unfolding bundles_wf_def by (simp add: subset_iff) blast

lemma core_wf_frame:
  "projects d' = projects d \<Longrightarrow> jobs d' = jobs d \<Longrightarrow> events d' = events d \<Longrightarrow> core_wf sha d' = core_wf sha d"
  by (simp add: core_wf_def projects_wf_def jobs_wf_def events_wf_def job_events_def keyed_events_def)

lemma review_wf_put_job:
  assumes wf: "review_wf sha d" and v: "validate_job_update u = Inr x"
  shows "review_wf sha (put_job now u d)"
proof -
  have "approvals_wf (put_job now u d)"
    using wf by (intro approvals_wf_frame [of "put_job now u d" d])
      (simp_all add: review_wf_def put_job_ids)
  moreover have "bundles_wf sha (put_job now u d)"
    using wf by (intro bundles_wf_frame [of "put_job now u d" d]) (simp_all add: review_wf_def)
  ultimately show ?thesis
    using core_wf_put_job [OF _ v] wf by (simp add: review_wf_def)
qed

lemma review_wf_append:
  assumes wf: "review_wf sha d" and v: "validate_event sha e = Inr data"
    and app: "event_append_tx sha now e data d = Inr (r, d')"
  shows "review_wf sha d'"
proof -
  have fr: "jobs d' = jobs d" "approvals d' = approvals d" "review_bundles d' = review_bundles d"
    using event_append_tx_frame [OF app] by auto
  have ev: "set (events d) \<subseteq> set (events d')"
    using event_append_tx_prefix [OF app] by auto
  have "approvals_wf d'" using wf fr by (intro approvals_wf_frame [of d' d]) (simp_all add: review_wf_def)
  moreover have "bundles_wf sha d'" using wf fr ev by (intro bundles_wf_frame [of d' d]) (simp_all add: review_wf_def)
  ultimately show ?thesis using core_wf_append [OF _ v app] wf by (simp add: review_wf_def)
qed

lemma review_wf_add_approval:
  assumes wf: "review_wf sha d" and r: "approval_ok r" "\<forall>q\<in>set (approvals d). a_id q \<noteq> a_id r"
    "\<exists>j\<in>set (jobs d). j_id j = a_job_id r"
  shows "review_wf sha (add_approval r d)"
proof -
  have "core_wf sha (add_approval r d)"
    using wf by (subst core_wf_frame [of _ d]) (simp_all add: review_wf_def)
  moreover have "approvals_wf (add_approval r d)"
    using wf r by (intro approvals_wf_add) (simp_all add: review_wf_def)
  moreover have "bundles_wf sha (add_approval r d)"
    by (rule bundles_wf_frame [of _ d]) (use wf in \<open>simp_all add: review_wf_def\<close>)
  ultimately show ?thesis by (simp add: review_wf_def)
qed

lemma review_wf_put_decision:
  assumes wf: "review_wf sha d" and v: "validate_resolution sha res = Inr h" and c: "valid_instant clock"
  shows "review_wf sha (put_decision clock i res d)"
proof -
  have "core_wf sha (put_decision clock i res d)"
    using wf by (subst core_wf_frame [of _ d]) (simp_all add: review_wf_def)
  moreover have "approvals_wf (put_decision clock i res d)"
    using approvals_wf_put_decision [OF _ v c] wf by (simp add: review_wf_def)
  moreover have "bundles_wf sha (put_decision clock i res d)"
    by (rule bundles_wf_frame [of _ d]) (use wf in \<open>simp_all add: review_wf_def\<close>)
  ultimately show ?thesis by (simp add: review_wf_def)
qed

text \<open>Keys already in the ledger keep their event when the ledger grows.\<close>

lemma select_by_key_grows:
  assumes wf: "events_wf sha d'" and grow: "set (events d) \<subseteq> set (events d')"
    and sel: "select_event_by_key d job k = Some e"
  shows "select_event_by_key d' job k = Some e"
  using select_by_key_wf [OF wf, of e k] select_event_by_key_Some [OF sel] grow by auto

lemma state_update_simps [simp]:
  "ju_id (state_update j s) = j_id j"
  "ju_state (state_update j s) = s"
  "ju_runtime (state_update j s) = j_runtime j"
  "ju_model (state_update j s) = j_model j"
  "ju_worktree_path (state_update j s) = j_worktree_path j"
  by (simp_all add: state_update_def)

text \<open>The update the workflow writes changes state and time of the stored job, nothing else.\<close>

lemma set_state_update:
  "j_runtime r = j_runtime j \<Longrightarrow> j_model r = j_model j \<Longrightarrow> j_worktree_path r = j_worktree_path j \<Longrightarrow>
   set_job now (state_update j s) r = r\<lparr>j_state := s, j_updated_at := now\<rparr>"
  by (simp add: set_job_def)

lemma job_ok_update: "job_ok j \<Longrightarrow> validate_job_update (state_update j s) = Inr ()"
  by (auto simp: job_ok_def validate_job_iff validate_job_update_iff job_row_create_def)

lemma assert_snapshot_Inr:
  assumes "assert_snapshot sha job b w d = Inr cur"
  shows "select_job d (j_id job) = Some cur \<and> select_bundle d (j_id job) = Some b \<and> bundle_ok sha b \<and>
     latest_readiness d (j_id job) = Some (b_scan_event_id b) \<and> job_to_record cur = Inr cur \<and>
     (cur = job \<or> w \<and> j_state job = ReviewReady \<and> j_state cur = WaitingApproval \<and>
        cur\<lparr>j_state := j_state job, j_updated_at := j_updated_at job\<rparr> = job)"
proof -
  obtain jr br where sel: "select_job d (j_id job) = Some jr" "select_bundle d (j_id job) = Some br"
    using assms by (auto simp: assert_snapshot_def split: option.splits)
  have j: "job_to_record jr = Inr jr" and b: "bundle_to_record sha br = Inr br"
    using assms sel
    by (auto simp: assert_snapshot_def bindE_eq_Inr dest: job_to_record_Inr bundle_to_record_Inr)
  show ?thesis
    using assms sel j b
    by (auto simp: assert_snapshot_def split: if_splits dest: bundle_to_record_Inr)
qed

lemma assert_snapshot_ok:
  assumes "select_job d (j_id job) = Some job" and "job_to_record job = Inr job"
    and "select_bundle d (j_id job) = Some b" and "bundle_ok sha b"
    and "latest_readiness d (j_id job) = Some (b_scan_event_id b)"
  shows "assert_snapshot sha job b w d = Inr job"
  using assms by (simp add: assert_snapshot_def)

lemma event_to_record_eq: "event_to_record sha r = Inr x \<longleftrightarrow> x = r \<and> event_ok sha r"
  using event_to_record_Inr event_to_record_ok by metis

lemma request_event_Inr:
  "request_event sha job i d = Inr e \<longleftrightarrow>
     select_event_by_key d job (request_key i) = Some e \<and> event_ok sha e \<and>
     e_event_type e = ''approval.requested''"
  by (auto simp: request_event_def bindE_eq_Inr event_to_record_eq split: option.splits if_splits)

lemma decision_event_Inr:
  "decision_event sha job i d = Inr e \<longleftrightarrow>
     select_event_by_key d job (decision_key i) = Some e \<and> event_ok sha e \<and>
     e_event_type e = ''approval.decided''"
  by (auto simp: decision_event_def bindE_eq_Inr event_to_record_eq split: option.splits if_splits)

subsection \<open>What a request does\<close>

text \<open>The store a request starts its event from: the approval added, the job waiting.\<close>

definition requested_db :: "micros \<Rightarrow> approval_create \<Rightarrow> job_row \<Rightarrow> string \<times> micros \<Rightarrow> db \<Rightarrow> db" where
  "requested_db now a job data d =
     put_job now (state_update job WaitingApproval) (add_approval (new_approval_row now a data) d)"

lemma requested_db_frame [simp]:
  "projects (requested_db now a job data d) = projects d"
  "events (requested_db now a job data d) = events d"
  "approvals (requested_db now a job data d) = approvals d @ [new_approval_row now a data]"
  "review_bundles (requested_db now a job data d) = review_bundles d"
  by (simp_all add: requested_db_def)

lemma select_approval_cong: "approvals d' = approvals d \<Longrightarrow> select_approval d' i = select_approval d i"
  by (simp add: select_approval_def)

lemma request_write_Inr:
  assumes w: "request_write sha now a job b data event_data d = Inr ((r, e), d')"
  shows "r = new_approval_row now a data \<and> approval_ok r \<and>
    (\<forall>q\<in>set (approvals d). a_id q \<noteq> ac_id a) \<and> (\<exists>j\<in>set (jobs d). j_id j = ac_job_id a) \<and>
    WaitingApproval \<in> set (ALLOWED_JOB_TRANSITIONS (j_state job)) \<and>
    event_append_tx sha now (request_create a b) event_data (requested_db now a job data d) = Inr (e, d')"
proof -
  obtain d1 x d2 row where ins: "insert_approval d (new_approval_row now a data) = Inr d1"
    and tr: "WaitingApproval \<in> set (ALLOWED_JOB_TRANSITIONS (j_state job))"
    and upd: "job_apply_update now (state_update job WaitingApproval) d1 = Inr (x, d2)"
    and app: "event_append_tx sha now (request_create a b) event_data d2 = Inr (e, d')"
    and row: "select_approval d' (ac_id a) = Some row" "approval_to_record row = Inr r"
    using w by (auto simp: request_write_def bindE_eq_Inr split: option.splits)
  have d1: "d1 = add_approval (new_approval_row now a data) d"
    and fresh: "\<forall>q\<in>set (approvals d). a_id q \<noteq> ac_id a" "\<exists>j\<in>set (jobs d). j_id j = ac_job_id a"
    using ins by (auto simp: insert_approval_Inr)
  have d2: "d2 = requested_db now a job data d"
    using job_apply_update_Inr [OF upd] d1 by (simp add: requested_db_def)
  have "approvals d' = approvals d1" using event_append_tx_frame [OF app] d1 d2 by simp
  then have "select_approval d' (ac_id a) = select_approval d1 (ac_id a)"
    by (rule select_approval_cong)
  also have "\<dots> = Some (new_approval_row now a data)"
    using select_add_approval [of d "new_approval_row now a data"] fresh d1 by simp
  finally have "row = new_approval_row now a data" using row(1) by simp
  then show ?thesis using row(2) fresh tr app d2 by (auto dest: approval_to_record_Inr)
qed

lemma request_valid_Inr:
  assumes "request_valid sha a job b = Inr (data, event_data)"
  shows "validate_approval sha a = Inr data \<and> ac_job_id a = j_id job \<and> b_job_id b = j_id job \<and>
    canon_obj (ac_payload a) = review_binding (j_id job) b \<and>
    validate_event sha (request_create a b) = Inr event_data"
  using assms by (auto simp: request_valid_def bindE_eq_Inr split: if_splits)

text \<open>
  A request is answered with the pending approval of exactly this review, or it is written for a
  job that is ready for review and has no pending approval.
\<close>

lemma request_tx_Inr:
  assumes tx: "request_tx sha t a job b data event_data d = Inr ((r, e), d')"
    and id: "ac_job_id a = j_id job"
  shows "valid_instant (fst t) \<and> (\<exists>cur. assert_snapshot sha job b True d = Inr cur \<and>
    (d' = d \<and> j_state cur = WaitingApproval \<and> pending_rows d (j_id job) = [r] \<and> approval_ok r \<and>
       a_payload_hash r = fst data \<and> fst t < a_expires_at r \<and>
       request_event sha (j_id job) (a_id r) d = Inr e \<and>
       e_payload e = request_payload (a_id r) b (a_expires_at r) \<or>
     cur = job \<and> j_state job = ReviewReady \<and> pending_rows d (j_id job) = [] \<and> fst t < snd data \<and>
       request_write sha (snd t) a job b data event_data d = Inr ((r, e), d')))"
proof -
  obtain cur where cur: "assert_snapshot sha job b True d = Inr cur" and clk: "valid_instant (fst t)"
    "read_clock (fst t) = Inr (fst t)"
    using tx by (auto simp: request_tx_def bindE_eq_Inr read_clock_iff)
  show ?thesis
  proof (cases "j_state cur = WaitingApproval")
    case True
    obtain row where row: "pending_rows d (j_id job) = [row]"
      using tx cur clk True id by (auto simp: request_tx_def split: list.splits)
    have "approval_to_record row = Inr row"
      using tx cur clk True id row
      by (auto simp: request_tx_def bindE_eq_Inr dest: approval_to_record_Inr)
    then show ?thesis
      using tx cur clk True id row
      by (auto simp: request_tx_def bindE_eq_Inr split: if_splits dest: approval_to_record_Inr)
  next
    case False
    then have "cur = job" "j_state job = ReviewReady" "pending_rows d (j_id job) = []"
      "fst t < snd data" "request_write sha (snd t) a job b data event_data d = Inr ((r, e), d')"
      using tx cur clk id assert_snapshot_Inr [OF cur] by (auto simp: request_tx_def split: if_splits)
    then show ?thesis using cur clk by blast
  qed
qed

lemma workflow_request_Inr:
  "workflow_request sha a job b t d = (Inr r, d') \<longleftrightarrow>
     (\<exists>data event_data. request_valid sha a job b = Inr (data, event_data) \<and>
        request_tx sha t a job b data event_data d = Inr (r, d'))"
  by (auto simp: workflow_request_def tx_Inr)

lemma workflow_request_rollback: "workflow_request sha a job b t d = (Inl x, d') \<Longrightarrow> d' = d"
  unfolding workflow_request_def by (rule tx_rollback)

lemma select_job_ok_frame: "review_wf sha d \<Longrightarrow> select_job d i = Some r \<Longrightarrow> job_ok r"
  by (auto simp: review_wf_def core_wf_def intro: select_job_ok)

lemma requested_db_wf:
  assumes wf: "review_wf sha d" and r: "approval_ok (new_approval_row now a data)"
    "\<forall>q\<in>set (approvals d). a_id q \<noteq> ac_id a" "\<exists>j\<in>set (jobs d). j_id j = ac_job_id a"
    and job: "job_ok job"
  shows "review_wf sha (requested_db now a job data d)"
  unfolding requested_db_def
  using review_wf_put_job [OF review_wf_add_approval [OF wf r(1)] job_ok_update [OF job]] r(2,3)
  by simp

lemma workflow_request_wf:
  assumes wf: "review_wf sha d" and rq: "workflow_request sha a job b t d = (Inr (r, e), d')"
  shows "review_wf sha d'"
proof -
  obtain data event_data where v: "request_valid sha a job b = Inr (data, event_data)"
    and tx: "request_tx sha t a job b data event_data d = Inr ((r, e), d')"
    using rq by (auto simp: workflow_request_Inr)
  note v = request_valid_Inr [OF v]
  show ?thesis
  proof (cases "d' = d")
    case False
    then obtain cur where cur: "assert_snapshot sha job b True d = Inr cur" "cur = job"
      and w: "request_write sha (snd t) a job b data event_data d = Inr ((r, e), d')"
      using request_tx_Inr [OF tx] v by blast
    have job: "job_ok job"
      using assert_snapshot_Inr [OF cur(1)] cur(2) select_job_ok_frame [OF wf] by blast
    note w = request_write_Inr [OF w]
    have "review_wf sha (requested_db (snd t) a job data d)"
      using w job by (intro requested_db_wf [OF wf]) auto
    then show ?thesis using review_wf_append v w by blast
  qed (simp add: wf)
qed

lemma payload_hash_canon: "payload_hash sha (canon_obj p) = payload_hash sha p"
  by (simp add: payload_hash_def)

lemma select_requested_job:
  assumes "select_job d (j_id job) = Some job"
  shows "select_job (requested_db now a job data d) (j_id job)
    = Some (job\<lparr>j_state := WaitingApproval, j_updated_at := now\<rparr>)"
proof -
  have "select_job (add_approval (new_approval_row now a data) d) (j_id job) = Some job"
    using assms by (simp add: select_job_def)
  then show ?thesis by (simp add: requested_db_def select_put_job set_state_update)
qed

text \<open>The effect of a first request.\<close>

lemma workflow_request_effect:
  assumes wf: "review_wf sha d" and rq: "workflow_request sha a job b t d = (Inr (r, e), d')"
    and ready: "\<exists>j. select_job d (j_id job) = Some j \<and> j_state j = ReviewReady"
  shows "select_job d (j_id job) = Some job \<and> select_bundle d (j_id job) = Some b \<and>
    latest_readiness d (j_id job) = Some (b_scan_event_id b) \<and> pending_rows d (j_id job) = [] \<and>
    payload_hash sha (review_binding (j_id job) b) = Inr (a_payload_hash r) \<and>
    r = new_approval_row (snd t) a (a_payload_hash r, ac_expires_at a) \<and> fst t < a_expires_at r \<and>
    approvals d' = approvals d @ [r] \<and>
    select_job d' (j_id job) = Some (job\<lparr>j_state := WaitingApproval, j_updated_at := snd t\<rparr>) \<and>
    e \<in> set (events d') \<and> e_event_type e = ''approval.requested'' \<and> e_job_id e = j_id job \<and>
    e_idempotency_key e = Some (request_key (ac_id a))"
proof -
  obtain data event_data where v: "request_valid sha a job b = Inr (data, event_data)"
    and tx: "request_tx sha t a job b data event_data d = Inr ((r, e), d')"
    using rq by (auto simp: workflow_request_Inr)
  note v = request_valid_Inr [OF v]
  obtain cur where cur: "assert_snapshot sha job b True d = Inr cur"
    and w: "cur = job" "pending_rows d (j_id job) = []" "fst t < snd data"
      "request_write sha (snd t) a job b data event_data d = Inr ((r, e), d')"
    using request_tx_Inr [OF tx] v ready assert_snapshot_Inr by fastforce
  note cs = assert_snapshot_Inr [OF cur]
  note wr = request_write_Inr [OF w(4)]
  have job: "job_ok job" using cs w(1) select_job_ok_frame [OF wf] by blast
  have wf1: "review_wf sha (requested_db (snd t) a job data d)"
    using wr job by (intro requested_db_wf [OF wf]) auto
  have app: "event_append_tx sha (snd t) (request_create a b) event_data (requested_db (snd t) a job data d)
      = Inr (e, d')" using wr by blast
  have ewf: "events_wf sha (requested_db (snd t) a job data d)"
    using wf1 by (simp add: review_wf_def core_wf_def)
  have st: "e \<in> set (events d')" "e_job_id e = j_id job" "e_event_type e = ''approval.requested''"
    "e_idempotency_key e = Some (request_key (ac_id a))"
    using event_append_tx_stored [OF ewf _ app] v by (auto simp: request_create_def)
  have fr: "jobs d' = jobs (requested_db (snd t) a job data d)" "approvals d' = approvals d @ [r]"
    using event_append_tx_frame [OF app] wr by auto
  obtain h x where data: "data = (h, x)" by (cases data)
  then have h: "payload_hash sha (review_binding (j_id job) b) = Inr (a_payload_hash r)"
    and x: "x = ac_expires_at a"
    using v wr payload_hash_canon [of sha "ac_payload a"] by (auto simp: validate_approval_iff)
  have "select_job d' (j_id job) = Some (job\<lparr>j_state := WaitingApproval, j_updated_at := snd t\<rparr>)"
    using select_requested_job [of d job] cs w(1) by (simp add: select_job_cong [OF fr(1)])
  then show ?thesis using cs w st fr h wr x data by simp
qed

lemma latest_readiness_cong: "events d' = events d \<Longrightarrow> latest_readiness d' job = latest_readiness d job"
  by (simp add: latest_readiness_def job_events_def)

lemma latest_readiness_append:
  assumes "event_append_tx sha now e data d = Inr (r, d')" and "ec_event_type e \<noteq> ''job.review_ready''"
  shows "latest_readiness d' job = latest_readiness d job"
  using event_append_tx_Inr [OF assms(1)] assms(2)
  by (auto simp: latest_readiness_def job_events_def next_event_def)

lemma event_append_tx_fresh:
  assumes app: "event_append_tx sha now e data d = Inr (r, d')" and v: "validate_event sha e = Inr data"
    and fresh: "\<forall>k. ec_idempotency_key e = Some k \<longrightarrow> select_event_by_key d (ec_job_id e) k = None"
  shows "r = next_event now e data d \<and> d' = add_event r d \<and> e_payload r = canon_obj (ec_payload e)"
proof -
  have "snd (snd data) = ec_idempotency_key e" "fst data = canon_obj (ec_payload e)"
    using v by (cases data; auto simp: validate_event_iff canonical_payload_iff)+
  then show ?thesis
    using event_append_tx_Inr [OF app] fresh by (auto simp: matching_Some next_event_def)
qed

text \<open>Repeating a request before its expiry returns the pending approval and its event.\<close>

lemma workflow_request_retry:
  assumes wf: "review_wf sha d" and rq: "workflow_request sha a job b t d = (Inr (r, e), d')"
    and ready: "\<exists>j. select_job d (j_id job) = Some j \<and> j_state j = ReviewReady"
    and fresh: "select_event_by_key d (j_id job) (request_key (ac_id a)) = None"
    and clk: "valid_instant (fst t')" "fst t' < a_expires_at r"
  shows "workflow_request sha a job b t' d' = (Inr (r, e), d')"
proof -
  obtain data event_data where v: "request_valid sha a job b = Inr (data, event_data)"
    and tx: "request_tx sha t a job b data event_data d = Inr ((r, e), d')"
    using rq by (auto simp: workflow_request_Inr)
  note v' = request_valid_Inr [OF v]
  note eff = workflow_request_effect [OF wf rq ready]
  have wf': "review_wf sha d'" using wf rq by (rule workflow_request_wf)
  obtain cur where cur: "assert_snapshot sha job b True d = Inr cur" "cur = job"
    and w: "request_write sha (snd t) a job b data event_data d = Inr ((r, e), d')"
    using request_tx_Inr [OF tx] v' ready assert_snapshot_Inr by fastforce
  let ?d1 = "requested_db (snd t) a job data d"
  have app: "event_append_tx sha (snd t) (request_create a b) event_data ?d1 = Inr (e, d')"
    using request_write_Inr [OF w] by blast
  have new: "e_payload e = request_payload (ac_id a) b (ac_expires_at a)"
  proof -
    have ve: "validate_event sha (request_create a b) = Inr event_data" using v' by blast
    have "\<forall>k. ec_idempotency_key (request_create a b) = Some k \<longrightarrow>
        select_event_by_key ?d1 (ec_job_id (request_create a b)) k = None"
      using fresh v' by (simp add: request_create_def select_event_by_key_def)
    then have "e_payload e = canon_obj (ec_payload (request_create a b))"
      using event_append_tx_fresh [OF app ve] by blast
    then show ?thesis by (simp add: request_create_def)
  qed
  let ?cur = "job\<lparr>j_state := WaitingApproval, j_updated_at := snd t\<rparr>"
  have "job_ok ?cur" using wf' eff select_job_ok_frame by blast
  moreover have "select_bundle d' (j_id job) = Some b"
    using eff event_append_tx_frame [OF app] by (simp add: select_bundle_def job_bundles_def)
  moreover have "latest_readiness d' (j_id job) = Some (b_scan_event_id b)"
    using eff latest_readiness_append [OF app] latest_readiness_cong [of ?d1 d]
    by (simp add: request_create_def)
  moreover have "bundle_ok sha b" using assert_snapshot_Inr [OF cur(1)] by blast
  moreover have "j_state job = ReviewReady" using eff ready by auto
  ultimately have snap: "assert_snapshot sha job b True d' = Inr ?cur"
    using eff by (simp add: assert_snapshot_def)
  have rfields: "a_job_id r = ac_job_id a" "a_decision r = None" "a_id r = ac_id a" "a_payload_hash r = fst data"
    "a_expires_at r = ac_expires_at a"
    using request_write_Inr [OF w] v' by (auto simp: validate_approval_def bindE_eq_Inr normalize_datetime_iff)
  then have pend: "pending_rows d' (ac_job_id a) = [r]"
    using eff v' by (simp add: pending_rows_def)
  have "approval_ok r" using request_write_Inr [OF w] by blast
  moreover have "request_event sha (ac_job_id a) (a_id r) d' = Inr e"
  proof -
    have ewf: "events_wf sha d'" using wf' by (simp add: review_wf_def core_wf_def)
    have "select_event_by_key d' (e_job_id e) (request_key (ac_id a)) = Some e"
      using ewf eff by (intro select_by_key_wf) auto
    then show ?thesis using eff ewf v' rfields by (simp add: request_event_Inr events_wf_def)
  qed
  ultimately have "request_tx sha t' a job b data event_data d' = Inr ((r, e), d')"
    using snap clk pend rfields new by (simp add: request_tx_def)
  then show ?thesis using v by (auto simp: workflow_request_Inr)
qed

subsection \<open>What a decision does\<close>

definition decided_db ::
  "micros \<times> micros \<Rightarrow> string \<Rightarrow> approval_resolution \<Rightarrow> job_row \<Rightarrow> db \<Rightarrow> db" where
  "decided_db t i res job d =
     put_job (snd t) (state_update job (decision_target (ar_decision res))) (put_decision (fst t) i res d)"

lemma decided_db_frame [simp]:
  "projects (decided_db t i res job d) = projects d"
  "events (decided_db t i res job d) = events d"
  "review_bundles (decided_db t i res job d) = review_bundles d"
  "approvals (decided_db t i res job d) = approvals (put_decision (fst t) i res d)"
  by (simp_all add: decided_db_def)

lemma decided_db_wf:
  assumes wf: "review_wf sha d" and v: "validate_resolution sha res = Inr h"
    and c: "valid_instant (fst t)" and job: "job_ok job"
  shows "review_wf sha (decided_db t i res job d)"
  unfolding decided_db_def
  using review_wf_put_job [OF review_wf_put_decision [OF wf v c] job_ok_update [OF job]] .

lemma record_retention_Inr:
  assumes "record_retention sha t days i job res b identity d = Inr d'"
  shows "d' = d \<and> ar_decision res \<noteq> DRejected \<or>
    ar_decision res = DRejected \<and> (\<exists>data x.
      validate_event sha (retained_create i job b (fst t + days * 86400000000) days identity) = Inr data \<and>
      event_append_tx sha (snd t) (retained_create i job b (fst t + days * 86400000000) days identity)
        data d = Inr (x, d'))"
  using assms by (auto simp: record_retention_def Let_def bindE_eq_Inr split: if_splits)

lemma record_retention_wf:
  assumes wf: "review_wf sha d" and rr: "record_retention sha t days i job res b identity d = Inr d'"
  shows "review_wf sha d' \<and> set (events d) \<subseteq> set (events d') \<and> jobs d' = jobs d \<and>
    approvals d' = approvals d \<and> review_bundles d' = review_bundles d"
  using record_retention_Inr [OF rr]
proof (elim disjE conjE exE)
  fix data x
  assume v: "validate_event sha (retained_create i job b (fst t + days * 86400000000) days identity) = Inr data"
    and app: "event_append_tx sha (snd t)
      (retained_create i job b (fst t + days * 86400000000) days identity) data d = Inr (x, d')"
  then show ?thesis
    using review_wf_append [OF wf v app] event_append_tx_prefix [OF app] event_append_tx_frame [OF app]
    by auto
qed (simp add: wf)

lemma resolve_write_Inr:
  assumes w: "resolve_write sha t days i res job b identity event_data d = Inr ((r, e), d')"
    and row: "select_approval d i = Some row" "a_decision row = None"
  shows "r = decide_row (fst t) res row \<and>
    decision_target (ar_decision res) \<in> set (ALLOWED_JOB_TRANSITIONS (j_state job)) \<and>
    (\<exists>d3. record_retention sha t days i (j_id job) res b identity (decided_db t i res job d) = Inr d3 \<and>
       event_append_tx sha (snd t) (decision_create i (j_id job) res b) event_data d3 = Inr (e, d'))"
proof -
  obtain n d1 x d2 d3 rw where tr: "decision_target (ar_decision res) \<in> set (ALLOWED_JOB_TRANSITIONS (j_state job))"
    and rd: "record_decision (fst t) i res d = Inr (n, d1)"
    and upd: "job_apply_update (snd t) (state_update job (decision_target (ar_decision res))) d1 = Inr (x, d2)"
    and ret: "record_retention sha t days i (j_id job) res b identity d2 = Inr d3"
    and app: "event_append_tx sha (snd t) (decision_create i (j_id job) res b) event_data d3 = Inr (e, d')"
    and sel: "select_approval d' i = Some rw" "approval_to_record rw = Inr r"
    using w by (auto simp: resolve_write_def bindE_eq_Inr split: option.splits if_splits)
  have d1: "d1 = put_decision (fst t) i res d" using record_decision_Inr [OF rd] by simp
  have d2: "d2 = decided_db t i res job d" using job_apply_update_Inr [OF upd] d1 by (simp add: decided_db_def)
  have "approvals d3 = approvals d2"
    using record_retention_Inr [OF ret] by (auto dest: event_append_tx_frame)
  then have "approvals d' = approvals (put_decision (fst t) i res d)"
    using event_append_tx_frame [OF app] d2 by simp
  then have "select_approval d' i = select_approval (put_decision (fst t) i res d) i"
    by (rule select_approval_cong)
  also have "\<dots> = Some (decide_row (fst t) res row)"
    using row select_approval_Some [OF row(1)] by (simp add: select_put_decision)
  finally have "rw = decide_row (fst t) res row" using sel(1) by simp
  then show ?thesis using sel(2) tr ret app d2 by (auto dest: approval_to_record_Inr)
qed

text \<open>
  Either the same decision is on record, with its event, or the pending approval of exactly the
  latest review is decided before it expires.
\<close>

definition live_review ::
  "(string \<Rightarrow> string) \<Rightarrow> approval_row \<Rightarrow> event_row \<Rightarrow> job_row \<Rightarrow> bundle_row \<Rightarrow> micros \<Rightarrow> db \<Rightarrow> bool" where
  "live_review sha row requested job b clock d \<longleftrightarrow>
     assert_snapshot sha job b False d = Inr job \<and> j_id job = a_job_id row \<and>
     j_state job = WaitingApproval \<and> a_decision row = None \<and>
     get_field (e_payload requested) ''bundle_hash'' = JStr (b_payload_hash b) \<and>
     get_field (e_payload requested) ''scan_event_id'' = JInt (b_scan_event_id b) \<and>
     length (pending_rows d (a_job_id row)) = 1 \<and> valid_instant clock \<and> clock < a_expires_at row"

lemma resolve_recorded_Inr:
  "resolve_recorded sha i res stored requested d = Inr ((r, e), d') \<longleftrightarrow>
     same_resolution stored res \<and> r = stored \<and> d' = d \<and>
     decision_event sha (a_job_id stored) i d = Inr e \<and>
     e_payload e = decision_payload i (get_field (e_payload requested) ''bundle_hash'')
       (JStr (ar_channel res)) (ar_decision res) (decision_target (ar_decision res))"
  by (auto simp: resolve_recorded_def bindE_eq_Inr split: if_splits)

lemma resolve_tx_Inr:
  assumes tx: "resolve_tx sha t days i res h expected identity d = Inr ((r, e), d')"
  shows "\<exists>row requested. select_approval d i = Some row \<and> approval_ok row \<and> a_payload_hash row = h \<and>
    request_event sha (a_job_id row) i d = Inr requested \<and>
    (a_decision row \<noteq> None \<and> resolve_recorded sha i res row requested d = Inr ((r, e), d') \<or>
     (\<exists>job b event_data. expected = Some (job, b) \<and> live_review sha row requested job b (fst t) d \<and>
        validate_event sha (decision_create i (j_id job) res b) = Inr event_data \<and>
        resolve_write sha t days i res job b identity event_data d = Inr ((r, e), d')))"
proof -
  obtain row where row: "select_approval d i = Some row" "approval_to_record row = Inr row" "approval_ok row"
    using tx by (auto simp: resolve_tx_def bindE_eq_Inr split: option.splits
        dest: approval_to_record_Inr)
  have h: "a_payload_hash row = h" using tx row by (auto simp: resolve_tx_def split: if_splits)
  obtain requested where rq: "request_event sha (a_job_id row) i d = Inr requested"
    using tx row h by (auto simp: resolve_tx_def bindE_eq_Inr)
  show ?thesis
  proof (cases "a_decision row")
    case None
    obtain job b where ex: "expected = Some (job, b)"
      using tx row h rq None by (auto simp: resolve_tx_def split: option.splits)
    obtain cur where snap: "assert_snapshot sha job b False d = Inr cur"
      using tx row h rq None ex by (auto simp: resolve_tx_def bindE_eq_Inr)
    have cur: "cur = job" using assert_snapshot_Inr [OF snap] by simp
    obtain event_data where ev: "validate_event sha (decision_create i (j_id job) res b) = Inr event_data"
      "resolve_write sha t days i res job b identity event_data d = Inr ((r, e), d')"
      and live: "live_review sha row requested job b (fst t) d"
      using tx row h rq None ex snap cur
      by (auto simp: resolve_tx_def bindE_eq_Inr read_clock_iff live_review_def split: if_splits)
    then show ?thesis using row h rq ex by blast
  next
    case (Some x)
    then show ?thesis using tx row h rq by (simp add: resolve_tx_def)
  qed
qed

lemma workflow_resolve_Inr:
  "workflow_resolve sha days i res expected identity t d = (Inr r, d') \<longleftrightarrow>
     plain_text i \<and> utf8_len i \<le> 128 \<and>
     (\<exists>h. validate_resolution sha res = Inr h \<and> resolve_tx sha t days i res h expected identity d = Inr (r, d'))"
  by (auto simp: workflow_resolve_def tx_Inr bindE_eq_Inr validate_approval_text_iff)

lemma workflow_resolve_rollback:
  "workflow_resolve sha days i res expected identity t d = (Inl x, d') \<Longrightarrow> d' = d"
  unfolding workflow_resolve_def by (rule tx_rollback)

lemma select_by_key_append:
  assumes v: "validate_event sha e = Inr data" and app: "event_append_tx sha now e data d = Inr (x, d')"
    and k: "ec_idempotency_key e \<noteq> Some k"
  shows "select_event_by_key d' job k = select_event_by_key d job k"
proof -
  have "snd (snd data) = ec_idempotency_key e" using v by (cases data) (simp add: validate_event_iff)
  then show ?thesis
    using event_append_tx_Inr [OF app] k
    by (auto simp: select_event_by_key_def find_append next_event_def split: option.splits)
qed

lemma record_retention_keys:
  assumes "record_retention sha t days i job res b identity d = Inr d'"
  shows "select_event_by_key d' j (decision_key k) = select_event_by_key d j (decision_key k)"
  using record_retention_Inr [OF assms]
proof (elim disjE conjE exE)
  fix data x
  assume "validate_event sha (retained_create i job b (fst t + days * 86400000000) days identity) = Inr data"
    and "event_append_tx sha (snd t)
      (retained_create i job b (fst t + days * 86400000000) days identity) data d = Inr (x, d')"
  then show ?thesis by (rule select_by_key_append) (simp add: retained_create_def decision_key_def)
qed simp

text \<open>
  The write of a decision, seen from the store it starts from: everything the properties below
  need of the new store.
\<close>

lemma resolve_write_effect:
  assumes wf: "review_wf sha d" and v: "validate_resolution sha res = Inr h"
    and ve: "validate_event sha (decision_create i (j_id job) res b) = Inr event_data"
    and row: "select_approval d i = Some row" and live: "live_review sha row requested job b (fst t) d"
    and w: "resolve_write sha t days i res job b identity event_data d = Inr ((r, e), d')"
  shows "review_wf sha d' \<and> r = decide_row (fst t) res row \<and> set (events d) \<subseteq> set (events d') \<and>
    approvals d' = approvals (put_decision (fst t) i res d) \<and> select_approval d' i = Some r \<and>
    select_job d' (j_id job) = Some (job\<lparr>j_state := decision_target (ar_decision res), j_updated_at := snd t\<rparr>) \<and>
    e \<in> set (events d') \<and> e_job_id e = j_id job \<and> e_event_type e = ''approval.decided'' \<and>
    e_idempotency_key e = Some (decision_key i) \<and>
    (\<forall>j k. k \<noteq> i \<longrightarrow> select_event_by_key d' j (decision_key k) = select_event_by_key d j (decision_key k))"
proof -
  have row': "a_decision row = None" using live by (simp add: live_review_def)
  have "assert_snapshot sha job b False d = Inr job" and clk: "valid_instant (fst t)"
    using live by (auto simp: live_review_def)
  then have snap: "select_job d (j_id job) = Some job" using assert_snapshot_Inr by blast
  have job: "job_ok job" using snap by (rule select_job_ok_frame [OF wf])
  obtain d3 where r: "r = decide_row (fst t) res row"
    and ret: "record_retention sha t days i (j_id job) res b identity (decided_db t i res job d) = Inr d3"
    and app: "event_append_tx sha (snd t) (decision_create i (j_id job) res b) event_data d3 = Inr (e, d')"
    using resolve_write_Inr [OF w row row'] by blast
  have wf1: "review_wf sha (decided_db t i res job d)" using decided_db_wf [OF wf v clk job] .
  have f3: "review_wf sha d3" "set (events d) \<subseteq> set (events d3)"
      "jobs d3 = jobs (decided_db t i res job d)" "approvals d3 = approvals (put_decision (fst t) i res d)"
    using record_retention_wf [OF wf1 ret] by auto
  have fr: "jobs d' = jobs d3" "approvals d' = approvals d3" "set (events d3) \<subseteq> set (events d')"
    using event_append_tx_frame [OF app] event_append_tx_prefix [OF app] by auto
  have ewf: "events_wf sha d3" using f3(1) by (simp add: review_wf_def core_wf_def)
  have st: "e \<in> set (events d')" "e_job_id e = j_id job" "e_event_type e = ''approval.decided''"
    "e_idempotency_key e = Some (decision_key i)"
    using event_append_tx_stored [OF ewf ve app] by (auto simp: decision_create_def)
  have "select_approval d' i = select_approval (put_decision (fst t) i res d) i"
    using fr f3 by (intro select_approval_cong) simp
  then have sel: "select_approval d' i = Some r"
    using row row' select_approval_Some [OF row] r by (simp add: select_put_decision)
  have "select_job (put_decision (fst t) i res d) (j_id job) = Some job"
    using snap by (simp add: select_job_def)
  then have "select_job (decided_db t i res job d) (j_id job)
      = Some (job\<lparr>j_state := decision_target (ar_decision res), j_updated_at := snd t\<rparr>)"
    by (simp add: decided_db_def select_put_job set_state_update)
  then have selj: "select_job d' (j_id job)
      = Some (job\<lparr>j_state := decision_target (ar_decision res), j_updated_at := snd t\<rparr>)"
    using fr f3 by (simp add: select_job_def)
  have keys: "select_event_by_key d' j (decision_key k) = select_event_by_key d j (decision_key k)"
    if "k \<noteq> i" for j k
  proof -
    have "select_event_by_key d' j (decision_key k) = select_event_by_key d3 j (decision_key k)"
      using ve app by (rule select_by_key_append) (use that in \<open>simp add: decision_create_def\<close>)
    then show ?thesis using record_retention_keys [OF ret] by (simp add: select_event_by_key_def)
  qed
  have wf': "review_wf sha d'" using review_wf_append [OF f3(1) ve app] .
  show ?thesis using r sel selj st wf' keys fr f3 by auto
qed

lemma workflow_resolve_wf:
  assumes wf: "review_wf sha d" and rs: "workflow_resolve sha days i res expected identity t d = (Inr (r, e), d')"
  shows "review_wf sha d'"
proof -
  obtain h where v: "validate_resolution sha res = Inr h"
    and tx: "resolve_tx sha t days i res h expected identity d = Inr ((r, e), d')"
    using rs by (auto simp: workflow_resolve_Inr)
  from resolve_tx_Inr [OF tx] obtain row requested where row: "select_approval d i = Some row"
    and alt: "resolve_recorded sha i res row requested d = Inr ((r, e), d') \<or>
      (\<exists>job b event_data. expected = Some (job, b) \<and> live_review sha row requested job b (fst t) d \<and>
        validate_event sha (decision_create i (j_id job) res b) = Inr event_data \<and>
        resolve_write sha t days i res job b identity event_data d = Inr ((r, e), d'))"
    by blast
  from alt show ?thesis
  proof (elim disjE exE conjE)
    assume "resolve_recorded sha i res row requested d = Inr ((r, e), d')"
    then show ?thesis using wf by (simp add: resolve_recorded_Inr)
  next
    fix job b event_data
    assume "live_review sha row requested job b (fst t) d"
      "validate_event sha (decision_create i (j_id job) res b) = Inr event_data"
      "resolve_write sha t days i res job b identity event_data d = Inr ((r, e), d')"
    then show ?thesis using resolve_write_effect [OF wf v _ row] by blast
  qed
qed

lemma put_decision_pending:
  "q \<in> set (approvals (put_decision clock i res d)) \<Longrightarrow> a_decision q = None \<Longrightarrow>
   q \<in> set (approvals d) \<and> a_id q \<noteq> i"
  by (auto simp: put_decision_def set_update_where)

lemma workflow_resolve_silent:
  assumes wf: "review_wf sha d" and silent: "undecided_silent d"
    and rs: "workflow_resolve sha days i res expected identity t d = (Inr (r, e), d')"
  shows "undecided_silent d'"
proof -
  obtain h where v: "validate_resolution sha res = Inr h"
    and tx: "resolve_tx sha t days i res h expected identity d = Inr ((r, e), d')"
    using rs by (auto simp: workflow_resolve_Inr)
  from resolve_tx_Inr [OF tx] obtain row requested where row: "select_approval d i = Some row"
    and alt: "resolve_recorded sha i res row requested d = Inr ((r, e), d') \<or>
      (\<exists>job b event_data. live_review sha row requested job b (fst t) d \<and>
        validate_event sha (decision_create i (j_id job) res b) = Inr event_data \<and>
        resolve_write sha t days i res job b identity event_data d = Inr ((r, e), d'))"
    by blast
  from alt show ?thesis
  proof (elim disjE exE conjE)
    assume "resolve_recorded sha i res row requested d = Inr ((r, e), d')"
    then show ?thesis using silent by (simp add: resolve_recorded_Inr)
  next
    fix job b event_data
    assume "live_review sha row requested job b (fst t) d"
      "validate_event sha (decision_create i (j_id job) res b) = Inr event_data"
      "resolve_write sha t days i res job b identity event_data d = Inr ((r, e), d')"
    from resolve_write_effect [OF wf v this(2) row this(1,3)]
    have ap: "approvals d' = approvals (put_decision (fst t) i res d)"
      and keys: "\<And>j k. k \<noteq> i \<Longrightarrow> select_event_by_key d' j (decision_key k) = select_event_by_key d j (decision_key k)"
      by auto
    show ?thesis
      unfolding undecided_silent_def ap
    proof (intro ballI impI)
      fix q assume "q \<in> set (approvals (put_decision (fst t) i res d))" "a_decision q = None"
      then have "q \<in> set (approvals d)" "a_id q \<noteq> i" "a_decision q = None"
        using put_decision_pending by blast+
      then show "select_event_by_key d' (a_job_id q) (decision_key (a_id q)) = None"
        using silent keys by (simp add: undecided_silent_def)
    qed
  qed
qed

text \<open>A decision that was just written is answered from the ledger, with the same event.\<close>

lemma resolve_write_retry:
  assumes wf: "review_wf sha d" and silent: "undecided_silent d"
    and v: "validate_resolution sha res = Inr h"
    and ve: "validate_event sha (decision_create i (j_id job) res b) = Inr event_data"
    and row: "select_approval d i = Some row" "a_payload_hash row = h"
    and rq: "request_event sha (a_job_id row) i d = Inr requested"
    and live: "live_review sha row requested job b (fst t) d"
    and w: "resolve_write sha t days i res job b identity event_data d = Inr ((r, e), d')"
  shows "resolve_tx sha t' days i res h expected identity d' = Inr ((r, e), d')"
proof -
  have l: "a_decision row = None" "j_id job = a_job_id row"
    "get_field (e_payload requested) ''bundle_hash'' = JStr (b_payload_hash b)"
    using live by (auto simp: live_review_def)
  note eff = resolve_write_effect [OF wf v ve row(1) live w]
  have wf': "review_wf sha d'" using eff by blast
  have ewf': "events_wf sha d'" using wf' by (simp add: review_wf_def core_wf_def)
  have rok: "approval_ok r" using wf' eff select_approval_ok by (auto simp: review_wf_def)
  have "select_event_by_key d (a_job_id row) (request_key i) = Some requested"
    using rq by (simp add: request_event_Inr)
  then have "select_event_by_key d' (a_job_id row) (request_key i) = Some requested"
    using eff by (intro select_by_key_grows [OF ewf', of d]) auto
  then have req: "request_event sha (a_job_id r) i d' = Inr requested"
    using rq eff by (simp add: request_event_Inr)
  have "select_event_by_key d' (e_job_id e) (decision_key i) = Some e"
    using ewf' eff by (intro select_by_key_wf) auto
  then have dec: "decision_event sha (a_job_id r) i d' = Inr e"
    using eff l ewf' by (simp add: decision_event_Inr events_wf_def)
  obtain d3 where ret: "record_retention sha t days i (j_id job) res b identity (decided_db t i res job d) = Inr d3"
    and app: "event_append_tx sha (snd t) (decision_create i (j_id job) res b) event_data d3 = Inr (e, d')"
    using resolve_write_Inr [OF w row(1) l(1)] by blast
  have "select_event_by_key d3 (j_id job) (decision_key i) = select_event_by_key d (j_id job) (decision_key i)"
    using record_retention_keys [OF ret] by (simp add: select_event_by_key_def)
  also have "\<dots> = None"
    using silent select_approval_Some [OF row(1)] l by (auto simp: undecided_silent_def)
  finally have "\<forall>k. ec_idempotency_key (decision_create i (j_id job) res b) = Some k \<longrightarrow>
      select_event_by_key d3 (ec_job_id (decision_create i (j_id job) res b)) k = None"
    by (simp add: decision_create_def)
  then have "e_payload e = canon_obj (ec_payload (decision_create i (j_id job) res b))"
    using event_append_tx_fresh [OF app ve] by blast
  then have pay: "e_payload e = decision_payload i (JStr (b_payload_hash b)) (JStr (ar_channel res))
      (ar_decision res) (decision_target (ar_decision res))"
    by (simp add: decision_create_def)
  have same: "same_resolution r res" using eff by (simp add: same_resolution_def)
  show ?thesis
    using eff rok req dec pay same l row by (simp add: resolve_tx_def resolve_recorded_def)
qed

lemma workflow_resolve_retry:
  assumes wf: "review_wf sha d" and silent: "undecided_silent d"
    and rs: "workflow_resolve sha days i res expected identity t d = (Inr (r, e), d')"
  shows "workflow_resolve sha days i res expected identity t' d' = (Inr (r, e), d')"
proof -
  obtain h where v: "validate_resolution sha res = Inr h" and i: "plain_text i" "utf8_len i \<le> 128"
    and tx: "resolve_tx sha t days i res h expected identity d = Inr ((r, e), d')"
    using rs by (auto simp: workflow_resolve_Inr)
  from resolve_tx_Inr [OF tx] obtain row requested where row: "select_approval d i = Some row"
      "a_payload_hash row = h" "approval_ok row"
    and rq: "request_event sha (a_job_id row) i d = Inr requested"
    and alt: "a_decision row \<noteq> None \<and> resolve_recorded sha i res row requested d = Inr ((r, e), d') \<or>
      (\<exists>job b event_data. live_review sha row requested job b (fst t) d \<and>
        validate_event sha (decision_create i (j_id job) res b) = Inr event_data \<and>
        resolve_write sha t days i res job b identity event_data d = Inr ((r, e), d'))"
    by blast
  have "resolve_tx sha t' days i res h expected identity d' = Inr ((r, e), d')"
    using alt
  proof (elim disjE exE conjE)
    assume rec: "a_decision row \<noteq> None" "resolve_recorded sha i res row requested d = Inr ((r, e), d')"
    then have "d' = d" by (simp add: resolve_recorded_Inr)
    then show ?thesis using rec row rq by (simp add: resolve_tx_def)
  next
    fix job b event_data
    assume "live_review sha row requested job b (fst t) d"
      "validate_event sha (decision_create i (j_id job) res b) = Inr event_data"
      "resolve_write sha t days i res job b identity event_data d = Inr ((r, e), d')"
    then show ?thesis using resolve_write_retry [OF wf silent v _ row(1,2) rq] by blast
  qed
  then show ?thesis using v i by (auto simp: workflow_resolve_Inr)
qed

interpretation review_resolution:
  idempotent_operation "workflow_resolve sha days i res expected identity"
    "\<lambda>d. review_wf sha d \<and> undecided_silent d"
  for sha days i res expected identity
proof
  fix t s e s' assume "workflow_resolve sha days i res expected identity t s = (Inl e, s')"
  then show "s' = s" by (rule workflow_resolve_rollback)
next
  fix s t x s'
  assume "review_wf sha s \<and> undecided_silent s"
    "workflow_resolve sha days i res expected identity t s = (Inr x, s')"
  then show "review_wf sha s' \<and> undecided_silent s'"
    by (cases x) (auto intro: workflow_resolve_wf workflow_resolve_silent)
next
  fix s t x s' t'
  assume "review_wf sha s \<and> undecided_silent s"
    "workflow_resolve sha days i res expected identity t s = (Inr x, s')"
  then show "workflow_resolve sha days i res expected identity t' s' = (Inr x, s')"
    by (cases x) (auto intro: workflow_resolve_retry)
qed

lemma sample_review_wf [simp]: "review_wf sample_sha (sample_db st)"
  by (simp add: review_wf_def approvals_wf_def)

definition sample_approval :: approval_create where
  "sample_approval = \<lparr>ac_id = ''appr-1'', ac_job_id = ''job-1'',
     ac_payload = review_binding ''job-1'' sample_bundle, ac_expires_at = 5000\<rparr>"

definition sample_requested :: event_row where
  "sample_requested = \<lparr>e_id = 2, e_job_id = ''job-1'', e_sequence = 2,
     e_event_type = ''approval.requested'',
     e_payload = request_payload ''appr-1'' sample_bundle 5000,
     e_payload_hash = replicate 64 CHR ''0'',
     e_idempotency_key = Some ''approval.requested:appr-1'', e_created_at = 20\<rparr>"

definition sample_waiting_db :: db where
  "sample_waiting_db = (sample_db WaitingApproval)\<lparr>approvals := [sample_pending_row],
     events := [sample_ready, sample_requested]\<rparr>"

lemma sample_request:
  "workflow_request sample_sha sample_approval (sample_job ReviewReady) sample_bundle (15, 20)
     (sample_db ReviewReady) = (Inr (sample_pending_row, sample_requested), sample_waiting_db)"
  by code_simp

lemma sample_waiting_wf: "review_wf sample_sha sample_waiting_db"
  using workflow_request_wf [OF sample_review_wf sample_request] .

lemma sample_waiting_silent: "undecided_silent sample_waiting_db"
  by code_simp

definition sample_review_resolution :: "approval_decision \<Rightarrow> approval_resolution" where
  "sample_review_resolution dc = \<lparr>ar_decision = dc, ar_actor = ''owner'', ar_channel = ''local'',
     ar_payload = review_binding ''job-1'' sample_bundle\<rparr>"

definition sample_resolve :: "(exn + approval_row \<times> event_row) \<times> db" where
  "sample_resolve = workflow_resolve sample_sha 7 ''appr-1'' (sample_review_resolution DApproved)
     (Some (sample_job WaitingApproval, sample_bundle)) None (200, 201) sample_waiting_db"

lemma sample_resolve_ok: "\<exists>x. sample_resolve = (Inr x, snd sample_resolve)"
proof -
  have "case fst sample_resolve of Inr x \<Rightarrow> True | Inl e \<Rightarrow> False" by code_simp
  then show ?thesis by (cases "fst sample_resolve") (auto simp: prod_eq_iff)
qed

subsection \<open>Properties\<close>

text \<open>
  C3: a first approval request for a job that is ready for review commits three things at once: a
  pending approval bound to the hash of this job, this review round and this bundle, the job's move
  to waiting for approval, and the request event. It only happens for the stored job and the latest
  review round, when no other approval is pending and the expiry lies ahead; requesting again before
  the expiry returns the same approval and event.
\<close>

theorem approval_requested_atomically:
  assumes wf: "review_wf sha d" and rq: "workflow_request sha a job b t d = (Inr (r, e), d')"
    and ready: "\<exists>j. select_job d (j_id job) = Some j \<and> j_state j = ReviewReady"
    and fresh: "select_event_by_key d (j_id job) (request_key (ac_id a)) = None"
    and clk: "valid_instant (fst t')" "fst t' < a_expires_at r"
  shows "select_job d (j_id job) = Some job \<and> select_bundle d (j_id job) = Some b \<and>
    latest_readiness d (j_id job) = Some (b_scan_event_id b) \<and> pending_rows d (j_id job) = [] \<and>
    payload_hash sha (review_binding (j_id job) b) = Inr (a_payload_hash r) \<and>
    fst t < a_expires_at r \<and> a_decision r = None \<and> approvals d' = approvals d @ [r] \<and>
    select_job d' (j_id job) = Some (job\<lparr>j_state := WaitingApproval, j_updated_at := snd t\<rparr>) \<and>
    e \<in> set (events d') \<and> e_idempotency_key e = Some (request_key (a_id r)) \<and>
    workflow_request sha a job b t' d' = (Inr (r, e), d')"
proof -
  note eff = workflow_request_effect [OF wf rq ready]
  have r: "r = new_approval_row (snd t) a (a_payload_hash r, ac_expires_at a)" using eff by blast
  have "a_decision r = None" "a_id r = ac_id a"
    by (subst r, simp)+
  then show ?thesis
    using eff workflow_request_retry [OF wf rq ready fresh clk] by simp
qed

theorem approval_requested_atomically_witness:
  "workflow_request sample_sha sample_approval (sample_job ReviewReady) sample_bundle (70, 71)
     sample_waiting_db = (Inr (sample_pending_row, sample_requested), sample_waiting_db)"
proof -
  have ready: "\<exists>j. select_job (sample_db ReviewReady) (j_id (sample_job ReviewReady)) = Some j \<and>
      j_state j = ReviewReady"
    by (simp add: select_job_def) (simp add: sample_job_def)
  have fresh: "select_event_by_key (sample_db ReviewReady) (j_id (sample_job ReviewReady))
      (request_key (ac_id sample_approval)) = None"
    by (simp add: select_event_by_key_def sample_ready_def)
  have clk: "valid_instant (fst (70, 71::micros))" "fst (70, 71::micros) < a_expires_at sample_pending_row"
    by (simp_all add: valid_instant_def max_instant_def sample_pending_row_def)
  show ?thesis
    using approval_requested_atomically [OF sample_review_wf sample_request ready fresh clk] by simp
qed

lemma workflow_resolve_effect:
  assumes wf: "review_wf sha d"
    and rs: "workflow_resolve sha days i res expected identity t d = (Inr (r, e), d')" and ne: "d' \<noteq> d"
  shows "\<exists>row requested job b. expected = Some (job, b) \<and> select_approval d i = Some row \<and>
    a_decision row = None \<and> fst t < a_expires_at row \<and>
    validate_resolution sha res = Inr (a_payload_hash row) \<and>
    select_job d (a_job_id row) = Some job \<and> j_state job = WaitingApproval \<and>
    select_bundle d (j_id job) = Some b \<and> latest_readiness d (j_id job) = Some (b_scan_event_id b) \<and>
    select_event_by_key d (j_id job) (request_key i) = Some requested \<and>
    get_field (e_payload requested) ''bundle_hash'' = JStr (b_payload_hash b) \<and>
    r = decide_row (fst t) res row \<and> approvals d' = approvals (put_decision (fst t) i res d) \<and>
    select_job d' (j_id job)
      = Some (job\<lparr>j_state := decision_target (ar_decision res), j_updated_at := snd t\<rparr>) \<and>
    e \<in> set (events d') \<and> e_event_type e = ''approval.decided'' \<and> e_job_id e = j_id job"
proof -
  obtain h where v: "validate_resolution sha res = Inr h"
    and tx: "resolve_tx sha t days i res h expected identity d = Inr ((r, e), d')"
    using rs by (auto simp: workflow_resolve_Inr)
  obtain row requested job b event_data where row: "select_approval d i = Some row" "a_payload_hash row = h"
    and rq: "request_event sha (a_job_id row) i d = Inr requested"
    and ex: "expected = Some (job, b)" and live: "live_review sha row requested job b (fst t) d"
    and ve: "validate_event sha (decision_create i (j_id job) res b) = Inr event_data"
    and w: "resolve_write sha t days i res job b identity event_data d = Inr ((r, e), d')"
    using resolve_tx_Inr [OF tx] ne resolve_recorded_Inr by blast
  note eff = resolve_write_effect [OF wf v ve row(1) live w]
  have snap: "assert_snapshot sha job b False d = Inr job" and id: "j_id job = a_job_id row"
    using live by (auto simp: live_review_def)
  show ?thesis
    using ex row v live rq eff assert_snapshot_Inr [OF snap] unfolding live_review_def request_event_Inr
    by (intro exI [of _ row] exI [of _ requested] exI [of _ job] exI [of _ b]) (simp add: id)
qed

text \<open>
  C2: a decision that writes is a decision about the live review. The approval was pending and
  unexpired, its job was waiting for approval and is unchanged since the caller read it, the bundle
  the caller saw is the latest round's, the request event and the readiness event both name it, and
  the resolution's payload has the hash the approval was created for; what is written is exactly
  the decision, the job's move to the state the decision stands for, and the decision event.
\<close>

theorem decision_only_on_live_review:
  assumes wf: "review_wf sha d"
    and rs: "workflow_resolve sha days i res expected identity t d = (Inr (r, e), d')" and ne: "d' \<noteq> d"
  shows "\<exists>row requested job b. expected = Some (job, b) \<and> select_approval d i = Some row \<and>
    a_decision row = None \<and> fst t < a_expires_at row \<and>
    validate_resolution sha res = Inr (a_payload_hash row) \<and>
    select_job d (a_job_id row) = Some job \<and> j_state job = WaitingApproval \<and>
    select_bundle d (j_id job) = Some b \<and> latest_readiness d (j_id job) = Some (b_scan_event_id b) \<and>
    select_event_by_key d (j_id job) (request_key i) = Some requested \<and>
    get_field (e_payload requested) ''bundle_hash'' = JStr (b_payload_hash b) \<and>
    r = decide_row (fst t) res row \<and> approvals d' = approvals (put_decision (fst t) i res d) \<and>
    select_job d' (j_id job)
      = Some (job\<lparr>j_state := decision_target (ar_decision res), j_updated_at := snd t\<rparr>) \<and>
    e \<in> set (events d') \<and> e_event_type e = ''approval.decided'' \<and> e_job_id e = j_id job"
  using assms by (rule workflow_resolve_effect)

theorem decision_only_on_live_review_witness:
  "\<exists>job. select_job (snd sample_resolve) ''job-1'' = Some job \<and> j_state job = Approved"
proof -
  obtain r e where ok: "sample_resolve = (Inr (r, e), snd sample_resolve)"
    using sample_resolve_ok by (metis surj_pair)
  have "length (events (snd sample_resolve)) = 3" by code_simp
  then have ne: "snd sample_resolve \<noteq> sample_waiting_db" by (auto simp: sample_waiting_db_def)
  from decision_only_on_live_review [OF sample_waiting_wf ok [unfolded sample_resolve_def]
      ne [unfolded sample_resolve_def]]
  show ?thesis
    by (auto simp: sample_resolve_def sample_review_resolution_def sample_job_def)
qed

text \<open>
  C4: a resolution that succeeded is idempotent: delivered again, at any time, even after the
  approval's expiry, it returns the recorded approval and the recorded event and writes nothing.
\<close>

theorem resolution_delivered_once:
  assumes "review_wf sha d" and "undecided_silent d"
    and "workflow_resolve sha days i res expected identity t d = (Inr r, d')"
  shows "deliver (workflow_resolve sha days i res expected identity) (t # later) d
      = (replicate (Suc (length later)) (Inr r), d') \<and>
    review_wf sha d' \<and> undecided_silent d'"
  using review_resolution.deliver_once [OF _ assms(3)] review_resolution.keeps [OF _ assms(3)] assms(1,2)
  by simp

theorem resolution_delivered_once_witness:
  "\<exists>r d'. deliver (workflow_resolve sample_sha 7 ''appr-1'' (sample_review_resolution DApproved)
     (Some (sample_job WaitingApproval, sample_bundle)) None) [(200, 201), (90000, 90000)]
     sample_waiting_db = ([Inr r, Inr r], d')"
proof -
  obtain r where ok: "sample_resolve = (Inr r, snd sample_resolve)"
    using sample_resolve_ok by blast
  from resolution_delivered_once [OF sample_waiting_wf sample_waiting_silent
      ok [unfolded sample_resolve_def], of "[(90000, 90000)]"]
  show ?thesis by (simp add: numeral_eq_Suc)
qed

end
