(* ===== verification/Planner.thy ===== *)
theory Planner
  imports Approvals
begin

text \<open>
  \<open>PlannerItemCreate\<close> (engine.py) and \<open>PlannerRepository\<close> (db.py): planner items and their
  promotion to a job, which creates the job and marks the item in one transaction. The invariant
  \<open>planner_wf\<close> says that every item is valid, that a promoted item names an existing job and that
  no job is the promotion of two items.
\<close>

record planner_create =
  plc_id :: string
  plc_kind :: planner_item_kind
  plc_title :: string
  plc_project_id :: "string option"
  plc_details :: "string option"
  plc_due_at :: "micros option"
  plc_source :: "string option"
  plc_source_key :: "string option"

subsection \<open>Validation\<close>

definition validate_planner_text :: "int option \<Rightarrow> string \<Rightarrow> exn + string" where
  "validate_planner_text maximum_bytes s =
     (if \<not> plain_text s then Inl PlannerValidationError
      else if (case maximum_bytes of None \<Rightarrow> False | Some n \<Rightarrow> utf8_len s > n)
      then Inl PlannerValidationError
      else Inr s)"

definition validate_planner_optional_text :: "int option \<Rightarrow> string option \<Rightarrow> exn + string option" where
  "validate_planner_optional_text maximum_bytes t =
     (case t of
        None \<Rightarrow> Inr None
      | Some s \<Rightarrow> bindE (validate_planner_text maximum_bytes s) (\<lambda>s'. Inr (Some s')))"

definition validate_optional_content :: "int \<Rightarrow> string option \<Rightarrow> exn + string option" where
  "validate_optional_content maximum_bytes t =
     (case t of
        None \<Rightarrow> Inr None
      | Some s \<Rightarrow>
          if strip s = [] \<or> NUL \<in> set s \<or> utf8_len s > maximum_bytes
          then Inl PlannerValidationError else Inr (Some s))"

definition planner_instant :: "micros \<Rightarrow> exn + micros" where
  "planner_instant t = (if valid_instant t then Inr t else Inl PlannerValidationError)"

definition validate_item :: "planner_create \<Rightarrow> exn + micros option" where
  "validate_item item =
     bindE (validate_planner_text (Some 128) (plc_id item)) (\<lambda>_.
     bindE (validate_planner_text (Some 4096) (plc_title item)) (\<lambda>_.
     bindE (validate_planner_optional_text None (plc_project_id item)) (\<lambda>_.
     bindE (validate_optional_content 262144 (plc_details item)) (\<lambda>_.
     bindE (validate_planner_optional_text (Some 128) (plc_source item)) (\<lambda>_.
     bindE (validate_planner_optional_text (Some 512) (plc_source_key item)) (\<lambda>_.
     bindE (ensure (\<not> (plc_source_key item \<noteq> None \<and> plc_source item = None)) PlannerValidationError) (\<lambda>_.
     bindE (ensure (\<not> (plc_kind item = Watcher \<and> plc_source item = None)) PlannerValidationError) (\<lambda>_.
     bindE (ensure (\<not> (plc_kind item = Deadline \<and> plc_due_at item = None)) PlannerValidationError) (\<lambda>_.
     case plc_due_at item of
       None \<Rightarrow> Inr None
     | Some t \<Rightarrow> bindE (planner_instant t) (\<lambda>t'. Inr (Some t')))))))))))"

definition planner_row_create :: "planner_row \<Rightarrow> planner_create" where
  "planner_row_create r = \<lparr>plc_id = pl_id r, plc_kind = pl_kind r, plc_title = pl_title r,
     plc_project_id = pl_project_id r, plc_details = pl_details r, plc_due_at = pl_due_at r,
     plc_source = pl_source r, plc_source_key = pl_source_key r\<rparr>"

definition planner_to_record :: "planner_row \<Rightarrow> exn + planner_row" where
  "planner_to_record r =
     rethrow (\<lambda>e. isa e PlannerValidationError) PlannerRepositoryError
       (bindE (validate_item (planner_row_create r)) (\<lambda>_.
        bindE (validate_planner_optional_text None (pl_promoted_job_id r)) (\<lambda>promoted_job_id.
        bindE (planner_instant (pl_created_at r)) (\<lambda>_.
        bindE (planner_instant (pl_updated_at r)) (\<lambda>_.
        bindE (case pl_promoted_at r of None \<Rightarrow> Inr None
               | Some t \<Rightarrow> bindE (planner_instant t) (\<lambda>t'. Inr (Some t'))) (\<lambda>promoted_at.
        bindE (ensure (promoted_job_id = None \<longleftrightarrow> promoted_at = None) PlannerValidationError) (\<lambda>_.
        Inr r)))))))"

subsection \<open>Operations\<close>

definition select_planner :: "db \<Rightarrow> string \<Rightarrow> planner_row option" where
  "select_planner d i = List.find (\<lambda>r. pl_id r = i) (planner d)"

definition new_planner_row :: "micros \<Rightarrow> planner_create \<Rightarrow> micros option \<Rightarrow> planner_row" where
  "new_planner_row now item due_at = \<lparr>pl_id = plc_id item, pl_kind = plc_kind item,
     pl_project_id = plc_project_id item, pl_title = plc_title item, pl_details = plc_details item,
     pl_due_at = due_at, pl_source = plc_source item, pl_source_key = plc_source_key item,
     pl_promoted_job_id = None, pl_created_at = now, pl_updated_at = now, pl_promoted_at = None\<rparr>"

definition planner_integrity :: "constraint_kind \<Rightarrow> exn" where
  "planner_integrity k =
     (if is_unique_violation k then PlannerAlreadyExistsError
      else if k = ForeignKeyViolation then PlannerValidationError
      else PlannerRepositoryError)"

definition planner_create_op :: "planner_create \<Rightarrow> micros \<Rightarrow> db \<Rightarrow> (exn + planner_row) \<times> db" where
  "planner_create_op item now =
     validated (validate_item item) (\<lambda>due_at. write_connection PlannerRepositoryError (\<lambda>d.
       on_integrity planner_integrity
         (bindE (insert_planner d (new_planner_row now item due_at)) (\<lambda>d'.
          case select_planner d' (plc_id item) of
            None \<Rightarrow> Inl PlannerRepositoryError
          | Some row \<Rightarrow> bindE (planner_to_record row) (\<lambda>stored. Inr (stored, d'))))))"

definition job_matches :: "job_row \<Rightarrow> job_create \<Rightarrow> payload \<Rightarrow> bool" where
  "job_matches stored requested snapshot \<longleftrightarrow>
     j_id stored = jc_id requested \<and> j_project_id stored = jc_project_id requested \<and>
     j_request stored = jc_request requested \<and> j_request_snapshot stored = snapshot \<and>
     j_state stored = jc_state requested \<and> j_runtime stored = jc_runtime requested \<and>
     j_model stored = jc_model requested \<and> j_worktree_path stored = jc_worktree_path requested"

definition promotion_retry ::
  "planner_row \<Rightarrow> job_create \<Rightarrow> payload \<Rightarrow> db \<Rightarrow> exn + planner_row \<times> job_row" where
  "promotion_retry item job snapshot d =
     (if pl_promoted_job_id item \<noteq> Some (jc_id job) then Inl PlannerPromotionConflictError
      else case select_job d (jc_id job) of
          None \<Rightarrow> Inl PlannerRepositoryError
        | Some row \<Rightarrow>
            bindE (rethrow (\<lambda>e. isa e JobRepositoryError) PlannerRepositoryError (job_to_record row))
              (\<lambda>stored_job.
                if \<not> job_matches stored_job job snapshot then Inl PlannerPromotionConflictError
                else Inr (item, stored_job)))"

definition promote_row :: "micros \<Rightarrow> string \<Rightarrow> planner_row \<Rightarrow> planner_row" where
  "promote_row now job r = r\<lparr>pl_promoted_job_id := Some job, pl_promoted_at := Some now,
     pl_updated_at := now\<rparr>"

definition promotion_handler :: "exn \<Rightarrow> exn" where
  "promotion_handler e =
     (case e of
        IntegrityError k \<Rightarrow>
          (if is_unique_violation k then PlannerPromotionConflictError
           else if k = ForeignKeyViolation then PlannerValidationError
           else PlannerRepositoryError)
      | _ \<Rightarrow> if isa e JobRepositoryError then PlannerRepositoryError else e)"

definition promotion_write ::
  "micros \<Rightarrow> string \<Rightarrow> job_create \<Rightarrow> payload \<Rightarrow> db \<Rightarrow> exn + (planner_row \<times> job_row) \<times> db" where
  "promotion_write now i job snapshot d =
     bindE (job_insert now job snapshot d) (\<lambda>(created_job, d1).
     bindE (update_planner d1 (\<lambda>r. pl_id r = i \<and> pl_promoted_job_id r = None)
              (promote_row now (jc_id job))) (\<lambda>(rowcount, d2).
     if rowcount \<noteq> 1 then Inl PlannerPromotionConflictError
     else case select_planner d2 i of
         None \<Rightarrow> Inl PlannerRepositoryError
       | Some row \<Rightarrow> bindE (planner_to_record row) (\<lambda>promoted.
           Inr ((promoted, created_job), d2))))"

definition promote_tx ::
  "micros \<Rightarrow> string \<Rightarrow> job_create \<Rightarrow> payload \<Rightarrow> db \<Rightarrow> exn + (planner_row \<times> job_row) \<times> db" where
  "promote_tx now i job snapshot d =
     (case select_planner d i of
        None \<Rightarrow> Inl PlannerNotFoundError
      | Some row \<Rightarrow> bindE (planner_to_record row) (\<lambda>item.
          if pl_promoted_job_id item \<noteq> None
          then bindE (promotion_retry item job snapshot d) (\<lambda>r. Inr (r, d))
          else if pl_project_id item \<noteq> None \<and> pl_project_id item \<noteq> Some (jc_project_id job)
          then Inl PlannerValidationError
          else handle promotion_handler (promotion_write now i job snapshot d)))"

definition planner_promote ::
  "string \<Rightarrow> job_create \<Rightarrow> micros \<Rightarrow> db \<Rightarrow> (exn + planner_row \<times> job_row) \<times> db" where
  "planner_promote i job now =
     validated
       (bindE (validate_planner_text (Some 128) i) (\<lambda>i'.
        bindE (rethrow (\<lambda>e. isa e JobValidationError) PlannerValidationError (validate_job job))
          (\<lambda>snapshot. Inr (i', snapshot))))
       (\<lambda>(i', snapshot). write_connection PlannerRepositoryError (promote_tx now i' job snapshot))"

definition planner_get :: "string \<Rightarrow> db \<Rightarrow> exn + planner_row" where
  "planner_get i d =
     bindE (validate_planner_text (Some 128) i) (\<lambda>i'.
       case select_planner d i' of
         None \<Rightarrow> Inl PlannerNotFoundError
       | Some row \<Rightarrow> planner_to_record row)"

text \<open>\<open>ORDER BY due_at IS NULL, due_at, created_at, id\<close>.\<close>

definition planner_key :: "planner_row \<Rightarrow> bool \<times> int \<times> int \<times> string" where
  "planner_key r =
     (pl_due_at r = None, case pl_due_at r of None \<Rightarrow> 0 | Some t \<Rightarrow> t, pl_created_at r, pl_id r)"

definition planner_list ::
  "planner_item_kind option \<Rightarrow> string option \<Rightarrow> bool option \<Rightarrow> db \<Rightarrow> exn + planner_row list" where
  "planner_list kind project_id promoted d =
     bindE (case project_id of
              None \<Rightarrow> Inr (\<lambda>r. True)
            | Some p \<Rightarrow> bindE (validate_planner_text None p) (\<lambda>p'. Inr (\<lambda>r. pl_project_id r = Some p')))
       (\<lambda>in_project. mapE planner_to_record (sort_key planner_key
         (filter (\<lambda>r. (case kind of None \<Rightarrow> True | Some k \<Rightarrow> pl_kind r = k) \<and> in_project r \<and>
            (case promoted of None \<Rightarrow> True | Some b \<Rightarrow> (pl_promoted_job_id r \<noteq> None) = b))
            (planner d))))"

subsection \<open>Invariant\<close>

definition planner_ok :: "planner_row \<Rightarrow> bool" where
  "planner_ok r \<longleftrightarrow> planner_to_record r = Inr r"

definition planner_wf :: "db \<Rightarrow> bool" where
  "planner_wf d \<longleftrightarrow>
     (\<forall>r\<in>set (planner d). planner_ok r) \<and> distinct (map pl_id (planner d)) \<and>
     (\<forall>r\<in>set (planner d). \<forall>j. pl_promoted_job_id r = Some j \<longrightarrow> (\<exists>q\<in>set (jobs d). j_id q = j)) \<and>
     (\<forall>r\<in>set (planner d). \<forall>p. pl_project_id r = Some p \<longrightarrow> (\<exists>q\<in>set (projects d). p_id q = p)) \<and>
     (\<forall>r\<in>set (planner d). \<forall>s\<in>set (planner d). pl_promoted_job_id r \<noteq> None \<longrightarrow>
        pl_promoted_job_id r = pl_promoted_job_id s \<longrightarrow> r = s)"

lemma validate_planner_text_iff:
  "validate_planner_text m s = Inr x \<longleftrightarrow>
     plain_text s \<and> (\<forall>n. m = Some n \<longrightarrow> utf8_len s \<le> n) \<and> x = s"
  by (auto simp: validate_planner_text_def split: option.splits)

lemma validate_planner_text_Inl:
  "validate_planner_text m s = Inl e \<Longrightarrow> e = PlannerValidationError"
  by (auto simp: validate_planner_text_def split: if_splits)

lemma validate_planner_optional_text_iff:
  "validate_planner_optional_text m t = Inr x \<longleftrightarrow>
     (\<forall>s. t = Some s \<longrightarrow> plain_text s \<and> (\<forall>n. m = Some n \<longrightarrow> utf8_len s \<le> n)) \<and> x = t"
  by (auto simp: validate_planner_optional_text_def bindE_eq_Inr validate_planner_text_iff
      split: option.splits)

lemma validate_planner_optional_text_Inl:
  "validate_planner_optional_text m t = Inl e \<Longrightarrow> e = PlannerValidationError"
  by (auto simp: validate_planner_optional_text_def bindE_eq_Inl dest: validate_planner_text_Inl
      split: option.splits)

lemma validate_optional_content_iff:
  "validate_optional_content n t = Inr x \<longleftrightarrow>
     (\<forall>s. t = Some s \<longrightarrow> strip s \<noteq> [] \<and> NUL \<notin> set s \<and> utf8_len s \<le> n) \<and> x = t"
  by (auto simp: validate_optional_content_def split: option.splits)

lemma validate_optional_content_Inl:
  "validate_optional_content n t = Inl e \<Longrightarrow> e = PlannerValidationError"
  by (auto simp: validate_optional_content_def split: option.splits if_splits)

lemma planner_instant_iff: "planner_instant t = Inr x \<longleftrightarrow> valid_instant t \<and> x = t"
  by (auto simp: planner_instant_def)

lemma validate_item_iff:
  "validate_item item = Inr x \<longleftrightarrow>
     plain_text (plc_id item) \<and> utf8_len (plc_id item) \<le> 128 \<and>
     plain_text (plc_title item) \<and> utf8_len (plc_title item) \<le> 4096 \<and>
     (\<forall>s. plc_project_id item = Some s \<longrightarrow> plain_text s) \<and>
     (\<forall>s. plc_details item = Some s \<longrightarrow> strip s \<noteq> [] \<and> NUL \<notin> set s \<and> utf8_len s \<le> 262144) \<and>
     (\<forall>s. plc_source item = Some s \<longrightarrow> plain_text s \<and> utf8_len s \<le> 128) \<and>
     (\<forall>s. plc_source_key item = Some s \<longrightarrow> plain_text s \<and> utf8_len s \<le> 512) \<and>
     (plc_source_key item = None \<or> plc_source item \<noteq> None) \<and>
     (plc_kind item = Watcher \<longrightarrow> plc_source item \<noteq> None) \<and>
     (plc_kind item = Deadline \<longrightarrow> plc_due_at item \<noteq> None) \<and>
     (\<forall>t. plc_due_at item = Some t \<longrightarrow> valid_instant t) \<and> x = plc_due_at item"
  by (auto simp: validate_item_def bindE_eq_Inr validate_planner_text_iff
      validate_planner_optional_text_iff validate_optional_content_iff planner_instant_iff
      split: option.splits)

lemma validate_item_Inl: "validate_item item = Inl e \<Longrightarrow> e = PlannerValidationError"
  by (auto simp: validate_item_def bindE_eq_Inl planner_instant_def
      dest: validate_planner_text_Inl validate_planner_optional_text_Inl validate_optional_content_Inl
      split: option.splits if_splits)

lemma planner_to_record_iff:
  "planner_to_record r = Inr x \<longleftrightarrow>
     x = r \<and> validate_item (planner_row_create r) = Inr (pl_due_at r) \<and>
     (\<forall>s. pl_promoted_job_id r = Some s \<longrightarrow> plain_text s) \<and>
     valid_instant (pl_created_at r) \<and> valid_instant (pl_updated_at r) \<and>
     (\<forall>t. pl_promoted_at r = Some t \<longrightarrow> valid_instant t) \<and>
     (pl_promoted_job_id r = None \<longleftrightarrow> pl_promoted_at r = None)"
  by (auto simp: planner_to_record_def bindE_eq_Inr validate_planner_optional_text_iff
      planner_instant_iff validate_item_iff planner_row_create_def split: option.splits)

lemma planner_to_record_ok [simp]: "planner_ok r \<Longrightarrow> planner_to_record r = Inr r"
  by (simp add: planner_ok_def)

lemma planner_to_record_Inr: "planner_to_record r = Inr x \<Longrightarrow> x = r \<and> planner_ok r"
  by (auto simp: planner_ok_def planner_to_record_iff)

lemma plain_title_trim: "plain_text s \<Longrightarrow> 0 < sql_length (sql_trim s)"
  using plain_text_sql_plain [of s] by (auto simp: sql_plain_def)

lemma planner_ok_check: "planner_ok r \<Longrightarrow> planner_check r"
  by (cases "pl_details r"; cases "pl_due_at r"; cases "pl_source r"; cases "pl_source_key r")
    (auto simp: planner_ok_def planner_to_record_iff validate_item_iff planner_row_create_def
      planner_check_def sql_plain_bounded_def plain_text_sql_plain plain_title_trim
      sql_length_trim_pos valid_instant_def)

lemma planner_ok_new:
  "validate_item item = Inr due \<Longrightarrow> valid_instant now \<Longrightarrow> planner_ok (new_planner_row now item due)"
  by (auto simp: planner_ok_def planner_to_record_iff validate_item_iff planner_row_create_def
      new_planner_row_def)

lemma promote_row_simps [simp]:
  "pl_id (promote_row now j r) = pl_id r"
  "pl_project_id (promote_row now j r) = pl_project_id r"
  "pl_promoted_job_id (promote_row now j r) = Some j"
  by (simp_all add: promote_row_def)

lemma planner_ok_promote:
  "planner_ok r \<Longrightarrow> plain_text j \<Longrightarrow> valid_instant now \<Longrightarrow> planner_ok (promote_row now j r)"
  by (auto simp: planner_ok_def planner_to_record_iff validate_item_iff planner_row_create_def
      promote_row_def)

lemma select_planner_Some: "select_planner d i = Some r \<Longrightarrow> r \<in> set (planner d) \<and> pl_id r = i"
  by (auto simp: select_planner_def dest: Prelude.find_Some_iff)

lemma select_planner_None: "select_planner d i = None \<longleftrightarrow> (\<forall>r\<in>set (planner d). pl_id r \<noteq> i)"
  by (simp add: select_planner_def find_None_iff2)

lemma select_planner_wf:
  "planner_wf d \<Longrightarrow> r \<in> set (planner d) \<Longrightarrow> select_planner d (pl_id r) = Some r"
  by (auto simp: select_planner_def planner_wf_def intro: find_unique)

lemma select_planner_ok: "planner_wf d \<Longrightarrow> select_planner d i = Some r \<Longrightarrow> planner_ok r"
  by (auto simp: planner_wf_def dest: select_planner_Some)

subsection \<open>Creation\<close>

lemma planner_create_cases:
  assumes now: "valid_instant now"
  shows "planner_create_op item now d =
    (case validate_item item of
       Inl e \<Rightarrow> (Inl PlannerValidationError, d)
     | Inr due \<Rightarrow>
         if \<exists>q\<in>set (planner d). pl_id q = plc_id item then (Inl PlannerAlreadyExistsError, d)
         else if \<exists>p. plc_project_id item = Some p \<and> (\<forall>q\<in>set (projects d). p_id q \<noteq> p)
         then (Inl PlannerValidationError, d)
         else (Inr (new_planner_row now item due),
               d\<lparr>planner := planner d @ [new_planner_row now item due]\<rparr>))"
proof (cases "validate_item item")
  case (Inl e)
  then show ?thesis using validate_item_Inl [OF Inl] by (simp add: planner_create_op_def)
next
  case (Inr due)
  let ?r = "new_planner_row now item due"
  have ok: "planner_ok ?r" using Inr now by (rule planner_ok_new)
  have f: "pl_id ?r = plc_id item" "pl_project_id ?r = plc_project_id item" "\<not> planner_insert_aborts ?r"
    by (simp_all add: new_planner_row_def planner_insert_aborts_def)
  have sel: "select_planner (d\<lparr>planner := planner d @ [?r]\<rparr>) (plc_id item) = Some ?r"
    if "\<not> (\<exists>q\<in>set (planner d). pl_id q = plc_id item)"
    using that f by (auto simp: select_planner_def find_append find_None_iff2
        split: option.splits dest: Prelude.find_Some_iff)
  show ?thesis
    using Inr sel f planner_ok_check [OF ok] ok
    by (auto simp: planner_create_op_def insert_planner_def write_connection_def connection_def
        on_integrity_def planner_integrity_def is_unique_violation_def is_integrity_error_def
        split: option.splits)
qed

lemma planner_create_rollback: "planner_create_op item now d = (Inl e, d') \<Longrightarrow> d' = d"
  unfolding planner_create_op_def by (rule tx_rollback)

lemma planner_create_Inr:
  assumes "planner_create_op item now d = (Inr r, d')"
  shows "\<exists>due. validate_item item = Inr due \<and> r = new_planner_row now item due \<and> planner_ok r \<and>
    d' = d\<lparr>planner := planner d @ [r]\<rparr> \<and> (\<forall>q\<in>set (planner d). pl_id q \<noteq> plc_id item) \<and>
    (\<forall>p. plc_project_id item = Some p \<longrightarrow> (\<exists>q\<in>set (projects d). p_id q = p))"
proof -
  obtain due d1 row where v: "validate_item item = Inr due"
    and ins: "insert_planner d (new_planner_row now item due) = Inr d1"
    and row: "select_planner d1 (plc_id item) = Some row" "planner_to_record row = Inr r" "d' = d1"
    using assms by (auto simp: planner_create_op_def tx_Inr bindE_eq_Inr split: option.splits)
  have i: "d1 = d\<lparr>planner := planner d @ [new_planner_row now item due]\<rparr>"
    "\<forall>q\<in>set (planner d). pl_id q \<noteq> plc_id item"
    "\<forall>p. plc_project_id item = Some p \<longrightarrow> (\<exists>q\<in>set (projects d). p_id q = p)"
    using ins by (auto simp: insert_planner_def new_planner_row_def split: if_splits option.splits)
  have "row = new_planner_row now item due"
    using row(1) i(2) unfolding i(1)
    by (auto simp: select_planner_def find_append find_None_iff2 new_planner_row_def
        split: option.splits if_splits dest: Prelude.find_Some_iff)
  then show ?thesis using v i row(2,3) planner_to_record_Inr [OF row(2)] by auto
qed

lemma planner_create_wf:
  assumes wf: "planner_wf d" and cr: "planner_create_op item now d = (Inr r, d')"
  shows "planner_wf d'"
proof -
  obtain due where r: "r = new_planner_row now item due" "planner_ok r"
      "d' = d\<lparr>planner := planner d @ [r]\<rparr>" "\<forall>q\<in>set (planner d). pl_id q \<noteq> plc_id item"
      "\<forall>p. plc_project_id item = Some p \<longrightarrow> (\<exists>q\<in>set (projects d). p_id q = p)"
    using planner_create_Inr [OF cr] by blast
  have f: "pl_id r = plc_id item" "pl_promoted_job_id r = None" "pl_project_id r = plc_project_id item"
    by (simp_all add: r(1) new_planner_row_def)
  show ?thesis using wf r(2-5) f unfolding planner_wf_def by auto
qed

interpretation planner_creation: atomic_operation "planner_create_op item" planner_wf for item
proof
  fix t s e s' assume "planner_create_op item t s = (Inl e, s')"
  then show "s' = s" by (rule planner_create_rollback)
next
  fix s t x s' assume "planner_wf s" "planner_create_op item t s = (Inr x, s')"
  then show "planner_wf s'" by (rule planner_create_wf)
qed

subsection \<open>Promotion\<close>

definition add_job :: "job_row \<Rightarrow> db \<Rightarrow> db" where
  "add_job r d = d\<lparr>jobs := jobs d @ [r]\<rparr>"

definition put_promotion :: "micros \<Rightarrow> string \<Rightarrow> string \<Rightarrow> db \<Rightarrow> db" where
  "put_promotion now i job d = d\<lparr>planner :=
     update_where (\<lambda>r. pl_id r = i \<and> pl_promoted_job_id r = None) (promote_row now job) (planner d)\<rparr>"

definition promoted_db :: "micros \<Rightarrow> string \<Rightarrow> job_create \<Rightarrow> payload \<Rightarrow> db \<Rightarrow> db" where
  "promoted_db now i job snapshot d = put_promotion now i (jc_id job) (add_job (new_job_row now job snapshot) d)"

lemma promoted_db_frame [simp]:
  "projects (promoted_db now i job s d) = projects d"
  "jobs (promoted_db now i job s d) = jobs d @ [new_job_row now job s]"
  "events (promoted_db now i job s d) = events d"
  "approvals (promoted_db now i job s d) = approvals d"
  "review_bundles (promoted_db now i job s d) = review_bundles d"
  "planner (promoted_db now i job s d) =
     update_where (\<lambda>r. pl_id r = i \<and> pl_promoted_job_id r = None) (promote_row now (jc_id job)) (planner d)"
  "memory_refs (promoted_db now i job s d) = memory_refs d"
  "verification_runs (promoted_db now i job s d) = verification_runs d"
  "native_attempts (promoted_db now i job s d) = native_attempts d"
  "teams (promoted_db now i job s d) = teams d"
  "phone (promoted_db now i job s d) = phone d"
  by (simp_all add: promoted_db_def put_promotion_def add_job_def)

lemma select_promoted:
  assumes "select_planner d i = Some row" and "pl_promoted_job_id row = None"
  shows "select_planner (promoted_db now i job s d) i = Some (promote_row now (jc_id job) row)"
  using assms select_planner_Some [OF assms(1)]
  by (simp add: select_planner_def find_update_where)

lemma select_job_promoted:
  "\<forall>j\<in>set (jobs d). j_id j \<noteq> jc_id job \<Longrightarrow>
   select_job (promoted_db now i job s d) (jc_id job) = Some (new_job_row now job s)"
  by (auto simp: select_job_def find_append find_None_iff2 split: option.splits
      dest: Prelude.find_Some_iff)

lemma promotion_write_Inr:
  assumes w: "promotion_write now i job s d = Inr ((p, j), d')"
    and row: "select_planner d i = Some row" "pl_promoted_job_id row = None"
  shows "j = new_job_row now job s \<and> d' = promoted_db now i job s d \<and>
    p = promote_row now (jc_id job) row \<and> planner_ok p \<and>
    (\<forall>q\<in>set (jobs d). j_id q \<noteq> jc_id job) \<and> (\<exists>q\<in>set (projects d). p_id q = jc_project_id job)"
proof -
  obtain d1 n d2 r where ins: "job_insert now job s d = Inr (j, d1)"
    and upd: "update_planner d1 (\<lambda>r. pl_id r = i \<and> pl_promoted_job_id r = None)
        (promote_row now (jc_id job)) = Inr (n, d2)"
    and sel: "select_planner d2 i = Some r" "planner_to_record r = Inr p" "d' = d2"
    using w by (auto simp: promotion_write_def bindE_eq_Inr split: if_splits option.splits)
  have d1: "d1 = add_job (new_job_row now job s) d"
    using job_insert_Inr [OF ins] by (simp add: add_job_def)
  have "d2 = put_promotion now i (jc_id job) d1"
    using upd by (auto simp: update_planner_def put_promotion_def split: if_splits)
  then have d2: "d2 = promoted_db now i job s d" using d1 by (simp add: promoted_db_def)
  then have "r = promote_row now (jc_id job) row" using sel(1) select_promoted [OF row] by simp
  then show ?thesis using job_insert_Inr [OF ins] d2 sel planner_to_record_Inr [OF sel(2)] by auto
qed

lemma job_insert_ok:
  assumes v: "validate_job job = Inr s" and f: "\<forall>j\<in>set (jobs d). j_id j \<noteq> jc_id job"
    and p: "\<exists>q\<in>set (projects d). p_id q = jc_project_id job"
  shows "job_insert now job s d = Inr (new_job_row now job s, add_job (new_job_row now job s) d)"
proof -
  have ok: "job_ok (new_job_row now job s)" using v by (rule job_ok_new)
  have sel: "select_job (add_job (new_job_row now job s) d) (jc_id job) = Some (new_job_row now job s)"
    using f by (auto simp: select_job_def add_job_def find_append find_None_iff2 split: option.splits
        dest: Prelude.find_Some_iff)
  have "insert_job d (new_job_row now job s) = Inr (add_job (new_job_row now job s) d)"
    using job_ok_check [OF ok] f p by (auto simp: insert_job_def add_job_def)
  then show ?thesis using sel ok by (simp add: job_insert_def)
qed

lemma job_insert_refused:
  assumes v: "validate_job job = Inr s"
    and bad: "(\<exists>j\<in>set (jobs d). j_id j = jc_id job) \<or> (\<forall>q\<in>set (projects d). p_id q \<noteq> jc_project_id job)"
  shows "job_insert now job s d = Inl (IntegrityError
    (if \<exists>j\<in>set (jobs d). j_id j = jc_id job then PrimaryKeyViolation else ForeignKeyViolation))"
  using job_ok_check [OF job_ok_new [OF v]] bad by (auto simp: job_insert_def insert_job_def)

lemma promotion_write_ok:
  assumes wf: "planner_wf d" and v: "validate_job job = Inr s" and now: "valid_instant now"
    and row: "select_planner d i = Some row" "pl_promoted_job_id row = None"
    and f: "\<forall>j\<in>set (jobs d). j_id j \<noteq> jc_id job" and p: "\<exists>q\<in>set (projects d). p_id q = jc_project_id job"
  shows "promotion_write now i job s d =
    Inr ((promote_row now (jc_id job) row, new_job_row now job s), promoted_db now i job s d)"
proof -
  let ?d1 = "add_job (new_job_row now job s) d"
  let ?hit = "\<lambda>r. pl_id r = i \<and> pl_promoted_job_id r = None"
  have m: "row \<in> set (planner d)" "pl_id row = i" using select_planner_Some [OF row(1)] by auto
  have jid: "plain_text (jc_id job)" using v by (simp add: validate_job_iff)
  have ok: "planner_ok (promote_row now (jc_id job) q)" if "q \<in> set (planner d)" for q
    using planner_ok_promote [OF _ jid now] wf that by (simp add: planner_wf_def)
  have only: "q = row" if "q \<in> set (planner d)" "pl_id q = i" for q
    using select_planner_wf [OF wf that(1)] that(2) row(1) by simp
  have hit: "?hit q = (pl_id q = pl_id row)" if "q \<in> set (planner d)" for q
  proof
    assume a: "pl_id q = pl_id row"
    then have "q = row" using only [OF that] m(2) by simp
    then show "?hit q" using m(2) row(2) by simp
  qed (simp add: m(2))
  then have "filter ?hit (planner d) = filter (\<lambda>q. pl_id q = pl_id row) (planner d)"
    by (rule filter_cong [OF refl])
  then have n: "count_where ?hit (planner d) = 1"
    using count_where_key [of pl_id "planner d" row] wf m(1)
    by (simp add: count_where_def planner_wf_def)
  have free: "pl_promoted_job_id q \<noteq> Some (jc_id job)" if "q \<in> set (planner d)" for q
    using wf that f by (auto simp: planner_wf_def)
  have upd: "update_planner ?d1 ?hit (promote_row now (jc_id job))
      = Inr (1, promoted_db now i job s d)"
  proof -
    have "\<not> (\<exists>r\<in>set (planner d). ?hit r \<and> planner_update_aborts r (promote_row now (jc_id job) r))"
      by (auto simp: planner_update_aborts_def promote_row_def)
    moreover have "\<not> (\<exists>r\<in>set (planner d). ?hit r \<and> \<not> planner_check (promote_row now (jc_id job) r))"
      using ok planner_ok_check by blast
    moreover have "\<not> (\<exists>r\<in>set (planner d). ?hit r \<and> (\<exists>q\<in>set (planner d). pl_id q \<noteq> pl_id r \<and>
        pl_promoted_job_id q \<noteq> None \<and> pl_promoted_job_id q = Some (jc_id job)))"
      using free by auto
    ultimately show ?thesis
      using n by (simp add: update_planner_def promoted_db_def put_promotion_def add_job_def)
  qed
  show ?thesis
    using job_insert_ok [OF v f p] upd select_promoted [OF row] ok [OF m(1)]
    by (simp add: promotion_write_def)
qed

lemma planner_promote_rollback: "planner_promote i job now d = (Inl e, d') \<Longrightarrow> d' = d"
  unfolding planner_promote_def split_def by (rule tx_rollback)

lemma planner_promote_Inr_tx:
  "planner_promote i job now d = (Inr r, d') \<longleftrightarrow>
     plain_text i \<and> utf8_len i \<le> 128 \<and>
     (\<exists>s. validate_job job = Inr s \<and> promote_tx now i job s d = Inr (r, d'))"
  by (auto simp: planner_promote_def tx_Inr bindE_eq_Inr validate_planner_text_iff)

lemma promotion_retry_Inr:
  "promotion_retry item job s d = Inr (p, j) \<longleftrightarrow>
     pl_promoted_job_id item = Some (jc_id job) \<and> p = item \<and> select_job d (jc_id job) = Some j \<and>
     job_to_record j = Inr j \<and> job_matches j job s"
proof -
  have stored: "job_to_record x = Inr y \<longleftrightarrow> y = x \<and> job_to_record x = Inr x" for x y
    using job_to_record_Inr by blast
  show ?thesis
  proof (cases "select_job d (jc_id job)")
    case None
    then show ?thesis by (simp add: promotion_retry_def)
  next
    case (Some x)
    show ?thesis
    proof (cases "job_to_record x")
      case (Inl e)
      then show ?thesis using Some by (simp add: promotion_retry_def) (metis Inl_Inr_False)
    next
      case (Inr y)
      moreover from this have "y = x" by (rule job_to_record_Inr)
      ultimately show ?thesis using Some by (auto simp: promotion_retry_def)
    qed
  qed
qed

lemma promote_tx_Inr:
  assumes tx: "promote_tx now i job s d = Inr ((p, j), d')"
  shows "\<exists>row. select_planner d i = Some row \<and> planner_ok row \<and>
    (d' = d \<and> promotion_retry row job s d = Inr (p, j) \<or>
     pl_promoted_job_id row = None \<and>
       (pl_project_id row = None \<or> pl_project_id row = Some (jc_project_id job)) \<and>
       promotion_write now i job s d = Inr ((p, j), d'))"
proof -
  obtain row where row: "select_planner d i = Some row" "planner_to_record row = Inr row" "planner_ok row"
    using tx by (auto simp: promote_tx_def bindE_eq_Inr split: option.splits
        dest: planner_to_record_Inr)
  show ?thesis
  proof (cases "pl_promoted_job_id row")
    case None
    then show ?thesis using tx row by (auto simp: promote_tx_def split: if_splits)
  next
    case (Some x)
    then show ?thesis using tx row by (auto simp: promote_tx_def bindE_eq_Inr)
  qed
qed

lemma promoted_db_wf:
  assumes wf: "planner_wf d" and row: "select_planner d i = Some row" "pl_promoted_job_id row = None"
    and f: "\<forall>q\<in>set (jobs d). j_id q \<noteq> jc_id job" and ok: "planner_ok (promote_row now (jc_id job) row)"
  shows "planner_wf (promoted_db now i job s d)"
proof -
  let ?hit = "\<lambda>r. pl_id r = i \<and> pl_promoted_job_id r = None"
  let ?f = "promote_row now (jc_id job)"
  have m: "row \<in> set (planner d)" "pl_id row = i" using select_planner_Some [OF row(1)] by auto
  have only: "q = row" if "q \<in> set (planner d)" "?hit q" for q
    using select_planner_wf [OF wf that(1)] that(2) row(1) by simp
  have hit: "?hit q = (q = row)" if "q \<in> set (planner d)" for q
  proof
    assume "?hit q"
    then show "q = row" by (rule only [OF that])
  qed (simp add: m(2) row(2))
  have "update_where ?hit ?f (planner d) = update_where (\<lambda>q. q = row) ?f (planner d)"
    unfolding update_where_def using hit by (intro map_cong refl) (simp only: hit)
  then have new: "set (update_where ?hit ?f (planner d)) = {r \<in> set (planner d). r \<noteq> row} \<union> {?f row}"
    using m(1) by (auto simp: set_update_where)
  have ids: "map pl_id (update_where ?hit ?f (planner d)) = map pl_id (planner d)"
    by (rule map_update_where_frame) simp
  have free: "pl_promoted_job_id q \<noteq> Some (jc_id job)" if "q \<in> set (planner d)" for q
    using wf that f by (auto simp: planner_wf_def)
  show ?thesis
    unfolding planner_wf_def promoted_db_frame ids new
  proof (intro conjI)
    let ?new = "{r \<in> set (planner d). r \<noteq> row} \<union> {?f row}"
    show "Ball ?new planner_ok" using wf ok by (simp add: planner_wf_def)
    show "distinct (map pl_id (planner d))" using wf by (simp add: planner_wf_def)
    show "\<forall>r\<in>?new. \<forall>j. pl_promoted_job_id r = Some j \<longrightarrow>
        (\<exists>q\<in>set (jobs d @ [new_job_row now job s]). j_id q = j)"
      using wf by (fastforce simp: planner_wf_def)
    show "\<forall>r\<in>?new. \<forall>p. pl_project_id r = Some p \<longrightarrow> (\<exists>q\<in>set (projects d). p_id q = p)"
      using wf m(1) by (fastforce simp: planner_wf_def)
    have uniq: "r = q" if "r \<in> set (planner d)" "q \<in> set (planner d)" "pl_promoted_job_id r \<noteq> None"
        "pl_promoted_job_id r = pl_promoted_job_id q" for r q
      using wf that unfolding planner_wf_def by blast
    show "\<forall>r\<in>?new. \<forall>q\<in>?new. pl_promoted_job_id r \<noteq> None \<longrightarrow>
        pl_promoted_job_id r = pl_promoted_job_id q \<longrightarrow> r = q"
    proof (intro ballI impI)
      fix r q assume r: "r \<in> ?new" and q: "q \<in> ?new" and n: "pl_promoted_job_id r \<noteq> None"
        and e: "pl_promoted_job_id r = pl_promoted_job_id q"
      have old: "pl_promoted_job_id x \<noteq> pl_promoted_job_id (?f row)" if "x \<in> set (planner d)" for x
        using free [OF that] by simp
      from r q show "r = q"
      proof (elim UnE)
        assume "r \<in> {?f row}" "q \<in> {?f row}"
        then show ?thesis by simp
      next
        assume "r \<in> {?f row}" "q \<in> {r \<in> set (planner d). r \<noteq> row}"
        then show ?thesis using old e by (metis (mono_tags, lifting) mem_Collect_eq singletonD)
      next
        assume "r \<in> {r \<in> set (planner d). r \<noteq> row}" "q \<in> {?f row}"
        then show ?thesis using old e by (metis (mono_tags, lifting) mem_Collect_eq singletonD)
      next
        assume "r \<in> {r \<in> set (planner d). r \<noteq> row}" "q \<in> {r \<in> set (planner d). r \<noteq> row}"
        then show ?thesis using uniq n e by blast
      qed
    qed
  qed
qed

lemma planner_promote_wf:
  assumes wf: "planner_wf d" and pr: "planner_promote i job now d = (Inr (p, j), d')"
  shows "planner_wf d'"
proof -
  obtain s where tx: "promote_tx now i job s d = Inr ((p, j), d')"
    using pr by (auto simp: planner_promote_Inr_tx)
  from promote_tx_Inr [OF tx] obtain row where row: "select_planner d i = Some row"
    and alt: "d' = d \<or> pl_promoted_job_id row = None \<and> promotion_write now i job s d = Inr ((p, j), d')"
    by blast
  from alt show ?thesis
  proof (elim disjE conjE)
    assume n: "pl_promoted_job_id row = None" and w: "promotion_write now i job s d = Inr ((p, j), d')"
    show ?thesis using promotion_write_Inr [OF w row n] promoted_db_wf [OF wf row n] by auto
  qed (simp add: wf)
qed

lemma planner_promote_retry:
  assumes wf: "planner_wf d" and pr: "planner_promote i job now d = (Inr (p, j), d')"
  shows "planner_promote i job now' d' = (Inr (p, j), d')"
proof -
  obtain s where v: "validate_job job = Inr s" and i: "plain_text i" "utf8_len i \<le> 128"
    and tx: "promote_tx now i job s d = Inr ((p, j), d')"
    using pr by (auto simp: planner_promote_Inr_tx)
  from promote_tx_Inr [OF tx] obtain row where row: "select_planner d i = Some row" "planner_ok row"
    and alt: "d' = d \<and> promotion_retry row job s d = Inr (p, j) \<or>
      pl_promoted_job_id row = None \<and> promotion_write now i job s d = Inr ((p, j), d')"
    by blast
  have "promote_tx now' i job s d' = Inr ((p, j), d')"
    using alt
  proof (elim disjE conjE)
    assume "d' = d" and rt: "promotion_retry row job s d = Inr (p, j)"
    moreover have "pl_promoted_job_id row \<noteq> None" using rt by (auto simp: promotion_retry_Inr)
    ultimately show ?thesis using row by (simp add: promote_tx_def)
  next
    assume n: "pl_promoted_job_id row = None" and w: "promotion_write now i job s d = Inr ((p, j), d')"
    note f = promotion_write_Inr [OF w row(1) n]
    have p: "pl_promoted_job_id p = Some (jc_id job)" using f by simp
    have sel: "select_planner d' i = Some p" using f select_promoted [OF row(1) n] by simp
    have "select_job d' (jc_id job) = Some j" using f select_job_promoted by simp
    moreover have "job_ok j" using f job_ok_new [OF v] by simp
    moreover have "job_matches j job s" using f by (simp add: job_matches_def new_job_row_def)
    ultimately have "promotion_retry p job s d' = Inr (p, j)"
      using p by (simp add: promotion_retry_Inr)
    moreover have "planner_ok p" using f by blast
    ultimately show ?thesis using sel p by (simp add: promote_tx_def)
  qed
  then show ?thesis using v i by (auto simp: planner_promote_Inr_tx)
qed

interpretation planner_promotion: idempotent_operation "planner_promote i job" planner_wf for i job
proof
  fix t s e s' assume "planner_promote i job t s = (Inl e, s')"
  then show "s' = s" by (rule planner_promote_rollback)
next
  fix s t x s' assume "planner_wf s" "planner_promote i job t s = (Inr x, s')"
  then show "planner_wf s'" by (cases x) (auto intro: planner_promote_wf)
next
  fix s t x s' t' assume "planner_wf s" "planner_promote i job t s = (Inr x, s')"
  then show "planner_promote i job t' s' = (Inr x, s')" by (cases x) (auto intro: planner_promote_retry)
qed

subsection \<open>Every branch of a promotion\<close>

lemma promote_tx_outcome:
  assumes wf: "planner_wf d" and jw: "jobs_wf d" and v: "validate_job job = Inr s" and now: "valid_instant now"
  shows "promote_tx now i job s d =
    (case select_planner d i of
       None \<Rightarrow> Inl PlannerNotFoundError
     | Some item \<Rightarrow>
         if pl_promoted_job_id item \<noteq> None then
           (case select_job d (jc_id job) of
              Some stored \<Rightarrow>
                if pl_promoted_job_id item = Some (jc_id job) \<and> job_matches stored job s
                then Inr ((item, stored), d) else Inl PlannerPromotionConflictError
            | None \<Rightarrow> Inl PlannerPromotionConflictError)
         else if pl_project_id item \<noteq> None \<and> pl_project_id item \<noteq> Some (jc_project_id job)
         then Inl PlannerValidationError
         else if \<exists>j\<in>set (jobs d). j_id j = jc_id job then Inl PlannerPromotionConflictError
         else if \<forall>q\<in>set (projects d). p_id q \<noteq> jc_project_id job then Inl PlannerValidationError
         else Inr ((promote_row now (jc_id job) item, new_job_row now job s), promoted_db now i job s d))"
proof (cases "select_planner d i")
  case (Some item)
  have ok: "planner_ok item" using select_planner_ok [OF wf Some] .
  show ?thesis
  proof (cases "pl_promoted_job_id item")
    case None
    show ?thesis
    proof (cases "(\<exists>j\<in>set (jobs d). j_id j = jc_id job) \<or> (\<forall>q\<in>set (projects d). p_id q \<noteq> jc_project_id job)")
      case True
      note bad = job_insert_refused [OF v True, of now]
      show ?thesis using bad Some None ok True
        by (auto simp: promote_tx_def promotion_write_def promotion_handler_def is_unique_violation_def)
    next
      case False
      then show ?thesis using promotion_write_ok [OF wf v now Some None] Some None ok
        by (auto simp: promote_tx_def)
    qed
  next
    case (Some j)
    note prom = Some
    have item: "item \<in> set (planner d)" using \<open>select_planner d i = Some item\<close> by (rule select_planner_Some [THEN conjunct1])
    show ?thesis
    proof (cases "select_job d (jc_id job)")
      case None
      then have "j \<noteq> jc_id job"
        using wf item prom by (auto simp: planner_wf_def select_job_def find_None_iff2)
      then show ?thesis using \<open>select_planner d i = Some item\<close> prom None ok
        by (simp add: promote_tx_def promotion_retry_def)
    next
      case (Some r)
      have "job_ok r" using select_job_Some [OF Some] jw by (simp add: jobs_wf_def)
      then show ?thesis using \<open>select_planner d i = Some item\<close> prom Some ok
        by (simp add: promote_tx_def promotion_retry_def)
    qed
  qed
qed (simp add: promote_tx_def)

subsection \<open>Sample data\<close>

definition sample_item :: planner_row where
  "sample_item = \<lparr>pl_id = ''item-1'', pl_kind = Blocker, pl_project_id = Some ''demo'',
     pl_title = ''tidy up'', pl_details = None, pl_due_at = None, pl_source = None,
     pl_source_key = None, pl_promoted_job_id = None, pl_created_at = 5, pl_updated_at = 5,
     pl_promoted_at = None\<rparr>"

definition sample_plan_db :: db where
  "sample_plan_db = (sample_db Running)\<lparr>planner := [sample_item]\<rparr>"

definition sample_order :: job_create where
  "sample_order = \<lparr>jc_id = ''job-2'', jc_project_id = ''demo'', jc_request = ''tidy up'',
     jc_request_snapshot = [], jc_state = Queued, jc_runtime = Codex, jc_model = None,
     jc_worktree_path = None\<rparr>"

lemma sample_item_ok [simp]: "planner_ok sample_item"
  by code_simp

lemma sample_plan_wf [simp]: "planner_wf sample_plan_db" "jobs_wf sample_plan_db"
  by (simp_all add: planner_wf_def sample_plan_db_def jobs_wf_def)
    (auto simp: sample_item_def sample_project_def sample_job_def jobs_wf_def)

lemma sample_order_ok [simp]: "validate_job sample_order = Inr []"
  by code_simp

lemma sample_item_text [simp]: "plain_text ''item-1''" "utf8_len ''item-1'' = 6"
  by code_simp+

lemma sample_plan_select: "select_planner sample_plan_db ''item-1'' = Some sample_item"
  by code_simp

subsection \<open>Properties\<close>

text \<open>
  C14: every outcome of \<open>PlannerRepository.promote\<close> on a consistent store: an unpromoted item of the
  right project becomes promoted and its job exists, both or neither; a promoted item answers the
  same job when the request is the same and refuses everything else; refusals leave the store as
  it was.
\<close>

theorem planner_promote_outcome:
  assumes "planner_wf d" and "jobs_wf d" and "valid_instant now"
  shows "planner_promote i job now d =
    (if \<not> plain_text i \<or> utf8_len i > 128 then (Inl PlannerValidationError, d)
     else case validate_job job of
       Inl e \<Rightarrow> (Inl PlannerValidationError, d)
     | Inr s \<Rightarrow>
       (case select_planner d i of
          None \<Rightarrow> (Inl PlannerNotFoundError, d)
        | Some item \<Rightarrow>
          if pl_promoted_job_id item \<noteq> None then
            (case select_job d (jc_id job) of
               Some stored \<Rightarrow>
                 if pl_promoted_job_id item = Some (jc_id job) \<and> job_matches stored job s
                 then (Inr (item, stored), d) else (Inl PlannerPromotionConflictError, d)
             | None \<Rightarrow> (Inl PlannerPromotionConflictError, d))
          else if pl_project_id item \<noteq> None \<and> pl_project_id item \<noteq> Some (jc_project_id job)
          then (Inl PlannerValidationError, d)
          else if \<exists>j\<in>set (jobs d). j_id j = jc_id job then (Inl PlannerPromotionConflictError, d)
          else if \<forall>q\<in>set (projects d). p_id q \<noteq> jc_project_id job then (Inl PlannerValidationError, d)
          else (Inr (promote_row now (jc_id job) item, new_job_row now job s), promoted_db now i job s d)))"
proof (cases "plain_text i \<and> utf8_len i \<le> 128")
  case True
  show ?thesis
  proof (cases "validate_job job")
    case (Inl e)
    then show ?thesis using True validate_job_Inl [OF Inl] validate_planner_text_iff [of "Some 128" i i]
      by (simp add: planner_promote_def)
  next
    case (Inr s)
    then show ?thesis
      using True validate_planner_text_iff [of "Some 128" i i]
      by (simp add: planner_promote_def write_connection_def connection_def is_integrity_error_def
          promote_tx_outcome [OF assms(1,2) Inr assms(3), of i] split: option.split)
  qed
qed (auto simp: planner_promote_def validate_planner_text_def)

theorem planner_promote_outcome_witness:
  "planner_promote ''item-1'' sample_order 50 sample_plan_db =
     (Inr (promote_row 50 ''job-2'' sample_item, new_job_row 50 sample_order []),
      promoted_db 50 ''item-1'' sample_order [] sample_plan_db)"
proof -
  have now: "valid_instant 50" by code_simp
  have "pl_promoted_job_id sample_item = None" "pl_project_id sample_item = Some ''demo''"
      "jc_project_id sample_order = ''demo''" "jc_id sample_order = ''job-2''"
      "j_id (sample_job Running) = ''job-1''" "p_id sample_project = ''demo''"
    by (simp_all add: sample_item_def sample_order_def sample_job_def sample_project_def)
  moreover have "jobs sample_plan_db = [sample_job Running]" "projects sample_plan_db = [sample_project]"
    by (simp_all add: sample_plan_db_def)
  ultimately show ?thesis
    using planner_promote_outcome [OF sample_plan_wf now, of "''item-1''" sample_order]
    by (simp add: sample_plan_select)
qed

text \<open>
  Promoting an item is idempotent: a promotion that succeeded is answered the same way at any
  later time, with no second job, and the item can never be promoted to another job.
\<close>

theorem promotion_delivered_once:
  assumes wf: "planner_wf d" and pr: "planner_promote i job now d = (Inr (p, j), d')"
  shows "deliver (planner_promote i job) (now # later) d = (replicate (Suc (length later)) (Inr (p, j)), d') \<and>
    planner_wf d' \<and> select_planner d' i = Some p \<and> pl_promoted_job_id p = Some (jc_id job) \<and>
    (jc_id other \<noteq> jc_id job \<longrightarrow>
       (\<exists>e. planner_promote i other later_now d' = (Inl e, d')))"
proof -
  obtain s where tx: "promote_tx now i job s d = Inr ((p, j), d')"
    using pr by (auto simp: planner_promote_Inr_tx)
  have state: "select_planner d' i = Some p \<and> pl_promoted_job_id p = Some (jc_id job)"
    using promote_tx_Inr [OF tx] promotion_write_Inr select_promoted
    by (fastforce simp: promotion_retry_Inr)
  moreover have "\<exists>e. planner_promote i other later_now d' = (Inl e, d')" if "jc_id other \<noteq> jc_id job"
  proof (cases "planner_promote i other later_now d'")
    case (Pair r d'')
    show ?thesis
    proof (cases r)
      case (Inl e)
      then show ?thesis using Pair planner_promote_rollback by auto
    next
      case (Inr x)
      then obtain p' j' s' where "promote_tx later_now i other s' d' = Inr ((p', j'), d'')"
        using Pair by (cases x) (auto simp: planner_promote_Inr_tx)
      then have False using promote_tx_Inr state that by (fastforce simp: promotion_retry_Inr)
      then show ?thesis ..
    qed
  qed
  ultimately show ?thesis
    using planner_promotion.deliver_once [OF wf pr] planner_promote_wf [OF wf pr] by blast
qed

theorem promotion_delivered_once_witness:
  "\<exists>r d' e. deliver (planner_promote ''item-1'' sample_order) [50, 60] sample_plan_db = ([Inr r, Inr r], d') \<and>
     planner_promote ''item-1'' (sample_order\<lparr>jc_id := ''job-3''\<rparr>) 70 d' = (Inl e, d')"
proof -
  let ?t = "planner_promote ''item-1'' sample_order 50 sample_plan_db"
  have "case fst ?t of Inr r \<Rightarrow> True | Inl x \<Rightarrow> False" by code_simp
  then obtain p j where r: "?t = (Inr (p, j), snd ?t)" by (cases "fst ?t") (auto simp: prod_eq_iff)
  have "jc_id (sample_order\<lparr>jc_id := ''job-3''\<rparr>) \<noteq> jc_id sample_order" by (simp add: sample_order_def)
  then show ?thesis
    using promotion_delivered_once [OF sample_plan_wf(1) r, of "[60]" "sample_order\<lparr>jc_id := ''job-3''\<rparr>" 70]
    by (auto simp: numeral_eq_Suc)
qed

end
