(* ===== verification/MemoryRefs.thy ===== *)
theory MemoryRefs
  imports Approvals
begin

text \<open>
  \<open>MemoryReferenceCreate\<close> (engine.py) and \<open>MemoryReferenceRepository\<close> (db.py): immutable links
  from a job, or from one event of a job, to a record of the external memory store. The invariant
  \<open>memory_wf\<close> says that a link is stored once, that its job exists and that its event belongs to
  that job.
\<close>

record memory_create =
  mc_projmem_record_id :: string
  mc_job_id :: string
  mc_event_id :: "int option"

definition maximum_integer :: int where
  "maximum_integer = 9223372036854775807"

subsection \<open>Validation\<close>

definition validate_memory_id :: "int \<Rightarrow> exn + int" where
  "validate_memory_id i =
     (if i \<le> 0 \<or> i > maximum_integer then Inl MemoryReferenceValidationError else Inr i)"

definition validate_memory_text :: "int option \<Rightarrow> string \<Rightarrow> exn + string" where
  "validate_memory_text maximum_bytes s =
     (if \<not> plain_text s then Inl MemoryReferenceValidationError
      else if (case maximum_bytes of None \<Rightarrow> False | Some n \<Rightarrow> utf8_len s > n)
      then Inl MemoryReferenceValidationError
      else Inr s)"

text \<open>The text \<open>fromisoformat\<close> reads back is an instant of the years 1970 to 9999.\<close>

definition validate_memory_timestamp :: "micros \<Rightarrow> exn + micros" where
  "validate_memory_timestamp t =
     (if valid_instant t then Inr t else Inl MemoryReferenceValidationError)"

definition validate_reference :: "memory_create \<Rightarrow> exn + unit" where
  "validate_reference r =
     bindE (validate_memory_text (Some 512) (mc_projmem_record_id r)) (\<lambda>_.
     bindE (validate_memory_text None (mc_job_id r)) (\<lambda>_.
     case mc_event_id r of
       None \<Rightarrow> Inr ()
     | Some i \<Rightarrow> bindE (validate_memory_id i) (\<lambda>_. Inr ())))"

definition memory_row_create :: "memory_row \<Rightarrow> memory_create" where
  "memory_row_create r = \<lparr>mc_projmem_record_id = m_projmem_record_id r, mc_job_id = m_job_id r,
     mc_event_id = m_event_id r\<rparr>"

definition memory_to_record :: "memory_row \<Rightarrow> exn + memory_row" where
  "memory_to_record r =
     rethrow (\<lambda>e. isa e MemoryReferenceValidationError) MemoryReferenceRepositoryError
       (bindE (validate_reference (memory_row_create r)) (\<lambda>_.
        bindE (validate_memory_id (m_id r)) (\<lambda>_.
        bindE (validate_memory_timestamp (m_created_at r)) (\<lambda>_. Inr r))))"

subsection \<open>Operations\<close>

definition select_memory :: "db \<Rightarrow> int \<Rightarrow> memory_row option" where
  "select_memory d i = List.find (\<lambda>r. m_id r = i) (memory_refs d)"

definition select_exact :: "db \<Rightarrow> memory_create \<Rightarrow> memory_row option" where
  "select_exact d c = List.find (\<lambda>r. memory_row_create r = c) (memory_refs d)"

definition new_memory_row :: "micros \<Rightarrow> memory_create \<Rightarrow> int \<Rightarrow> memory_row" where
  "new_memory_row now c i = \<lparr>m_id = i, m_projmem_record_id = mc_projmem_record_id c,
     m_job_id = mc_job_id c, m_event_id = mc_event_id c, m_created_at = now\<rparr>"

definition memory_integrity :: "constraint_kind \<Rightarrow> exn" where
  "memory_integrity k =
     (if k = ForeignKeyViolation then MemoryReferenceValidationError
      else MemoryReferenceRepositoryError)"

definition memory_link :: "memory_create \<Rightarrow> micros \<Rightarrow> db \<Rightarrow> (exn + memory_row) \<times> db" where
  "memory_link c now =
     validated (validate_reference c) (\<lambda>_. write_connection MemoryReferenceRepositoryError (\<lambda>d.
       case select_exact d c of
         Some existing \<Rightarrow> bindE (memory_to_record existing) (\<lambda>stored. Inr (stored, d))
       | None \<Rightarrow>
           let i = next_rowid (map m_id (memory_refs d)) in
           on_integrity memory_integrity
             (bindE (insert_memory d (new_memory_row now c i)) (\<lambda>d'.
              case select_memory d' i of
                None \<Rightarrow> Inl MemoryReferenceRepositoryError
              | Some row \<Rightarrow> bindE (memory_to_record row) (\<lambda>stored. Inr (stored, d'))))))"

definition memory_get :: "int \<Rightarrow> db \<Rightarrow> exn + memory_row" where
  "memory_get i d =
     bindE (validate_memory_id i) (\<lambda>i'.
       case select_memory d i' of
         None \<Rightarrow> Inl MemoryReferenceNotFoundError
       | Some row \<Rightarrow> memory_to_record row)"

text \<open>\<open>ORDER BY created_at, id\<close> of the rows every given clause selects.\<close>

definition optional_clause :: "('v \<Rightarrow> exn + 'v) \<Rightarrow> ('r \<Rightarrow> 'v option) \<Rightarrow> 'v option \<Rightarrow> exn + ('r \<Rightarrow> bool)" where
  "optional_clause check column value =
     (case value of
        None \<Rightarrow> Inr (\<lambda>_. True)
      | Some v \<Rightarrow> bindE (check v) (\<lambda>v'. Inr (\<lambda>r. column r = Some v')))"

definition memory_list ::
  "string option \<Rightarrow> int option \<Rightarrow> string option \<Rightarrow> db \<Rightarrow> exn + memory_row list" where
  "memory_list job_id event_id projmem_record_id d =
     bindE (optional_clause (validate_memory_text None) (\<lambda>r. Some (m_job_id r)) job_id) (\<lambda>p.
     bindE (optional_clause validate_memory_id m_event_id event_id) (\<lambda>q.
     bindE (optional_clause (validate_memory_text (Some 512)) (\<lambda>r. Some (m_projmem_record_id r))
              projmem_record_id) (\<lambda>s.
     mapE memory_to_record
       (sort_key (\<lambda>r. (m_created_at r, m_id r)) (filter (\<lambda>r. p r \<and> q r \<and> s r) (memory_refs d))))))"

subsection \<open>Invariant\<close>

definition memory_ok :: "memory_row \<Rightarrow> bool" where
  "memory_ok r \<longleftrightarrow> memory_to_record r = Inr r"

definition provenance_ok :: "db \<Rightarrow> memory_create \<Rightarrow> bool" where
  "provenance_ok d c \<longleftrightarrow>
     (\<exists>j\<in>set (jobs d). j_id j = mc_job_id c) \<and>
     (case mc_event_id c of
        None \<Rightarrow> True
      | Some i \<Rightarrow> \<exists>e\<in>set (events d). e_id e = i \<and> e_job_id e = mc_job_id c)"

definition memory_wf :: "db \<Rightarrow> bool" where
  "memory_wf d \<longleftrightarrow>
     (\<forall>r\<in>set (memory_refs d). memory_ok r \<and> provenance_ok d (memory_row_create r)) \<and>
     distinct (map m_id (memory_refs d)) \<and> distinct (map memory_row_create (memory_refs d))"

lemma validate_memory_text_iff:
  "validate_memory_text m s = Inr x \<longleftrightarrow>
     plain_text s \<and> (\<forall>n. m = Some n \<longrightarrow> utf8_len s \<le> n) \<and> x = s"
  by (auto simp: validate_memory_text_def split: option.splits)

lemma validate_memory_id_iff:
  "validate_memory_id i = Inr x \<longleftrightarrow> 0 < i \<and> i \<le> maximum_integer \<and> x = i"
  by (auto simp: validate_memory_id_def)

lemma validate_reference_iff:
  "validate_reference c = Inr u \<longleftrightarrow>
     plain_text (mc_projmem_record_id c) \<and> utf8_len (mc_projmem_record_id c) \<le> 512 \<and>
     plain_text (mc_job_id c) \<and> (\<forall>i. mc_event_id c = Some i \<longrightarrow> 0 < i \<and> i \<le> maximum_integer)"
  by (auto simp: validate_reference_def bindE_eq_Inr validate_memory_text_iff
      validate_memory_id_iff split: option.splits)

lemma validate_reference_Inl: "validate_reference c = Inl e \<Longrightarrow> e = MemoryReferenceValidationError"
  by (auto simp: validate_reference_def bindE_eq_Inl validate_memory_text_def
      validate_memory_id_def split: if_splits option.splits)

lemma memory_ok_iff:
  "memory_ok r \<longleftrightarrow> validate_reference (memory_row_create r) = Inr () \<and> 0 < m_id r \<and>
     m_id r \<le> maximum_integer \<and> valid_instant (m_created_at r)"
  by (auto simp: memory_ok_def memory_to_record_def bindE_eq_Inr validate_memory_id_iff
      validate_memory_timestamp_def split: if_splits)

lemma memory_to_record_ok [simp]: "memory_ok r \<Longrightarrow> memory_to_record r = Inr r"
  by (simp add: memory_ok_def)

lemma memory_to_record_Inr: "memory_to_record r = Inr x \<Longrightarrow> x = r \<and> memory_ok r"
  by (auto simp: memory_ok_def memory_to_record_def bindE_eq_Inr)

lemma memory_ok_check: "memory_ok r \<Longrightarrow> memory_check r"
  by (auto simp: memory_ok_iff memory_check_def validate_reference_iff memory_row_create_def
      sql_plain_bounded_def plain_text_sql_plain opt_check_def split: option.splits)

lemma new_memory_row_create [simp]: "memory_row_create (new_memory_row now c i) = c"
  by (simp add: memory_row_create_def new_memory_row_def)

lemma new_memory_row_simps [simp]:
  "m_id (new_memory_row now c i) = i" "m_projmem_record_id (new_memory_row now c i) = mc_projmem_record_id c"
  "m_job_id (new_memory_row now c i) = mc_job_id c" "m_event_id (new_memory_row now c i) = mc_event_id c"
  "m_created_at (new_memory_row now c i) = now"
  by (simp_all add: new_memory_row_def)

lemma select_exact_Some: "select_exact d c = Some r \<Longrightarrow> r \<in> set (memory_refs d) \<and> memory_row_create r = c"
  by (auto simp: select_exact_def dest: Prelude.find_Some_iff)

lemma select_exact_None: "select_exact d c = None \<longleftrightarrow> (\<forall>r\<in>set (memory_refs d). memory_row_create r \<noteq> c)"
  by (simp add: select_exact_def find_None_iff2)

lemma memory_create_eq:
  "(c = (c' :: memory_create)) = (mc_projmem_record_id c = mc_projmem_record_id c' \<and> mc_job_id c = mc_job_id c' \<and>
     mc_event_id c = mc_event_id c')"
  by (cases c; cases c') simp

subsection \<open>Linking\<close>

lemma insert_memory_new:
  assumes ok: "memory_ok (new_memory_row now c i)" and i: "i \<notin> set (map m_id (memory_refs d))"
    and f: "select_exact d c = None"
  shows "insert_memory d (new_memory_row now c i) =
    (if provenance_ok d c then Inr (d\<lparr>memory_refs := memory_refs d @ [new_memory_row now c i]\<rparr>)
     else Inl (IntegrityError ForeignKeyViolation))"
proof -
  have u: "\<not> (\<exists>q\<in>set (memory_refs d). m_projmem_record_id q = mc_projmem_record_id c \<and>
      m_job_id q = mc_job_id c \<and> m_event_id q = mc_event_id c)"
    using f by (auto simp: select_exact_None memory_row_create_def memory_create_eq)
  show ?thesis
    using memory_ok_check [OF ok] i u
    by (auto simp: insert_memory_def provenance_ok_def split: option.splits)
qed

lemma memory_link_cases:
  assumes wf: "memory_wf d" and now: "valid_instant now"
    and room: "next_rowid (map m_id (memory_refs d)) \<le> maximum_integer"
  shows "memory_link c now d =
    (case validate_reference c of
       Inl e \<Rightarrow> (Inl MemoryReferenceValidationError, d)
     | Inr u \<Rightarrow>
       (case select_exact d c of
          Some stored \<Rightarrow> (Inr stored, d)
        | None \<Rightarrow>
            let row = new_memory_row now c (next_rowid (map m_id (memory_refs d))) in
            if provenance_ok d c then (Inr row, d\<lparr>memory_refs := memory_refs d @ [row]\<rparr>)
            else (Inl MemoryReferenceValidationError, d)))"
proof (cases "validate_reference c")
  case (Inl e)
  then show ?thesis using validate_reference_Inl [OF Inl] by (simp add: memory_link_def)
next
  case (Inr u)
  show ?thesis
  proof (cases "select_exact d c")
    case (Some r)
    then have "memory_ok r" using select_exact_Some [OF Some] wf by (simp add: memory_wf_def)
    then show ?thesis using Inr Some by (simp add: memory_link_def write_connection_ok)
  next
    case None
    let ?i = "next_rowid (map m_id (memory_refs d))"
    let ?r = "new_memory_row now c ?i"
    have ok: "memory_ok ?r" using Inr now room next_rowid_pos by (simp add: memory_ok_iff)
    have i: "?i \<notin> set (map m_id (memory_refs d))" by (rule next_rowid_notin)
    have "select_memory (d\<lparr>memory_refs := memory_refs d @ [?r]\<rparr>) ?i = Some ?r"
      using i by (simp add: select_memory_def find_fresh)
    then show ?thesis
      using Inr None insert_memory_new [OF ok i None] ok
      by (cases "provenance_ok d c")
        (simp_all add: memory_link_def Let_def write_connection_def connection_def
          memory_integrity_def is_integrity_error_def on_integrity_def)
  qed
qed

lemma memory_link_rollback: "memory_link c now d = (Inl e, d') \<Longrightarrow> d' = d"
  unfolding memory_link_def by (rule tx_rollback)

lemma memory_link_Inr:
  assumes link: "memory_link c now d = (Inr r, d')"
  shows "validate_reference c = Inr () \<and> memory_row_create r = c \<and> memory_ok r \<and>
    (d' = d \<and> select_exact d c = Some r \<or>
     select_exact d c = None \<and> provenance_ok d c \<and>
     r = new_memory_row now c (next_rowid (map m_id (memory_refs d))) \<and>
     d' = d\<lparr>memory_refs := memory_refs d @ [r]\<rparr>)"
proof (cases "select_exact d c")
  case (Some x)
  then show ?thesis using link select_exact_Some [OF Some]
    by (auto simp: memory_link_def tx_Inr bindE_eq_Inr dest!: memory_to_record_Inr)
next
  case None
  let ?i = "next_rowid (map m_id (memory_refs d))"
  let ?r = "new_memory_row now c ?i"
  have i: "?i \<notin> set (map m_id (memory_refs d))" by (rule next_rowid_notin)
  obtain d1 row where v: "validate_reference c = Inr ()" and ins: "insert_memory d ?r = Inr d1"
    and row: "select_memory d1 ?i = Some row" "memory_to_record row = Inr r" "d' = d1"
    using link None by (auto simp: memory_link_def tx_Inr bindE_eq_Inr Let_def split: option.splits)
  have d1: "d1 = d\<lparr>memory_refs := memory_refs d @ [?r]\<rparr>" and p: "provenance_ok d c"
    using ins by (auto simp: insert_memory_def provenance_ok_def split: if_splits option.splits)
  have "select_memory d1 ?i = Some ?r" using i d1 by (simp add: select_memory_def find_fresh)
  then show ?thesis using v None p d1 row memory_to_record_Inr [OF row(2)] by auto
qed

lemma memory_link_wf:
  assumes wf: "memory_wf d" and link: "memory_link c now d = (Inr r, d')"
  shows "memory_wf d'"
proof -
  note f = memory_link_Inr [OF link]
  consider "d' = d" | "select_exact d c = None" "provenance_ok d c"
      "r = new_memory_row now c (next_rowid (map m_id (memory_refs d)))"
      "d' = d\<lparr>memory_refs := memory_refs d @ [r]\<rparr>"
    using f by (elim conjE disjE) simp_all
  then show ?thesis
  proof cases
    case 2
    have "memory_ok r" using f by (elim conjE)
    moreover have "m_id r \<notin> set (map m_id (memory_refs d))" using 2(3) next_rowid_notin [of "map m_id (memory_refs d)"] by simp
    ultimately show ?thesis using wf 2
      by (auto simp: memory_wf_def provenance_ok_def select_exact_None cong: option.case_cong)
  qed (simp add: wf)
qed

lemma memory_link_retry:
  assumes link: "memory_link c now d = (Inr r, d')"
  shows "memory_link c now' d' = (Inr r, d')"
proof -
  note f = memory_link_Inr [OF link]
  have "select_exact d' c = Some r"
    using f by (auto simp: select_exact_def find_append)
  then show ?thesis using f by (simp add: memory_link_def tx_Inr write_connection_ok)
qed

interpretation memory_linking: idempotent_operation "memory_link c" memory_wf for c
proof
  fix t s e s' assume "memory_link c t s = (Inl e, s')"
  then show "s' = s" by (rule memory_link_rollback)
next
  fix s t x s' assume "memory_wf s" "memory_link c t s = (Inr x, s')"
  then show "memory_wf s'" by (rule memory_link_wf)
next
  fix s t x s' t' assume "memory_wf s" "memory_link c t s = (Inr x, s')"
  then show "memory_link c t' s' = (Inr x, s')" by (intro memory_link_retry)
qed

lemma memory_list_wf:
  assumes wf: "memory_wf d" and j: "plain_text job"
  shows "memory_list (Some job) None None d = Inr (sort_key (\<lambda>r. (m_created_at r, m_id r))
    (filter (\<lambda>r. m_job_id r = job) (memory_refs d)))"
proof -
  have "mapE memory_to_record (sort_key (\<lambda>r. (m_created_at r, m_id r)) (filter (\<lambda>r. m_job_id r = job) (memory_refs d)))
      = Inr (sort_key (\<lambda>r. (m_created_at r, m_id r)) (filter (\<lambda>r. m_job_id r = job) (memory_refs d)))"
    using wf by (intro mapE_Inr_id memory_to_record_ok) (simp add: memory_wf_def)
  then show ?thesis
    using j by (simp add: memory_list_def optional_clause_def validate_memory_text_iff [THEN iffD2])
qed

subsection \<open>Properties\<close>

definition sample_link :: memory_create where
  "sample_link = \<lparr>mc_projmem_record_id = ''rec-7'', mc_job_id = ''job-1'', mc_event_id = Some 1\<rparr>"

lemma sample_memory_wf [simp]: "memory_wf (sample_db st)"
  by (simp add: memory_wf_def)

text \<open>
  Every outcome of \<open>MemoryReferenceRepository.link\<close> on a consistent store: a link that exists is
  returned unchanged, a link whose job does not exist or whose event is not an event of that job is
  refused, and any other is stored under a fresh row id.
\<close>

theorem memory_link_outcome:
  assumes "memory_wf d" and "valid_instant now"
    and "next_rowid (map m_id (memory_refs d)) \<le> maximum_integer"
  shows "memory_link c now d =
    (case validate_reference c of
       Inl e \<Rightarrow> (Inl MemoryReferenceValidationError, d)
     | Inr u \<Rightarrow>
       (case select_exact d c of
          Some stored \<Rightarrow> (Inr stored, d)
        | None \<Rightarrow>
            let row = new_memory_row now c (next_rowid (map m_id (memory_refs d))) in
            if provenance_ok d c then (Inr row, d\<lparr>memory_refs := memory_refs d @ [row]\<rparr>)
            else (Inl MemoryReferenceValidationError, d)))"
  using assms by (rule memory_link_cases)

theorem memory_link_outcome_witness:
  "memory_link (sample_link\<lparr>mc_event_id := Some 2\<rparr>) 60 (sample_db Running) =
     (Inl MemoryReferenceValidationError, sample_db Running)"
proof -
  let ?c = "sample_link\<lparr>mc_event_id := Some 2\<rparr>"
  have "valid_instant 60" "next_rowid (map m_id (memory_refs (sample_db Running))) \<le> maximum_integer"
    by code_simp+
  note eq = memory_link_outcome [OF sample_memory_wf this, of ?c]
  have "validate_reference ?c = Inr ()" by code_simp
  moreover have "select_exact (sample_db Running) ?c = None" by (simp add: select_exact_def)
  moreover have "\<not> provenance_ok (sample_db Running) ?c" by code_simp
  ultimately show ?thesis unfolding eq by (simp add: Let_def)
qed

text \<open>
  A memory link is stored once however often it is delivered, it is then listed for its job,
  exactly once, and no link that was there is changed or removed.
\<close>

theorem memory_link_once:
  assumes wf: "memory_wf d" and link: "memory_link c now d = (Inr r, d')"
  shows "deliver (memory_link c) (now # later) d = (replicate (Suc (length later)) (Inr r), d') \<and>
    memory_wf d' \<and> (\<exists>new. memory_refs d' = memory_refs d @ new) \<and>
    (\<exists>rs. memory_list (Some (mc_job_id c)) None None d' = Inr rs \<and>
       length (filter (\<lambda>q. memory_row_create q = c) rs) = 1)"
proof -
  note f = memory_link_Inr [OF link] and wf' = memory_link_wf [OF wf link]
  have j: "plain_text (mc_job_id c)" using f by (simp add: validate_reference_iff)
  have r: "r \<in> set (memory_refs d')" "memory_row_create r = c" using f by (auto dest: select_exact_Some)
  let ?job = "\<lambda>q. m_job_id q = mc_job_id c"
  let ?rs = "sort_key (\<lambda>q. (m_created_at q, m_id q)) (filter ?job (memory_refs d'))"
  have "?job q" if "memory_row_create q = c" for q
    using that by (auto simp: memory_row_create_def)
  then have "filter (\<lambda>q. memory_row_create q = c) (filter ?job (memory_refs d'))
      = filter (\<lambda>q. memory_row_create q = memory_row_create r) (memory_refs d')"
    using r by (auto intro: filter_cong)
  moreover have "length (filter (\<lambda>q. memory_row_create q = memory_row_create r) (memory_refs d')) = 1"
    using count_where_key [of memory_row_create "memory_refs d'" r] wf' r
    by (simp add: memory_wf_def count_where_def)
  moreover have "length (filter (\<lambda>q. memory_row_create q = c) ?rs)
      = length (filter (\<lambda>q. memory_row_create q = c) (filter ?job (memory_refs d')))"
    by (simp only: filter_sort length_sort)
  ultimately have "length (filter (\<lambda>q. memory_row_create q = c) ?rs) = 1" by simp
  moreover have "\<exists>new. memory_refs d' = memory_refs d @ new" using f by auto
  ultimately show ?thesis
    using memory_linking.deliver_once [OF wf link] wf' memory_list_wf [OF wf' j] by blast
qed

theorem memory_link_once_witness:
  "\<exists>r d' rs. deliver (memory_link sample_link) [60, 70, 80] (sample_db Running) = ([Inr r, Inr r, Inr r], d') \<and>
     memory_list (Some ''job-1'') None None d' = Inr rs \<and> length (filter (\<lambda>q. memory_row_create q = sample_link) rs) = 1"
proof -
  let ?t = "memory_link sample_link 60 (sample_db Running)"
  have "case fst ?t of Inr r \<Rightarrow> True | Inl x \<Rightarrow> False" by code_simp
  then obtain r where r: "?t = (Inr r, snd ?t)" by (cases "fst ?t") (auto simp: prod_eq_iff)
  have "mc_job_id sample_link = ''job-1''" by (simp add: sample_link_def)
  then show ?thesis
    using memory_link_once [OF sample_memory_wf r, of "[70, 80]"] by (auto simp: numeral_eq_Suc)
qed

end
