(* ===== verification/Evidence.thy ===== *)
theory Evidence
  imports Approvals
begin

text \<open>
  \<open>VerificationCreate\<close> (engine.py) and \<open>VerificationRepository\<close> (db.py): the immutable evidence of a
  verification command, without its output. The invariant \<open>evidence_wf\<close> says that every row is
  valid (so its outcome agrees with its exit code) and belongs to a stored job.
\<close>

record verification_create =
  vc_job_id :: string
  vc_command_args :: "string list"
  vc_outcome :: verification_outcome
  vc_exit_code :: "int option"
  vc_duration_ms :: int
  vc_output_digest :: string
  vc_stdout_bytes :: int
  vc_stderr_bytes :: int

definition maximum_evidence_integer :: int where
  "maximum_evidence_integer = 9223372036854775807"

subsection \<open>Validation\<close>

definition validate_evidence_text :: "string \<Rightarrow> exn + string" where
  "validate_evidence_text s = (if \<not> plain_text s then Inl VerificationValidationError else Inr s)"

definition validate_evidence_integer :: "bool \<Rightarrow> bool \<Rightarrow> int \<Rightarrow> exn + int" where
  "validate_evidence_integer positive nonnegative i =
     (let minimum = if nonnegative then 0 else if positive then 1 else - maximum_evidence_integer in
      if i < minimum \<or> i > maximum_evidence_integer then Inl VerificationValidationError else Inr i)"

text \<open>The stored text of the arguments: \<^verbatim>\<open>json.dumps(value, ensure_ascii=False, separators=(",", ":"))\<close>.\<close>

definition arguments_text :: "string list \<Rightarrow> string" where
  "arguments_text args = render (JList (map JStr args))"

definition serialize_arguments :: "string list \<Rightarrow> exn + string" where
  "serialize_arguments args =
     (if args = [] then Inl VerificationValidationError
      else if length args > 256 then Inl VerificationValidationError
      else if (\<exists>a\<in>set args. NUL \<in> set a) \<or> hd args = [] then Inl VerificationValidationError
      else let serialized = arguments_text args in
        if utf8_len serialized > 65536 then Inl VerificationValidationError
        else Inr serialized)"

definition outcome_consistent :: "verification_outcome \<Rightarrow> int option \<Rightarrow> bool" where
  "outcome_consistent outcome exit_code \<longleftrightarrow>
     \<not> (outcome = Passed \<and> exit_code \<noteq> Some 0 \<or>
        outcome = FailedRun \<and> (exit_code = None \<or> exit_code = Some 0) \<or>
        outcome = TimedOut \<and> exit_code \<noteq> None)"

definition validate_evidence :: "verification_create \<Rightarrow> exn + string" where
  "validate_evidence e =
     bindE (validate_evidence_text (vc_job_id e)) (\<lambda>_.
     bindE (serialize_arguments (vc_command_args e)) (\<lambda>command_args.
     bindE (case vc_exit_code e of None \<Rightarrow> Inr 0
            | Some i \<Rightarrow> validate_evidence_integer False False i) (\<lambda>_.
     bindE (ensure (outcome_consistent (vc_outcome e) (vc_exit_code e)) VerificationValidationError) (\<lambda>_.
     bindE (validate_evidence_integer False True (vc_duration_ms e)) (\<lambda>_.
     bindE (validate_evidence_integer False True (vc_stdout_bytes e)) (\<lambda>_.
     bindE (validate_evidence_integer False True (vc_stderr_bytes e)) (\<lambda>_.
     bindE (ensure (hex64 (vc_output_digest e)) VerificationValidationError) (\<lambda>_.
     Inr command_args))))))))"

subsection \<open>Records\<close>

text \<open>\<open>VerificationRecord\<close>: the row with its arguments parsed.\<close>

record verification_record =
  vr_id :: int
  vr_job_id :: string
  vr_command_args :: "string list"
  vr_outcome :: verification_outcome
  vr_exit_code :: "int option"
  vr_duration_ms :: int
  vr_output_digest :: string
  vr_stdout_bytes :: int
  vr_stderr_bytes :: int
  vr_created_at :: micros

definition evidence_row_create :: "verification_row \<Rightarrow> string list \<Rightarrow> verification_create" where
  "evidence_row_create r args = \<lparr>vc_job_id = v_job_id r, vc_command_args = args,
     vc_outcome = v_outcome r, vc_exit_code = v_exit_code r, vc_duration_ms = v_duration_ms r,
     vc_output_digest = v_output_digest r, vc_stdout_bytes = v_stdout_bytes r,
     vc_stderr_bytes = v_stderr_bytes r\<rparr>"

text \<open>\<open>json.loads\<close>, the test for a list, and the test of its items that \<open>_serialize_arguments\<close> makes.\<close>

definition stored_arguments :: "string \<Rightarrow> exn + string list" where
  "stored_arguments text =
     (case loads text of
        Some (JList xs) \<Rightarrow> mapE (\<lambda>x. case x of JStr s \<Rightarrow> Inr s | _ \<Rightarrow> Inl VerificationValidationError) xs
      | _ \<Rightarrow> Inl ValueErr)"

definition evidence_as_record :: "verification_create \<Rightarrow> int \<Rightarrow> micros \<Rightarrow> verification_record" where
  "evidence_as_record e i created = \<lparr>vr_id = i, vr_job_id = vc_job_id e,
     vr_command_args = vc_command_args e, vr_outcome = vc_outcome e, vr_exit_code = vc_exit_code e,
     vr_duration_ms = vc_duration_ms e, vr_output_digest = vc_output_digest e,
     vr_stdout_bytes = vc_stdout_bytes e, vr_stderr_bytes = vc_stderr_bytes e, vr_created_at = created\<rparr>"

definition evidence_to_record :: "verification_row \<Rightarrow> exn + verification_record" where
  "evidence_to_record r =
     rethrow (\<lambda>e. isa e VerificationValidationError \<or> isa e ValueErr) VerificationRepositoryError
       (bindE (stored_arguments (v_command_args r)) (\<lambda>args.
        bindE (validate_evidence (evidence_row_create r args)) (\<lambda>_.
        bindE (validate_evidence_integer True False (v_id r)) (\<lambda>i.
        bindE (ensure (valid_instant (v_created_at r)) VerificationValidationError) (\<lambda>_.
        Inr (evidence_as_record (evidence_row_create r args) i (v_created_at r)))))))"

subsection \<open>Operations\<close>

definition select_evidence :: "db \<Rightarrow> int \<Rightarrow> verification_row option" where
  "select_evidence d i = List.find (\<lambda>r. v_id r = i) (verification_runs d)"

definition new_evidence_row ::
  "micros \<Rightarrow> verification_create \<Rightarrow> string \<Rightarrow> int \<Rightarrow> verification_row" where
  "new_evidence_row now e command_args i = \<lparr>v_id = i, v_job_id = vc_job_id e,
     v_command_args = command_args, v_outcome = vc_outcome e, v_exit_code = vc_exit_code e,
     v_duration_ms = vc_duration_ms e, v_output_digest = vc_output_digest e,
     v_stdout_bytes = vc_stdout_bytes e, v_stderr_bytes = vc_stderr_bytes e, v_created_at = now\<rparr>"

definition evidence_integrity :: "constraint_kind \<Rightarrow> exn" where
  "evidence_integrity k =
     (if k = ForeignKeyViolation then VerificationValidationError else VerificationRepositoryError)"

definition evidence_record ::
  "verification_create \<Rightarrow> micros \<Rightarrow> db \<Rightarrow> (exn + verification_record) \<times> db" where
  "evidence_record e now =
     validated (validate_evidence e) (\<lambda>args. write_connection VerificationRepositoryError (\<lambda>d.
       let i = next_rowid (map v_id (verification_runs d)) in
       on_integrity evidence_integrity
         (bindE (insert_verification d (new_evidence_row now e args i)) (\<lambda>d'.
          case select_evidence d' i of
            None \<Rightarrow> Inl VerificationRepositoryError
          | Some row \<Rightarrow> bindE (evidence_to_record row) (\<lambda>stored. Inr (stored, d'))))))"

definition evidence_get :: "int \<Rightarrow> db \<Rightarrow> exn + verification_record" where
  "evidence_get i d =
     bindE (validate_evidence_integer True False i) (\<lambda>i'.
       case select_evidence d i' of
         None \<Rightarrow> Inl VerificationNotFoundError
       | Some row \<Rightarrow> evidence_to_record row)"

definition evidence_list :: "string option \<Rightarrow> db \<Rightarrow> exn + verification_record list" where
  "evidence_list job d =
     bindE (case job of None \<Rightarrow> Inr (verification_runs d)
            | Some j \<Rightarrow> bindE (validate_evidence_text j) (\<lambda>j'.
                Inr (filter (\<lambda>r. v_job_id r = j') (verification_runs d)))) (\<lambda>rows.
     mapE evidence_to_record (sort_key (\<lambda>r. (v_created_at r, v_id r)) rows))"

subsection \<open>Invariant\<close>

definition evidence_ok :: "verification_row \<Rightarrow> bool" where
  "evidence_ok r \<longleftrightarrow> \<not> isl (evidence_to_record r)"

definition evidence_wf :: "db \<Rightarrow> bool" where
  "evidence_wf d \<longleftrightarrow>
     (\<forall>r\<in>set (verification_runs d). evidence_ok r \<and> (\<exists>j\<in>set (jobs d). j_id j = v_job_id r)) \<and>
     distinct (map v_id (verification_runs d))"

lemma evidence_ok_ex: "evidence_ok r \<longleftrightarrow> (\<exists>x. evidence_to_record r = Inr x)"
  by (cases "evidence_to_record r") (simp_all add: evidence_ok_def)

lemma validate_evidence_integer_iff:
  "validate_evidence_integer p n i = Inr x \<longleftrightarrow>
     x = i \<and> i \<le> maximum_evidence_integer \<and>
     (if n then 0 \<le> i else if p then 1 \<le> i else - maximum_evidence_integer \<le> i)"
  by (auto simp: validate_evidence_integer_def Let_def)

lemma serialize_arguments_iff:
  "serialize_arguments args = Inr x \<longleftrightarrow>
     x = arguments_text args \<and> args \<noteq> [] \<and> length args \<le> 256 \<and> (\<forall>a\<in>set args. NUL \<notin> set a) \<and> hd args \<noteq> [] \<and>
     utf8_len (arguments_text args) \<le> 65536"
  by (auto simp: serialize_arguments_def Let_def)

text \<open>The stored text gives the arguments back.\<close>

lemma loads_arguments: "loads (arguments_text args) = Some (JList (map JStr args))"
proof -
  have "exact_list (map JStr args)" by (induction args) auto
  then show ?thesis by (simp add: arguments_text_def loads_render del: render.simps)
qed

lemma stored_arguments_text [simp]: "stored_arguments (arguments_text args) = Inr args"
proof -
  have "mapE (\<lambda>x. case x of JStr s \<Rightarrow> Inr s | _ \<Rightarrow> Inl VerificationValidationError) (map JStr args) = Inr args"
    by (induction args) auto
  then show ?thesis by (simp add: stored_arguments_def loads_arguments)
qed

definition evidence_valid :: "verification_create \<Rightarrow> bool" where
  "evidence_valid e \<longleftrightarrow>
     plain_text (vc_job_id e) \<and> serialize_arguments (vc_command_args e) = Inr (arguments_text (vc_command_args e)) \<and>
     (\<forall>i. vc_exit_code e = Some i \<longrightarrow> \<bar>i\<bar> \<le> maximum_evidence_integer) \<and>
     outcome_consistent (vc_outcome e) (vc_exit_code e) \<and>
     (\<forall>i\<in>{vc_duration_ms e, vc_stdout_bytes e, vc_stderr_bytes e}. 0 \<le> i \<and> i \<le> maximum_evidence_integer) \<and>
     hex64 (vc_output_digest e)"

lemma validate_evidence_iff:
  "validate_evidence e = Inr x \<longleftrightarrow> x = arguments_text (vc_command_args e) \<and> evidence_valid e"
  by (cases "vc_exit_code e")
    (auto simp: validate_evidence_def evidence_valid_def bindE_eq_Inr validate_evidence_text_def
      validate_evidence_integer_iff serialize_arguments_iff abs_le_iff)

lemma validate_evidence_Inl: "validate_evidence e = Inl x \<Longrightarrow> x = VerificationValidationError"
  by (auto simp: validate_evidence_def bindE_eq_Inl validate_evidence_text_def serialize_arguments_def
      validate_evidence_integer_def Let_def split: if_splits option.splits)

lemma evidence_to_record_iff:
  "evidence_to_record r = Inr x \<longleftrightarrow>
     (\<exists>args. stored_arguments (v_command_args r) = Inr args \<and> evidence_valid (evidence_row_create r args) \<and>
        1 \<le> v_id r \<and> v_id r \<le> maximum_evidence_integer \<and> valid_instant (v_created_at r) \<and>
        x = evidence_as_record (evidence_row_create r args) (v_id r) (v_created_at r))"
  by (auto simp: evidence_to_record_def bindE_eq_Inr validate_evidence_integer_iff validate_evidence_iff)

lemma evidence_to_record_keeps:
  "evidence_to_record r = Inr x \<Longrightarrow> vr_id x = v_id r \<and> vr_job_id x = v_job_id r \<and> vr_created_at x = v_created_at r"
  by (auto simp: evidence_to_record_iff evidence_as_record_def evidence_row_create_def)

lemma outcome_consistent_check:
  "outcome_consistent oc ec \<longleftrightarrow>
     (oc = Passed \<and> ec = Some 0 \<or> oc = FailedRun \<and> ec \<noteq> None \<and> ec \<noteq> Some 0 \<or> oc = TimedOut \<and> ec = None)"
  by (cases oc) (auto simp: outcome_consistent_def)

lemma new_evidence_row_create [simp]:
  "evidence_row_create (new_evidence_row now e text i) (vc_command_args e) = e"
  by (simp add: evidence_row_create_def new_evidence_row_def)

lemma new_evidence_row_simps [simp]:
  "v_id (new_evidence_row now e args i) = i" "v_job_id (new_evidence_row now e args i) = vc_job_id e"
  "v_created_at (new_evidence_row now e args i) = now" "v_command_args (new_evidence_row now e args i) = args"
  by (simp_all add: new_evidence_row_def)

lemma new_evidence_check:
  "evidence_valid e \<Longrightarrow> 1 \<le> i \<Longrightarrow> verification_check (new_evidence_row now e (arguments_text (vc_command_args e)) i)"
  by (auto simp: evidence_valid_def verification_check_def new_evidence_row_def loads_arguments
      serialize_arguments_iff outcome_consistent_check)

lemma new_evidence_record:
  "evidence_to_record (new_evidence_row now e (arguments_text (vc_command_args e)) i) = Inr x \<longleftrightarrow>
     evidence_valid e \<and> 1 \<le> i \<and> i \<le> maximum_evidence_integer \<and> valid_instant now \<and> x = evidence_as_record e i now"
  by (auto simp: evidence_to_record_iff)

subsection \<open>Recording\<close>

lemma evidence_record_cases:
  assumes now: "valid_instant now"
    and room: "next_rowid (map v_id (verification_runs d)) \<le> maximum_evidence_integer"
  shows "evidence_record e now d =
    (if \<not> evidence_valid e \<or> (\<forall>j\<in>set (jobs d). j_id j \<noteq> vc_job_id e)
     then (Inl VerificationValidationError, d)
     else let i = next_rowid (map v_id (verification_runs d)) in
       (Inr (evidence_as_record e i now), d\<lparr>verification_runs := verification_runs d @
          [new_evidence_row now e (arguments_text (vc_command_args e)) i]\<rparr>))"
proof (cases "validate_evidence e")
  case (Inl x)
  then have "\<not> evidence_valid e" using validate_evidence_iff [of e "arguments_text (vc_command_args e)"] by auto
  then show ?thesis using Inl validate_evidence_Inl [OF Inl] by (simp add: evidence_record_def)
next
  case (Inr enc)
  let ?i = "next_rowid (map v_id (verification_runs d))"
  let ?r = "new_evidence_row now e (arguments_text (vc_command_args e)) ?i"
  have v: "evidence_valid e" "enc = arguments_text (vc_command_args e)" using Inr by (simp_all add: validate_evidence_iff)
  have i: "1 \<le> ?i" "?i \<notin> set (map v_id (verification_runs d))"
    using next_rowid_pos [of "map v_id (verification_runs d)"] next_rowid_notin [of "map v_id (verification_runs d)"]
    by auto
  have ok: "evidence_to_record ?r = Inr (evidence_as_record e ?i now)"
    using v(1) now room i(1) by (simp only: new_evidence_record)
  have fresh: "\<not> (\<exists>q\<in>set (verification_runs d). v_id q = v_id ?r)"
    using i(2) by (metis image_eqI new_evidence_row_simps(1) set_map)
  have ins: "insert_verification d ?r = (if \<forall>j\<in>set (jobs d). j_id j \<noteq> vc_job_id e
      then Inl (IntegrityError ForeignKeyViolation)
      else Inr (d\<lparr>verification_runs := verification_runs d @ [?r]\<rparr>))"
    using new_evidence_check [OF v(1) i(1), of now] fresh by (auto simp: insert_verification_def)
  have "select_evidence (d\<lparr>verification_runs := verification_runs d @ [?r]\<rparr>) ?i = Some ?r"
    using i(2) by (simp add: select_evidence_def find_fresh)
  then show ?thesis
    using Inr v ok ins
    by (cases "\<forall>j\<in>set (jobs d). j_id j \<noteq> vc_job_id e")
      (simp_all add: evidence_record_def Let_def write_connection_def connection_def
        evidence_integrity_def is_integrity_error_def on_integrity_def)
qed

lemma evidence_record_rollback: "evidence_record e now d = (Inl x, d') \<Longrightarrow> d' = d"
  unfolding evidence_record_def by (rule tx_rollback)

lemma evidence_record_Inr:
  assumes rec: "evidence_record e now d = (Inr r, d')"
  shows "\<exists>row. evidence_valid e \<and> evidence_to_record row = Inr r \<and> (\<exists>j\<in>set (jobs d). j_id j = vc_job_id e) \<and>
    row = new_evidence_row now e (arguments_text (vc_command_args e)) (next_rowid (map v_id (verification_runs d))) \<and>
    r = evidence_as_record e (next_rowid (map v_id (verification_runs d))) now \<and>
    d' = d\<lparr>verification_runs := verification_runs d @ [row]\<rparr>"
proof -
  let ?i = "next_rowid (map v_id (verification_runs d))"
  obtain enc d1 row where v: "validate_evidence e = Inr enc"
    and ins: "insert_verification d (new_evidence_row now e enc ?i) = Inr d1"
    and row: "select_evidence d1 ?i = Some row" "evidence_to_record row = Inr r" "d' = d1"
    using rec by (auto simp: evidence_record_def tx_Inr bindE_eq_Inr Let_def split: option.splits)
  let ?r = "new_evidence_row now e enc ?i"
  have enc: "enc = arguments_text (vc_command_args e)" "evidence_valid e"
    using v by (simp_all add: validate_evidence_iff)
  have d1: "d1 = d\<lparr>verification_runs := verification_runs d @ [?r]\<rparr>"
    and j: "\<exists>j\<in>set (jobs d). j_id j = vc_job_id e"
    using ins by (auto simp: insert_verification_def split: if_splits)
  have "row = ?r"
    using row(1) d1 next_rowid_notin [of "map v_id (verification_runs d)"]
    by (simp add: select_evidence_def find_fresh)
  then show ?thesis
    using row j d1 enc(2) new_evidence_record [THEN iffD1, OF row(2) [unfolded \<open>row = ?r\<close> enc(1)]]
    by (intro exI [of _ row]) (simp add: enc(1))
qed

lemma evidence_record_wf:
  assumes wf: "evidence_wf d" and rec: "evidence_record e now d = (Inr r, d')"
  shows "evidence_wf d'"
proof -
  obtain row where row: "evidence_to_record row = Inr r" "\<exists>j\<in>set (jobs d). j_id j = vc_job_id e"
      "row = new_evidence_row now e (arguments_text (vc_command_args e)) (next_rowid (map v_id (verification_runs d)))"
      "d' = d\<lparr>verification_runs := verification_runs d @ [row]\<rparr>"
    using evidence_record_Inr [OF rec] by blast
  have f: "evidence_to_record row = Inr r" "\<exists>j\<in>set (jobs d). j_id j = v_job_id row"
      "v_id row = next_rowid (map v_id (verification_runs d))" "d' = d\<lparr>verification_runs := verification_runs d @ [row]\<rparr>"
    using row(1,2,4) by (simp_all add: row(3))
  have "v_id row \<notin> set (map v_id (verification_runs d))"
    unfolding f(3) by (rule next_rowid_notin)
  then show ?thesis using wf f(1,2,4) by (auto simp: evidence_wf_def evidence_ok_ex)
qed

interpretation evidence_recording: atomic_operation "evidence_record e" evidence_wf for e
  by unfold_locales (auto intro: evidence_record_rollback evidence_record_wf)

text \<open>Any further recordings, successful or not.\<close>

definition evidence_recordings :: "(verification_create \<times> micros) list \<Rightarrow> db \<Rightarrow> db" where
  "evidence_recordings later d = fold (\<lambda>(e, now) s. snd (evidence_record e now s)) later d"

lemma evidence_recordings_keep:
  "evidence_wf d \<Longrightarrow> evidence_wf (evidence_recordings later d) \<and>
     set (verification_runs d) \<subseteq> set (verification_runs (evidence_recordings later d))"
proof (induction later arbitrary: d)
  case (Cons x later)
  obtain e now where x: "x = (e, now)" by (cases x)
  have "set (verification_runs d) \<subseteq> set (verification_runs (snd (evidence_record e now d)))"
  proof (cases "evidence_record e now d")
    case (Pair y s)
    then show ?thesis by (cases y) (auto dest: evidence_record_rollback evidence_record_Inr)
  qed
  then show ?case
    using Cons.IH [OF evidence_recording.inv_run [of d e now]] Cons.prems x by (auto simp: evidence_recordings_def)
qed (simp add: evidence_recordings_def)

subsection \<open>Reading\<close>

lemma evidence_get_row:
  assumes wf: "evidence_wf d" and r: "row \<in> set (verification_runs d)"
  shows "evidence_get (v_id row) d = evidence_to_record row"
proof -
  have "select_evidence d (v_id row) = Some row"
    using wf r find_unique [of v_id "verification_runs d" row] by (simp add: evidence_wf_def select_evidence_def)
  moreover have "validate_evidence_integer True False (v_id row) = Inr (v_id row)"
    using wf r by (auto simp: evidence_wf_def evidence_ok_ex evidence_to_record_iff validate_evidence_integer_iff)
  ultimately show ?thesis by (simp add: evidence_get_def)
qed

lemma evidence_get_Inr: "evidence_get i d = Inr x \<Longrightarrow> \<exists>row\<in>set (verification_runs d). v_id row = i \<and> evidence_to_record row = Inr x"
  by (auto simp: evidence_get_def bindE_eq_Inr validate_evidence_integer_iff select_evidence_def
      split: option.splits dest: Prelude.find_Some_iff)

lemma mapE_records:
  "(\<And>x. x \<in> set xs \<Longrightarrow> evidence_ok x) \<Longrightarrow>
   \<exists>ys. mapE evidence_to_record xs = Inr ys \<and> map vr_id ys = map v_id xs \<and>
     map (\<lambda>y. (vr_created_at y, vr_id y)) ys = map (\<lambda>x. (v_created_at x, v_id x)) xs \<and>
     set ys = {y. \<exists>x\<in>set xs. evidence_to_record x = Inr y}"
proof (induction xs)
  case (Cons x xs)
  obtain ys where ys: "mapE evidence_to_record xs = Inr ys" "map vr_id ys = map v_id xs"
      "map (\<lambda>y. (vr_created_at y, vr_id y)) ys = map (\<lambda>x. (v_created_at x, v_id x)) xs"
      "set ys = {y. \<exists>x\<in>set xs. evidence_to_record x = Inr y}" using Cons by auto
  obtain y where y: "evidence_to_record x = Inr y" using Cons.prems [of x] by (auto simp: evidence_ok_ex)
  show ?case
    using ys y evidence_to_record_keeps [OF y] by (intro exI [of _ "y # ys"]) auto
qed simp

lemma evidence_list_job:
  assumes wf: "evidence_wf d" and j: "plain_text j"
  shows "\<exists>rs. evidence_list (Some j) d = Inr rs \<and> sorted (map (\<lambda>r. (vr_created_at r, vr_id r)) rs) \<and>
    distinct (map vr_id rs) \<and> set rs = {r. vr_job_id r = j \<and> evidence_get (vr_id r) d = Inr r}"
proof -
  let ?rows = "sort_key (\<lambda>r. (v_created_at r, v_id r)) (filter (\<lambda>r. v_job_id r = j) (verification_runs d))"
  have ok: "evidence_ok x" if "x \<in> set ?rows" for x using wf that by (auto simp: evidence_wf_def)
  obtain rs where rs: "mapE evidence_to_record ?rows = Inr rs" "map vr_id rs = map v_id ?rows"
      "map (\<lambda>y. (vr_created_at y, vr_id y)) rs = map (\<lambda>x. (v_created_at x, v_id x)) ?rows"
      "set rs = {y. \<exists>x\<in>set ?rows. evidence_to_record x = Inr y}" using mapE_records [OF ok] by blast
  have "evidence_list (Some j) d = Inr rs" using rs(1) j by (simp add: evidence_list_def validate_evidence_text_def)
  moreover have "sorted (map (\<lambda>r. (vr_created_at r, vr_id r)) rs)" by (simp add: rs(3))
  moreover have "distinct (map vr_id rs)"
    unfolding rs(2) using wf by (auto simp: evidence_wf_def distinct_map inj_on_def)
  moreover have "set rs = {r. vr_job_id r = j \<and> evidence_get (vr_id r) d = Inr r}"
  proof (intro set_eqI iffI)
    fix r assume "r \<in> set rs"
    then obtain x where "x \<in> set (verification_runs d)" "v_job_id x = j" "evidence_to_record x = Inr r"
      by (auto simp: rs(4))
    then show "r \<in> {r. vr_job_id r = j \<and> evidence_get (vr_id r) d = Inr r}"
      using evidence_get_row [OF wf, of x] evidence_to_record_keeps [of x r] by simp
  next
    fix r assume "r \<in> {r. vr_job_id r = j \<and> evidence_get (vr_id r) d = Inr r}"
    then obtain x where "x \<in> set (verification_runs d)" "evidence_to_record x = Inr r" "vr_job_id r = j"
      using evidence_get_Inr by blast
    then show "r \<in> set rs" using evidence_to_record_keeps [of x r] by (auto simp: rs(4))
  qed
  ultimately show ?thesis by blast
qed

subsection \<open>Properties\<close>

definition sample_run :: verification_create where
  "sample_run = \<lparr>vc_job_id = ''job-1'', vc_command_args = [''pytest'', ''-q''], vc_outcome = FailedRun,
     vc_exit_code = Some 1, vc_duration_ms = 12, vc_output_digest = replicate 64 CHR ''a'',
     vc_stdout_bytes = 5, vc_stderr_bytes = 0\<rparr>"

lemma sample_evidence_wf [simp]: "evidence_wf (sample_db st)"
  by (simp add: evidence_wf_def)

text \<open>
  Every outcome of \<open>VerificationRepository.record\<close>: evidence whose outcome contradicts its exit
  code, whose digest, counts, arguments or job are invalid, is refused and nothing is stored; any
  other is appended under a fresh row id.
\<close>

theorem evidence_record_outcome:
  assumes "valid_instant now" and "next_rowid (map v_id (verification_runs d)) \<le> maximum_evidence_integer"
  shows "evidence_record e now d =
    (if \<not> evidence_valid e \<or> (\<forall>j\<in>set (jobs d). j_id j \<noteq> vc_job_id e)
     then (Inl VerificationValidationError, d)
     else let i = next_rowid (map v_id (verification_runs d)) in
       (Inr (evidence_as_record e i now), d\<lparr>verification_runs := verification_runs d @
          [new_evidence_row now e (arguments_text (vc_command_args e)) i]\<rparr>))"
  using assms by (rule evidence_record_cases)

theorem evidence_record_outcome_witness:
  "evidence_record (sample_run\<lparr>vc_exit_code := Some 0\<rparr>) 60 (sample_db Running) =
     (Inl VerificationValidationError, sample_db Running)"
proof -
  have "valid_instant 60"
    and "next_rowid (map v_id (verification_runs (sample_db Running))) \<le> maximum_evidence_integer"
    by code_simp+
  note eq = evidence_record_outcome [OF this, of "sample_run\<lparr>vc_exit_code := Some 0\<rparr>"]
  have "\<not> evidence_valid (sample_run\<lparr>vc_exit_code := Some 0\<rparr>)"
    by (simp add: evidence_valid_def sample_run_def outcome_consistent_def)
  then show ?thesis unfolding eq by simp
qed

text \<open>
  C15: recorded evidence, whose arguments are stored as JSON text, reads back exactly as it was given, with
  a passing outcome only for exit code 0, and still does after any further recordings, successful or not:
  by its id, and in the list of its job, which holds exactly the evidence recorded for the job, each once,
  in the order of recording times and ids.
\<close>

theorem evidence_roundtrip:
  assumes wf: "evidence_wf d" and rec: "evidence_record e now d = (Inr r, d')"
  shows "r = evidence_as_record e (vr_id r) now \<and> vr_id r \<notin> set (map v_id (verification_runs d)) \<and>
    (vr_outcome r = Passed \<longleftrightarrow> vr_exit_code r = Some 0) \<and>
    evidence_get (vr_id r) (evidence_recordings later d') = Inr r \<and>
    (\<exists>rs. evidence_list (Some (vc_job_id e)) (evidence_recordings later d') = Inr rs \<and> r \<in> set rs \<and>
       sorted (map (\<lambda>r. (vr_created_at r, vr_id r)) rs) \<and> distinct (map vr_id rs) \<and>
       set rs = {x. vr_job_id x = vc_job_id e \<and> evidence_get (vr_id x) (evidence_recordings later d') = Inr x})"
proof -
  let ?s = "evidence_recordings later d'"
  obtain row where f: "evidence_valid e" "evidence_to_record row = Inr r" "row \<in> set (verification_runs d')"
      "r = evidence_as_record e (next_rowid (map v_id (verification_runs d))) now"
    using evidence_record_Inr [OF rec] by auto
  have s: "evidence_wf ?s" "row \<in> set (verification_runs ?s)"
    using evidence_recordings_keep [OF evidence_record_wf [OF wf rec], of later] f(3) by auto
  have id: "vr_id r = next_rowid (map v_id (verification_runs d))" "vr_job_id r = vc_job_id e"
    "vr_outcome r = vc_outcome e" "vr_exit_code r = vc_exit_code e" by (simp_all add: f(4) evidence_as_record_def)
  have get: "evidence_get (vr_id r) ?s = Inr r"
    using evidence_get_row [OF s] f(2) evidence_to_record_keeps [OF f(2)] by simp
  obtain rs where rs: "evidence_list (Some (vc_job_id e)) ?s = Inr rs"
      "sorted (map (\<lambda>r. (vr_created_at r, vr_id r)) rs)" "distinct (map vr_id rs)"
      "set rs = {x. vr_job_id x = vc_job_id e \<and> evidence_get (vr_id x) ?s = Inr x}"
    using evidence_list_job [OF s(1), of "vc_job_id e"] f(1) by (auto simp: evidence_valid_def)
  have "r \<in> set rs" using get id(2) by (simp add: rs(4))
  moreover have "vr_outcome r = Passed \<longleftrightarrow> vr_exit_code r = Some 0"
    using f(1) by (auto simp: id(3,4) evidence_valid_def outcome_consistent_check)
  ultimately show ?thesis
    using get rs f(4) id(1) next_rowid_notin [of "map v_id (verification_runs d)"] by auto
qed

theorem evidence_roundtrip_witness:
  "\<exists>r d'. evidence_record sample_run 60 (sample_db Running) = (Inr r, d') \<and>
     evidence_get (vr_id r) (evidence_recordings [(sample_run, 70)] d') = Inr r \<and>
     (\<exists>rs. evidence_list (Some ''job-1'') (evidence_recordings [(sample_run, 70)] d') = Inr rs \<and> r \<in> set rs)"
proof -
  let ?t = "evidence_record sample_run 60 (sample_db Running)"
  have "case fst ?t of Inr r \<Rightarrow> True | Inl x \<Rightarrow> False" by code_simp
  then obtain r where r: "?t = (Inr r, snd ?t)" by (cases "fst ?t") (auto simp: prod_eq_iff)
  have job: "vc_job_id sample_run = ''job-1''" by (simp add: sample_run_def)
  show ?thesis
    using evidence_roundtrip [OF sample_evidence_wf r, of "[(sample_run, 70)]"] r
    unfolding job by auto
qed

end
