(* ===== verification/Numbers.thy ===== *)
theory Numbers
  imports Json
begin

text \<open>
  The floats the configuration carries. A double is its shortest decimal text (\<open>repr\<close>), as in
  \<open>Json\<close>; \<open>decimal\<close> is the number that text spells, as mantissa and power of ten. Rounding is
  monotone, so two doubles compare as the numbers their texts spell. \<open>float_of_int\<close> is
  \<open>float(n)\<close>: rounding to 53 bits with ties to even, with \<open>None\<close> for its \<open>OverflowError\<close>.
\<close>

fun digits_value :: "int \<Rightarrow> string \<Rightarrow> int" where
  "digits_value acc [] = acc"
| "digits_value acc (c # cs) = digits_value (10 * acc + (int (of_char c) - 48)) cs"

definition signed_value :: "string \<Rightarrow> int" where
  "signed_value t =
     (case t of
        [] \<Rightarrow> 0
      | c # cs \<Rightarrow> if c = CHR ''-'' then - digits_value 0 cs
                  else if c = CHR ''+'' then digits_value 0 cs else digits_value 0 t)"

definition before :: "char \<Rightarrow> string \<Rightarrow> string" where
  "before c t = takeWhile (\<lambda>x. x \<noteq> c) t"

definition after :: "char \<Rightarrow> string \<Rightarrow> string" where
  "after c t = tl (dropWhile (\<lambda>x. x \<noteq> c) t)"

definition decimal :: "string \<Rightarrow> int \<times> int" where
  "decimal t =
     (let m = before CHR ''e'' t; whole = before CHR ''.'' m; frac = after CHR ''.'' m in
      (signed_value (whole @ frac), signed_value (after CHR ''e'' t) - int (length frac)))"

definition decimal_less :: "int \<times> int \<Rightarrow> int \<times> int \<Rightarrow> bool" where
  "decimal_less x y =
     (let e = min (snd x) (snd y) in
      fst x * 10 ^ nat (snd x - e) < fst y * 10 ^ nat (snd y - e))"

definition float_less :: "string \<Rightarrow> string \<Rightarrow> bool" where
  "float_less s t = decimal_less (decimal s) (decimal t)"

definition float_positive :: "string \<Rightarrow> bool" where
  "float_positive t \<longleftrightarrow> 0 < fst (decimal t)"

subsection \<open>\<open>float(n)\<close>\<close>

function bit_size :: "int \<Rightarrow> nat" where
  "bit_size n = (if n \<le> 0 then 0 else Suc (bit_size (n div 2)))"
  by auto
termination by (relation "measure nat") auto

declare bit_size.simps [simp del]

definition round_even :: "int \<Rightarrow> int \<Rightarrow> int" where
  "round_even n unit =
     (let q = n div unit; r = n mod unit in
      if 2 * r > unit \<or> 2 * r = unit \<and> odd q then (q + 1) * unit else q * unit)"

definition round_double :: "int \<Rightarrow> int" where
  "round_double n = (if bit_size n \<le> 53 then n else round_even n (2 ^ (bit_size n - 53)))"

definition shortest_digits :: "int \<Rightarrow> int" where
  "shortest_digits d =
     (let n = length (nat_text d) in
      case List.find (\<lambda>c. round_double c = d) (map (\<lambda>k. round_even d (10 ^ (n - k))) [1..<18]) of
        None \<Rightarrow> d
      | Some c \<Rightarrow> c)"

definition strip_zeros :: "string \<Rightarrow> string" where
  "strip_zeros t = rev (dropWhile ((=) CHR ''0'') (rev t))"

definition integral_repr :: "int \<Rightarrow> string" where
  "integral_repr c =
     (let t = nat_text c; n = length t in
      if n \<le> 16 then t @ ''.0''
      else let ds = strip_zeros t; e = nat_text (int n - 1) in
        (case tl ds of [] \<Rightarrow> [hd ds] | r # rs \<Rightarrow> hd ds # CHR ''.'' # r # rs) @ ''e+'' @ e)"

definition float_of_int :: "int \<Rightarrow> string option" where
  "float_of_int n =
     (let d = round_double \<bar>n\<bar> in
      if bit_size d > 1024 then None
      else if n = 0 then Some ''0.0''
      else Some ((if n < 0 then ''-'' else []) @ integral_repr (shortest_digits d)))"

lemma float_of_int_small: "float_of_int 5 = Some ''5.0''" "float_of_int (10 ^ 16) = Some ''1e+16''"
  by code_simp+

subsection \<open>A positive integer is a positive float\<close>

definition digit_char :: "char \<Rightarrow> bool" where
  "digit_char c \<longleftrightarrow> 48 \<le> int (of_char c) \<and> int (of_char c) \<le> 57"

lemma digits_value_ge: "list_all digit_char cs \<Longrightarrow> 0 \<le> acc \<Longrightarrow> acc \<le> digits_value acc cs"
proof (induction cs arbitrary: acc)
  case (Cons c cs)
  have "acc \<le> 10 * acc + (int (of_char c) - 48)" using Cons.prems by (simp add: digit_char_def)
  also have "\<dots> \<le> digits_value \<dots> cs"
    using Cons.prems by (intro Cons.IH) (auto simp: digit_char_def)
  finally show ?case by simp
qed simp

lemma digits_value_pos: "list_all digit_char (c # cs) \<Longrightarrow> c \<noteq> CHR ''0'' \<Longrightarrow> 0 < digits_value 0 (c # cs)"
proof -
  assume d: "list_all digit_char (c # cs)" and c: "c \<noteq> CHR ''0''"
  have "(of_char c :: nat) \<noteq> of_char CHR ''0''" using c by (simp only: of_char_eq_iff not_False_eq_True)
  then have "1 \<le> int (of_char c) - 48" using d by (simp add: digit_char_def)
  then show ?thesis using digits_value_ge [of cs "int (of_char c) - 48"] d by simp
qed

lemma digit_nth: "0 \<le> d \<Longrightarrow> d < 10 \<Longrightarrow> digit_char (''0123456789'' ! nat d)"
proof -
  assume "0 \<le> d" "d < 10"
  then have "d = 0 \<or> d = 1 \<or> d = 2 \<or> d = 3 \<or> d = 4 \<or> d = 5 \<or> d = 6 \<or> d = 7 \<or> d = 8 \<or> d = 9" by presburger
  then show ?thesis by (auto simp: digit_char_def)
qed

lemma digit_nth_nonzero: "0 < d \<Longrightarrow> d < 10 \<Longrightarrow> ''0123456789'' ! nat d \<noteq> CHR ''0''"
proof -
  assume "0 < d" "d < 10"
  then have "d = 1 \<or> d = 2 \<or> d = 3 \<or> d = 4 \<or> d = 5 \<or> d = 6 \<or> d = 7 \<or> d = 8 \<or> d = 9" by presburger
  then show ?thesis by auto
qed

lemma nat_text_digits:
  "0 < n \<Longrightarrow> nat_text n \<noteq> [] \<and> list_all digit_char (nat_text n) \<and> hd (nat_text n) \<noteq> CHR ''0''"
proof (induction n rule: nat_text.induct)
  case (1 n)
  show ?case
  proof (cases "n < 10")
    case True
    then have "nat_text n = [''0123456789'' ! nat n]" by (simp add: nat_text.simps [of n])
    then show ?thesis using 1 True digit_nth [of n] digit_nth_nonzero [of n] by simp
  next
    case False
    then have p: "0 < n div 10" by simp
    have "nat_text n = nat_text (n div 10) @ [''0123456789'' ! nat (n mod 10)]"
      using False by (simp add: nat_text.simps [of n])
    moreover have "digit_char (''0123456789'' ! nat (n mod 10))" by (intro digit_nth) simp_all
    ultimately show ?thesis using "1.IH" [OF False p] by (simp add: hd_append)
  qed
qed

lemma bit_size_pos: "bit_size n = 0 \<longleftrightarrow> n \<le> 0"
  by (subst bit_size.simps) simp

lemma bit_size_bound: "0 < n \<Longrightarrow> 2 ^ (bit_size n - 1) \<le> n"
proof (induction n rule: bit_size.induct)
  case (1 n)
  show ?case
  proof (cases "n = 1")
    case True
    then show ?thesis by (simp add: bit_size.simps)
  next
    case False
    then have p: "0 < n div 2" using 1 by simp
    then have "2 ^ (bit_size (n div 2) - 1) \<le> n div 2" using 1 by simp
    moreover have "bit_size n = Suc (bit_size (n div 2))" using 1 by (subst bit_size.simps) simp
    moreover obtain k where "bit_size (n div 2) = Suc k" using p bit_size_pos [of "n div 2"] not0_implies_Suc by fastforce
    ultimately show ?thesis by simp
  qed
qed

lemma round_double_pos: "0 < round_double n \<longleftrightarrow> 0 < n"
proof (cases "bit_size n \<le> 53")
  case False
  then have n: "0 < n" by (metis bit_size_pos linorder_not_less zero_le)
  let ?u = "2 ^ (bit_size n - 53) :: int"
  have "?u \<le> 2 ^ (bit_size n - 1)" by (intro power_increasing) auto
  then have "?u \<le> n" using bit_size_bound [OF n] by linarith
  then have "1 \<le> n div ?u" by (simp add: pos_imp_zdiv_pos_iff int_one_le_iff_zero_less)
  then have q: "0 < n div ?u" by simp
  have "0 < round_even n ?u"
    using q by (auto simp: round_even_def Let_def intro!: mult_pos_pos)
  then show ?thesis using n False by (simp add: round_double_def)
qed (simp add: round_double_def)

lemma shortest_digits_pos: "0 < d \<Longrightarrow> 0 < shortest_digits d"
  using round_double_pos
  by (fastforce simp: shortest_digits_def Let_def split: option.split dest: Prelude.find_Some_iff)

lemma before_digits: "list_all digit_char cs \<Longrightarrow> \<not> digit_char c \<Longrightarrow> before c (cs @ c # t) = cs"
  by (induction cs) (auto simp: before_def)

lemma before_none: "c \<notin> set cs \<Longrightarrow> before c cs = cs"
  by (induction cs) (auto simp: before_def)

lemma after_digits: "list_all digit_char cs \<Longrightarrow> \<not> digit_char c \<Longrightarrow> after c (cs @ c # t) = t"
  by (induction cs) (auto simp: after_def)

lemma after_none: "c \<notin> set cs \<Longrightarrow> after c cs = []"
  by (induction cs) (auto simp: after_def)

lemma not_digits [simp]: "\<not> digit_char CHR ''.''" "\<not> digit_char CHR ''e''" "\<not> digit_char CHR ''-''"
  "\<not> digit_char CHR ''+''"
  by (simp_all add: digit_char_def)

lemma digits_notin: "list_all digit_char cs \<Longrightarrow> \<not> digit_char c \<Longrightarrow> c \<notin> set cs"
  by (auto simp: list_all_iff)

lemma signed_value_digits: "list_all digit_char cs \<Longrightarrow> cs \<noteq> [] \<Longrightarrow> hd cs \<noteq> CHR ''0'' \<Longrightarrow> 0 < signed_value cs"
  using digits_value_pos by (cases cs) (auto simp: signed_value_def)

lemma decimal_mantissa:
  assumes m: "list_all digit_char ds" "ds \<noteq> []" "hd ds \<noteq> CHR ''0''" and f: "list_all digit_char fs"
    and t: "before CHR ''e'' t = ds @ CHR ''.'' # fs \<or> before CHR ''e'' t = ds \<and> fs = []"
  shows "float_positive t"
proof -
  let ?m = "before CHR ''e'' t"
  have b: "before CHR ''.'' ?m @ after CHR ''.'' ?m = ds @ fs"
    using t m f digits_notin [OF m(1), of "CHR ''.''"]
    by (auto simp: before_digits after_digits before_none after_none)
  have "0 < signed_value (ds @ fs)" using m f by (intro signed_value_digits) (auto simp: hd_append)
  then show ?thesis by (simp add: float_positive_def decimal_def Let_def b)
qed

lemma integral_repr_pos: "0 < c \<Longrightarrow> float_positive (integral_repr c)"
proof -
  assume "0 < c"
  let ?t = "nat_text c"
  let ?ds = "strip_zeros ?t"
  have t: "?t \<noteq> []" "list_all digit_char ?t" "hd ?t \<noteq> CHR ''0''" using nat_text_digits [OF \<open>0 < c\<close>] by auto
  have tz: "?t = ?ds @ rev (takeWhile ((=) CHR ''0'') (rev ?t))"
    unfolding strip_zeros_def by (metis rev_append rev_rev_ident takeWhile_dropWhile_id)
  have ne: "?ds \<noteq> []"
  proof
    assume "?ds = []"
    then have "\<forall>x\<in>set ?t. CHR ''0'' = x" by (simp add: strip_zeros_def)
    then show False using t(3) hd_in_set [OF t(1)] by fastforce
  qed
  have ds: "list_all digit_char ?ds"
    using t(2) by (auto simp: strip_zeros_def list_all_iff dest: set_dropWhileD)
  have hds: "hd ?ds = hd ?t" using arg_cong [OF tz, of hd] ne by simp
  show ?thesis
  proof (cases "length ?t \<le> 16")
    case True
    have "before CHR ''e'' (?t @ ''.0'') = ?t @ ''.0''"
      using digits_notin [OF t(2), of "CHR ''e''"] by (intro before_none) auto
    then have "float_positive (?t @ ''.0'')"
      using t by (intro decimal_mantissa [of ?t "''0''"]) (auto simp: digit_char_def)
    then show ?thesis using True by (simp add: integral_repr_def Let_def)
  next
    case False
    obtain x xs where x: "?ds = x # xs" using ne by (cases ?ds) auto
    let ?e = "nat_text (int (length ?t) - 1)"
    let ?head = "case xs of [] \<Rightarrow> [x] | r # rs \<Rightarrow> x # CHR ''.'' # r # rs"
    have h: "CHR ''e'' \<notin> set ?head"
      using digits_notin [OF ds, of "CHR ''e''"] x by (auto split: list.splits)
    have cut: "c \<notin> set u \<Longrightarrow> before c (u @ c # v) = u" for c u v
      by (induction u) (auto simp: before_def)
    have "before CHR ''e'' (?head @ ''e+'' @ ?e) = ?head"
      using cut [OF h, of "CHR ''+'' # ?e"] by simp
    then have "float_positive (?head @ ''e+'' @ ?e)"
      using ds hds t x by (intro decimal_mantissa [of "[x]" xs]) (auto split: list.splits)
    then show ?thesis using False x by (cases xs) (simp_all add: integral_repr_def Let_def)
  qed
qed

lemma float_of_int_positive: "0 < n \<Longrightarrow> float_of_int n = Some t \<Longrightarrow> float_positive t"
  using shortest_digits_pos round_double_pos integral_repr_pos
  by (auto simp: float_of_int_def Let_def split: if_splits)

subsection \<open>Overflow\<close>

lemma bit_size_power: "bit_size (2 ^ k) = Suc k"
proof (induction k)
  case (Suc k)
  then show ?case by (subst bit_size.simps) simp
qed (simp add: bit_size.simps)

lemma round_double_power: "round_double (2 ^ k) = 2 ^ k"
proof (cases "Suc k \<le> 53")
  case False
  have "(2::int) ^ k mod 2 ^ (Suc k - 53) = 0"
    using le_imp_power_dvd [of "Suc k - 53" k "2::int"] by (simp add: mod_eq_0_iff_dvd)
  moreover have "(2::int) ^ k div 2 ^ (Suc k - 53) * 2 ^ (Suc k - 53) = 2 ^ k"
    using le_imp_power_dvd [of "Suc k - 53" k "2::int"] by simp
  ultimately show ?thesis using False by (simp add: round_double_def bit_size_power round_even_def Let_def)
qed (simp add: round_double_def bit_size_power)

lemma float_of_int_power: "1024 \<le> k \<Longrightarrow> float_of_int (2 ^ k) = None"
  by (simp add: float_of_int_def Let_def round_double_power bit_size_power)

lemma float_overflow: "\<exists>n. float_of_int n = None"
  using float_of_int_power [of 1024] by blast

end
