(* ===== verification/TeamConfig.thy ===== *)
theory TeamConfig
  imports Errors Numbers
begin

text \<open>
  team_config.py: the agent system of the application configuration, parsed from JSON with every
  field checked, the references between its parts, the policy check of a project team and the
  binding of one agent. Money is a float text of \<open>Numbers\<close>; kinds, roles and modes are the texts
  the code compares.
\<close>

record conn =
  cn_id :: string
  cn_kind :: string
  cn_enabled :: bool
  cn_account_slot :: "string option"
  cn_credential_ref :: "string option"

record model =
  md_id :: string
  md_connection_id :: string
  md_model :: "string option"
  md_verified :: bool
  md_capabilities :: "string list"

record agent_profile =
  ag_id :: string
  ag_role :: string
  ag_model_id :: string
  ag_tools :: "string list"
  ag_allowed_write_paths :: "string list"
  ag_document_paths :: "string list"
  ag_max_steps :: "int option"
  ag_max_output_tokens :: "int option"

record project_team =
  pt_project_id :: string
  pt_agent_ids :: "string list"
  pt_mode :: string
  pt_lead_id :: "string option"
  pt_enabled :: bool
  pt_paid_api_enabled :: bool
  pt_max_active :: int
  pt_per_task_cap_usd :: string

record agent_system =
  as_connections :: "conn list"
  as_models :: "model list"
  as_agents :: "agent_profile list"
  as_teams :: "project_team list"
  as_native_execution_enabled :: bool
  as_max_active_agents :: int
  as_max_heavy_local :: int
  as_monthly_cap_usd :: string
  as_execution_timeout_seconds :: int

subsection \<open>Field checks\<close>

definition is_lower :: "char \<Rightarrow> bool" where
  "is_lower c \<longleftrightarrow> 97 \<le> code_point c \<and> code_point c \<le> 122"

definition is_upper :: "char \<Rightarrow> bool" where
  "is_upper c \<longleftrightarrow> 65 \<le> code_point c \<and> code_point c \<le> 90"

definition is_digit :: "char \<Rightarrow> bool" where
  "is_digit c \<longleftrightarrow> 48 \<le> code_point c \<and> code_point c \<le> 57"

text \<open>\<^verbatim>\<open>[a-zA-Z0-9][a-zA-Z0-9._:/-]{0,191}\<close> and \<^verbatim>\<open>[a-z0-9][a-z0-9._-]{0,63}\<close>, anchored.\<close>

definition ID_pattern :: "string \<Rightarrow> bool" where
  "ID_pattern s =
     (case s of
        [] \<Rightarrow> False
      | c # cs \<Rightarrow> (is_lower c \<or> is_upper c \<or> is_digit c) \<and> length cs \<le> 191 \<and>
          list_all (\<lambda>x. is_lower x \<or> is_upper x \<or> is_digit x \<or> x \<in> set ''._:/-'') cs)"

definition slot_pattern :: "string \<Rightarrow> bool" where
  "slot_pattern s =
     (case s of
        [] \<Rightarrow> False
      | c # cs \<Rightarrow> (is_lower c \<or> is_digit c) \<and> length cs \<le> 63 \<and>
          list_all (\<lambda>x. is_lower x \<or> is_digit x \<or> x \<in> set ''._-'') cs)"

definition team_object :: "json \<Rightarrow> string list \<Rightarrow> string list \<Rightarrow> exn + payload" where
  "team_object value allowed required =
     (case value of
        JObj kvs \<Rightarrow>
          if list_all (\<lambda>kv. fst kv \<in> set allowed) kvs \<and> list_all (\<lambda>k. k \<in> fst ` set kvs) required
          then Inr kvs else Inl TeamConfigError
      | _ \<Rightarrow> Inl TeamConfigError)"

text \<open>\<^verbatim>\<open>data.get(key, default)\<close>, and \<^verbatim>\<open>data[key]\<close> of a required key.\<close>

definition get_default :: "payload \<Rightarrow> string \<Rightarrow> json \<Rightarrow> json" where
  "get_default data k fallback = (case map_of data k of None \<Rightarrow> fallback | Some v \<Rightarrow> v)"

definition team_id :: "json \<Rightarrow> exn + string" where
  "team_id value =
     (case value of
        JStr s \<Rightarrow> if ID_pattern s then Inr s else Inl TeamConfigError
      | _ \<Rightarrow> Inl TeamConfigError)"

definition team_bool :: "json \<Rightarrow> exn + bool" where
  "team_bool value = (case value of JBool b \<Rightarrow> Inr b | _ \<Rightarrow> Inl TeamConfigError)"

definition team_integer :: "json \<Rightarrow> int \<Rightarrow> exn + int" where
  "team_integer value maximum =
     (case value of
        JInt i \<Rightarrow> if 1 \<le> i \<and> i \<le> maximum then Inr i else Inl TeamConfigError
      | _ \<Rightarrow> Inl TeamConfigError)"

text \<open>\<open>math.isfinite\<close> raises \<open>OverflowError\<close> on an integer no double can hold.\<close>

definition team_money :: "json \<Rightarrow> exn + string" where
  "team_money value =
     (case value of
        JInt i \<Rightarrow> (case float_of_int i of
            None \<Rightarrow> Inl OverflowErr
          | Some t \<Rightarrow> if i \<le> 0 then Inl TeamConfigError else Inr t)
      | JFloat t \<Rightarrow> if float_positive t then Inr t else Inl TeamConfigError
      | _ \<Rightarrow> Inl TeamConfigError)"

definition team_items :: "json \<Rightarrow> exn + json list" where
  "team_items value =
     (case value of
        JList xs \<Rightarrow> if length xs > 128 then Inl TeamConfigError else Inr xs
      | _ \<Rightarrow> Inl TeamConfigError)"

definition team_ids :: "json \<Rightarrow> exn + string list" where
  "team_ids value =
     bindE (team_items value) (\<lambda>items. bindE (mapE team_id items) (\<lambda>ids.
       if distinct ids then Inr ids else Inl TeamConfigError))"

definition text_in :: "string list \<Rightarrow> json \<Rightarrow> exn + string" where
  "text_in choices value =
     (case value of
        JStr s \<Rightarrow> if s \<in> set choices then Inr s else Inl TeamConfigError
      | _ \<Rightarrow> Inl TeamConfigError)"

definition unless_null :: "(json \<Rightarrow> exn + 'a) \<Rightarrow> json \<Rightarrow> exn + 'a option" where
  "unless_null f value =
     (if value = JNull then Inr None else bindE (f value) (\<lambda>x. Inr (Some x)))"

definition KINDS :: "string list" where
  "KINDS = [''codex'', ''claude'', ''local'', ''openrouter'']"

definition ROLES :: "string list" where
  "ROLES = [''lead'', ''reader'', ''implementer'', ''reviewer'', ''local_assistant'', ''advice'']"

definition TOOLS :: "string list" where
  "TOOLS = [''native_workspace'', ''document.search'', ''document.read'']"

definition CAPABILITIES :: "string list" where
  "CAPABILITIES = [''plan'', ''tools'', ''files'', ''streaming'', ''structured_output'']"

subsection \<open>Paths\<close>

fun split_slash :: "string \<Rightarrow> string list" where
  "split_slash [] = [[]]"
| "split_slash (c # cs) =
     (if c = CHR ''/'' then [] # split_slash cs
      else case split_slash cs of [] \<Rightarrow> [[c]] | p # ps \<Rightarrow> (c # p) # ps)"

text \<open>\<open>PurePosixPath(path).parts\<close> and \<open>as_posix()\<close> of a path that does not start with a slash.\<close>

definition posix_parts :: "string \<Rightarrow> string list" where
  "posix_parts path = filter (\<lambda>p. p \<noteq> [] \<and> p \<noteq> ''.'') (split_slash path)"

fun join_slash :: "string list \<Rightarrow> string" where
  "join_slash [] = []"
| "join_slash [p] = p"
| "join_slash (p # q # ps) = p @ CHR ''/'' # join_slash (q # ps)"

definition as_posix :: "string \<Rightarrow> string" where
  "as_posix path = (case posix_parts path of [] \<Rightarrow> ''.'' | p # ps \<Rightarrow> join_slash (p # ps))"

definition protected_parts :: "string list" where
  "protected_parts = [''.git'', ''.codex'', ''.agents'']"

definition path_inside :: "string \<Rightarrow> bool" where
  "path_inside path \<longleftrightarrow>
     \<not> (path \<noteq> [] \<and> hd path = CHR ''/'') \<and> ''..'' \<notin> set (posix_parts path) \<and>
     (\<forall>p\<in>set (posix_parts path). p \<notin> set protected_parts)"

definition path_canonical :: "string \<Rightarrow> bool" where
  "path_canonical path \<longleftrightarrow> path = ''.'' \<or> posix_parts path \<noteq> [] \<and> as_posix path = path"

definition team_paths :: "json \<Rightarrow> exn + string list" where
  "team_paths value =
     bindE (team_items value) (\<lambda>items.
     bindE (mapE (\<lambda>item. if item = JStr ''.'' then Inr ''.'' else team_id item) items) (\<lambda>paths.
       if distinct paths \<and> list_all (\<lambda>p. path_inside p \<and> path_canonical p) paths
       then Inr paths else Inl TeamConfigError))"

subsection \<open>Parsers\<close>

definition conn_fields :: "string list" where
  "conn_fields = [''id'', ''kind'', ''enabled'', ''account_slot'', ''credential_ref'']"

definition keychain_ref :: "string \<Rightarrow> bool" where
  "keychain_ref s \<longleftrightarrow> take 9 s = ''keychain:'' \<and> ID_pattern s"

definition optional_text :: "(string \<Rightarrow> bool) \<Rightarrow> json \<Rightarrow> exn + string option" where
  "optional_text accept value =
     (case value of
        JNull \<Rightarrow> Inr None
      | JStr s \<Rightarrow> if accept s then Inr (Some s) else Inl TeamConfigError
      | _ \<Rightarrow> Inl TeamConfigError)"

definition connection_from_dict :: "json \<Rightarrow> exn + conn" where
  "connection_from_dict value =
     bindE (team_object value conn_fields [''id'', ''kind'']) (\<lambda>data.
     bindE (team_id (get_default data ''id'' JNull)) (\<lambda>identity.
     bindE (text_in KINDS (get_default data ''kind'' JNull)) (\<lambda>kind.
     bindE (optional_text slot_pattern (get_default data ''account_slot'' JNull)) (\<lambda>slot.
     bindE (optional_text keychain_ref (get_default data ''credential_ref'' JNull)) (\<lambda>ref.
     bindE (ensure (\<not> (slot \<noteq> None \<and> kind \<notin> set [''codex'', ''claude''] \<or>
                       ref \<noteq> None \<and> kind \<noteq> ''openrouter'')) TeamConfigError) (\<lambda>_.
     bindE (team_bool (get_default data ''enabled'' (JBool False))) (\<lambda>enabled.
     Inr \<lparr>cn_id = identity, cn_kind = kind, cn_enabled = enabled, cn_account_slot = slot,
          cn_credential_ref = ref\<rparr>)))))))"

definition model_fields :: "string list" where
  "model_fields = [''id'', ''connection_id'', ''model'', ''verified'', ''capabilities'']"

definition model_from_dict :: "json \<Rightarrow> exn + model" where
  "model_from_dict value =
     bindE (team_object value model_fields [''id'', ''connection_id'']) (\<lambda>data.
     bindE (team_ids (get_default data ''capabilities'' (JList []))) (\<lambda>capabilities.
     bindE (ensure (set capabilities \<subseteq> set CAPABILITIES) TeamConfigError) (\<lambda>_.
     bindE (team_id (get_default data ''id'' JNull)) (\<lambda>identity.
     bindE (team_id (get_default data ''connection_id'' JNull)) (\<lambda>connection_id.
     bindE (unless_null team_id (get_default data ''model'' JNull)) (\<lambda>model.
     bindE (team_bool (get_default data ''verified'' (JBool False))) (\<lambda>verified.
     Inr \<lparr>md_id = identity, md_connection_id = connection_id, md_model = model,
          md_verified = verified, md_capabilities = capabilities\<rparr>)))))))"

definition agent_fields :: "string list" where
  "agent_fields = [''id'', ''role'', ''model_id'', ''tools'', ''allowed_write_paths'',
     ''document_paths'', ''max_steps'', ''max_output_tokens'']"

definition agent_from_dict :: "json \<Rightarrow> exn + agent_profile" where
  "agent_from_dict value =
     bindE (team_object value agent_fields [''id'', ''role'', ''model_id'']) (\<lambda>data.
     bindE (team_ids (get_default data ''tools'' (JList []))) (\<lambda>tools.
     bindE (text_in ROLES (get_default data ''role'' JNull)) (\<lambda>role.
     bindE (ensure (set tools \<subseteq> set TOOLS) TeamConfigError) (\<lambda>_.
     bindE (ensure (\<not> (role = ''advice'' \<and> tools \<noteq> [] \<or>
         role = ''reader'' \<and> \<not> set tools \<subseteq> set [''document.search'', ''document.read'']))
       TeamConfigError) (\<lambda>_.
     bindE (team_paths (get_default data ''allowed_write_paths'' (JList []))) (\<lambda>writes.
     bindE (ensure (\<not> (writes \<noteq> [] \<and> (role \<noteq> ''implementer'' \<or> ''native_workspace'' \<notin> set tools)))
       TeamConfigError) (\<lambda>_.
     bindE (team_id (get_default data ''id'' JNull)) (\<lambda>identity.
     bindE (team_id (get_default data ''model_id'' JNull)) (\<lambda>model_id.
     bindE (team_paths (get_default data ''document_paths'' (JList []))) (\<lambda>documents.
     bindE (unless_null (\<lambda>v. team_integer v 128) (get_default data ''max_steps'' JNull)) (\<lambda>max_steps.
     bindE (unless_null (\<lambda>v. team_integer v 131072) (get_default data ''max_output_tokens'' JNull)) (\<lambda>max_tokens.
     Inr \<lparr>ag_id = identity, ag_role = role, ag_model_id = model_id, ag_tools = tools,
          ag_allowed_write_paths = writes, ag_document_paths = documents,
          ag_max_steps = max_steps, ag_max_output_tokens = max_tokens\<rparr>))))))))))))"

definition team_fields :: "string list" where
  "team_fields = [''project_id'', ''agent_ids'', ''mode'', ''lead_id'', ''enabled'',
     ''paid_api_enabled'', ''max_active'', ''per_task_cap_usd'']"

definition team_from_dict :: "json \<Rightarrow> exn + project_team" where
  "team_from_dict value =
     bindE (team_object value team_fields [''project_id'', ''agent_ids'']) (\<lambda>data.
     bindE (team_ids (get_default data ''agent_ids'' JNull)) (\<lambda>agents.
     bindE (ensure (agents \<noteq> []) TeamConfigError) (\<lambda>_.
     bindE (text_in [''manual'', ''auto''] (get_default data ''mode'' (JStr ''manual''))) (\<lambda>mode.
     bindE (unless_null (\<lambda>v. bindE (team_id v) (\<lambda>lead.
         if lead \<in> set agents then Inr lead else Inl TeamConfigError))
       (get_default data ''lead_id'' JNull)) (\<lambda>lead.
     bindE (ensure (\<not> (mode = ''auto'' \<and> lead = None)) TeamConfigError) (\<lambda>_.
     bindE (team_id (get_default data ''project_id'' JNull)) (\<lambda>project_id.
     bindE (team_bool (get_default data ''enabled'' (JBool True))) (\<lambda>enabled.
     bindE (team_bool (get_default data ''paid_api_enabled'' (JBool False))) (\<lambda>paid.
     bindE (team_integer (get_default data ''max_active'' (JInt 1)) 32) (\<lambda>max_active.
     bindE (team_money (get_default data ''per_task_cap_usd'' (JFloat ''0.1''))) (\<lambda>cap.
     Inr \<lparr>pt_project_id = project_id, pt_agent_ids = agents, pt_mode = mode, pt_lead_id = lead,
          pt_enabled = enabled, pt_paid_api_enabled = paid, pt_max_active = max_active,
          pt_per_task_cap_usd = cap\<rparr>)))))))))))"

text \<open>\<open>asdict\<close>, as the JSON it becomes.\<close>

definition json_opt :: "('a \<Rightarrow> json) \<Rightarrow> 'a option \<Rightarrow> json" where
  "json_opt f x = (case x of None \<Rightarrow> JNull | Some v \<Rightarrow> f v)"

definition json_texts :: "string list \<Rightarrow> json" where
  "json_texts xs = JList (map JStr xs)"

definition team_to_dict :: "project_team \<Rightarrow> payload" where
  "team_to_dict t =
     [(''project_id'', JStr (pt_project_id t)), (''agent_ids'', json_texts (pt_agent_ids t)),
      (''mode'', JStr (pt_mode t)), (''lead_id'', json_opt JStr (pt_lead_id t)),
      (''enabled'', JBool (pt_enabled t)), (''paid_api_enabled'', JBool (pt_paid_api_enabled t)),
      (''max_active'', JInt (pt_max_active t)),
      (''per_task_cap_usd'', JFloat (pt_per_task_cap_usd t))]"

definition conn_to_dict :: "conn \<Rightarrow> payload" where
  "conn_to_dict c =
     [(''id'', JStr (cn_id c)), (''kind'', JStr (cn_kind c)), (''enabled'', JBool (cn_enabled c)),
      (''account_slot'', json_opt JStr (cn_account_slot c)),
      (''credential_ref'', json_opt JStr (cn_credential_ref c))]"

definition model_to_dict :: "model \<Rightarrow> payload" where
  "model_to_dict m =
     [(''id'', JStr (md_id m)), (''connection_id'', JStr (md_connection_id m)),
      (''model'', json_opt JStr (md_model m)), (''verified'', JBool (md_verified m)),
      (''capabilities'', json_texts (md_capabilities m))]"

definition agent_to_dict :: "agent_profile \<Rightarrow> payload" where
  "agent_to_dict a =
     [(''id'', JStr (ag_id a)), (''role'', JStr (ag_role a)), (''model_id'', JStr (ag_model_id a)),
      (''tools'', json_texts (ag_tools a)),
      (''allowed_write_paths'', json_texts (ag_allowed_write_paths a)),
      (''document_paths'', json_texts (ag_document_paths a)),
      (''max_steps'', json_opt JInt (ag_max_steps a)),
      (''max_output_tokens'', json_opt JInt (ag_max_output_tokens a))]"

subsection \<open>The agent system\<close>

text \<open>A dictionary built by identity keeps the last item of an identity.\<close>

definition lookup_last :: "('a \<Rightarrow> string) \<Rightarrow> 'a list \<Rightarrow> string \<Rightarrow> 'a option" where
  "lookup_last key xs i = List.find (\<lambda>x. key x = i) (rev xs)"

definition validate_team :: "agent_system \<Rightarrow> project_team \<Rightarrow> exn + unit" where
  "validate_team sys t =
     (if \<not> set (pt_agent_ids t) \<subseteq> ag_id ` set (as_agents sys) \<or>
         pt_max_active t > as_max_active_agents sys
      then Inl TeamConfigError
      else if float_less (as_monthly_cap_usd sys) (pt_per_task_cap_usd t) then Inl TeamConfigError
      else case pt_lead_id t of
          None \<Rightarrow> Inr ()
        | Some lead \<Rightarrow> (case lookup_last ag_id (as_agents sys) lead of
              None \<Rightarrow> Inl KeyErr
            | Some a \<Rightarrow> if ag_role a \<noteq> ''lead'' then Inl TeamConfigError else Inr ()))"

definition validate_model :: "agent_system \<Rightarrow> model \<Rightarrow> exn + unit" where
  "validate_model sys m =
     (case lookup_last cn_id (as_connections sys) (md_connection_id m) of
        None \<Rightarrow> Inl TeamConfigError
      | Some c \<Rightarrow> if cn_kind c = ''openrouter'' \<and> md_model m = None then Inl TeamConfigError else Inr ())"

definition validate_agent :: "agent_system \<Rightarrow> agent_profile \<Rightarrow> exn + unit" where
  "validate_agent sys a =
     (case lookup_last md_id (as_models sys) (ag_model_id a) of
        None \<Rightarrow> Inl TeamConfigError
      | Some m \<Rightarrow> (case lookup_last cn_id (as_connections sys) (md_connection_id m) of
            None \<Rightarrow> Inl KeyErr
          | Some c \<Rightarrow>
              if ''native_workspace'' \<in> set (ag_tools a) \<and> cn_kind c \<notin> set [''codex'', ''claude'']
              then Inl TeamConfigError
              else if ag_role a = ''local_assistant'' \<and> cn_kind c \<noteq> ''local''
              then Inl TeamConfigError else Inr ()))"

definition validate_references :: "agent_system \<Rightarrow> exn + unit" where
  "validate_references sys =
     bindE (mapE (validate_model sys) (as_models sys)) (\<lambda>_.
     bindE (mapE (validate_agent sys) (as_agents sys)) (\<lambda>_.
     bindE (mapE (validate_team sys) (as_teams sys)) (\<lambda>_. Inr ())))"

definition system_fields :: "string list" where
  "system_fields = [''version'', ''connections'', ''models'', ''agents'', ''teams'',
     ''native_execution_enabled'', ''max_active_agents'', ''max_heavy_local'',
     ''monthly_cap_usd'', ''execution_timeout_seconds'']"

definition parse_group :: "(json \<Rightarrow> exn + 'a) \<Rightarrow> ('a \<Rightarrow> string) \<Rightarrow> json \<Rightarrow> exn + 'a list" where
  "parse_group parser identity value =
     bindE (team_items value) (\<lambda>items. bindE (mapE parser items) (\<lambda>group.
       if distinct (map identity group) then Inr group else Inl TeamConfigError))"

definition system_from_dict :: "json \<Rightarrow> exn + agent_system" where
  "system_from_dict value =
     bindE (team_object value system_fields []) (\<lambda>data.
     bindE (ensure (get_default data ''version'' (JInt 1) = JInt 1) TeamConfigError) (\<lambda>_.
     bindE (parse_group connection_from_dict cn_id (get_default data ''connections'' (JList []))) (\<lambda>connections.
     bindE (parse_group model_from_dict md_id (get_default data ''models'' (JList []))) (\<lambda>models.
     bindE (parse_group agent_from_dict ag_id (get_default data ''agents'' (JList []))) (\<lambda>agents.
     bindE (parse_group team_from_dict pt_project_id (get_default data ''teams'' (JList []))) (\<lambda>ts.
     bindE (team_bool (get_default data ''native_execution_enabled'' (JBool False))) (\<lambda>native.
     bindE (team_integer (get_default data ''max_active_agents'' (JInt 4)) 32) (\<lambda>active.
     bindE (team_integer (get_default data ''max_heavy_local'' (JInt 1)) 1) (\<lambda>heavy.
     bindE (team_money (get_default data ''monthly_cap_usd'' (JFloat ''5.0''))) (\<lambda>cap.
     bindE (team_integer (get_default data ''execution_timeout_seconds'' (JInt 300)) 3600) (\<lambda>timeout.
     let sys = \<lparr>as_connections = connections, as_models = models, as_agents = agents, as_teams = ts,
                as_native_execution_enabled = native, as_max_active_agents = active,
                as_max_heavy_local = heavy, as_monthly_cap_usd = cap,
                as_execution_timeout_seconds = timeout\<rparr>
     in bindE (validate_references sys) (\<lambda>_. Inr sys))))))))))))"

text \<open>The four parts of a binding; \<open>agent_id\<close> may be any JSON value.\<close>

record agent_binding =
  ab_team :: project_team
  ab_profile :: agent_profile
  ab_model :: model
  ab_connection :: conn

definition binding ::
  "agent_system \<Rightarrow> project_team \<Rightarrow> json \<Rightarrow> bool \<Rightarrow> exn + agent_binding" where
  "binding sys t agent_id require_available =
     (if agent_id \<notin> JStr ` set (pt_agent_ids t) then Inl TeamConfigError
      else case List.find (\<lambda>a. JStr (ag_id a) = agent_id) (as_agents sys) of
          None \<Rightarrow> Inl TeamConfigError
        | Some profile \<Rightarrow> (case List.find (\<lambda>m. md_id m = ag_model_id profile) (as_models sys) of
            None \<Rightarrow> Inl StopIterationErr
          | Some model \<Rightarrow> (case List.find (\<lambda>c. cn_id c = md_connection_id model) (as_connections sys) of
              None \<Rightarrow> Inl StopIterationErr
            | Some connection \<Rightarrow>
                if require_available \<and> (\<not> pt_enabled t \<or> \<not> cn_enabled connection \<or>
                     ag_role profile \<noteq> ''advice'' \<and> \<not> md_verified model)
                then Inl TeamConfigError
                else if require_available \<and> cn_kind connection = ''openrouter'' \<and> \<not> pt_paid_api_enabled t
                then Inl TeamConfigError
                else Inr \<lparr>ab_team = t, ab_profile = profile, ab_model = model,
                          ab_connection = connection\<rparr>)))"

definition check_member ::
  "agent_system \<Rightarrow> project_team \<Rightarrow> string \<Rightarrow> bool \<Rightarrow> string \<Rightarrow> string \<Rightarrow> exn + unit" where
  "check_member sys t sensitivity cloud_allowed permission_mode identity =
     bindE (binding sys t (JStr identity) False) (\<lambda>b.
       if cn_kind (ab_connection b) \<noteq> ''local'' \<and>
          (sensitivity \<in> set [''internal'', ''restricted''] \<or> \<not> cloud_allowed)
       then Inl TeamConfigError
       else if ag_allowed_write_paths (ab_profile b) \<noteq> [] \<and> permission_mode \<noteq> ''sandboxed-write''
       then Inl TeamConfigError
       else Inr ())"

definition validate_project_team ::
  "agent_system \<Rightarrow> project_team \<Rightarrow> string \<Rightarrow> bool \<Rightarrow> string \<Rightarrow> exn + unit" where
  "validate_project_team sys t sensitivity cloud_allowed permission_mode =
     bindE (validate_team sys t) (\<lambda>_.
     bindE (mapE (check_member sys t sensitivity cloud_allowed permission_mode) (pt_agent_ids t))
       (\<lambda>_. Inr ()))"

text \<open>\<open>AgentSystem.to_dict\<close>: \<open>asdict\<close> with its tuples as lists.\<close>

definition system_to_dict :: "agent_system \<Rightarrow> payload" where
  "system_to_dict sys =
     [(''version'', JInt 1), (''connections'', JList (map (\<lambda>c. JObj (conn_to_dict c)) (as_connections sys))),
      (''models'', JList (map (\<lambda>m. JObj (model_to_dict m)) (as_models sys))),
      (''agents'', JList (map (\<lambda>a. JObj (agent_to_dict a)) (as_agents sys))),
      (''teams'', JList (map (\<lambda>t. JObj (team_to_dict t)) (as_teams sys))),
      (''native_execution_enabled'', JBool (as_native_execution_enabled sys)),
      (''max_active_agents'', JInt (as_max_active_agents sys)), (''max_heavy_local'', JInt (as_max_heavy_local sys)),
      (''monthly_cap_usd'', JFloat (as_monthly_cap_usd sys)),
      (''execution_timeout_seconds'', JInt (as_execution_timeout_seconds sys))]"

subsection \<open>What the parsers accept\<close>

lemma team_id_iff: "team_id v = Inr s \<longleftrightarrow> v = JStr s \<and> ID_pattern s"
  by (auto simp: team_id_def split: json.splits)

lemma team_bool_iff [simp]: "team_bool v = Inr b \<longleftrightarrow> v = JBool b"
  by (auto simp: team_bool_def split: json.splits)

lemma team_integer_iff: "team_integer v n = Inr i \<longleftrightarrow> v = JInt i \<and> 1 \<le> i \<and> i \<le> n"
  by (auto simp: team_integer_def split: json.splits)

lemma team_money_float: "float_positive t \<Longrightarrow> team_money (JFloat t) = Inr t"
  by (simp add: team_money_def)

lemma mapE_team_id: "mapE team_id vs = Inr ss \<longleftrightarrow> vs = map JStr ss \<and> list_all ID_pattern ss"
proof (induction vs arbitrary: ss)
  case (Cons v vs)
  show ?case by (cases ss) (auto simp: bindE_eq_Inr team_id_iff Cons)
qed auto

lemma team_ids_iff:
  "team_ids v = Inr ss \<longleftrightarrow> v = json_texts ss \<and> length ss \<le> 128 \<and> list_all ID_pattern ss \<and> distinct ss"
  by (auto simp: team_ids_def team_items_def bindE_eq_Inr mapE_team_id json_texts_def
      split: json.splits if_splits)

lemma path_item_iff:
  "(if v = JStr ''.'' then Inr ''.'' else team_id v) = Inr p \<longleftrightarrow> v = JStr p \<and> (p = ''.'' \<or> ID_pattern p)"
  by (auto simp: team_id_iff)

lemma mapE_path_item:
  "mapE (\<lambda>v. if v = JStr ''.'' then Inr ''.'' else team_id v) vs = Inr ss \<longleftrightarrow>
     vs = map JStr ss \<and> list_all (\<lambda>p. p = ''.'' \<or> ID_pattern p) ss"
proof (induction vs arbitrary: ss)
  case (Cons v vs)
  show ?case by (cases ss) (auto simp: bindE_eq_Inr path_item_iff Cons simp del: if_split)
qed auto

definition write_path_ok :: "string \<Rightarrow> bool" where
  "write_path_ok p \<longleftrightarrow> (p = ''.'' \<or> ID_pattern p) \<and> path_inside p \<and> path_canonical p"

lemma team_paths_iff:
  "team_paths v = Inr ss \<longleftrightarrow> v = json_texts ss \<and> length ss \<le> 128 \<and> distinct ss \<and> list_all write_path_ok ss"
  by (auto simp: team_paths_def team_items_def bindE_eq_Inr mapE_path_item json_texts_def
      write_path_ok_def list_all_iff split: json.splits if_splits)

definition team_valid :: "project_team \<Rightarrow> bool" where
  "team_valid t \<longleftrightarrow>
     ID_pattern (pt_project_id t) \<and> pt_agent_ids t \<noteq> [] \<and> length (pt_agent_ids t) \<le> 128 \<and>
     list_all ID_pattern (pt_agent_ids t) \<and> distinct (pt_agent_ids t) \<and>
     pt_mode t \<in> set [''manual'', ''auto''] \<and>
     (\<forall>l. pt_lead_id t = Some l \<longrightarrow> l \<in> set (pt_agent_ids t)) \<and>
     (pt_mode t = ''auto'' \<longrightarrow> pt_lead_id t \<noteq> None) \<and>
     1 \<le> pt_max_active t \<and> pt_max_active t \<le> 32 \<and> float_positive (pt_per_task_cap_usd t)"


lemma team_money_positive: "team_money v = Inr t \<Longrightarrow> float_positive t"
  by (auto simp: team_money_def not_le intro: float_of_int_positive split: json.splits option.splits if_splits)

lemma text_in_iff: "text_in cs v = Inr s \<longleftrightarrow> v = JStr s \<and> s \<in> set cs"
  by (auto simp: text_in_def split: json.splits)

lemma unless_null_iff:
  "unless_null f v = Inr x \<longleftrightarrow> v = JNull \<and> x = None \<or> v \<noteq> JNull \<and> (\<exists>y. f v = Inr y \<and> x = Some y)"
  by (auto simp: unless_null_def bindE_eq_Inr)

lemmas parse_simps = bindE_eq_Inr team_ids_iff team_id_iff team_integer_iff text_in_iff unless_null_iff
  team_paths_iff

lemma team_from_dict_valid: "team_from_dict v = Inr t \<Longrightarrow> team_valid t"
  unfolding team_from_dict_def bindE_eq_Inr ensure_eq_Inr
  apply (elim exE conjE)
  apply (drule team_money_positive)
  apply (simp add: team_valid_def parse_simps)
  apply (elim conjE disjE exE)
  apply (auto split: if_splits)
  done

lemma team_valid_parse:
  assumes v: "team_valid t" and k: "fst ` set kvs = set team_fields"
    and m: "\<And>f. f \<in> set team_fields \<Longrightarrow> map_of kvs f = map_of (team_to_dict t) f"
  shows "team_from_dict (JObj kvs) = Inr t"
proof -
  have obj: "team_object (JObj kvs) team_fields [''project_id'', ''agent_ids''] = Inr kvs"
    using k by (auto simp: team_object_def list_all_iff team_fields_def)
  have get: "get_default kvs f d = the (map_of (team_to_dict t) f)" if "f \<in> set team_fields" for f d
    using m [OF that] that
    by (auto simp: get_default_def team_fields_def team_to_dict_def)
  have ids: "team_ids (json_texts (pt_agent_ids t)) = Inr (pt_agent_ids t)"
    using v by (simp add: team_valid_def team_ids_iff)
  have lead: "\<forall>l. pt_lead_id t = Some l \<longrightarrow> ID_pattern l \<and> l \<in> set (pt_agent_ids t)"
    using v by (auto simp: team_valid_def list_all_iff)
  have f: "list_all (\<lambda>f. \<forall>d. get_default kvs f d = the (map_of (team_to_dict t) f)) team_fields"
    using get by (simp add: list_all_iff)
  show ?thesis
    using v lead f [unfolded team_fields_def]
    unfolding team_from_dict_def obj bindE_simps
    by (cases "pt_lead_id t")
      (auto simp: team_to_dict_def ids team_valid_def team_id_def team_bool_def team_integer_def
        team_money_def json_opt_def text_in_def unless_null_def)
qed

lemma team_roundtrip_raw: "team_valid t \<Longrightarrow> team_from_dict (JObj (team_to_dict t)) = Inr t"
  by (rule team_valid_parse) (auto simp: team_fields_def team_to_dict_def)

lemma canon_texts [simp]: "canon (json_texts xs) = json_texts xs"
  by (simp add: json_texts_def canon_list_map)

lemma canon_json_opt [simp]: "canon (json_opt JStr x) = json_opt JStr x" "canon (json_opt JInt i) = json_opt JInt i"
  by (auto simp: json_opt_def split: option.split)

lemma team_roundtrip_canon: "team_valid t \<Longrightarrow> team_from_dict (JObj (canon_obj (team_to_dict t))) = Inr t"
proof (rule team_valid_parse)
  have "fst ` set (canon_obj (team_to_dict t)) = fst ` set (team_to_dict t)"
    by (simp add: canon_obj_def canon_fields_map image_image split_beta)
  then show "fst ` set (canon_obj (team_to_dict t)) = set team_fields"
    by (auto simp: team_fields_def team_to_dict_def)
next
  fix f assume "f \<in> set team_fields"
  have d: "distinct (map fst (team_to_dict t))" by (simp add: team_to_dict_def)
  have "canon_fields (team_to_dict t) = team_to_dict t" by (simp add: team_to_dict_def)
  then show "map_of (canon_obj (team_to_dict t)) f = map_of (team_to_dict t) f"
    unfolding canon_obj_def using map_of_sort_key [OF d] by simp
qed simp

subsection \<open>Paths\<close>

text \<open>Following a relative path from a directory, by name only.\<close>

fun walk :: "string list \<Rightarrow> string list \<Rightarrow> string list" where
  "walk dir [] = dir"
| "walk dir (p # ps) = walk (if p = [] \<or> p = ''.'' then dir else if p = ''..'' then butlast dir else dir @ [p]) ps"

lemma walk_inside: "''..'' \<notin> set ps \<Longrightarrow> walk dir ps = dir @ filter (\<lambda>p. p \<noteq> [] \<and> p \<noteq> ''.'') ps"
  by (induction ps arbitrary: dir) auto

lemma write_path_walk: "write_path_ok p \<Longrightarrow> walk dir (split_slash p) = dir @ posix_parts p"
  by (subst walk_inside) (auto simp: write_path_ok_def path_inside_def posix_parts_def)

text \<open>What the role of an agent allows it.\<close>

definition agent_role_ok :: "agent_profile \<Rightarrow> bool" where
  "agent_role_ok a \<longleftrightarrow>
     (ag_allowed_write_paths a \<noteq> [] \<longrightarrow> ag_role a = ''implementer'' \<and> ''native_workspace'' \<in> set (ag_tools a)) \<and>
     (ag_role a = ''advice'' \<longrightarrow> ag_tools a = []) \<and>
     (ag_role a = ''reader'' \<longrightarrow> set (ag_tools a) \<subseteq> {''document.search'', ''document.read''})"

lemma agent_from_dict_paths:
  "agent_from_dict v = Inr a \<Longrightarrow>
     list_all write_path_ok (ag_allowed_write_paths a) \<and> list_all write_path_ok (ag_document_paths a) \<and>
     agent_role_ok a"
  unfolding agent_from_dict_def bindE_eq_Inr ensure_eq_Inr
  apply (elim exE conjE)
  apply (simp add: parse_simps)
  apply (elim conjE)
  apply hypsubst
  apply (simp add: agent_role_ok_def)
  apply blast
  done

subsection \<open>A parsed system\<close>

definition system_valid :: "agent_system \<Rightarrow> bool" where
  "system_valid sys \<longleftrightarrow>
     distinct (map cn_id (as_connections sys)) \<and> distinct (map md_id (as_models sys)) \<and>
     distinct (map ag_id (as_agents sys)) \<and> distinct (map pt_project_id (as_teams sys)) \<and>
     (\<forall>a\<in>set (as_agents sys). list_all write_path_ok (ag_allowed_write_paths a) \<and> agent_role_ok a) \<and>
     (\<forall>t\<in>set (as_teams sys). team_valid t) \<and> validate_references sys = Inr ()"

lemma mapE_set: "mapE f xs = Inr ys \<Longrightarrow> y \<in> set ys \<Longrightarrow> \<exists>x\<in>set xs. f x = Inr y"
  by (induction xs arbitrary: ys) (auto simp: bindE_eq_Inr)

lemma mapE_Inr_all: "mapE f xs = Inr ys \<Longrightarrow> x \<in> set xs \<Longrightarrow> \<exists>y. f x = Inr y"
  by (induction xs arbitrary: ys) (auto simp: bindE_eq_Inr)

lemma parse_group_Inr:
  "parse_group f k v = Inr xs \<Longrightarrow> distinct (map k xs) \<and> (\<forall>x\<in>set xs. \<exists>y. f y = Inr x)"
  by (auto simp: parse_group_def bindE_eq_Inr split: if_splits dest: mapE_set)

lemma system_from_dict_valid: "system_from_dict v = Inr sys \<Longrightarrow> system_valid sys"
  unfolding system_from_dict_def bindE_eq_Inr Let_def
  by (elim exE conjE) (auto simp: system_valid_def dest!: parse_group_Inr dest: agent_from_dict_paths
      team_from_dict_valid)

lemma lookup_last_find:
  "distinct (map k xs) \<Longrightarrow> lookup_last k xs i = List.find (\<lambda>x. k x = i) xs"
proof (cases "List.find (\<lambda>x. k x = i) xs")
  case None
  then have "List.find (\<lambda>x. k x = i) (rev xs) = None" by (simp add: find_None_iff2)
  then show ?thesis using None by (simp add: lookup_last_def)
next
  case (Some x)
  assume d: "distinct (map k xs)"
  have x: "x \<in> set (rev xs)" "k x = i" using Prelude.find_Some_iff [OF Some] by auto
  moreover have "distinct (map k (rev xs))" using d by (simp flip: rev_map)
  ultimately have "List.find (\<lambda>y. k y = k x) (rev xs) = Some x" by (intro find_unique)
  then show ?thesis using Some x by (simp add: lookup_last_def)
qed

lemma agent_resolves:
  assumes v: "system_valid sys" and a: "a \<in> set (as_agents sys)"
  shows "\<exists>m c. List.find (\<lambda>m. md_id m = ag_model_id a) (as_models sys) = Some m \<and>
    List.find (\<lambda>c. cn_id c = md_connection_id m) (as_connections sys) = Some c \<and>
    (''native_workspace'' \<in> set (ag_tools a) \<longrightarrow> cn_kind c \<in> {''codex'', ''claude''}) \<and>
    (ag_role a = ''local_assistant'' \<longrightarrow> cn_kind c = ''local'')"
proof -
  have "validate_agent sys a = Inr ()"
    using v a by (auto simp: system_valid_def validate_references_def bindE_eq_Inr dest: mapE_Inr_all)
  then show ?thesis using v
    by (auto simp: validate_agent_def lookup_last_find system_valid_def split: option.splits if_splits)
qed

text \<open>What \<open>validate_team\<close> admits: known agents, limits within those of the application, a lead who is one.\<close>

definition team_admitted :: "agent_system \<Rightarrow> project_team \<Rightarrow> bool" where
  "team_admitted sys t \<longleftrightarrow>
     set (pt_agent_ids t) \<subseteq> ag_id ` set (as_agents sys) \<and> pt_max_active t \<le> as_max_active_agents sys \<and>
     \<not> float_less (as_monthly_cap_usd sys) (pt_per_task_cap_usd t) \<and>
     (case pt_lead_id t of None \<Rightarrow> True
      | Some lead \<Rightarrow> \<exists>a\<in>set (as_agents sys). ag_id a = lead \<and> ag_role a = ''lead'')"

lemma validate_team_admits: "validate_team sys t = Inr () \<Longrightarrow> team_admitted sys t"
  by (auto simp: validate_team_def team_admitted_def lookup_last_def split: if_splits option.splits
      dest!: Prelude.find_Some_iff)

lemma system_teams_admitted:
  assumes "system_valid sys" and "t \<in> set (as_teams sys)"
  shows "team_admitted sys t"
proof -
  obtain u where "validate_team sys t = Inr u"
    using assms by (auto simp: system_valid_def validate_references_def bindE_eq_Inr dest: mapE_Inr_all)
  then show ?thesis using validate_team_admits by simp
qed

subsection \<open>Writing a system\<close>

lemma optional_text_iff:
  "optional_text P v = Inr x \<longleftrightarrow> v = json_opt JStr x \<and> (case x of None \<Rightarrow> True | Some s \<Rightarrow> P s)"
  by (auto simp: optional_text_def json_opt_def split: json.splits if_splits option.splits)

lemma unless_null_opt:
  assumes "unless_null f v = Inr x" and "\<And>y w. f w = Inr y \<Longrightarrow> w = g y" and "\<And>y. g y \<noteq> JNull"
  shows "unless_null f (json_opt g x) = Inr x"
  using assms by (auto simp: unless_null_iff json_opt_def split: option.splits)

lemma connection_roundtrip:
  assumes "connection_from_dict v = Inr c"
  shows "connection_from_dict (JObj (conn_to_dict c)) = Inr c"
proof -
  obtain data identity kind slot ref enabled where f:
      "team_id (get_default data ''id'' JNull) = Inr identity" "text_in KINDS (get_default data ''kind'' JNull) = Inr kind"
      "optional_text slot_pattern (get_default data ''account_slot'' JNull) = Inr slot"
      "optional_text keychain_ref (get_default data ''credential_ref'' JNull) = Inr ref"
      "\<not> (slot \<noteq> None \<and> kind \<notin> set [''codex'', ''claude''] \<or> ref \<noteq> None \<and> kind \<noteq> ''openrouter'')"
      "c = \<lparr>cn_id = identity, cn_kind = kind, cn_enabled = enabled, cn_account_slot = slot, cn_credential_ref = ref\<rparr>"
    using assms unfolding connection_from_dict_def bindE_eq_Inr ensure_eq_Inr by blast
  have g: "team_id (JStr identity) = Inr identity" "text_in KINDS (JStr kind) = Inr kind"
      "optional_text slot_pattern (json_opt JStr slot) = Inr slot" "optional_text keychain_ref (json_opt JStr ref) = Inr ref"
    using f(1-4) by (simp_all add: team_id_iff text_in_iff optional_text_iff)
  show ?thesis
    using f(5) unfolding f(6)
    by (simp add: connection_from_dict_def conn_to_dict_def team_object_def conn_fields_def get_default_def team_bool_def g)
qed

lemma model_roundtrip:
  assumes "model_from_dict v = Inr m"
  shows "model_from_dict (JObj (model_to_dict m)) = Inr m"
proof -
  obtain data capabilities identity connection_id model verified where f:
      "team_ids (get_default data ''capabilities'' (JList [])) = Inr capabilities" "set capabilities \<subseteq> set CAPABILITIES"
      "team_id (get_default data ''id'' JNull) = Inr identity"
      "team_id (get_default data ''connection_id'' JNull) = Inr connection_id"
      "unless_null team_id (get_default data ''model'' JNull) = Inr model"
      "m = \<lparr>md_id = identity, md_connection_id = connection_id, md_model = model, md_verified = verified,
        md_capabilities = capabilities\<rparr>"
    using assms unfolding model_from_dict_def bindE_eq_Inr ensure_eq_Inr by blast
  have g: "team_ids (json_texts capabilities) = Inr capabilities" "team_id (JStr identity) = Inr identity"
      "team_id (JStr connection_id) = Inr connection_id" "unless_null team_id (json_opt JStr model) = Inr model"
    using f(1,3,4) unless_null_opt [OF f(5)] by (simp_all add: team_ids_iff team_id_iff)
  show ?thesis
    using f(2) unfolding f(6)
    by (simp add: model_from_dict_def model_to_dict_def team_object_def model_fields_def get_default_def team_bool_def g)
qed

lemma agent_roundtrip:
  assumes "agent_from_dict v = Inr a"
  shows "agent_from_dict (JObj (agent_to_dict a)) = Inr a"
proof -
  obtain data tools role writes identity model_id documents steps tokens where f:
      "team_ids (get_default data ''tools'' (JList [])) = Inr tools" "text_in ROLES (get_default data ''role'' JNull) = Inr role"
      "set tools \<subseteq> set TOOLS"
      "\<not> (role = ''advice'' \<and> tools \<noteq> [] \<or> role = ''reader'' \<and> \<not> set tools \<subseteq> set [''document.search'', ''document.read''])"
      "team_paths (get_default data ''allowed_write_paths'' (JList [])) = Inr writes"
      "\<not> (writes \<noteq> [] \<and> (role \<noteq> ''implementer'' \<or> ''native_workspace'' \<notin> set tools))"
      "team_id (get_default data ''id'' JNull) = Inr identity" "team_id (get_default data ''model_id'' JNull) = Inr model_id"
      "team_paths (get_default data ''document_paths'' (JList [])) = Inr documents"
      "unless_null (\<lambda>v. team_integer v 128) (get_default data ''max_steps'' JNull) = Inr steps"
      "unless_null (\<lambda>v. team_integer v 131072) (get_default data ''max_output_tokens'' JNull) = Inr tokens"
      "a = \<lparr>ag_id = identity, ag_role = role, ag_model_id = model_id, ag_tools = tools, ag_allowed_write_paths = writes,
        ag_document_paths = documents, ag_max_steps = steps, ag_max_output_tokens = tokens\<rparr>"
    using assms unfolding agent_from_dict_def bindE_eq_Inr ensure_eq_Inr by blast
  have g: "team_ids (json_texts tools) = Inr tools" "text_in ROLES (JStr role) = Inr role"
      "team_paths (json_texts writes) = Inr writes" "team_id (JStr identity) = Inr identity"
      "team_id (JStr model_id) = Inr model_id" "team_paths (json_texts documents) = Inr documents"
      "unless_null (\<lambda>v. team_integer v 128) (json_opt JInt steps) = Inr steps"
      "unless_null (\<lambda>v. team_integer v 131072) (json_opt JInt tokens) = Inr tokens"
    using f(1,2,5,7-9) unless_null_opt [OF f(10)] unless_null_opt [OF f(11)]
    by (simp_all add: team_ids_iff text_in_iff team_paths_iff team_id_iff team_integer_iff)
  show ?thesis
    using f(3,4,6) unfolding f(12)
    by (simp add: agent_from_dict_def agent_to_dict_def team_object_def agent_fields_def get_default_def g)
qed

lemma parse_group_roundtrip:
  assumes "parse_group f k v = Inr xs" and "\<And>y x. f y = Inr x \<Longrightarrow> f (g x) = Inr x"
  shows "parse_group f k (JList (map g xs)) = Inr xs"
proof -
  obtain items where i: "length items \<le> 128" "mapE f items = Inr xs" "distinct (map k xs)"
    using assms(1) by (auto simp: parse_group_def team_items_def bindE_eq_Inr not_less split: json.splits if_splits)
  have "\<forall>x\<in>set xs. f (g x) = Inr x" using mapE_set [OF i(2)] assms(2) by blast
  then have "mapE f (map g xs) = Inr xs" by (induction xs) auto
  then show ?thesis using i mapE_length [OF i(2)] by (simp add: parse_group_def team_items_def)
qed

lemma system_roundtrip:
  assumes "system_from_dict v = Inr sys"
  shows "system_from_dict (JObj (system_to_dict sys)) = Inr sys"
proof -
  obtain data where
    groups: "parse_group connection_from_dict cn_id (get_default data ''connections'' (JList [])) = Inr (as_connections sys)"
      "parse_group model_from_dict md_id (get_default data ''models'' (JList [])) = Inr (as_models sys)"
      "parse_group agent_from_dict ag_id (get_default data ''agents'' (JList [])) = Inr (as_agents sys)"
      "parse_group team_from_dict pt_project_id (get_default data ''teams'' (JList [])) = Inr (as_teams sys)"
    and limits: "1 \<le> as_max_active_agents sys" "as_max_active_agents sys \<le> 32" "as_max_heavy_local sys = 1"
      "1 \<le> as_execution_timeout_seconds sys" "as_execution_timeout_seconds sys \<le> 3600"
      "team_money (get_default data ''monthly_cap_usd'' (JFloat ''5.0'')) = Inr (as_monthly_cap_usd sys)"
    and refs: "validate_references sys = Inr ()"
    using assms unfolding system_from_dict_def bindE_eq_Inr ensure_eq_Inr Let_def
    by (elim exE conjE) (auto simp: team_integer_iff)
  have parsed:
      "parse_group connection_from_dict cn_id (JList (map (\<lambda>c. JObj (conn_to_dict c)) (as_connections sys))) = Inr (as_connections sys)"
      "parse_group model_from_dict md_id (JList (map (\<lambda>m. JObj (model_to_dict m)) (as_models sys))) = Inr (as_models sys)"
      "parse_group agent_from_dict ag_id (JList (map (\<lambda>a. JObj (agent_to_dict a)) (as_agents sys))) = Inr (as_agents sys)"
      "parse_group team_from_dict pt_project_id (JList (map (\<lambda>t. JObj (team_to_dict t)) (as_teams sys))) = Inr (as_teams sys)"
    by (rule parse_group_roundtrip [OF groups(1)], rule connection_roundtrip, assumption)
      (rule parse_group_roundtrip [OF groups(2)], rule model_roundtrip, assumption,
       rule parse_group_roundtrip [OF groups(3)], rule agent_roundtrip, assumption,
       rule parse_group_roundtrip [OF groups(4)], rule team_roundtrip_raw [OF team_from_dict_valid], assumption)
  have whole: "\<lparr>as_connections = as_connections sys, as_models = as_models sys, as_agents = as_agents sys,
      as_teams = as_teams sys, as_native_execution_enabled = as_native_execution_enabled sys,
      as_max_active_agents = as_max_active_agents sys, as_max_heavy_local = 1,
      as_monthly_cap_usd = as_monthly_cap_usd sys,
      as_execution_timeout_seconds = as_execution_timeout_seconds sys\<rparr> = sys"
    using limits(3) by (cases sys) simp
  show ?thesis
    using limits refs team_money_positive [OF limits(6)]
    by (simp add: system_from_dict_def system_to_dict_def team_object_def system_fields_def get_default_def
        team_integer_def team_bool_def team_money_float Let_def parsed whole)
qed

subsection \<open>Refusals\<close>

lemma mapE_Inl: "mapE f xs = Inl e \<Longrightarrow> \<exists>x\<in>set xs. f x = Inl e"
  by (induction xs) (auto simp: bindE_eq_Inl)

lemma team_id_Inl: "team_id v = Inl e \<Longrightarrow> e = TeamConfigError"
  by (auto simp: team_id_def split: json.splits if_splits)

lemma team_ids_Inl: "team_ids v = Inl e \<Longrightarrow> e = TeamConfigError"
  by (auto simp: team_ids_def team_items_def bindE_eq_Inl split: json.splits if_splits
      dest!: mapE_Inl team_id_Inl)

lemma parse_Inl:
  "text_in cs v = Inl e \<Longrightarrow> e = TeamConfigError"
  "team_bool v = Inl e \<Longrightarrow> e = TeamConfigError"
  "team_integer v n = Inl e \<Longrightarrow> e = TeamConfigError"
  "team_object v fs rs = Inl e \<Longrightarrow> e = TeamConfigError"
  by (auto simp: text_in_def team_bool_def team_integer_def team_object_def split: json.splits if_splits)

lemma unless_null_Inl: "unless_null f v = Inl e \<Longrightarrow> f v = Inl e"
  by (auto simp: unless_null_def bindE_eq_Inl split: if_splits)

lemma lead_Inl:
  "bindE (team_id v) (\<lambda>l. if P l then Inr l else Inl TeamConfigError) = Inl e \<Longrightarrow> e = TeamConfigError"
  by (auto simp: bindE_eq_Inl dest: team_id_Inl split: if_splits)

lemma team_money_Inl:
  "team_money v = Inl e \<Longrightarrow> e = TeamConfigError \<or> e = OverflowErr \<and> (\<exists>n. v = JInt n \<and> float_of_int n = None)"
  by (auto simp: team_money_def split: json.splits option.splits if_splits)

lemma team_object_Inr: "team_object v fs rs = Inr kvs \<Longrightarrow> v = JObj kvs"
  by (auto simp: team_object_def split: json.splits if_splits)

lemma cap_int: "get_default kvs ''per_task_cap_usd'' (JFloat ''0.1'') = JInt n \<Longrightarrow>
    map_of kvs ''per_task_cap_usd'' = Some (JInt n)"
  by (auto simp: get_default_def split: option.splits)

lemma team_from_dict_Inl:
  "team_from_dict v = Inl e \<Longrightarrow> e = TeamConfigError \<or> e = OverflowErr \<and>
     (\<exists>kvs n. v = JObj kvs \<and> map_of kvs ''per_task_cap_usd'' = Some (JInt n) \<and> float_of_int n = None)"
  unfolding team_from_dict_def bindE_eq_Inl [of "team_object v team_fields rs" for rs]
  apply (elim disjE exE conjE)
  subgoal by (simp add: parse_Inl)
  apply (drule team_object_Inr)
  apply (simp only: bindE_eq_Inl ensure_eq_Inl)
  apply (elim disjE exE conjE)
  apply (auto dest!: parse_Inl team_ids_Inl unless_null_Inl lead_Inl team_id_Inl team_money_Inl cap_int)
  done

subsection \<open>Policy\<close>

lemma binding_Inr:
  assumes "binding sys t (JStr i) r = Inr b"
  shows "i \<in> set (pt_agent_ids t) \<and> ab_team b = t \<and> ag_id (ab_profile b) = i \<and>
    ab_profile b \<in> set (as_agents sys) \<and>
    List.find (\<lambda>m. md_id m = ag_model_id (ab_profile b)) (as_models sys) = Some (ab_model b) \<and>
    List.find (\<lambda>c. cn_id c = md_connection_id (ab_model b)) (as_connections sys) = Some (ab_connection b) \<and>
    (r \<longrightarrow> pt_enabled t \<and> cn_enabled (ab_connection b) \<and>
       (ag_role (ab_profile b) = ''advice'' \<or> md_verified (ab_model b)) \<and>
       (cn_kind (ab_connection b) = ''openrouter'' \<longrightarrow> pt_paid_api_enabled t))"
proof -
  have i: "i \<in> set (pt_agent_ids t)" using assms by (auto simp: binding_def split: if_splits)
  then have m: "JStr i \<in> JStr ` set (pt_agent_ids t)" by simp
  obtain a where a: "List.find (\<lambda>a. JStr (ag_id a) = JStr i) (as_agents sys) = Some a"
    using assms m by (simp add: binding_def split: option.splits)
  obtain md where md: "List.find (\<lambda>m. md_id m = ag_model_id a) (as_models sys) = Some md"
    using assms m a by (simp add: binding_def split: option.splits)
  obtain c where c: "List.find (\<lambda>c. cn_id c = md_connection_id md) (as_connections sys) = Some c"
    using assms m a md by (simp add: binding_def split: option.splits)
  have r: "\<not> (r \<and> (\<not> pt_enabled t \<or> \<not> cn_enabled c \<or> ag_role a \<noteq> ''advice'' \<and> \<not> md_verified md))"
      "\<not> (r \<and> cn_kind c = ''openrouter'' \<and> \<not> pt_paid_api_enabled t)"
      "b = \<lparr>ab_team = t, ab_profile = a, ab_model = md, ab_connection = c\<rparr>"
    using assms m a md c by (auto simp: binding_def split: if_splits)
  show ?thesis using i md c r(1,2) Prelude.find_Some_iff [OF a] unfolding r(3) by auto
qed

text \<open>What an agent of an accepted team may be, on a project with this policy.\<close>

definition member_admitted :: "string \<Rightarrow> bool \<Rightarrow> string \<Rightarrow> agent_binding \<Rightarrow> bool" where
  "member_admitted sens cloud perm b \<longleftrightarrow>
     (let agent = ab_profile b; kind = cn_kind (ab_connection b) in
      (sens \<in> {''internal'', ''restricted''} \<or> \<not> cloud \<longrightarrow> kind = ''local'' \<and> ag_allowed_write_paths agent = []) \<and>
      (ag_allowed_write_paths agent \<noteq> [] \<longrightarrow>
         perm = ''sandboxed-write'' \<and> ag_role agent = ''implementer'' \<and> ''native_workspace'' \<in> set (ag_tools agent)) \<and>
      (''native_workspace'' \<in> set (ag_tools agent) \<longrightarrow> kind \<in> {''codex'', ''claude''}) \<and>
      (ag_role agent = ''local_assistant'' \<longrightarrow> kind = ''local'') \<and>
      (ag_role agent = ''advice'' \<longrightarrow> ag_tools agent = []) \<and>
      (ag_role agent = ''reader'' \<longrightarrow> set (ag_tools agent) \<subseteq> {''document.search'', ''document.read''}))"

lemma member_policy:
  assumes v: "system_valid sys" and p: "validate_project_team sys t sens cloud perm = Inr ()"
    and i: "i \<in> set (pt_agent_ids t)"
  shows "\<exists>b. binding sys t (JStr i) False = Inr b \<and> member_admitted sens cloud perm b"
proof -
  have "check_member sys t sens cloud perm i = Inr ()"
    using p i by (auto simp: validate_project_team_def bindE_eq_Inr dest: mapE_Inr_all)
  then obtain b where b: "binding sys t (JStr i) False = Inr b"
      "cn_kind (ab_connection b) \<noteq> ''local'' \<longrightarrow> sens \<notin> {''internal'', ''restricted''} \<and> cloud"
      "ag_allowed_write_paths (ab_profile b) \<noteq> [] \<longrightarrow> perm = ''sandboxed-write''"
    by (auto simp: check_member_def bindE_eq_Inr split: if_splits)
  note f = binding_Inr [OF b(1)]
  have kinds: "''native_workspace'' \<in> set (ag_tools (ab_profile b)) \<longrightarrow> cn_kind (ab_connection b) \<in> {''codex'', ''claude''}"
      "ag_role (ab_profile b) = ''local_assistant'' \<longrightarrow> cn_kind (ab_connection b) = ''local''"
  proof -
    obtain m c where r: "List.find (\<lambda>m. md_id m = ag_model_id (ab_profile b)) (as_models sys) = Some m"
        "List.find (\<lambda>c. cn_id c = md_connection_id m) (as_connections sys) = Some c"
        "''native_workspace'' \<in> set (ag_tools (ab_profile b)) \<longrightarrow> cn_kind c \<in> {''codex'', ''claude''}"
        "ag_role (ab_profile b) = ''local_assistant'' \<longrightarrow> cn_kind c = ''local''"
      using agent_resolves [OF v, of "ab_profile b"] f by blast
    have "m = ab_model b" using f r(1) by simp
    then have "c = ab_connection b" using f r(2) by simp
    then show "''native_workspace'' \<in> set (ag_tools (ab_profile b)) \<longrightarrow> cn_kind (ab_connection b) \<in> {''codex'', ''claude''}"
        "ag_role (ab_profile b) = ''local_assistant'' \<longrightarrow> cn_kind (ab_connection b) = ''local''"
      using r(3,4) by simp_all
  qed
  have role: "agent_role_ok (ab_profile b)" using v f by (simp add: system_valid_def)
  have "member_admitted sens cloud perm b"
    unfolding member_admitted_def Let_def using b(2,3) kinds role by (fastforce simp: agent_role_ok_def)
  then show ?thesis using b(1) by blast
qed

subsection \<open>Properties\<close>

text \<open>
  C28: an accepted configuration and the policy of a project bind its team. Every team of the configuration,
  and the team that was checked for the project, names agents of the configuration, runs at most as many at
  once and may spend at most as much on a task as the application allows, and is led by an agent whose role
  is to lead. Every agent of the checked team resolves to its own profile, model and connection; on a project
  that is internal, restricted or closed to the cloud it runs on a local connection and may write nothing; an
  agent that may write is an implementer with a native harness on a sandboxed-write project; advisers have no
  tools, readers only the document tools, local assistants a local connection.
\<close>

theorem team_policy_enforced:
  assumes "system_from_dict v = Inr sys" and "validate_project_team sys t sens cloud perm = Inr ()"
  shows "(\<forall>t'\<in>insert t (set (as_teams sys)). team_admitted sys t') \<and>
    (\<forall>i\<in>set (pt_agent_ids t). \<exists>b. binding sys t (JStr i) False = Inr b \<and> ag_id (ab_profile b) = i \<and>
       ab_profile b \<in> set (as_agents sys) \<and> md_id (ab_model b) = ag_model_id (ab_profile b) \<and>
       cn_id (ab_connection b) = md_connection_id (ab_model b) \<and> member_admitted sens cloud perm b)"
proof -
  note v = system_from_dict_valid [OF assms(1)]
  have "validate_team sys t = Inr ()" using assms(2) by (simp add: validate_project_team_def bindE_eq_Inr)
  then have teams: "\<forall>t'\<in>insert t (set (as_teams sys)). team_admitted sys t'"
    using validate_team_admits system_teams_admitted [OF v] by blast
  have "\<exists>b. binding sys t (JStr i) False = Inr b \<and> ag_id (ab_profile b) = i \<and>
       ab_profile b \<in> set (as_agents sys) \<and> md_id (ab_model b) = ag_model_id (ab_profile b) \<and>
       cn_id (ab_connection b) = md_connection_id (ab_model b) \<and> member_admitted sens cloud perm b"
    if i: "i \<in> set (pt_agent_ids t)" for i
  proof -
    obtain b where b: "binding sys t (JStr i) False = Inr b" "member_admitted sens cloud perm b"
      using member_policy [OF v assms(2) i] by blast
    then show ?thesis using binding_Inr [OF b(1)] by (auto dest!: Prelude.find_Some_iff)
  qed
  then show ?thesis using teams by blast
qed

definition sample_system_json :: json where
  "sample_system_json = JObj
     [(''connections'', JList [JObj [(''id'', JStr ''codex-main''), (''kind'', JStr ''codex''),
         (''enabled'', JBool True), (''account_slot'', JStr ''main'')]]),
      (''models'', JList [JObj [(''id'', JStr ''m1''), (''connection_id'', JStr ''codex-main''),
         (''verified'', JBool True)]]),
      (''agents'', JList [JObj [(''id'', JStr ''impl''), (''role'', JStr ''implementer''),
         (''model_id'', JStr ''m1''), (''tools'', JList [JStr ''native_workspace'']),
         (''allowed_write_paths'', JList [JStr ''src/app''])]]),
      (''teams'', JList [JObj [(''project_id'', JStr ''demo''), (''agent_ids'', JList [JStr ''impl''])]]),
      (''native_execution_enabled'', JBool True)]"

definition sample_team :: project_team where
  "sample_team = \<lparr>pt_project_id = ''demo'', pt_agent_ids = [''impl''], pt_mode = ''manual'',
     pt_lead_id = None, pt_enabled = True, pt_paid_api_enabled = False, pt_max_active = 1,
     pt_per_task_cap_usd = ''0.1''\<rparr>"

definition sample_system :: agent_system where
  "sample_system = \<lparr>
     as_connections = [\<lparr>cn_id = ''codex-main'', cn_kind = ''codex'', cn_enabled = True,
        cn_account_slot = Some ''main'', cn_credential_ref = None\<rparr>],
     as_models = [\<lparr>md_id = ''m1'', md_connection_id = ''codex-main'', md_model = None,
        md_verified = True, md_capabilities = []\<rparr>],
     as_agents = [\<lparr>ag_id = ''impl'', ag_role = ''implementer'', ag_model_id = ''m1'',
        ag_tools = [''native_workspace''], ag_allowed_write_paths = [''src/app''],
        ag_document_paths = [], ag_max_steps = None, ag_max_output_tokens = None\<rparr>],
     as_teams = [sample_team], as_native_execution_enabled = True, as_max_active_agents = 4,
     as_max_heavy_local = 1, as_monthly_cap_usd = ''5.0'', as_execution_timeout_seconds = 300\<rparr>"

lemma sample_system_parses [simp]: "system_from_dict sample_system_json = Inr sample_system"
  by code_simp

theorem team_policy_enforced_witness:
  "team_admitted sample_system sample_team \<and> (\<exists>b. binding sample_system sample_team (JStr ''impl'') False = Inr b \<and>
     cn_kind (ab_connection b) \<in> {''codex'', ''claude''})"
proof -
  have p: "validate_project_team sample_system sample_team ''private'' True ''sandboxed-write'' = Inr ()"
    by code_simp
  have i: "''impl'' \<in> set (pt_agent_ids sample_team)" by (simp add: sample_team_def)
  note enforced = team_policy_enforced [OF sample_system_parses p]
  obtain b where b: "binding sample_system sample_team (JStr ''impl'') False = Inr b"
      "member_admitted ''private'' True ''sandboxed-write'' b"
    using enforced i by blast
  have "case binding sample_system sample_team (JStr ''impl'') False of
      Inr b \<Rightarrow> ''native_workspace'' \<in> set (ag_tools (ab_profile b)) | Inl e \<Rightarrow> False"
    by code_simp
  then have "cn_kind (ab_connection b) \<in> {''codex'', ''claude''}"
    using b by (simp add: member_admitted_def Let_def)
  moreover have "team_admitted sample_system sample_team" using conjunct1 [OF enforced] by simp
  ultimately show ?thesis using b(1) by blast
qed

text \<open>
  C29: an accepted configuration is written and read back unchanged, and so is each of its teams, in the key
  order the store writes as in its own.
\<close>

theorem team_config_roundtrip:
  assumes "system_from_dict v = Inr sys"
  shows "system_from_dict (JObj (system_to_dict sys)) = Inr sys \<and>
    (\<forall>t\<in>set (as_teams sys). team_from_dict (JObj (team_to_dict t)) = Inr t \<and>
       team_from_dict (JObj (canon_obj (team_to_dict t))) = Inr t)"
  using system_roundtrip [OF assms] system_from_dict_valid [OF assms]
  by (simp add: system_valid_def team_roundtrip_raw team_roundtrip_canon)

theorem team_config_roundtrip_witness:
  "system_from_dict (JObj (system_to_dict sample_system)) = Inr sample_system \<and>
   team_from_dict (JObj (canon_obj (team_to_dict sample_team))) = Inr sample_team"
proof -
  have "sample_team \<in> set (as_teams sample_system)" by (simp add: sample_system_def)
  then show ?thesis using team_config_roundtrip [OF sample_system_parses] by blast
qed

text \<open>
  C30: every path an accepted agent may write or read stays below the directory it is taken from:
  walking it by name never leaves that directory and never enters a control directory.
\<close>

theorem agent_paths_confined:
  assumes "agent_from_dict v = Inr a" and "p \<in> set (ag_allowed_write_paths a @ ag_document_paths a)"
  shows "walk dir (split_slash p) = dir @ posix_parts p \<and> ''..'' \<notin> set (posix_parts p) \<and>
    (\<forall>d\<in>set protected_parts. d \<notin> set (posix_parts p)) \<and> (posix_parts p = [] \<longrightarrow> p = ''.'')"
proof -
  have ok: "write_path_ok p" using agent_from_dict_paths [OF assms(1)] assms(2) by (auto simp: list_all_iff)
  then show ?thesis using write_path_walk [OF ok, of dir]
    by (auto simp: write_path_ok_def path_inside_def path_canonical_def)
qed

theorem agent_paths_confined_witness:
  "walk [''srv'', ''demo''] (split_slash ''src/app'') = [''srv'', ''demo'', ''src'', ''app'']"
proof -
  let ?v = "JObj [(''id'', JStr ''impl''), (''role'', JStr ''implementer''), (''model_id'', JStr ''m1''),
     (''tools'', JList [JStr ''native_workspace'']), (''allowed_write_paths'', JList [JStr ''src/app''])]"
  have a: "agent_from_dict ?v = Inr (hd (as_agents sample_system))" by code_simp
  have p: "''src/app'' \<in> set (ag_allowed_write_paths (hd (as_agents sample_system))
      @ ag_document_paths (hd (as_agents sample_system)))"
    by (simp add: sample_system_def)
  have "posix_parts ''src/app'' = [''src'', ''app'']" by code_simp
  then show ?thesis using agent_paths_confined [OF a p, of "[''srv'', ''demo'']"] by simp
qed

text \<open>
  A team description that is refused is refused as a configuration error, with one exception:
  a task cap given as an integer beyond the range of a double escapes as an overflow error.
\<close>

theorem team_refusals:
  assumes "team_from_dict v = Inl e"
  shows "e = TeamConfigError \<or> e = OverflowErr \<and>
    (\<exists>kvs n. v = JObj kvs \<and> map_of kvs ''per_task_cap_usd'' = Some (JInt n) \<and> float_of_int n = None)"
  using team_from_dict_Inl [OF assms] .

theorem team_refusals_witness:
  "\<exists>n kvs. team_from_dict (JObj kvs) = Inl OverflowErr \<and>
     map_of kvs ''per_task_cap_usd'' = Some (JInt n) \<and> float_of_int n = None"
proof -
  obtain n where n: "float_of_int n = None" using float_overflow by blast
  let ?kvs = "[(''project_id'', JStr ''demo''), (''agent_ids'', JList [JStr ''impl'']),
      (''per_task_cap_usd'', JInt n)]"
  have ids: "team_ids (JList [JStr ''impl'']) = Inr [''impl'']" "ID_pattern ''demo''" by code_simp+
  have r: "team_from_dict (JObj ?kvs) = Inl OverflowErr"
    using n ids by (simp add: team_from_dict_def team_object_def team_fields_def get_default_def
        text_in_def unless_null_def team_id_def team_bool_def team_integer_def team_money_def)
  show ?thesis using team_refusals [OF r] r by blast
qed

end
