(* ===== verification/Teams.thy ===== *)
theory Teams
  imports Approvals TeamConfig
begin

text \<open>
  \<open>TeamRepository\<close> (team_store.py): the operator's project teams, kept with a revision for
  optimistic concurrency, their policy check against the stored project, and the authorization of
  a job's frozen agent binding. \<open>team_repository\<close> is the repository object: the configured agent
  system and the configured project identities.
\<close>

record team_repository =
  tr_system :: agent_system
  tr_project_ids :: "string list"

fun sensitivity_value :: "sensitivity \<Rightarrow> string" where
  "sensitivity_value SPublic = ''public''"
| "sensitivity_value SPrivate = ''private''"
| "sensitivity_value SInternal = ''internal''"
| "sensitivity_value SRestricted = ''restricted''"

fun permission_mode_value :: "permission_mode \<Rightarrow> string" where
  "permission_mode_value ReadOnly = ''read-only''"
| "permission_mode_value SandboxedWrite = ''sandboxed-write''"
| "permission_mode_value NeverMode = ''never''"

definition encode :: "payload \<Rightarrow> exn + string" where
  "encode p = (case dumps p of None \<Rightarrow> Inl ValueErr | Some t \<Rightarrow> Inr t)"

text \<open>Subscripting a JSON value by a text key.\<close>

definition item :: "json \<Rightarrow> string \<Rightarrow> exn + json" where
  "item v k =
     (case v of
        JObj kvs \<Rightarrow> (case map_of kvs k of None \<Rightarrow> Inl KeyErr | Some x \<Rightarrow> Inr x)
      | _ \<Rightarrow> Inl TypeErr)"

fun foldE :: "('x \<Rightarrow> 's \<Rightarrow> 'e + 's) \<Rightarrow> 'x list \<Rightarrow> 's \<Rightarrow> 'e + 's" where
  "foldE f [] s = Inr s"
| "foldE f (x # xs) s = bindE (f x s) (foldE f xs)"

subsection \<open>Reading\<close>

definition select_team :: "db \<Rightarrow> string \<Rightarrow> team_row option" where
  "select_team d p = List.find (\<lambda>r. t_project_id r = p) (teams d)"

definition team_row_record ::
  "(string \<Rightarrow> string) \<Rightarrow> string \<Rightarrow> team_row \<Rightarrow> exn + int \<times> project_team" where
  "team_row_record sha p r =
     rethrow (\<lambda>e. isa e ValueErr \<or> isa e TypeErr \<or> isa e KeyErr) TeamStoreError
       (if sha (render (JObj (t_payload r))) \<noteq> t_payload_hash r then Inl ValueErr
        else bindE (team_from_dict (JObj (t_payload r))) (\<lambda>team.
          if pt_project_id team \<noteq> p \<or> t_revision r < 1 then Inl ValueErr
          else Inr (t_revision r, team)))"

definition team_get_tx ::
  "(string \<Rightarrow> string) \<Rightarrow> team_repository \<Rightarrow> string \<Rightarrow> db \<Rightarrow> exn + int \<times> project_team" where
  "team_get_tx sha tr p d =
     (if p \<notin> set (tr_project_ids tr) then Inl TeamNotFoundError
      else case select_team d p of
          None \<Rightarrow> Inl TeamNotFoundError
        | Some row \<Rightarrow> team_row_record sha p row)"

definition team_get ::
  "(string \<Rightarrow> string) \<Rightarrow> team_repository \<Rightarrow> string \<Rightarrow> db \<Rightarrow> exn + int \<times> project_team" where
  "team_get sha tr p d = connection TeamStoreError (team_get_tx sha tr p d)"

definition team_validate :: "team_repository \<Rightarrow> project_team \<Rightarrow> db \<Rightarrow> exn + unit" where
  "team_validate tr team d =
     (if pt_project_id team \<notin> set (tr_project_ids tr) then Inl TeamNotFoundError
      else case select_project d (pt_project_id team) of
          None \<Rightarrow> Inl TeamNotFoundError
        | Some row \<Rightarrow> bindE (project_to_record row) (\<lambda>project.
            validate_project_team (tr_system tr) team (sensitivity_value (p_sensitivity project))
              (p_cloud_allowed project) (permission_mode_value (p_permission_mode project))))"

subsection \<open>Writing\<close>

definition new_team_row :: "micros \<Rightarrow> string \<Rightarrow> int \<Rightarrow> payload \<Rightarrow> string \<Rightarrow> team_row" where
  "new_team_row now p revision data hash = \<lparr>t_project_id = p, t_revision = revision,
     t_payload = data, t_payload_hash = hash, t_updated_at = now\<rparr>"

text \<open>\<open>INSERT ... ON CONFLICT(project_id) DO NOTHING\<close> and \<open>DO UPDATE SET\<close> every other column.\<close>

definition insert_team_or_ignore :: "team_row \<Rightarrow> db \<Rightarrow> exn + db" where
  "insert_team_or_ignore r d =
     (if \<not> team_check r then Inl (IntegrityError CheckViolation)
      else if \<exists>q\<in>set (teams d). t_project_id q = t_project_id r then Inr d
      else insert_team d r)"

definition upsert_team :: "team_row \<Rightarrow> db \<Rightarrow> exn + db" where
  "upsert_team r d =
     (if \<not> team_check r then Inl (IntegrityError CheckViolation)
      else if \<exists>q\<in>set (teams d). t_project_id q = t_project_id r
      then Inr (d\<lparr>teams := update_where (\<lambda>q. t_project_id q = t_project_id r)
        (\<lambda>q. q\<lparr>t_revision := t_revision r, t_payload := t_payload r,
               t_payload_hash := t_payload_hash r, t_updated_at := t_updated_at r\<rparr>) (teams d)\<rparr>)
      else insert_team d r)"

definition seed_team ::
  "(string \<Rightarrow> string) \<Rightarrow> team_repository \<Rightarrow> micros \<Rightarrow> project_team \<Rightarrow> db \<Rightarrow> exn + db" where
  "seed_team sha tr now team d =
     bindE (team_validate tr team d) (\<lambda>_.
     bindE (encode (team_to_dict team)) (\<lambda>text.
       insert_team_or_ignore
         (new_team_row now (pt_project_id team) 1 (canon_obj (team_to_dict team)) (sha text)) d))"

definition team_seed ::
  "(string \<Rightarrow> string) \<Rightarrow> team_repository \<Rightarrow> micros \<Rightarrow> db \<Rightarrow> (exn + unit) \<times> db" where
  "team_seed sha tr now =
     write_connection TeamStoreError (\<lambda>d.
       bindE (foldE (seed_team sha tr now) (as_teams (tr_system tr)) d) (\<lambda>d'. Inr ((), d')))"

text \<open>The held attempts of the project's jobs, then one update per attempt that lost its agent.\<close>

definition held_attempts :: "string \<Rightarrow> db \<Rightarrow> attempt_row list" where
  "held_attempts p d =
     filter (\<lambda>r. n_held r \<and> (\<exists>j\<in>set (jobs d). j_id j = n_job_id r \<and> j_project_id j = p))
       (native_attempts d)"

definition request_cancel :: "attempt_row \<Rightarrow> attempt_row" where
  "request_cancel r = r\<lparr>n_cancel_requested := True\<rparr>"

definition revoke_attempt :: "project_team \<Rightarrow> attempt_row \<Rightarrow> db \<Rightarrow> exn + db" where
  "revoke_attempt team attempt d =
     bindE (item (JObj (n_authorization attempt)) ''profile'') (\<lambda>frozen.
     bindE (item frozen ''id'') (\<lambda>profile.
       if \<not> pt_enabled team \<or> profile \<notin> JStr ` set (pt_agent_ids team)
       then bindE (update_attempts d (\<lambda>r. n_id r = n_id attempt) request_cancel)
              (\<lambda>(rowcount, d'). Inr d')
       else Inr d))"

definition put_request :: "string \<Rightarrow> json \<Rightarrow> exn + int \<times> project_team" where
  "put_request p payload =
     (case payload of
        JObj kvs \<Rightarrow>
          if fst ` set kvs \<noteq> {''revision'', ''team''} then Inl TeamConfigError
          else (case get_default kvs ''revision'' JNull of
              JInt revision \<Rightarrow>
                if revision < 0 then Inl TeamConfigError
                else bindE (team_from_dict (get_default kvs ''team'' JNull)) (\<lambda>team.
                  if pt_project_id team \<noteq> p then Inl TeamConfigError else Inr (revision, team))
            | _ \<Rightarrow> Inl TeamConfigError)
      | _ \<Rightarrow> Inl TeamConfigError)"

definition put_tx ::
  "(string \<Rightarrow> string) \<Rightarrow> team_repository \<Rightarrow> micros \<Rightarrow> string \<Rightarrow> int \<times> project_team \<Rightarrow> db
   \<Rightarrow> exn + (int \<times> project_team) \<times> db" where
  "put_tx sha tr now p request d =
     (let (revision, team) = request in
      bindE (team_validate tr team d) (\<lambda>_.
        if (case select_team d p of None \<Rightarrow> 0 | Some row \<Rightarrow> t_revision row) \<noteq> revision
        then Inl TeamConflictError
        else bindE (encode (team_to_dict team)) (\<lambda>text.
          bindE (upsert_team
            (new_team_row now p (revision + 1) (canon_obj (team_to_dict team)) (sha text)) d) (\<lambda>d1.
          bindE (foldE (revoke_attempt team) (held_attempts p d1) d1) (\<lambda>d2.
            Inr ((revision + 1, team), d2))))))"

definition team_put ::
  "(string \<Rightarrow> string) \<Rightarrow> team_repository \<Rightarrow> string \<Rightarrow> json \<Rightarrow> micros \<Rightarrow> db
   \<Rightarrow> (exn + int \<times> project_team) \<times> db" where
  "team_put sha tr p payload now =
     validated (put_request p payload) (\<lambda>request.
       write_connection TeamStoreError (put_tx sha tr now p request))"

subsection \<open>Authorization\<close>

definition binding_json :: "int \<Rightarrow> agent_binding \<Rightarrow> payload" where
  "binding_json revision b =
     [(''revision'', JInt revision), (''team'', JObj (team_to_dict (ab_team b))),
      (''profile'', JObj (agent_to_dict (ab_profile b))),
      (''model'', JObj (model_to_dict (ab_model b))),
      (''connection'', JObj (conn_to_dict (ab_connection b)))]"

definition team_snapshot ::
  "(string \<Rightarrow> string) \<Rightarrow> team_repository \<Rightarrow> string \<Rightarrow> string \<Rightarrow> db \<Rightarrow> exn + payload" where
  "team_snapshot sha tr p agent d =
     connection TeamStoreError
       (bindE (team_get_tx sha tr p d) (\<lambda>(revision, team).
        bindE (team_validate tr team d) (\<lambda>_.
        bindE (binding (tr_system tr) team (JStr agent) True) (\<lambda>b.
          if pt_mode team \<noteq> ''manual'' then Inl TeamConfigError
          else Inr (binding_json revision b)))))"

definition project_policy :: "project_row \<Rightarrow> json" where
  "project_policy r = JObj
     [(''id'', JStr (p_id r)), (''root'', JStr (p_root r)),
      (''sensitivity'', JStr (sensitivity_value (p_sensitivity r))),
      (''cloud_allowed'', JBool (p_cloud_allowed r)),
      (''permission_mode'', JStr (permission_mode_value (p_permission_mode r)))]"

definition binding_keys :: "string list" where
  "binding_keys = [''revision'', ''team'', ''profile'', ''model'', ''connection'']"

definition authorize ::
  "(string \<Rightarrow> string) \<Rightarrow> team_repository \<Rightarrow> job_row \<Rightarrow> db \<Rightarrow> exn + payload" where
  "authorize sha tr job d =
     (case map_of (j_request_snapshot job) ''agent_binding'' of
        Some (JObj frozen) \<Rightarrow>
          if fst ` set frozen \<noteq> set binding_keys then Inl TeamConflictError
          else bindE (team_get_tx sha tr (j_project_id job) d) (\<lambda>(revision, team).
          bindE (team_validate tr team d) (\<lambda>_.
          bindE (case get_default frozen ''profile'' JNull of
                   JObj profile \<Rightarrow> Inr (get_default profile ''id'' JNull)
                 | _ \<Rightarrow> Inl AttributeErr) (\<lambda>agent_id.
          bindE (binding (tr_system tr) team agent_id True) (\<lambda>b.
            if list_ex (\<lambda>k. canon (get_default (binding_json revision b) k JNull)
                         \<noteq> canon (get_default frozen k JNull)) [''profile'', ''model'', ''connection'']
            then Inl TeamConflictError
            else case select_project d (j_project_id job) of
                None \<Rightarrow> Inl TypeErr
              | Some row \<Rightarrow> bindE (project_to_record row) (\<lambda>project.
                  if canon (get_default (j_request_snapshot job) ''project'' JNull)
                       \<noteq> canon (project_policy project)
                  then Inl TeamConflictError
                  else Inr frozen)))))
      | _ \<Rightarrow> Inl TeamConflictError)"

subsection \<open>Invariant\<close>

definition team_stored :: "(string \<Rightarrow> string) \<Rightarrow> team_row \<Rightarrow> project_team \<Rightarrow> bool" where
  "team_stored sha r t \<longleftrightarrow>
     team_valid t \<and> t_payload r = canon_obj (team_to_dict t) \<and>
     t_payload_hash r = sha (render (JObj (t_payload r))) \<and> pt_project_id t = t_project_id r \<and>
     1 \<le> t_revision r"

definition teams_wf :: "(string \<Rightarrow> string) \<Rightarrow> db \<Rightarrow> bool" where
  "teams_wf sha d \<longleftrightarrow>
     distinct (map t_project_id (teams d)) \<and> (\<forall>r\<in>set (teams d). \<exists>t. team_stored sha r t) \<and>
     (\<forall>r\<in>set (teams d). \<exists>q\<in>set (projects d). p_id q = t_project_id r)"

lemma team_stored_record:
  "team_stored sha r t \<Longrightarrow> team_row_record sha (t_project_id r) r = Inr (t_revision r, t)"
  by (simp add: team_row_record_def team_stored_def team_roundtrip_canon)

lemma team_row_record_stored:
  assumes "teams_wf sha d" and "select_team d p = Some r"
  shows "\<exists>t. team_stored sha r t \<and> t_project_id r = p \<and> team_row_record sha p r = Inr (t_revision r, t)"
proof -
  have r: "r \<in> set (teams d)" "t_project_id r = p"
    using Prelude.find_Some_iff [OF assms(2) [unfolded select_team_def]] by auto
  obtain t where "team_stored sha r t" using assms(1) r(1) by (auto simp: teams_wf_def)
  then show ?thesis using team_stored_record r(2) by blast
qed

lemma team_no_nan [simp]: "\<not> has_nan_fields (team_to_dict t)"
  by (simp add: team_to_dict_def json_texts_def json_opt_def has_nan_list_ex split: option.split)

lemma encode_team [simp]: "encode (team_to_dict t) = Inr (render (JObj (canon_obj (team_to_dict t))))"
  by (simp add: encode_def dumps_def)

lemma new_team_row_simps [simp]:
  "t_project_id (new_team_row now p n data h) = p" "t_revision (new_team_row now p n data h) = n"
  "t_payload (new_team_row now p n data h) = data" "t_payload_hash (new_team_row now p n data h) = h"
  by (simp_all add: new_team_row_def)

lemma new_team_stored:
  "team_valid t \<Longrightarrow> 1 \<le> n \<Longrightarrow>
     team_stored sha (new_team_row now (pt_project_id t) n (canon_obj (team_to_dict t))
       (sha (render (JObj (canon_obj (team_to_dict t)))))) t"
  by (simp add: team_stored_def)

lemma put_request_Inr:
  "put_request p v = Inr (n, t) \<Longrightarrow> 0 \<le> n \<and> team_valid t \<and> pt_project_id t = p \<and>
     (\<exists>kvs. v = JObj kvs \<and> get_default kvs ''revision'' JNull = JInt n)"
  by (auto simp: put_request_def bindE_eq_Inr split: json.splits if_splits dest: team_from_dict_valid)

lemma upsert_team_Inr:
  assumes "upsert_team r d = Inr d'"
  shows "d' = d\<lparr>teams := teams d'\<rparr> \<and>
    (\<exists>q. select_team d' (t_project_id r) = Some q \<and> t_project_id q = t_project_id r \<and>
       t_revision q = t_revision r \<and> t_payload q = t_payload r \<and> t_payload_hash q = t_payload_hash r) \<and>
    (\<forall>p. p \<noteq> t_project_id r \<longrightarrow> select_team d' p = select_team d p)"
proof (cases "\<exists>q\<in>set (teams d). t_project_id q = t_project_id r")
  case True
  let ?hit = "\<lambda>q. t_project_id q = t_project_id r"
  let ?f = "\<lambda>q. q\<lparr>t_revision := t_revision r, t_payload := t_payload r,
    t_payload_hash := t_payload_hash r, t_updated_at := t_updated_at r\<rparr>"
  have d': "d' = d\<lparr>teams := update_where ?hit ?f (teams d)\<rparr>"
    using assms True by (auto simp: upsert_team_def split: if_splits)
  have f: "select_team d' p = map_option (\<lambda>q. if ?hit q then ?f q else q) (select_team d p)" for p
    unfolding d' select_team_def by (simp add: find_update_where)
  obtain q where q: "select_team d (t_project_id r) = Some q"
    using True by (cases "select_team d (t_project_id r)") (auto simp: select_team_def find_None_iff2)
  have key: "select_team d p = Some q \<Longrightarrow> t_project_id q = p" for p q
    by (auto simp: select_team_def dest: Prelude.find_Some_iff)
  have "select_team d' p = select_team d p" if "p \<noteq> t_project_id r" for p
    using f [of p] key that by (cases "select_team d p") auto
  moreover have "select_team d' (t_project_id r) = Some (?f q)" using f q key [OF q] by simp
  ultimately show ?thesis using d' key [OF q] by auto
next
  case False
  then have d': "d' = d\<lparr>teams := teams d @ [r]\<rparr>"
    using assms by (auto simp: upsert_team_def insert_team_def split: if_splits)
  have "select_team d (t_project_id r) = None" using False by (simp add: select_team_def find_None_iff2)
  then have "select_team d' (t_project_id r) = Some r"
    by (simp add: d' select_team_def find_append)
  moreover have "select_team d' p = select_team d p" if "p \<noteq> t_project_id r" for p
    using that by (simp add: d' select_team_def find_append split: option.split)
  ultimately show ?thesis using d' by auto
qed

lemma teams_wf_append:
  "teams_wf sha d \<Longrightarrow> team_stored sha r t \<Longrightarrow> t_project_id r \<notin> t_project_id ` set (teams d) \<Longrightarrow>
     \<exists>q\<in>set (projects d). p_id q = t_project_id r \<Longrightarrow> teams_wf sha (d\<lparr>teams := teams d @ [r]\<rparr>)"
  by (simp add: teams_wf_def) blast

lemma upsert_team_wf:
  assumes wf: "teams_wf sha d" and s: "team_stored sha r t" and u: "upsert_team r d = Inr d'"
  shows "teams_wf sha d'"
proof (cases "\<exists>q\<in>set (teams d). t_project_id q = t_project_id r")
  case True
  let ?hit = "\<lambda>q. t_project_id q = t_project_id r"
  let ?f = "\<lambda>q. q\<lparr>t_revision := t_revision r, t_payload := t_payload r,
    t_payload_hash := t_payload_hash r, t_updated_at := t_updated_at r\<rparr>"
  have d': "d' = d\<lparr>teams := update_where ?hit ?f (teams d)\<rparr>"
    using u True by (auto simp: upsert_team_def split: if_splits)
  have ids: "map t_project_id (update_where ?hit ?f (teams d)) = map t_project_id (teams d)"
    by (rule map_update_where_frame) simp
  have st: "team_stored sha (?f q) t" if "t_project_id q = t_project_id r" for q
    using s that by (simp add: team_stored_def)
  have "\<exists>q\<in>set (projects d). p_id q = t_project_id r" using True wf by (fastforce simp: teams_wf_def)
  then show ?thesis
    unfolding teams_wf_def d'
    using wf st by (auto simp: ids teams_wf_def set_update_where)
next
  case False
  then have n: "t_project_id r \<notin> t_project_id ` set (teams d)" by force
  have d': "d' = d\<lparr>teams := teams d @ [r]\<rparr>" and p: "\<exists>q\<in>set (projects d). p_id q = t_project_id r"
    using u False by (auto simp: upsert_team_def insert_team_def split: if_splits)
  show ?thesis unfolding d' by (rule teams_wf_append [OF wf s n p])
qed

subsection \<open>Revocation\<close>

definition cancel_only :: "attempt_row list \<Rightarrow> attempt_row list \<Rightarrow> bool" where
  "cancel_only xs ys \<longleftrightarrow> list_all2 (\<lambda>r r'. r' = r \<or> r' = request_cancel r) xs ys"

lemma cancel_only_refl: "cancel_only xs xs"
  by (simp add: cancel_only_def list_all2_same)

lemma cancel_only_trans: "cancel_only xs ys \<Longrightarrow> cancel_only ys zs \<Longrightarrow> cancel_only xs zs"
  unfolding cancel_only_def by (rule list_all2_trans) (auto simp: request_cancel_def)

lemma cancel_only_update: "cancel_only xs (update_where p request_cancel xs)"
  by (induction xs) (auto simp: cancel_only_def)

lemma update_attempts_Inr:
  "update_attempts d p f = Inr (n, d') \<Longrightarrow>
     d' = d\<lparr>native_attempts := update_where p f (native_attempts d)\<rparr> \<and> n = count_where p (native_attempts d) \<and>
     \<not> (\<exists>r\<in>set (native_attempts d). p r \<and> attempt_update_aborts r (f r)) \<and>
     \<not> (\<exists>r\<in>set (native_attempts d). p r \<and> \<not> attempt_check (f r)) \<and>
     count_where n_held (update_where p f (native_attempts d)) \<le> 1"
  by (auto simp: update_attempts_def split: if_splits)

lemma revoke_attempt_Inr:
  assumes "revoke_attempt team a d = Inr d'"
  shows "d' = d\<lparr>native_attempts := native_attempts d'\<rparr> \<and> cancel_only (native_attempts d) (native_attempts d') \<and>
    (\<forall>v. map_of (n_authorization a) ''profile'' = Some v \<longrightarrow> item v ''id'' \<notin> Inr ` JStr ` set (pt_agent_ids team) \<or> \<not> pt_enabled team
       \<longrightarrow> (\<forall>r\<in>set (native_attempts d'). n_id r = n_id a \<longrightarrow> n_cancel_requested r))"
proof -
  obtain v i where v: "map_of (n_authorization a) ''profile'' = Some v" "item v ''id'' = Inr i"
    and rest: "(if \<not> pt_enabled team \<or> i \<notin> JStr ` set (pt_agent_ids team)
       then bindE (update_attempts d (\<lambda>r. n_id r = n_id a) request_cancel) (\<lambda>(rowcount, d'). Inr d')
       else Inr d) = Inr d'"
    using assms by (auto simp: revoke_attempt_def bindE_eq_Inr item_def [of "JObj x" for x] split: option.splits)
  show ?thesis
  proof (cases "\<not> pt_enabled team \<or> i \<notin> JStr ` set (pt_agent_ids team)")
    case True
    then obtain n where "update_attempts d (\<lambda>r. n_id r = n_id a) request_cancel = Inr (n, d')"
      using rest by (auto simp: bindE_eq_Inr)
    note u = update_attempts_Inr [OF this]
    have "n_id (request_cancel r) = n_id r" "n_cancel_requested (request_cancel r)" for r
      by (simp_all add: request_cancel_def)
    then show ?thesis using u cancel_only_update by (auto simp: set_update_where)
  next
    case False
    then show ?thesis using rest v cancel_only_refl by auto
  qed
qed

lemma cancel_only_keeps:
  assumes "cancel_only xs ys" and "\<forall>r\<in>set xs. n_id r = i \<longrightarrow> n_cancel_requested r"
  shows "\<forall>r\<in>set ys. n_id r = i \<longrightarrow> n_cancel_requested r"
  using assms unfolding cancel_only_def
  by (induction rule: list_all2_induct) (auto simp: request_cancel_def)

lemma attempts_frame_trans:
  "d1 = d\<lparr>native_attempts := xs\<rparr> \<Longrightarrow> d2 = d1\<lparr>native_attempts := ys\<rparr> \<Longrightarrow> d2 = d\<lparr>native_attempts := ys\<rparr>"
  by simp

lemma revoke_all_Inr:
  "foldE (revoke_attempt team) as d = Inr d' \<Longrightarrow>
     d' = d\<lparr>native_attempts := native_attempts d'\<rparr> \<and> cancel_only (native_attempts d) (native_attempts d') \<and>
     (\<forall>a\<in>set as. \<forall>v. map_of (n_authorization a) ''profile'' = Some v \<longrightarrow>
        item v ''id'' \<notin> Inr ` JStr ` set (pt_agent_ids team) \<or> \<not> pt_enabled team \<longrightarrow>
        (\<forall>r\<in>set (native_attempts d'). n_id r = n_id a \<longrightarrow> n_cancel_requested r))"
proof (induction as arbitrary: d)
  case (Cons a as)
  obtain d1 where d1: "revoke_attempt team a d = Inr d1" "foldE (revoke_attempt team) as d1 = Inr d'"
    using Cons.prems by (auto simp: bindE_eq_Inr)
  note r = revoke_attempt_Inr [OF d1(1)] and ih = Cons.IH [OF d1(2)]
  have frame: "d' = d\<lparr>native_attempts := native_attempts d'\<rparr>"
    using r ih attempts_frame_trans by blast
  have only: "cancel_only (native_attempts d) (native_attempts d')"
    using r ih cancel_only_trans by blast
  have keep: "(\<forall>r\<in>set (native_attempts d1). n_id r = n_id a \<longrightarrow> n_cancel_requested r) \<Longrightarrow>
      \<forall>r\<in>set (native_attempts d'). n_id r = n_id a \<longrightarrow> n_cancel_requested r"
    using ih cancel_only_keeps by blast
  show ?case
  proof (intro conjI ballI allI impI, rule frame, rule only)
    fix x v q assume x: "x \<in> set (a # as)" "map_of (n_authorization x) ''profile'' = Some v"
      "item v ''id'' \<notin> Inr ` JStr ` set (pt_agent_ids team) \<or> \<not> pt_enabled team"
      and q: "q \<in> set (native_attempts d')" "n_id q = n_id x"
    show "n_cancel_requested q"
    proof (cases "x \<in> set as")
      case True
      then show ?thesis using ih x(2,3) q by blast
    next
      case False
      then have "x = a" using x(1) by simp
      then show ?thesis using r x(2,3) q keep by blast
    qed
  qed
qed (simp add: cancel_only_refl)

subsection \<open>Saving a team\<close>

lemma put_tx_Inr:
  assumes "put_tx sha tr now p (n, t) d = Inr (x, d')"
  shows "x = (n + 1, t) \<and> (case select_team d p of None \<Rightarrow> 0 | Some row \<Rightarrow> t_revision row) = n \<and>
    team_validate tr t d = Inr () \<and>
    (\<exists>d1. upsert_team (new_team_row now p (n + 1) (canon_obj (team_to_dict t))
        (sha (render (JObj (canon_obj (team_to_dict t)))))) d = Inr d1 \<and>
       foldE (revoke_attempt t) (held_attempts p d1) d1 = Inr d')"
  using assms by (auto simp: put_tx_def bindE_eq_Inr split: if_splits)

lemma team_put_Inr:
  assumes "team_put sha tr p v now d = (Inr (m, t), d')"
  shows "put_request p v = Inr (m - 1, t) \<and> put_tx sha tr now p (m - 1, t) d = Inr ((m, t), d')"
proof -
  obtain n t' where r: "put_request p v = Inr (n, t')" "put_tx sha tr now p (n, t') d = Inr ((m, t), d')"
    using assms by (auto simp: team_put_def tx_Inr)
  then show ?thesis using put_tx_Inr [OF r(2)] by auto
qed

lemma team_put_rollback: "team_put sha tr p v now d = (Inl e, d') \<Longrightarrow> d' = d"
  unfolding team_put_def by (rule tx_rollback)

lemma team_put_effect:
  assumes wf: "teams_wf sha d" and put: "team_put sha tr p v now d = (Inr (m, t), d')"
  shows "teams_wf sha d' \<and> team_get_tx sha tr p d' = Inr (m, t) \<and> team_valid t \<and> pt_project_id t = p \<and>
    (\<forall>q. q \<noteq> p \<longrightarrow> select_team d' q = select_team d q) \<and>
    (\<exists>r. select_team d' p = Some r \<and> t_revision r = m) \<and>
    d' = d\<lparr>teams := teams d', native_attempts := native_attempts d'\<rparr> \<and>
    foldE (revoke_attempt t) (held_attempts p d) (d\<lparr>teams := teams d'\<rparr>) = Inr d'"
proof -
  note pi = team_put_Inr [OF put]
  have req: "0 \<le> m - 1" "team_valid t" "pt_project_id t = p"
    using put_request_Inr [of p v "m - 1" t] pi by auto
  let ?r = "new_team_row now p m (canon_obj (team_to_dict t)) (sha (render (JObj (canon_obj (team_to_dict t)))))"
  obtain d1 where val: "team_validate tr t d = Inr ()" and up: "upsert_team ?r d = Inr d1"
    and rev: "foldE (revoke_attempt t) (held_attempts p d1) d1 = Inr d'"
    using put_tx_Inr [of sha tr now p "m - 1" t d "(m, t)" d'] pi by auto
  have st: "team_stored sha ?r t" using new_team_stored [of t m sha now] req by simp
  note u = upsert_team_Inr [OF up] and f = revoke_all_Inr [OF rev]
  have d1: "d1 = d\<lparr>teams := teams d1\<rparr>" using u by (elim conjE)
  have ts: "teams d' = teams d1" by (subst f [THEN conjunct1]) simp
  have sel: "select_team d' q = select_team d1 q" for q using ts by (simp add: select_team_def)
  have pd1: "projects d1 = projects d" by (subst d1) simp
  have pd: "projects d' = projects d1" by (subst f [THEN conjunct1]) simp
  have wf': "teams_wf sha d'"
    using upsert_team_wf [OF wf st up] ts pd pd1 by (simp add: teams_wf_def)
  have sys: "p \<in> set (tr_project_ids tr)" using val req by (auto simp: team_validate_def split: if_splits)
  obtain q where q: "select_team d' p = Some q" "t_revision q = m" "t_payload q = t_payload ?r"
    using u sel by auto
  obtain t2 where t2: "team_stored sha q t2" "team_row_record sha p q = Inr (m, t2)"
    using team_row_record_stored [OF wf' q(1)] q(2) by auto
  have "team_from_dict (JObj (t_payload q)) = Inr t" using q(3) req by (simp add: team_roundtrip_canon)
  moreover have "team_from_dict (JObj (t_payload q)) = Inr t2"
    using t2(1) by (simp add: team_stored_def team_roundtrip_canon)
  ultimately have "t2 = t" by simp
  then have get: "team_get_tx sha tr p d' = Inr (m, t)" using sys q t2 by (simp add: team_get_tx_def)
  have held: "held_attempts p d1 = held_attempts p d"
    by (subst d1) (simp add: held_attempts_def)
  have d1': "d1 = d\<lparr>teams := teams d'\<rparr>" unfolding ts by (rule d1)
  have frame: "d' = d\<lparr>teams := teams d', native_attempts := native_attempts d'\<rparr>"
    using f [THEN conjunct1] unfolding d1' .
  have others: "\<forall>q. q \<noteq> p \<longrightarrow> select_team d' q = select_team d q" using u sel by simp
  have rev': "foldE (revoke_attempt t) (held_attempts p d) (d\<lparr>teams := teams d'\<rparr>) = Inr d'"
    using rev [unfolded held] unfolding d1' .
  show ?thesis using wf' get req(2,3) others q(1,2) frame rev' by blast
qed

lemma team_put_stale:
  assumes r: "select_team d p = Some row" "t_revision row = m" and q: "put_request p w = Inr (n, t)" "n \<noteq> m"
  shows "\<exists>e. team_put sha tr p w now d = (Inl e, d)"
proof (cases "team_put sha tr p w now d")
  case (Pair x d')
  show ?thesis
  proof (cases x)
    case (Inl e)
    then show ?thesis using Pair team_put_rollback by auto
  next
    case (Inr y)
    obtain k t' where "y = (k, t')" by (cases y)
    then have "put_request p w = Inr (k - 1, t')" "put_tx sha tr now p (k - 1, t') d = Inr ((k, t'), d')"
      using Pair Inr team_put_Inr by auto
    then have "m = n" using q r put_tx_Inr by fastforce
    then show ?thesis using q by simp
  qed
qed

subsection \<open>Seeding\<close>

lemma seed_team_Inr:
  assumes "seed_team sha tr now t d = Inr d'"
  shows "team_validate tr t d = Inr () \<and>
    team_check (new_team_row now (pt_project_id t) 1 (canon_obj (team_to_dict t))
      (sha (render (JObj (canon_obj (team_to_dict t)))))) \<and>
    (\<exists>q\<in>set (teams d'). t_project_id q = pt_project_id t) \<and>
    (d' = d \<or> d' = d\<lparr>teams := teams d @ [new_team_row now (pt_project_id t) 1 (canon_obj (team_to_dict t))
        (sha (render (JObj (canon_obj (team_to_dict t)))))]\<rparr> \<and> pt_project_id t \<notin> t_project_id ` set (teams d) \<and>
      (\<exists>q\<in>set (projects d). p_id q = pt_project_id t))"
  using assms
  by (auto simp: seed_team_def bindE_eq_Inr insert_team_or_ignore_def insert_team_def split: if_splits)

lemma team_check_now: "team_check (new_team_row now p n data h) = team_check (new_team_row now' p n data h)"
  by (simp add: team_check_def)

lemma seed_team_again:
  assumes "team_validate tr t d = Inr ()" and "\<exists>q\<in>set (teams d). t_project_id q = pt_project_id t"
    and "team_check (new_team_row now (pt_project_id t) 1 (canon_obj (team_to_dict t))
      (sha (render (JObj (canon_obj (team_to_dict t))))))"
  shows "seed_team sha tr now' t d = Inr d"
  using assms team_check_now [of now _ _ _ _ now'] by (simp add: seed_team_def insert_team_or_ignore_def)

lemma team_validate_frame [simp]: "team_validate tr t (d\<lparr>teams := x\<rparr>) = team_validate tr t d"
  by (simp add: team_validate_def select_project_def)

lemma seed_all_Inr:
  "foldE (seed_team sha tr now) ts d = Inr d' \<Longrightarrow>
     (\<exists>new. d' = d\<lparr>teams := teams d @ new\<rparr>) \<and> foldE (seed_team sha tr now') ts d' = Inr d'"
proof (induction ts arbitrary: d)
  case (Cons t ts)
  obtain d1 where d1: "seed_team sha tr now t d = Inr d1" "foldE (seed_team sha tr now) ts d1 = Inr d'"
    using Cons.prems by (auto simp: bindE_eq_Inr)
  note s = seed_team_Inr [OF d1(1)] and ih = Cons.IH [OF d1(2)]
  obtain new where new: "d' = d1\<lparr>teams := teams d1 @ new\<rparr>" using ih by blast
  have "\<exists>new1. d1 = d\<lparr>teams := teams d @ new1\<rparr>" using s by (auto intro: exI [of _ "[]"])
  then obtain new1 where new1: "d1 = d\<lparr>teams := teams d @ new1\<rparr>" by blast
  have v: "team_validate tr t d' = Inr ()" using s [THEN conjunct1] new new1 by simp
  have m: "\<exists>q\<in>set (teams d'). t_project_id q = pt_project_id t" using s new by auto
  have "seed_team sha tr now' t d' = Inr d'" using seed_team_again [OF v m] s by blast
  then show ?case using ih new new1 by auto
qed (auto intro: exI [of _ "[]"])

lemma seed_all_wf:
  "teams_wf sha d \<Longrightarrow> \<forall>t\<in>set ts. team_valid t \<Longrightarrow> foldE (seed_team sha tr now) ts d = Inr d' \<Longrightarrow> teams_wf sha d'"
proof (induction ts arbitrary: d)
  case (Cons t ts)
  obtain d1 where d1: "seed_team sha tr now t d = Inr d1" "foldE (seed_team sha tr now) ts d1 = Inr d'"
    using Cons.prems by (auto simp: bindE_eq_Inr)
  let ?r = "new_team_row now (pt_project_id t) 1 (canon_obj (team_to_dict t))
      (sha (render (JObj (canon_obj (team_to_dict t)))))"
  have "team_stored sha ?r t" using Cons.prems(2) by (intro new_team_stored) auto
  moreover have "d1 = d \<or> d1 = d\<lparr>teams := teams d @ [?r]\<rparr> \<and> t_project_id ?r \<notin> t_project_id ` set (teams d) \<and>
      (\<exists>q\<in>set (projects d). p_id q = t_project_id ?r)"
    using seed_team_Inr [OF d1(1)] by simp
  ultimately have "teams_wf sha d1" using teams_wf_append Cons.prems(1) by blast
  then show ?case using Cons.IH d1(2) Cons.prems(2) by simp
qed simp

definition seed_inv :: "(string \<Rightarrow> string) \<Rightarrow> team_repository \<Rightarrow> db \<Rightarrow> bool" where
  "seed_inv sha tr d \<longleftrightarrow> teams_wf sha d \<and> (\<forall>t\<in>set (as_teams (tr_system tr)). team_valid t)"

interpretation team_seeding: idempotent_operation "team_seed sha tr" "seed_inv sha tr" for sha tr
proof
  fix t s e s' assume "team_seed sha tr t s = (Inl e, s')"
  then show "s' = s" unfolding team_seed_def by (rule write_connection_Inl)
next
  fix s t x s' assume "seed_inv sha tr s" "team_seed sha tr t s = (Inr x, s')"
  then show "seed_inv sha tr s'"
    using seed_all_wf by (auto simp: seed_inv_def team_seed_def tx_Inr bindE_eq_Inr)
next
  fix s t x s' t' assume "seed_inv sha tr s" "team_seed sha tr t s = (Inr x, s')"
  then show "team_seed sha tr t' s' = (Inr x, s')"
    using seed_all_Inr by (auto simp: team_seed_def tx_Inr bindE_eq_Inr)
qed

subsection \<open>Authorization\<close>

lemma authorize_agent:
  assumes a: "authorize sha tr job d = Inr frozen"
  shows "\<exists>n t i b prof. team_get_tx sha tr (j_project_id job) d = Inr (n, t) \<and>
    binding (tr_system tr) t (JStr i) True = Inr b \<and>
    map_of (j_request_snapshot job) ''agent_binding'' = Some (JObj frozen) \<and>
    get_default frozen ''profile'' JNull = JObj prof \<and> get_default prof ''id'' JNull = JStr i \<and>
    i \<in> set (pt_agent_ids t) \<and> pt_enabled t"
proof -
  obtain n t i b prof where f: "map_of (j_request_snapshot job) ''agent_binding'' = Some (JObj frozen)"
      "team_get_tx sha tr (j_project_id job) d = Inr (n, t)"
      "get_default frozen ''profile'' JNull = JObj prof" "get_default prof ''id'' JNull = i"
      "binding (tr_system tr) t i True = Inr b"
    using a by (auto simp: authorize_def bindE_eq_Inr split: option.splits json.splits if_splits)
  obtain s where s: "i = JStr s" using f(5) by (auto simp: binding_def split: if_splits)
  note fb = binding_Inr [OF f(5) [unfolded s]]
  show ?thesis
    by (intro exI [of _ n] exI [of _ t] exI [of _ s] exI [of _ b] exI [of _ prof]) (use f s fb in simp)
qed

lemma revoked_refused:
  assumes "team_get_tx sha tr (j_project_id job) d = Inr (n, t)"
    and "map_of (j_request_snapshot job) ''agent_binding'' = Some (JObj frozen)"
    and "get_default frozen ''profile'' JNull = JObj prof" and "get_default prof ''id'' JNull = JStr i"
    and "i \<notin> set (pt_agent_ids t) \<or> \<not> pt_enabled t"
  shows "\<exists>e. authorize sha tr job d = Inl e"
  using authorize_agent [of sha tr job d] assms by (cases "authorize sha tr job d") auto

lemma get_default_canon:
  assumes "distinct (map fst kvs)" and "map_of kvs k = Some v"
  shows "get_default (canon_obj kvs) k f = canon v" "map_of (canon_obj kvs) k = Some (canon v)"
  using assms by (simp_all add: get_default_def map_of_canon_obj)

lemma keys_canon_obj: "fst ` set (canon_obj kvs) = fst ` set kvs"
  by (simp add: canon_obj_def canon_fields_map image_image split_beta)

lemma canon_JObj: "canon (JObj kvs) = JObj (canon_obj kvs)"
  by (simp add: canon_obj_def)

text \<open>A job frozen to the snapshot, as it was taken or as it is stored, is authorized.\<close>

lemma frozen_authorized:
  assumes snap: "team_snapshot sha tr p agent d = Inr s"
    and proj: "select_project d p = Some r"
    and job: "j_project_id job = p" "map_of (j_request_snapshot job) ''agent_binding'' = Some (JObj frozen)"
      "canon (get_default (j_request_snapshot job) ''project'' JNull) = canon (project_policy r)"
    and frozen: "fst ` set frozen = fst ` set s" "get_default frozen ''profile'' JNull = JObj prof"
      "get_default prof ''id'' JNull = JStr agent"
      "\<And>k. k \<in> set binding_keys \<Longrightarrow> canon (get_default frozen k JNull) = canon (get_default s k JNull)"
  shows "authorize sha tr job d = Inr frozen"
proof -
  obtain n t b where g: "team_get_tx sha tr p d = Inr (n, t)" and v: "team_validate tr t d = Inr ()"
    and b: "binding (tr_system tr) t (JStr agent) True = Inr b" and s: "s = binding_json n b"
    using snap by (auto simp: team_snapshot_def bindE_eq_Inr split: if_splits)
  have pid: "pt_project_id t = p"
    using g by (auto simp: team_get_tx_def team_row_record_def bindE_eq_Inr split: if_splits option.splits)
  have rec: "project_to_record r = Inr r"
    using v proj pid by (auto simp: team_validate_def bindE_eq_Inr project_to_record_def split: if_splits)
  have keys: "fst ` set frozen = set binding_keys"
    by (simp add: frozen(1) s binding_json_def binding_keys_def)
  have "\<not> list_ex (\<lambda>k. canon (get_default (binding_json n b) k JNull) \<noteq> canon (get_default frozen k JNull))
      [''profile'', ''model'', ''connection'']"
    using frozen(4) by (simp add: s binding_keys_def)
  then show ?thesis
    using g v b proj rec keys frozen(2,3) job by (simp add: authorize_def)
qed

lemma snapshot_shape:
  assumes "team_snapshot sha tr p agent d = Inr s"
  shows "distinct (map fst s)" "fst ` set s = set binding_keys"
    "\<exists>prof. map_of s ''profile'' = Some (JObj prof) \<and> distinct (map fst prof) \<and> map_of prof ''id'' = Some (JStr agent)"
    "\<exists>conn model. map_of s ''connection'' = Some (JObj conn) \<and> map_of s ''model'' = Some (JObj model) \<and>
       (\<exists>kind. map_of conn ''kind'' = Some (JStr kind)) \<and> (\<exists>m. map_of model ''model'' = Some (json_opt JStr m))"
proof -
  obtain n t b where b: "binding (tr_system tr) t (JStr agent) True = Inr b" and s: "s = binding_json n b"
    using assms by (auto simp: team_snapshot_def bindE_eq_Inr split: if_splits)
  show "distinct (map fst s)" "fst ` set s = set binding_keys"
    "\<exists>prof. map_of s ''profile'' = Some (JObj prof) \<and> distinct (map fst prof) \<and> map_of prof ''id'' = Some (JStr agent)"
    "\<exists>conn model. map_of s ''connection'' = Some (JObj conn) \<and> map_of s ''model'' = Some (JObj model) \<and>
       (\<exists>kind. map_of conn ''kind'' = Some (JStr kind)) \<and> (\<exists>m. map_of model ''model'' = Some (json_opt JStr m))"
    using binding_Inr [OF b]
    by (auto simp: s binding_json_def binding_keys_def agent_to_dict_def conn_to_dict_def model_to_dict_def)
qed

lemma snapshot_authorized:
  assumes snap: "team_snapshot sha tr p agent d = Inr s"
    and proj: "select_project d p = Some r"
    and job: "j_project_id job = p"
      "j_request_snapshot job = canon_obj [(''agent_binding'', JObj s), (''project'', project_policy r)]"
  shows "authorize sha tr job d = Inr (canon_obj s)"
proof -
  note sh = snapshot_shape [OF snap]
  obtain prof where prof: "map_of s ''profile'' = Some (JObj prof)" "distinct (map fst prof)"
      "map_of prof ''id'' = Some (JStr agent)"
    using sh(3) by blast
  have snap': "map_of (j_request_snapshot job) ''agent_binding'' = Some (JObj (canon_obj s))"
      "get_default (j_request_snapshot job) ''project'' JNull = canon (project_policy r)"
    unfolding job(2) by (simp_all add: get_default_canon canon_obj_def [of s])
  have get: "canon (get_default (canon_obj s) k JNull) = canon (get_default s k JNull)" for k
    using sh(1) by (cases "map_of s k") (simp_all add: get_default_def map_of_canon_obj)
  have id: "get_default (canon_obj prof) ''id'' JNull = JStr agent"
    using get_default_canon(1) [OF prof(2,3)] by simp
  show ?thesis
    by (rule frozen_authorized [OF snap proj job(1) snap'(1), where prof = "canon_obj prof"])
      (simp_all add: snap'(2) keys_canon_obj get get_default_canon(1) [OF sh(1) prof(1)] canon_JObj id
        del: canon.simps)
qed

subsection \<open>Properties\<close>

definition sample_repository :: team_repository where
  "sample_repository = \<lparr>tr_system = sample_system, tr_project_ids = [''demo'']\<rparr>"

text \<open>The sample store with a project that admits the sample team.\<close>

definition sample_team_db :: db where
  "sample_team_db = (sample_db Queued)\<lparr>projects := [sample_project\<lparr>p_sensitivity := SPrivate,
     p_cloud_allowed := True\<rparr>]\<rparr>"

definition sample_update :: "int \<Rightarrow> bool \<Rightarrow> json" where
  "sample_update n enabled = JObj [(''revision'', JInt n), (''team'',
     JObj (team_to_dict (sample_team\<lparr>pt_enabled := enabled\<rparr>)))]"

lemma sample_teams_wf [simp]: "teams_wf sha sample_team_db"
  by (simp add: teams_wf_def sample_team_db_def)

lemma sample_put:
  "\<exists>d'. team_put sample_sha sample_repository ''demo'' (sample_update 0 True) 50 sample_team_db
     = (Inr (1, sample_team), d')"
proof -
  let ?t = "team_put sample_sha sample_repository ''demo'' (sample_update 0 True) 50 sample_team_db"
  have "fst ?t = Inr (1, sample_team)" by code_simp
  then show ?thesis by (cases ?t) auto
qed

text \<open>
  C11: a saved team was saved on the revision its editor saw, becomes the next revision and is what
  is read back; teams of other projects, jobs, projects and events stay as they were, and any other
  save that was based on an older (or never written) revision is refused without a trace.
\<close>

theorem team_saves_serialized:
  assumes "teams_wf sha d" and put: "team_put sha tr p v now d = (Inr (m, t), d')"
  shows "put_request p v = Inr (m - 1, t) \<and>
    (case select_team d p of None \<Rightarrow> 0 | Some row \<Rightarrow> t_revision row) = m - 1 \<and>
    team_get sha tr p d' = Inr (m, t) \<and> (\<forall>q. q \<noteq> p \<longrightarrow> team_get sha tr q d' = team_get sha tr q d) \<and>
    d' = d\<lparr>teams := teams d', native_attempts := native_attempts d'\<rparr> \<and> teams_wf sha d' \<and>
    (\<forall>w n t2 now2. put_request p w = Inr (n, t2) \<longrightarrow> n \<noteq> m \<longrightarrow>
       (\<exists>e. team_put sha tr p w now2 d' = (Inl e, d')))"
proof -
  note f = team_put_effect [OF assms] and pi = team_put_Inr [OF put]
  obtain r where r: "select_team d' p = Some r" "t_revision r = m" using f by (elim conjE exE)
  have "(case select_team d p of None \<Rightarrow> 0 | Some row \<Rightarrow> t_revision row) = m - 1"
    using put_tx_Inr [of sha tr now p "m - 1" t d "(m, t)" d'] pi by auto
  moreover have "team_get sha tr q d' = team_get sha tr q d" if "q \<noteq> p" for q
    using f that by (simp add: team_get_def team_get_tx_def)
  moreover have "team_get sha tr p d' = Inr (m, t)" using f by (simp add: team_get_def)
  moreover have "\<forall>w n t2 now2. put_request p w = Inr (n, t2) \<longrightarrow> n \<noteq> m \<longrightarrow>
      (\<exists>e. team_put sha tr p w now2 d' = (Inl e, d'))"
    using team_put_stale [OF r] by simp
  moreover have "d' = d\<lparr>teams := teams d', native_attempts := native_attempts d'\<rparr>" using f by (elim conjE)
  moreover have "teams_wf sha d'" using f by (elim conjE)
  ultimately show ?thesis using pi [THEN conjunct1] by (intro conjI) (assumption | blast)+
qed

theorem team_saves_serialized_witness:
  "\<exists>d'. team_get sample_sha sample_repository ''demo'' d' = Inr (1, sample_team) \<and>
     (\<exists>e. team_put sample_sha sample_repository ''demo'' (sample_update 0 False) 60 d' = (Inl e, d'))"
proof -
  obtain d' where d': "team_put sample_sha sample_repository ''demo'' (sample_update 0 True) 50 sample_team_db
      = (Inr (1, sample_team), d')" using sample_put by blast
  have q: "put_request ''demo'' (sample_update 0 False) = Inr (0, sample_team\<lparr>pt_enabled := False\<rparr>)"
    by code_simp
  note s = team_saves_serialized [OF sample_teams_wf d']
  have "\<exists>e. team_put sample_sha sample_repository ''demo'' (sample_update 0 False) 60 d' = (Inl e, d')"
    using s q by (metis one_neq_zero)
  then show ?thesis using s by blast
qed

text \<open>
  C31: saving a team revokes: once an agent is taken off the team, or the team is disabled, every
  held attempt of the project frozen to that agent has its cancellation requested, nothing else of
  any attempt changes, and no job of the project frozen to that agent is authorized any more.
\<close>

theorem team_save_revokes:
  assumes wf: "teams_wf sha d" and put: "team_put sha tr p v now d = (Inr (m, t), d')"
    and i: "i \<notin> set (pt_agent_ids t) \<or> \<not> pt_enabled t"
  shows "cancel_only (native_attempts d) (native_attempts d') \<and>
    (\<forall>a\<in>set (held_attempts p d). \<forall>prof. map_of (n_authorization a) ''profile'' = Some (JObj prof) \<longrightarrow>
       map_of prof ''id'' = Some (JStr i) \<longrightarrow>
       (\<forall>r\<in>set (native_attempts d'). n_id r = n_id a \<longrightarrow> n_cancel_requested r)) \<and>
    (\<forall>(job :: job_row) frozen prof. j_project_id job = p \<longrightarrow>
       map_of (j_request_snapshot job) ''agent_binding'' = Some (JObj frozen) \<longrightarrow>
       get_default frozen ''profile'' JNull = JObj prof \<longrightarrow> get_default prof ''id'' JNull = JStr i \<longrightarrow>
       (\<exists>e. authorize sha tr job d' = Inl e))"
proof -
  note f = team_put_effect [OF wf put]
  then have fold: "foldE (revoke_attempt t) (held_attempts p d) (d\<lparr>teams := teams d'\<rparr>) = Inr d'"
    by (elim conjE)
  note r = revoke_all_Inr [OF this]
  have get: "team_get_tx sha tr p d' = Inr (m, t)" using f by (elim conjE)
  show ?thesis
  proof (intro conjI ballI allI impI)
    show "cancel_only (native_attempts d) (native_attempts d')" using r by simp
  next
    fix a prof q assume a: "a \<in> set (held_attempts p d)" "map_of (n_authorization a) ''profile'' = Some (JObj prof)"
      "map_of prof ''id'' = Some (JStr i)" "q \<in> set (native_attempts d')" "n_id q = n_id a"
    have "item (JObj prof) ''id'' \<notin> Inr ` JStr ` set (pt_agent_ids t) \<or> \<not> pt_enabled t"
      using a(3) i by (auto simp: item_def)
    then show "n_cancel_requested q" using r a by blast
  next
    fix job :: job_row and frozen prof assume "j_project_id job = p"
      "map_of (j_request_snapshot job) ''agent_binding'' = Some (JObj frozen)"
      "get_default frozen ''profile'' JNull = JObj prof" "get_default prof ''id'' JNull = JStr i"
    then show "\<exists>e. authorize sha tr job d' = Inl e" using get i by (intro revoked_refused) auto
  qed
qed

definition sample_attempt :: attempt_row where
  "sample_attempt = \<lparr>n_id = ''attempt-1'', n_job_id = ''job-1'', n_owner = ''host'',
     n_account_slot = ''main'', n_worktree_path = Some ''/srv/wt/job-1'', n_worktree_identity = [],
     n_authorization = [(''profile'', JObj [(''id'', JStr ''impl'')])], n_phase = Admitted,
     n_held = True, n_cancel_requested = False, n_session_id = None, n_outcome = None,
     n_created_at = 45\<rparr>"

theorem team_save_revokes_witness:
  "\<exists>t d'. team_put sample_sha sample_repository ''demo'' (sample_update 0 False) 50
      (sample_team_db\<lparr>native_attempts := [sample_attempt]\<rparr>) = (Inr (1, t), d') \<and>
     (\<forall>r\<in>set (native_attempts d'). n_id r = ''attempt-1'' \<longrightarrow> n_cancel_requested r)"
proof -
  let ?d = "sample_team_db\<lparr>native_attempts := [sample_attempt]\<rparr>"
  let ?t = "team_put sample_sha sample_repository ''demo'' (sample_update 0 False) 50 ?d"
  let ?team = "sample_team\<lparr>pt_enabled := False\<rparr>"
  have wf: "teams_wf sample_sha ?d" using sample_teams_wf [of sample_sha] by (simp add: teams_wf_def)
  have "fst ?t = Inr (1, ?team)" by code_simp
  then obtain d' where d': "?t = (Inr (1, ?team), d')" by (cases ?t) auto
  have held: "held_attempts ''demo'' ?d = [sample_attempt]" by code_simp
  have "''impl'' \<notin> set (pt_agent_ids ?team) \<or> \<not> pt_enabled ?team" by simp
  from team_save_revokes [OF wf d' this] held
  have "\<forall>r\<in>set (native_attempts d'). n_id r = ''attempt-1'' \<longrightarrow> n_cancel_requested r"
    by (simp add: sample_attempt_def)
  then show ?thesis using d' by blast
qed

text \<open>
  The binding a submission freezes is the one admission accepts: a job that carries the
  snapshot and the project policy of the current store is authorized on that store, with exactly
  that snapshot.
\<close>

theorem submission_admissible:
  assumes "team_snapshot sha tr p agent d = Inr s" and "select_project d p = Some r"
    and "j_project_id job = p"
    and "j_request_snapshot job = canon_obj [(''agent_binding'', JObj s), (''project'', project_policy r)]"
  shows "authorize sha tr job d = Inr (canon_obj s)"
  using assms by (rule snapshot_authorized)

definition sample_saved_db :: db where
  "sample_saved_db = sample_team_db\<lparr>teams := [new_team_row 50 ''demo'' 1 (canon_obj (team_to_dict sample_team))
     (replicate 64 CHR ''0'')]\<rparr>"

theorem submission_admissible_witness:
  "\<exists>s job. team_snapshot sample_sha sample_repository ''demo'' ''impl'' sample_saved_db = Inr s \<and>
     authorize sample_sha sample_repository job sample_saved_db = Inr (canon_obj s)"
proof -
  let ?s = "team_snapshot sample_sha sample_repository ''demo'' ''impl'' sample_saved_db"
  let ?p = "select_project sample_saved_db ''demo''"
  have "case ?s of Inr s \<Rightarrow> True | Inl e \<Rightarrow> False" "?p \<noteq> None" by code_simp+
  then obtain s r where s: "?s = Inr s" and r: "?p = Some r" by (auto split: sum.splits)
  let ?job = "(sample_job Queued)\<lparr>j_request_snapshot :=
    canon_obj [(''agent_binding'', JObj s), (''project'', project_policy r)]\<rparr>"
  have "j_project_id ?job = ''demo''" by (simp add: sample_job_def)
  from submission_admissible [OF s r this] show ?thesis using s by auto
qed

text \<open>
  Seeding the configured teams at start-up never overwrites what is stored: existing teams stay
  row by row, only missing ones are added, and seeding again, any number of times, adds nothing.
\<close>

theorem team_seed_keeps_edits:
  assumes "seed_inv sha tr d" and "team_seed sha tr now d = (Inr (), d')"
  shows "deliver (team_seed sha tr) (now # later) d = (replicate (Suc (length later)) (Inr ()), d') \<and>
    (\<exists>new. d' = d\<lparr>teams := teams d @ new\<rparr>) \<and> seed_inv sha tr d'"
proof -
  have "foldE (seed_team sha tr now) (as_teams (tr_system tr)) d = Inr d'"
    using assms(2) by (auto simp: team_seed_def tx_Inr bindE_eq_Inr)
  then have "\<exists>new. d' = d\<lparr>teams := teams d @ new\<rparr>" using seed_all_Inr by blast
  then show ?thesis using team_seeding.deliver_once [OF assms] team_seeding.keeps [OF assms] by blast
qed

theorem team_seed_keeps_edits_witness:
  "\<exists>d'. deliver (team_seed sample_sha sample_repository) [60, 70] sample_saved_db = ([Inr (), Inr ()], d') \<and>
     (\<exists>new. d' = sample_saved_db\<lparr>teams := teams sample_saved_db @ new\<rparr>)"
proof -
  let ?t = "team_seed sample_sha sample_repository 60 sample_saved_db"
  have "fst ?t = Inr ()" by code_simp
  then obtain d' where d': "?t = (Inr (), d')" by (cases ?t) auto
  have "team_from_dict (JObj (team_to_dict sample_team)) = Inr sample_team" by code_simp
  then have v: "team_valid sample_team" by (rule team_from_dict_valid)
  then have "team_stored sample_sha (new_team_row 50 ''demo'' 1 (canon_obj (team_to_dict sample_team))
      (replicate 64 CHR ''0'')) sample_team"
    by (simp add: team_stored_def sample_sha_def) (simp add: sample_team_def)
  then have "teams_wf sample_sha sample_saved_db"
    by (auto simp: teams_wf_def sample_saved_db_def sample_team_db_def sample_project_def)
  then have "seed_inv sample_sha sample_repository sample_saved_db"
    using v by (simp add: seed_inv_def sample_repository_def sample_system_def)
  from team_seed_keeps_edits [OF this d', of "[70]"] show ?thesis by (auto simp: numeral_eq_Suc)
qed

end
