(* ===== verification/RuntimeEvents.thy ===== *)
theory RuntimeEvents
  imports Json Errors Lifecycle
begin

text \<open>
  engine.py, the adapter boundary: capabilities and their requirement check, adapter sessions, and
  \<open>RuntimeEvent\<close> with the checks its constructor makes. A payload arrives as a JSON value; times
  are instants, with the time zone already applied.
\<close>

subsection \<open>Capabilities\<close>

datatype provider_capability = CPlan | CTools | CFiles | CStreaming | CCostReporting

datatype capability_support = Supported | Unsupported | UnknownSupport

definition all_capabilities :: "provider_capability list" where
  "all_capabilities = [CPlan, CTools, CFiles, CStreaming, CCostReporting]"

record provider_capabilities =
  cap_runtime :: job_runtime
  cap_support :: "(provider_capability \<times> capability_support) list"

text \<open>The constructor fills every missing entry with \<open>UNKNOWN\<close>; \<open>AUTO\<close> is refused.\<close>

definition make_capabilities ::
  "job_runtime \<Rightarrow> (provider_capability \<times> capability_support) list \<Rightarrow> exn + provider_capabilities" where
  "make_capabilities runtime support =
     (if runtime = Auto then Inl ValueErr
      else Inr \<lparr>cap_runtime = runtime, cap_support = map (\<lambda>c.
        (c, case map_of support c of None \<Rightarrow> UnknownSupport | Some s \<Rightarrow> s)) all_capabilities\<rparr>)"

definition missing_capabilities ::
  "provider_capabilities \<Rightarrow> provider_capability set \<Rightarrow> provider_capability list" where
  "missing_capabilities p required =
     filter (\<lambda>c. c \<in> required \<and> map_of (cap_support p) c \<noteq> Some Supported) all_capabilities"

subsection \<open>Sessions and events\<close>

datatype runtime_event_kind =
    KText | KPlan | KTool | KFile | KUsage | KQuestion | KError | KCompletion

fun kind_value :: "runtime_event_kind \<Rightarrow> string" where
  "kind_value KText = ''text''"
| "kind_value KPlan = ''plan''"
| "kind_value KTool = ''tool''"
| "kind_value KFile = ''file''"
| "kind_value KUsage = ''usage''"
| "kind_value KQuestion = ''question''"
| "kind_value KError = ''error''"
| "kind_value KCompletion = ''completion''"

fun runtime_value :: "job_runtime \<Rightarrow> string" where
  "runtime_value Auto = ''auto''"
| "runtime_value Claude = ''claude''"
| "runtime_value Codex = ''codex''"
| "runtime_value Local = ''local''"

definition all_kinds :: "runtime_event_kind list" where
  "all_kinds = [KText, KPlan, KTool, KFile, KUsage, KQuestion, KError, KCompletion]"

record adapter_session =
  se_job_id :: string
  se_runtime :: job_runtime
  se_session_id :: string

record runtime_event =
  re_job_id :: string
  re_sequence :: int
  re_runtime :: job_runtime
  re_timestamp :: micros
  re_kind :: runtime_event_kind
  re_payload :: payload

definition adapter_text :: "string \<Rightarrow> bool" where
  "adapter_text s \<longleftrightarrow> strip s \<noteq> [] \<and> NUL \<notin> set s"

definition make_session :: "string \<Rightarrow> job_runtime \<Rightarrow> string \<Rightarrow> exn + adapter_session" where
  "make_session job runtime session =
     (if \<not> adapter_text job \<or> \<not> adapter_text session \<or> runtime = Auto then Inl ValueErr
      else Inr \<lparr>se_job_id = job, se_runtime = runtime, se_session_id = session\<rparr>)"

fun event_fields :: "runtime_event_kind \<Rightarrow> string list" where
  "event_fields KText = [''text'']"
| "event_fields KPlan = [''text'']"
| "event_fields KTool = [''call_id'', ''name'', ''status'']"
| "event_fields KFile = [''path'', ''action'']"
| "event_fields KUsage = [''input_tokens'', ''output_tokens'', ''cost_usd'']"
| "event_fields KQuestion = [''question_id'', ''text'']"
| "event_fields KError = [''code'', ''message'', ''retryable'']"
| "event_fields KCompletion = [''status'']"

fun event_choice :: "runtime_event_kind \<Rightarrow> (string \<times> string list) option" where
  "event_choice KTool = Some (''status'', [''started'', ''completed'', ''failed''])"
| "event_choice KFile = Some (''action'', [''created'', ''modified'', ''deleted''])"
| "event_choice KCompletion = Some (''status'', [''completed'', ''failed'', ''cancelled''])"
| "event_choice _ = None"

subsection \<open>Decimal amounts\<close>

text \<open>
  \<open>Decimal(cost)\<close> accepts an optional sign, digits with at most one point and an optional exponent,
  after stripping blanks and dropping underscores; the other accepted texts are not finite. The
  exponent of an accepted number lies within the limits of the decimal module.
\<close>

definition all_digits :: "string \<Rightarrow> bool" where
  "all_digits s \<longleftrightarrow> list_all (\<lambda>c. 48 \<le> code_point c \<and> code_point c \<le> 57) s"

fun digits_int :: "int \<Rightarrow> string \<Rightarrow> int" where
  "digits_int acc [] = acc"
| "digits_int acc (c # cs) = digits_int (10 * acc + (int (code_point c) - 48)) cs"

definition unsign :: "string \<Rightarrow> bool \<times> string" where
  "unsign s =
     (case s of
        [] \<Rightarrow> (False, [])
      | c # cs \<Rightarrow> if c = CHR ''-'' then (True, cs) else if c = CHR ''+'' then (False, cs) else (False, s))"

definition split_first :: "(char \<Rightarrow> bool) \<Rightarrow> string \<Rightarrow> string \<times> string option" where
  "split_first p s =
     (takeWhile (\<lambda>c. \<not> p c) s,
      case dropWhile (\<lambda>c. \<not> p c) s of [] \<Rightarrow> None | c # cs \<Rightarrow> Some cs)"

definition exponent_value :: "string option \<Rightarrow> int option" where
  "exponent_value e =
     (case e of
        None \<Rightarrow> Some 0
      | Some t \<Rightarrow> (let (neg, ds) = unsign t in
          if ds = [] \<or> \<not> all_digits ds then None
          else Some (if neg then - digits_int 0 ds else digits_int 0 ds)))"

text \<open>Finite and not below zero.\<close>

definition cost_ok :: "string \<Rightarrow> bool" where
  "cost_ok cost =
     (let t = filter (\<lambda>c. c \<noteq> CHR ''_'') (strip cost);
          (neg, body) = unsign t;
          (mantissa, e) = split_first (\<lambda>c. c = CHR ''e'' \<or> c = CHR ''E'') body;
          (whole, frac) = split_first (\<lambda>c. c = CHR ''.'') mantissa;
          fs = (case frac of None \<Rightarrow> [] | Some f \<Rightarrow> f)
      in all_digits (whole @ fs) \<and> whole @ fs \<noteq> [] \<and>
         (case exponent_value e of
            None \<Rightarrow> False
          | Some x \<Rightarrow> \<bar>x + int (length whole)\<bar> \<le> 999999999999999999) \<and>
         (neg \<longrightarrow> digits_int 0 (whole @ fs) = 0))"

definition usage_field_ok :: "string \<Rightarrow> json \<Rightarrow> bool" where
  "usage_field_ok field v =
     (case v of
        JNull \<Rightarrow> True
      | JInt i \<Rightarrow> field \<noteq> ''cost_usd'' \<and> 0 \<le> i
      | JStr s \<Rightarrow> field = ''cost_usd'' \<and> cost_ok s
      | _ \<Rightarrow> False)"

definition field_ok :: "runtime_event_kind \<Rightarrow> string \<Rightarrow> json \<Rightarrow> bool" where
  "field_ok kind field v =
     (if field = ''retryable'' then (case v of JBool b \<Rightarrow> True | _ \<Rightarrow> False)
      else case v of
          JStr s \<Rightarrow> if field = ''text'' \<and> kind = KText then NUL \<notin> set s else adapter_text s
        | _ \<Rightarrow> False)"

definition event_payload_ok :: "runtime_event_kind \<Rightarrow> payload \<Rightarrow> bool" where
  "event_payload_ok kind p \<longleftrightarrow>
     fst ` set p = set (event_fields kind) \<and>
     (if kind = KUsage then list_all (\<lambda>(f, v). usage_field_ok f v) p
      else list_all (\<lambda>(f, v). field_ok kind f v) p) \<and>
     (case event_choice kind of
        None \<Rightarrow> True
      | Some (field, allowed) \<Rightarrow> (case map_of p field of
            Some (JStr s) \<Rightarrow> s \<in> set allowed
          | _ \<Rightarrow> False))"

definition make_event ::
  "string \<Rightarrow> int \<Rightarrow> job_runtime \<Rightarrow> micros \<Rightarrow> runtime_event_kind \<Rightarrow> json \<Rightarrow> exn + runtime_event" where
  "make_event job sequence runtime timestamp kind payload =
     (if \<not> adapter_text job \<or> job \<noteq> strip job \<or> sequence < 1 \<or> runtime = Auto then Inl ValueErr
      else case payload of
          JObj p \<Rightarrow> if event_payload_ok kind p
            then Inr \<lparr>re_job_id = job, re_sequence = sequence, re_runtime = runtime,
                      re_timestamp = timestamp, re_kind = kind, re_payload = p\<rparr>
            else Inl ValueErr
        | _ \<Rightarrow> Inl ValueErr)"

lemma make_event_Inr:
  "make_event job n rt t k v = Inr e \<longleftrightarrow>
     adapter_text job \<and> job = strip job \<and> 1 \<le> n \<and> rt \<noteq> Auto \<and>
     (\<exists>p. v = JObj p \<and> event_payload_ok k p \<and>
        e = \<lparr>re_job_id = job, re_sequence = n, re_runtime = rt, re_timestamp = t, re_kind = k, re_payload = p\<rparr>)"
  by (auto simp: make_event_def split: json.splits if_splits)

lemma make_event_Inl: "make_event job n rt t k v = Inl x \<Longrightarrow> x = ValueErr"
  by (auto simp: make_event_def split: json.splits if_splits)

end
