(* ===== verification/Native.thy ===== *)
theory Native
  imports Teams RuntimeEvents
begin

text \<open>
  \<open>NativeAttemptRepository\<close> (native_store.py): the single lane of native execution. A claim admits
  one queued job, freezes its authorization and moves the job to running; the owner then binds a
  session, appends runtime events, quarantines or finishes the attempt; anyone may request
  cancellation. The attempt identifier \<open>claim\<close> draws from \<open>uuid4\<close> is an argument.
\<close>

definition get_attempt :: "db \<Rightarrow> string \<Rightarrow> attempt_row option" where
  "get_attempt d job = List.find (\<lambda>r. n_job_id r = job) (native_attempts d)"

text \<open>\<open>_event\<close> and \<open>_transition\<close>.\<close>

definition native_event ::
  "(string \<Rightarrow> string) \<Rightarrow> micros \<Rightarrow> string \<Rightarrow> string \<Rightarrow> payload \<Rightarrow> string \<Rightarrow> db \<Rightarrow> exn + db" where
  "native_event sha now job event_type p key d =
     (let e = \<lparr>ec_job_id = job, ec_event_type = event_type, ec_payload = p,
               ec_idempotency_key = Some key\<rparr> in
      bindE (validate_event sha e) (\<lambda>data.
      bindE (event_append_tx sha now e data d) (\<lambda>(stored, d'). Inr d')))"

definition native_transition :: "micros \<Rightarrow> job_row \<Rightarrow> job_state \<Rightarrow> db \<Rightarrow> exn + db" where
  "native_transition now job state d =
     bindE (validate_job_transition (j_state job) state) (\<lambda>_.
     bindE (job_apply_update now \<lparr>ju_id = j_id job, ju_state = state, ju_runtime = j_runtime job,
       ju_model = j_model job, ju_worktree_path = j_worktree_path job\<rparr> d) (\<lambda>(stored, d'). Inr d'))"

text \<open>\<open>JobRepository._to_record(JobRepository._select_by_id(...))\<close>: subscripting \<open>None\<close> raises.\<close>

definition native_job :: "db \<Rightarrow> string \<Rightarrow> exn + job_row" where
  "native_job d i =
     (case select_job d i of None \<Rightarrow> Inl JobRepositoryError | Some row \<Rightarrow> job_to_record row)"

definition owned :: "attempt_row \<Rightarrow> db \<Rightarrow> exn + attempt_row" where
  "owned attempt d =
     (case get_attempt d (n_job_id attempt) of
        None \<Rightarrow> Inl NativeConflictError
      | Some current \<Rightarrow>
          if n_id current \<noteq> n_id attempt \<or> n_owner current \<noteq> n_owner attempt \<or> \<not> n_held current
          then Inl NativeConflictError else Inr current)"

subsection \<open>Admission\<close>

text \<open>An authorized connection has a text slot or none; \<open>account_slot\<close> is \<open>NOT NULL\<close>.\<close>

definition account_slot :: "payload \<Rightarrow> exn + string option" where
  "account_slot authorization =
     bindE (item (JObj authorization) ''connection'') (\<lambda>connection.
     bindE (item connection ''account_slot'') (\<lambda>slot.
       Inr (case slot of JStr s \<Rightarrow> Some s | _ \<Rightarrow> None)))"

definition insert_claim :: "db \<Rightarrow> string option \<Rightarrow> (string \<Rightarrow> attempt_row) \<Rightarrow> exn + db" where
  "insert_claim d slot row =
     (case slot of
        None \<Rightarrow> Inl (IntegrityError NotNullViolation)
      | Some s \<Rightarrow> insert_attempt d (row s))"

definition new_attempt_row ::
  "micros \<Rightarrow> string \<Rightarrow> job_row \<Rightarrow> string \<Rightarrow> string \<Rightarrow> payload \<Rightarrow> payload \<Rightarrow> attempt_row" where
  "new_attempt_row now attempt_id job owner slot identity authorization =
     \<lparr>n_id = attempt_id, n_job_id = j_id job, n_owner = owner, n_account_slot = slot,
      n_worktree_path = j_worktree_path job, n_worktree_identity = identity,
      n_authorization = authorization, n_phase = Admitted, n_held = True,
      n_cancel_requested = False, n_session_id = None, n_outcome = None, n_created_at = now\<rparr>"

definition claim_new ::
  "(string \<Rightarrow> string) \<Rightarrow> team_repository \<Rightarrow> micros \<Rightarrow> string \<Rightarrow> string \<Rightarrow> payload \<Rightarrow> job_row \<Rightarrow> db
   \<Rightarrow> exn + (attempt_row \<times> bool) \<times> db" where
  "claim_new sha tr now attempt_id owner worktree_identity job d =
     bindE (authorize sha tr job d) (\<lambda>authorization.
     if \<exists>r\<in>set (native_attempts d). n_held r then Inl NativeConflictError
     else bindE (account_slot authorization) (\<lambda>slot.
          bindE (encode worktree_identity) (\<lambda>identity_text.
          bindE (encode authorization) (\<lambda>authorization_text.
          bindE (insert_claim d slot (\<lambda>s. new_attempt_row now attempt_id job owner s
                   (canon_obj worktree_identity) (canon_obj authorization))) (\<lambda>d1.
          bindE (native_transition now job Running d1) (\<lambda>d2.
          bindE (native_event sha now (j_id job) ''native.admitted''
                   [(''attempt_id'', JStr attempt_id)] (attempt_id @ '':admitted'') d2) (\<lambda>d3.
          case get_attempt d3 (j_id job) of
            None \<Rightarrow> Inl NativeStoreError
          | Some stored \<Rightarrow> Inr ((stored, True), d3))))))))"

definition claim_tx ::
  "(string \<Rightarrow> string) \<Rightarrow> team_repository \<Rightarrow> micros \<Rightarrow> string \<Rightarrow> string \<Rightarrow> payload \<Rightarrow> job_row \<Rightarrow> db
   \<Rightarrow> exn + (attempt_row \<times> bool) \<times> db" where
  "claim_tx sha tr now attempt_id owner worktree_identity expected d =
     (case get_attempt d (j_id expected) of
        Some existing \<Rightarrow> Inr ((existing, False), d)
      | None \<Rightarrow> (case select_job d (j_id expected) of
          None \<Rightarrow> Inl NativeConflictError
        | Some row \<Rightarrow> bindE (job_to_record row) (\<lambda>job.
            if job \<noteq> expected then Inl NativeConflictError
            else if j_state job \<noteq> Queued \<or> j_runtime job \<noteq> Codex then Inl NativeConflictError
            else claim_new sha tr now attempt_id owner worktree_identity job d)))"

definition native_claim ::
  "(string \<Rightarrow> string) \<Rightarrow> team_repository \<Rightarrow> string \<Rightarrow> string \<Rightarrow> payload \<Rightarrow> job_row \<Rightarrow> micros \<Rightarrow> db
   \<Rightarrow> (exn + attempt_row \<times> bool) \<times> db" where
  "native_claim sha tr attempt_id owner worktree_identity expected now =
     write_connection NativeStoreError (claim_tx sha tr now attempt_id owner worktree_identity expected)"

definition native_get :: "string \<Rightarrow> db \<Rightarrow> exn + attempt_row option" where
  "native_get job d = Inr (get_attempt d job)"

subsection \<open>Running\<close>

definition native_check ::
  "(string \<Rightarrow> string) \<Rightarrow> team_repository \<Rightarrow> attempt_row \<Rightarrow> db \<Rightarrow> exn + attempt_row" where
  "native_check sha tr attempt d =
     connection NativeStoreError
       (bindE (owned attempt d) (\<lambda>current.
        bindE (native_job d (n_job_id attempt)) (\<lambda>job.
        if n_phase current = Reconcile \<or> n_cancel_requested current \<or> j_state job \<noteq> Running
        then Inl NativeConflictError
        else bindE (rethrow (\<lambda>e. isa e TeamConflictError \<or> isa e ValueErr) NativeConflictError
                      (authorize sha tr job d)) (\<lambda>_. Inr current))))"

definition native_bind ::
  "(string \<Rightarrow> string) \<Rightarrow> attempt_row \<Rightarrow> string \<Rightarrow> micros \<Rightarrow> db \<Rightarrow> (exn + unit) \<times> db" where
  "native_bind sha attempt session_id now =
     validated (ensure (session_id \<noteq> [] \<and> length session_id \<le> 256) NativeConflictError) (\<lambda>_.
       write_connection NativeStoreError (\<lambda>d.
         bindE (owned attempt d) (\<lambda>current.
         if n_session_id current \<noteq> None \<and> n_session_id current \<noteq> Some session_id
         then Inl NativeConflictError
         else bindE (update_attempts d (\<lambda>r. n_id r = n_id attempt)
                (\<lambda>r. r\<lparr>n_session_id := Some session_id, n_phase := PhaseRunning\<rparr>)) (\<lambda>(rowcount, d1).
              bindE (native_event sha now (n_job_id attempt) ''native.session.bound''
                [(''attempt_id'', JStr (n_id attempt))] (n_id attempt @ '':session'') d1) (\<lambda>d2.
              Inr ((), d2))))))"

text \<open>\<open>dict(event.payload)\<close> updated with the two keys: an existing key keeps its place.\<close>

definition dict_set :: "payload \<Rightarrow> string \<Rightarrow> json \<Rightarrow> payload" where
  "dict_set kvs k v =
     (if k \<in> fst ` set kvs then map (\<lambda>kv. if fst kv = k then (k, v) else kv) kvs else kvs @ [(k, v)])"

definition native_append ::
  "(string \<Rightarrow> string) \<Rightarrow> attempt_row \<Rightarrow> runtime_event \<Rightarrow> micros \<Rightarrow> db \<Rightarrow> (exn + unit) \<times> db" where
  "native_append sha attempt event now =
     validated (ensure (re_job_id event = n_job_id attempt \<and> re_runtime event = Codex)
                  NativeConflictError) (\<lambda>_.
       write_connection NativeStoreError (\<lambda>d.
         bindE (owned attempt d) (\<lambda>_.
         bindE (native_event sha now (n_job_id attempt) (''runtime.'' @ kind_value (re_kind event))
           (dict_set (dict_set (re_payload event) ''attempt_id'' (JStr (n_id attempt)))
              ''runtime'' (JStr (runtime_value (re_runtime event))))
           (n_id attempt @ '':event:'' @ int_text (re_sequence event)) d) (\<lambda>d'. Inr ((), d')))))"

definition cancel_payload :: "string \<Rightarrow> string option \<Rightarrow> string \<Rightarrow> payload" where
  "cancel_payload attempt_id actor channel =
     (''attempt_id'', JStr attempt_id) #
     (case actor of
        None \<Rightarrow> []
      | Some a \<Rightarrow> [(''actor'', JStr a), (''channel'', JStr channel)])"

definition native_cancel ::
  "(string \<Rightarrow> string) \<Rightarrow> string \<Rightarrow> string \<Rightarrow> string option \<Rightarrow> string \<Rightarrow> micros \<Rightarrow> db
   \<Rightarrow> (exn + attempt_row) \<times> db" where
  "native_cancel sha job_id attempt_id actor channel now =
     validated
       (ensure ((case actor of None \<Rightarrow> True | Some a \<Rightarrow> 1 \<le> length a \<and> length a \<le> 200) \<and>
                channel \<in> set [''local'', ''telegram'']) NativeConflictError) (\<lambda>_.
       write_connection NativeStoreError (\<lambda>d.
         case get_attempt d job_id of
           None \<Rightarrow> Inl NativeConflictError
         | Some current \<Rightarrow>
             if n_id current \<noteq> attempt_id then Inl NativeConflictError
             else bindE
               (if n_phase current \<noteq> Settled \<and> \<not> n_cancel_requested current
                then bindE (update_attempts d (\<lambda>r. n_id r = attempt_id) request_cancel) (\<lambda>(rowcount, d1).
                     native_event sha now job_id ''native.cancel.requested''
                       (cancel_payload attempt_id actor channel) (attempt_id @ '':cancel'') d1)
                else Inr d) (\<lambda>d'.
               case get_attempt d' job_id of
                 None \<Rightarrow> Inl NativeStoreError
               | Some stored \<Rightarrow> Inr (stored, d'))))"

subsection \<open>Ending\<close>

fun native_outcome_value :: "native_outcome \<Rightarrow> string" where
  "native_outcome_value OCompleted = ''completed''"
| "native_outcome_value OFailed = ''failed''"
| "native_outcome_value OCancelled = ''cancelled''"

fun outcome_target :: "native_outcome \<Rightarrow> job_state" where
  "outcome_target OCompleted = Verifying"
| "outcome_target OFailed = Failed"
| "outcome_target OCancelled = Cancelled"

definition parse_outcome :: "string \<Rightarrow> native_outcome option" where
  "parse_outcome s =
     List.find (\<lambda>oc. native_outcome_value oc = s) [OCompleted, OFailed, OCancelled]"

definition finish_tx ::
  "(string \<Rightarrow> string) \<Rightarrow> micros \<Rightarrow> attempt_row \<Rightarrow> native_outcome \<Rightarrow> db \<Rightarrow> exn + unit \<times> db" where
  "finish_tx sha now attempt requested d =
     bindE (owned attempt d) (\<lambda>current.
     let oc = (if n_cancel_requested current then OCancelled else requested) in
     bindE (native_job d (n_job_id attempt)) (\<lambda>job.
     bindE (native_transition now job (outcome_target oc) d) (\<lambda>d1.
     bindE (update_attempts d1 (\<lambda>r. n_id r = n_id attempt)
       (\<lambda>r. r\<lparr>n_phase := Settled, n_held := False, n_outcome := Some oc\<rparr>)) (\<lambda>(rowcount, d2).
     bindE (native_event sha now (j_id job) ''native.settled''
       [(''attempt_id'', JStr (n_id attempt)), (''outcome'', JStr (native_outcome_value oc)),
        (''state'', JStr (job_state_value (outcome_target oc)))] (n_id attempt @ '':settled'') d2) (\<lambda>d3.
     Inr ((), d3))))))"

definition native_finish ::
  "(string \<Rightarrow> string) \<Rightarrow> attempt_row \<Rightarrow> string \<Rightarrow> micros \<Rightarrow> db \<Rightarrow> (exn + unit) \<times> db" where
  "native_finish sha attempt outcome_text now =
     validated (case parse_outcome outcome_text of None \<Rightarrow> Inl NativeConflictError | Some oc \<Rightarrow> Inr oc)
       (\<lambda>oc. write_connection NativeStoreError (finish_tx sha now attempt oc))"

definition native_quarantine ::
  "(string \<Rightarrow> string) \<Rightarrow> attempt_row \<Rightarrow> micros \<Rightarrow> db \<Rightarrow> (exn + unit) \<times> db" where
  "native_quarantine sha attempt now =
     write_connection NativeStoreError (\<lambda>d.
       bindE (owned attempt d) (\<lambda>_.
       bindE (update_attempts d (\<lambda>r. n_id r = n_id attempt) (\<lambda>r. r\<lparr>n_phase := Reconcile\<rparr>)) (\<lambda>(rowcount, d1).
       bindE (native_event sha now (n_job_id attempt) ''native.reconciliation.required''
         [(''attempt_id'', JStr (n_id attempt))] (n_id attempt @ '':reconcile'') d1) (\<lambda>d2.
       Inr ((), d2)))))"

subsection \<open>What the steps do\<close>

lemma native_event_Inr:
  "native_event sha now job ty p k d = Inr d' \<Longrightarrow>
     projects d' = projects d \<and> jobs d' = jobs d \<and> native_attempts d' = native_attempts d \<and>
     teams d' = teams d \<and> (\<exists>new. events d' = events d @ new)"
  by (auto simp: native_event_def bindE_eq_Inr Let_def dest: event_append_tx_frame event_append_tx_prefix)

lemma native_transition_Inr:
  assumes "native_transition now job st d = Inr d'"
  shows "validate_job_transition (j_state job) st = Inr () \<and> d' = d\<lparr>jobs := jobs d'\<rparr> \<and>
    map j_id (jobs d') = map j_id (jobs d) \<and>
    (\<exists>old. select_job d (j_id job) = Some old \<and> select_job d' (j_id job) = Some (old\<lparr>j_state := st,
       j_runtime := j_runtime job, j_model := j_model job, j_worktree_path := j_worktree_path job,
       j_updated_at := now\<rparr>)) \<and>
    (\<forall>i. i \<noteq> j_id job \<longrightarrow> select_job d' i = select_job d i)"
proof -
  let ?u = "\<lparr>ju_id = j_id job, ju_state = st, ju_runtime = j_runtime job, ju_model = j_model job,
    ju_worktree_path = j_worktree_path job\<rparr>"
  obtain r where v: "validate_job_transition (j_state job) st = Inr ()"
    and up: "job_apply_update now ?u d = Inr (r, d')"
    using assms by (auto simp: native_transition_def bindE_eq_Inr)
  obtain old where d': "d' = put_job now ?u d" and old: "select_job d (j_id job) = Some old"
    using job_apply_update_Inr [OF up] by auto
  have "d' = d\<lparr>jobs := jobs d'\<rparr>" by (simp add: d' put_job_def)
  moreover have "map j_id (jobs d') = map j_id (jobs d)"
    unfolding d' put_job_def by (simp add: map_update_where_frame set_job_def)
  moreover have "select_job d' i = select_job d i" if "i \<noteq> j_id job" for i
    using that select_job_Some [of d i]
    by (cases "select_job d i") (auto simp: d' select_put_job)
  ultimately show ?thesis
    using v old select_job_Some [OF old] by (auto simp: d' select_put_job set_job_def)
qed

lemma get_attempt_Some: "get_attempt d i = Some r \<Longrightarrow> r \<in> set (native_attempts d) \<and> n_job_id r = i"
  by (auto simp: get_attempt_def dest: Prelude.find_Some_iff)

lemma owned_Inr:
  "owned a d = Inr c \<longleftrightarrow>
     get_attempt d (n_job_id a) = Some c \<and> n_id c = n_id a \<and> n_owner c = n_owner a \<and> n_held c"
  by (auto simp: owned_def split: option.splits)

subsection \<open>Invariant of the lane\<close>

definition native_wf :: "db \<Rightarrow> bool" where
  "native_wf d \<longleftrightarrow>
     distinct (map n_id (native_attempts d)) \<and> distinct (map n_job_id (native_attempts d)) \<and>
     (\<forall>r\<in>set (native_attempts d). attempt_check r \<and> (\<exists>j\<in>set (jobs d). j_id j = n_job_id r)) \<and>
     count_where n_held (native_attempts d) \<le> 1"

lemma native_wf_frame:
  "native_attempts d' = native_attempts d \<Longrightarrow> map j_id (jobs d') = map j_id (jobs d) \<Longrightarrow>
     native_wf d' = native_wf d"
  unfolding native_wf_def ex_key_image set_map [symmetric] by simp

text \<open>What no operation may change of an attempt.\<close>

definition attempt_evolves :: "attempt_row \<Rightarrow> attempt_row \<Rightarrow> bool" where
  "attempt_evolves r r' \<longleftrightarrow>
     n_id r' = n_id r \<and> n_job_id r' = n_job_id r \<and> n_owner r' = n_owner r \<and>
     n_account_slot r' = n_account_slot r \<and> n_worktree_path r' = n_worktree_path r \<and>
     n_worktree_identity r' = n_worktree_identity r \<and> n_authorization r' = n_authorization r \<and>
     n_created_at r' = n_created_at r \<and>
     (n_session_id r \<noteq> None \<longrightarrow> n_session_id r' = n_session_id r) \<and>
     (n_cancel_requested r \<longrightarrow> n_cancel_requested r') \<and> (n_phase r = Settled \<longrightarrow> r' = r)"

definition attempts_evolve :: "db \<Rightarrow> db \<Rightarrow> bool" where
  "attempts_evolve d d' \<longleftrightarrow> grows attempt_evolves (native_attempts d) (native_attempts d')"

interpretation attempt_history: row_history attempt_evolves
  by unfold_locales (auto simp: attempt_evolves_def)

lemma attempts_evolve_frame: "native_attempts d' = native_attempts d \<Longrightarrow> attempts_evolve d d'"
  by (simp add: attempts_evolve_def attempt_history.grows_refl)

lemma update_attempts_evolve:
  assumes "update_attempts d p f = Inr (n, d')"
  shows "attempts_evolve d d'"
proof -
  note u = update_attempts_Inr [OF assms]
  have "attempt_evolves r (f r)" if "r \<in> set (native_attempts d)" "p r" for r
    using u that by (auto simp: attempt_update_aborts_def attempt_evolves_def)
  then show ?thesis using u by (simp add: attempts_evolve_def attempt_history.grows_update)
qed

lemma update_attempts_wf:
  assumes wf: "native_wf d" and u: "update_attempts d p f = Inr (n, d')"
  shows "native_wf d'"
proof -
  note f = update_attempts_Inr [OF u]
  have same: "n_id (f r) = n_id r \<and> n_job_id (f r) = n_job_id r" if "r \<in> set (native_attempts d)" "p r" for r
    using f that by (auto simp: attempt_update_aborts_def)
  have m: "map n_id (update_where p f (native_attempts d)) = map n_id (native_attempts d)"
      "map n_job_id (update_where p f (native_attempts d)) = map n_job_id (native_attempts d)"
    unfolding update_where_def using same by auto
  show ?thesis using wf f same m by (auto simp: native_wf_def set_update_where)
qed

subsection \<open>Every operation keeps the lane\<close>

definition lane_step :: "db \<Rightarrow> db \<Rightarrow> bool" where
  "lane_step d d' \<longleftrightarrow>
     (native_wf d \<longrightarrow> native_wf d') \<and> attempts_evolve d d' \<and> map j_id (jobs d') = map j_id (jobs d) \<and>
     (\<exists>new. events d' = events d @ new)"

lemma lane_step_refl [simp]: "lane_step d d"
  by (simp add: lane_step_def attempts_evolve_frame)

lemma lane_step_trans: "lane_step d d1 \<Longrightarrow> lane_step d1 d2 \<Longrightarrow> lane_step d d2"
  unfolding lane_step_def attempts_evolve_def using attempt_history.grows_trans by fastforce

lemma lane_step_frame:
  "native_attempts d' = native_attempts d \<Longrightarrow> map j_id (jobs d') = map j_id (jobs d) \<Longrightarrow>
     \<exists>new. events d' = events d @ new \<Longrightarrow> lane_step d d'"
  unfolding lane_step_def
  by (intro conjI impI) (rule native_wf_frame [THEN iffD2], assumption+, rule attempts_evolve_frame)

lemma lane_step_event: "native_event sha now job ty p k d = Inr d' \<Longrightarrow> lane_step d d'"
  by (drule native_event_Inr) (rule lane_step_frame; simp)

lemma native_transition_frame:
  "native_transition now job st d = Inr d' \<Longrightarrow>
     native_attempts d' = native_attempts d \<and> events d' = events d \<and> map j_id (jobs d') = map j_id (jobs d)"
  by (auto simp: native_transition_def bindE_eq_Inr dest!: job_apply_update_Inr)

lemma lane_step_transition: "native_transition now job st d = Inr d' \<Longrightarrow> lane_step d d'"
  by (drule native_transition_frame) (rule lane_step_frame; simp)

lemma lane_step_update: "update_attempts d p f = Inr (n, d') \<Longrightarrow> lane_step d d'"
  unfolding lane_step_def
  using update_attempts_wf update_attempts_evolve update_attempts_Inr [of d p f n d'] by auto

lemma insert_attempt_Inr:
  "insert_attempt d r = Inr d' \<Longrightarrow>
     d' = d\<lparr>native_attempts := native_attempts d @ [r]\<rparr> \<and> attempt_check r \<and> n_worktree_path r \<noteq> None \<and>
     n_id r \<notin> n_id ` set (native_attempts d) \<and> n_job_id r \<notin> n_job_id ` set (native_attempts d) \<and>
     (n_held r \<longrightarrow> (\<forall>q\<in>set (native_attempts d). \<not> n_held q)) \<and> (\<exists>j\<in>set (jobs d). j_id j = n_job_id r)"
  by (auto simp: insert_attempt_def split: if_splits)

lemma lane_step_insert: "insert_attempt d r = Inr d' \<Longrightarrow> lane_step d d'"
  unfolding lane_step_def
  by (drule insert_attempt_Inr)
    (auto simp: native_wf_def attempts_evolve_def attempt_history.grows_append count_where_0_iff [THEN iffD2])

lemma claim_tx_Inr:
  assumes "claim_tx sha tr now i owner wt expected d = Inr ((a, fresh), d')"
  shows "d' = d \<and> \<not> fresh \<and> get_attempt d (j_id expected) = Some a \<or>
    fresh \<and> get_attempt d (j_id expected) = None \<and> select_job d (j_id expected) = Some expected \<and>
    job_to_record expected = Inr expected \<and> j_state expected = Queued \<and> j_runtime expected = Codex \<and>
    (\<forall>r\<in>set (native_attempts d). \<not> n_held r) \<and>
    (\<exists>auth slot d1 d2. authorize sha tr expected d = Inr auth \<and>
       insert_attempt d (new_attempt_row now i expected owner slot (canon_obj wt) (canon_obj auth)) = Inr d1 \<and>
       native_transition now expected Running d1 = Inr d2 \<and>
       native_event sha now (j_id expected) ''native.admitted'' [(''attempt_id'', JStr i)] (i @ '':admitted'') d2 = Inr d' \<and>
       get_attempt d' (j_id expected) = Some a)"
proof (cases "get_attempt d (j_id expected)")
  case None
  obtain job where job: "select_job d (j_id expected) = Some expected" "job_to_record expected = Inr expected"
      "j_state expected = Queued" "j_runtime expected = Codex"
    and new: "claim_new sha tr now i owner wt expected d = Inr ((a, fresh), d')"
    using assms None
    by (auto simp: claim_tx_def bindE_eq_Inr split: option.splits if_splits dest: job_to_record_Inr)
  obtain auth where auth: "authorize sha tr expected d = Inr auth" "\<forall>r\<in>set (native_attempts d). \<not> n_held r"
    using new by (auto simp: claim_new_def bindE_eq_Inr split: if_splits)
  then show ?thesis
    using new None job
    by (auto simp: claim_new_def bindE_eq_Inr insert_claim_def split: option.splits) blast
qed (use assms in \<open>auto simp: claim_tx_def\<close>)

lemma lane_step_claim:
  assumes "native_claim sha tr i owner wt expected now d = (r, d')"
  shows "lane_step d d'"
proof (cases r)
  case (Inl e)
  then show ?thesis using assms by (auto simp: native_claim_def dest: write_connection_Inl)
next
  case (Inr x)
  obtain a fresh where "x = (a, fresh)" by (cases x)
  then have "claim_tx sha tr now i owner wt expected d = Inr ((a, fresh), d')"
    using assms Inr by (simp add: native_claim_def write_connection_Inr)
  from claim_tx_Inr [OF this] show ?thesis
    by (elim disjE conjE exE)
      (simp, meson lane_step_trans lane_step_insert lane_step_transition lane_step_event)
qed

lemma lane_step_tx:
  assumes "validated v (\<lambda>y. write_connection e (body y)) d = (r, d')"
    and "\<And>y x d1. body y d = Inr (x, d1) \<Longrightarrow> lane_step d d1"
  shows "lane_step d d'"
proof (cases r)
  case (Inl x)
  have "d' = d" using assms(1) unfolding Inl by (rule tx_rollback)
  then show ?thesis by simp
next
  case (Inr x)
  then show ?thesis using assms by (auto simp: tx_Inr)
qed

lemma lane_step_bind: "native_bind sha a s now d = (r, d') \<Longrightarrow> lane_step d d'"
  unfolding native_bind_def
  by (erule lane_step_tx)
    (auto simp: bindE_eq_Inr split: if_splits intro: lane_step_trans lane_step_update lane_step_event)

lemma lane_step_append_event: "native_append sha a e now d = (r, d') \<Longrightarrow> lane_step d d'"
  unfolding native_append_def
  by (erule lane_step_tx) (auto simp: bindE_eq_Inr intro: lane_step_event)

lemma lane_step_cancel: "native_cancel sha j i actor channel now d = (r, d') \<Longrightarrow> lane_step d d'"
  unfolding native_cancel_def
  by (erule lane_step_tx)
    (auto simp: bindE_eq_Inr split: option.splits if_splits,
      meson lane_step_trans lane_step_update lane_step_event)

lemma lane_step_finish: "native_finish sha a oc now d = (r, d') \<Longrightarrow> lane_step d d'"
  unfolding native_finish_def
  by (erule lane_step_tx)
    (auto simp: finish_tx_def Let_def bindE_eq_Inr simp del: if_split,
      meson lane_step_trans lane_step_transition lane_step_update lane_step_event)

lemma lane_step_quarantine: "native_quarantine sha a now d = (r, d') \<Longrightarrow> lane_step d d'"
proof (cases r)
  case (Inr x)
  moreover assume "native_quarantine sha a now d = (r, d')"
  ultimately show ?thesis
    by (auto simp: native_quarantine_def write_connection_Inr bindE_eq_Inr
        intro: lane_step_trans lane_step_update lane_step_event)
qed (auto simp: native_quarantine_def dest: write_connection_Inl)

text \<open>Saving a team requests cancellations, which the lane's rules allow.\<close>

lemma lane_step_revoke: "revoke_attempt team a d = Inr d' \<Longrightarrow> lane_step d d'"
  by (auto simp: revoke_attempt_def bindE_eq_Inr split: if_splits intro: lane_step_update)

lemma lane_step_revoke_all: "foldE (revoke_attempt team) as d = Inr d' \<Longrightarrow> lane_step d d'"
  by (induction as arbitrary: d)
    (auto simp: bindE_eq_Inr intro: lane_step_trans lane_step_revoke)

lemma lane_step_teams: "d' = d\<lparr>teams := ts\<rparr> \<Longrightarrow> lane_step d d'"
  by (rule lane_step_frame) simp_all

lemma lane_step_put: "team_put sha tr p v now d = (r, d') \<Longrightarrow> lane_step d d'"
proof -
  have up: "upsert_team row d = Inr d1 \<Longrightarrow> lane_step d d1" for row d1
    using upsert_team_Inr lane_step_teams by blast
  assume "team_put sha tr p v now d = (r, d')"
  then show ?thesis unfolding team_put_def
    by (rule lane_step_tx)
      (auto simp: put_tx_def bindE_eq_Inr split: if_splits, meson lane_step_trans up lane_step_revoke_all)
qed

inductive native_step :: "(string \<Rightarrow> string) \<Rightarrow> team_repository \<Rightarrow> db \<Rightarrow> db \<Rightarrow> bool"
  for sha tr where
  claim: "native_claim sha tr i owner wt job now d = (r, d') \<Longrightarrow> native_step sha tr d d'"
| bind: "native_bind sha a s now d = (r1, d') \<Longrightarrow> native_step sha tr d d'"
| append: "native_append sha a e now d = (r1, d') \<Longrightarrow> native_step sha tr d d'"
| cancel: "native_cancel sha j i actor channel now d = (r2, d') \<Longrightarrow> native_step sha tr d d'"
| finish: "native_finish sha a oc now d = (r1, d') \<Longrightarrow> native_step sha tr d d'"
| quarantine: "native_quarantine sha a now d = (r1, d') \<Longrightarrow> native_step sha tr d d'"
| put: "team_put sha tr p v now d = (r3, d') \<Longrightarrow> native_step sha tr d d'"
| seed: "team_seed sha tr now d = (r1, d') \<Longrightarrow> native_step sha tr d d'"

lemma lane_step_seed: "team_seed sha tr now d = (r, d') \<Longrightarrow> lane_step d d'"
proof (cases r)
  case (Inr x)
  moreover assume "team_seed sha tr now d = (r, d')"
  ultimately have "\<exists>new. d' = d\<lparr>teams := teams d @ new\<rparr>"
    using seed_all_Inr by (auto simp: team_seed_def write_connection_Inr bindE_eq_Inr)
  then show ?thesis by (auto intro!: lane_step_frame)
qed (auto simp: team_seed_def dest: write_connection_Inl)

lemma native_step_lane: "native_step sha tr d d' \<Longrightarrow> lane_step d d'"
  by (induction rule: native_step.induct)
    (auto intro: lane_step_claim lane_step_bind lane_step_append_event lane_step_cancel
      lane_step_finish lane_step_quarantine lane_step_put lane_step_seed)

lemma native_run_lane: "(native_step sha tr)\<^sup>*\<^sup>* d d' \<Longrightarrow> lane_step d d'"
  by (induction rule: rtranclp_induct) (auto intro: lane_step_trans native_step_lane)

subsection \<open>Reading an attempt after the steps\<close>

lemma get_attempt_mem:
  assumes "native_wf d" and "r \<in> set (native_attempts d)"
  shows "get_attempt d (n_job_id r) = Some r"
  unfolding get_attempt_def using assms by (intro find_unique) (auto simp: native_wf_def)

lemma get_attempt_frame: "native_attempts d' = native_attempts d \<Longrightarrow> get_attempt d' i = get_attempt d i"
  by (simp add: get_attempt_def)

lemma get_attempt_insert:
  "insert_attempt d r = Inr d' \<Longrightarrow> get_attempt d' (n_job_id r) = Some r"
  unfolding get_attempt_def by (drule insert_attempt_Inr) (auto intro!: find_fresh)

lemma attempt_by_id:
  assumes "native_wf d" and "get_attempt d j = Some r" and "q \<in> set (native_attempts d)" and "n_id q = n_id r"
  shows "q = r"
  using assms get_attempt_Some [OF assms(2)]
  by (auto simp: native_wf_def distinct_map inj_on_def)

lemma get_attempt_update:
  assumes wf: "native_wf d" and get: "get_attempt d j = Some r"
    and u: "update_attempts d (\<lambda>q. n_id q = n_id r) f = Inr (n, d')"
  shows "get_attempt d' j = Some (f r)"
proof -
  note g = get_attempt_Some [OF get]
  have "f r \<in> set (native_attempts d')" "n_job_id (f r) = j"
    using update_attempts_Inr [OF u] g by (auto simp: set_update_where attempt_update_aborts_def)
  then show ?thesis using get_attempt_mem [OF update_attempts_wf [OF wf u]] by blast
qed

lemma run_attempt:
  assumes run: "(native_step sha tr)\<^sup>*\<^sup>* d d'" and wf: "native_wf d" and get: "get_attempt d j = Some r"
  shows "\<exists>r'. get_attempt d' j = Some r' \<and> attempt_evolves r r'"
proof -
  note g = get_attempt_Some [OF get] and l = native_run_lane [OF run]
  obtain r' where r': "r' \<in> set (native_attempts d')" "attempt_evolves r r'"
    using l attempt_history.grows_mem [of "native_attempts d" "native_attempts d'" r] g
    by (auto simp: lane_step_def attempts_evolve_def)
  moreover have "native_wf d'" using l wf by (simp add: lane_step_def)
  ultimately show ?thesis using get_attempt_mem [of d' r'] g by (auto simp: attempt_evolves_def)
qed

lemma wf_settled:
  "native_wf d \<Longrightarrow> get_attempt d j = Some r \<Longrightarrow> n_held r \<longleftrightarrow> n_phase r \<noteq> Settled"
  by (drule get_attempt_Some) (auto simp: native_wf_def attempt_check_def)

lemma not_owned:
  "get_attempt d (n_job_id a) = Some r \<Longrightarrow> \<not> n_held r \<Longrightarrow> owned a d = Inl NativeConflictError"
  by (simp add: owned_def)

lemma refused_tx:
  "body d = Inl e \<Longrightarrow> write_connection err body d = (Inl (if is_integrity_error e then err else e), d)"
  by (simp add: write_connection_def connection_def rethrow_def)

lemma unowned_refused:
  assumes "owned a d = Inl NativeConflictError"
  shows "native_check sha tr a d = Inl NativeConflictError"
    "native_bind sha a s now d = (Inl NativeConflictError, d)"
    "native_append sha a ev now d = (Inl NativeConflictError, d)"
    "native_finish sha a oc now d = (Inl NativeConflictError, d)"
    "native_quarantine sha a now d = (Inl NativeConflictError, d)"
  using assms
  by (auto simp: native_check_def native_bind_def native_append_def native_finish_def finish_tx_def
      native_quarantine_def connection_def rethrow_def refused_tx is_integrity_error_def validated_def ensure_def
      split: option.splits)

lemma finish_tx_Inr:
  assumes "finish_tx sha now a oc d = Inr ((), d')"
  obtains cur job oo d1 d2 n where "get_attempt d (n_job_id a) = Some cur" "n_id cur = n_id a" "n_held cur"
    "n_owner cur = n_owner a" "oo = (if n_cancel_requested cur then OCancelled else oc)"
    "native_job d (n_job_id a) = Inr job" "native_transition now job (outcome_target oo) d = Inr d1"
    "update_attempts d1 (\<lambda>r. n_id r = n_id a) (\<lambda>r. r\<lparr>n_phase := Settled, n_held := False, n_outcome := Some oo\<rparr>) = Inr (n, d2)"
    "native_event sha now (j_id job) ''native.settled''
       [(''attempt_id'', JStr (n_id a)), (''outcome'', JStr (native_outcome_value oo)),
        (''state'', JStr (job_state_value (outcome_target oo)))] (n_id a @ '':settled'') d2 = Inr d'"
  using assms by (auto simp: finish_tx_def Let_def bindE_eq_Inr owned_Inr simp del: if_split)

lemma native_job_Inr: "native_job d i = Inr job \<Longrightarrow> select_job d i = Some job \<and> j_id job = i"
  by (auto simp: native_job_def split: option.splits dest: job_to_record_Inr select_job_Some)

lemma finish_effect:
  assumes wf: "native_wf d" and fin: "native_finish sha a txt now d = (Inr (), d')"
  shows "\<exists>cur oc oo job. get_attempt d (n_job_id a) = Some cur \<and> n_id cur = n_id a \<and> n_owner cur = n_owner a \<and>
    parse_outcome txt = Some oc \<and> oo = (if n_cancel_requested cur then OCancelled else oc) \<and>
    get_attempt d' (n_job_id a) = Some (cur\<lparr>n_phase := Settled, n_held := False, n_outcome := Some oo\<rparr>) \<and>
    select_job d (n_job_id a) = Some job \<and> validate_job_transition (j_state job) (outcome_target oo) = Inr () \<and>
    select_job d' (n_job_id a) = Some (job\<lparr>j_state := outcome_target oo, j_updated_at := now\<rparr>)"
proof -
  obtain oc where oc: "parse_outcome txt = Some oc" and tx: "finish_tx sha now a oc d = Inr ((), d')"
    using fin by (auto simp: native_finish_def validated_Inr write_connection_Inr split: option.splits)
  from tx show ?thesis
  proof (rule finish_tx_Inr)
    fix cur job oo d1 d2 n
    assume cur: "get_attempt d (n_job_id a) = Some cur" "n_id cur = n_id a" "n_owner cur = n_owner a"
      and oo: "oo = (if n_cancel_requested cur then OCancelled else oc)"
      and job: "native_job d (n_job_id a) = Inr job" and tr: "native_transition now job (outcome_target oo) d = Inr d1"
      and up: "update_attempts d1 (\<lambda>r. n_id r = n_id a) (\<lambda>r. r\<lparr>n_phase := Settled, n_held := False, n_outcome := Some oo\<rparr>) = Inr (n, d2)"
      and ev: "native_event sha now (j_id job) ''native.settled''
       [(''attempt_id'', JStr (n_id a)), (''outcome'', JStr (native_outcome_value oo)),
        (''state'', JStr (job_state_value (outcome_target oo)))] (n_id a @ '':settled'') d2 = Inr d'"
    note f1 = native_transition_frame [OF tr] and f2 = update_attempts_Inr [OF up] and f3 = native_event_Inr [OF ev]
    have wf1: "native_wf d1" using wf lane_step_transition [OF tr] by (simp add: lane_step_def)
    have c1: "get_attempt d1 (n_job_id a) = Some cur" using cur f1 get_attempt_frame by metis
    have "get_attempt d2 (n_job_id a) = Some (cur\<lparr>n_phase := Settled, n_held := False, n_outcome := Some oo\<rparr>)"
      using get_attempt_update [OF wf1 c1] up by (simp add: cur)
    then have g: "get_attempt d' (n_job_id a) = Some (cur\<lparr>n_phase := Settled, n_held := False, n_outcome := Some oo\<rparr>)"
      using f3 get_attempt_frame by metis
    note j = native_job_Inr [OF job] and t = native_transition_Inr [OF tr]
    have "jobs d' = jobs d1" using f2 f3 by simp
    then have "select_job d' (n_job_id a) = select_job d1 (n_job_id a)" by (simp add: select_job_def)
    then have "select_job d' (n_job_id a) = Some (job\<lparr>j_state := outcome_target oo, j_updated_at := now\<rparr>)"
      using t j by auto
    then show ?thesis using cur oc oo g j t by blast
  qed
qed

lemma claim_fresh_effect:
  assumes wf: "native_wf d" and c: "native_claim sha tr i owner wt job now d = (Inr (a, True), d')"
  shows "get_attempt d (j_id job) = None \<and> (\<forall>r\<in>set (native_attempts d). \<not> n_held r) \<and>
    select_job d (j_id job) = Some job \<and> j_state job = Queued \<and> j_runtime job = Codex \<and>
    (\<exists>auth slot. authorize sha tr job d = Inr auth \<and>
       a = new_attempt_row now i job owner slot (canon_obj wt) (canon_obj auth)) \<and>
    get_attempt d' (j_id job) = Some a \<and>
    select_job d' (j_id job) = Some (job\<lparr>j_state := Running, j_updated_at := now\<rparr>)"
proof -
  have "claim_tx sha tr now i owner wt job d = Inr ((a, True), d')"
    using c by (simp add: native_claim_def write_connection_Inr)
  from claim_tx_Inr [OF this] obtain auth slot d1 d2
    where pre: "get_attempt d (j_id job) = None" "select_job d (j_id job) = Some job" "j_state job = Queued"
      "j_runtime job = Codex" "\<forall>r\<in>set (native_attempts d). \<not> n_held r" "authorize sha tr job d = Inr auth"
    and ins: "insert_attempt d (new_attempt_row now i job owner slot (canon_obj wt) (canon_obj auth)) = Inr d1"
    and tr: "native_transition now job Running d1 = Inr d2"
    and ev: "native_event sha now (j_id job) ''native.admitted'' [(''attempt_id'', JStr i)] (i @ '':admitted'') d2 = Inr d'"
    and a: "get_attempt d' (j_id job) = Some a"
    by (elim disjE conjE exE) (blast+)
  note f = native_transition_frame [OF tr] and e = native_event_Inr [OF ev]
  have "get_attempt d' (j_id job) = get_attempt d1 (j_id job)" using f e by (simp add: get_attempt_def)
  then have row: "a = new_attempt_row now i job owner slot (canon_obj wt) (canon_obj auth)"
    using get_attempt_insert [OF ins] a by (simp add: new_attempt_row_def)
  have "select_job d1 (j_id job) = Some job"
    using insert_attempt_Inr [OF ins] pre by (simp add: select_job_def)
  moreover have "jobs d' = jobs d2" using e by simp
  ultimately have "select_job d' (j_id job) = Some (job\<lparr>j_state := Running, j_updated_at := now\<rparr>)"
    using native_transition_Inr [OF tr] by (auto simp: select_job_def)
  then show ?thesis using pre row a by blast
qed

end
