(* ===== verification/NativeLane.thy ===== *)
theory NativeLane
  imports Native
begin

text \<open>
  The guarantees of the single native lane (native_store.py) over arbitrary runs of its operations
  together with the team saves that revoke attempts: one writer, exclusive admission, settlement,
  fencing of settled attempts and cancellations that stick.
\<close>

lemma cancel_Inr:
  assumes wf: "native_wf d" and "native_cancel sha j i actor channel now d = (Inr a, d')"
  shows "get_attempt d' j = Some a \<and> n_id a = i \<and> (n_phase a = Settled \<or> n_cancel_requested a)"
proof -
  obtain cur where cur: "get_attempt d j = Some cur" "n_id cur = i" and a: "get_attempt d' j = Some a"
    and or: "(\<exists>n d1 q. update_attempts d (\<lambda>r. n_id r = i) request_cancel = Inr (n, d1) \<and>
           native_event sha now j ''native.cancel.requested'' q (i @ '':cancel'') d1 = Inr d') \<or>
      (n_phase cur = Settled \<or> n_cancel_requested cur) \<and> d' = d"
    using assms(2)
    by (auto simp: native_cancel_def validated_Inr write_connection_Inr bindE_eq_Inr split: option.splits if_splits)
      blast+
  from or show ?thesis
  proof (elim disjE exE conjE)
    fix n d1 q assume u: "update_attempts d (\<lambda>r. n_id r = i) request_cancel = Inr (n, d1)"
      and e: "native_event sha now j ''native.cancel.requested'' q (i @ '':cancel'') d1 = Inr d'"
    have "get_attempt d1 j = Some (request_cancel cur)"
      using get_attempt_update [OF wf cur(1)] u cur(2) by simp
    then show ?thesis
      using a cur native_event_Inr [OF e] get_attempt_frame [of d' d1 j] by (auto simp: request_cancel_def)
  qed (use a cur in auto)
qed

lemma check_cancelled:
  "get_attempt d (n_job_id h) = Some r \<Longrightarrow> n_held r \<longrightarrow> n_cancel_requested r \<Longrightarrow>
     \<exists>e. native_check sha tr h d = Inl e"
  by (cases "native_check sha tr h d")
    (auto simp: native_check_def connection_def rethrow_def bindE_eq_Inr owned_Inr split: sum.splits if_splits)

lemma count_where_le_1_unique:
  assumes "count_where p rows \<le> 1" and "x \<in> set rows" "p x" "y \<in> set rows" "p y"
  shows "x = y"
proof -
  have "x \<in> set (filter p rows)" "y \<in> set (filter p rows)" using assms by auto
  with assms(1) show ?thesis unfolding count_where_def by (cases "filter p rows") auto
qed

lemma finish_releases:
  assumes wf: "native_wf d" and fin: "native_finish sha a reported now d = (Inr (), d')"
  shows "\<forall>r\<in>set (native_attempts d'). \<not> n_held r"
proof
  fix q' assume q': "q' \<in> set (native_attempts d')"
  obtain oc where "finish_tx sha now a oc d = Inr ((), d')"
    using fin by (auto simp: native_finish_def validated_Inr write_connection_Inr split: option.splits)
  then obtain cur d1 out n d2 where cur: "get_attempt d (n_job_id a) = Some cur" "n_id cur = n_id a" "n_held cur"
    and tr: "native_attempts d1 = native_attempts d"
    and up: "update_attempts d1 (\<lambda>r. n_id r = n_id a)
      (\<lambda>r. r\<lparr>n_phase := Settled, n_held := False, n_outcome := Some out\<rparr>) = Inr (n, d2)"
    and ev: "native_attempts d' = native_attempts d2"
  proof (rule finish_tx_Inr)
    fix cur job oo e1 e2 n
    assume g: "get_attempt d (n_job_id a) = Some cur" "n_id cur = n_id a" "n_held cur"
      and tr: "native_transition now job (outcome_target oo) d = Inr e1"
      and up: "update_attempts e1 (\<lambda>r. n_id r = n_id a)
        (\<lambda>r. r\<lparr>n_phase := Settled, n_held := False, n_outcome := Some oo\<rparr>) = Inr (n, e2)"
      and ev: "native_event sha now (j_id job) ''native.settled''
       [(''attempt_id'', JStr (n_id a)), (''outcome'', JStr (native_outcome_value oo)),
        (''state'', JStr (job_state_value (outcome_target oo)))] (n_id a @ '':settled'') e2 = Inr d'"
    show ?thesis
      by (rule that [OF g _ up]) (use native_transition_frame [OF tr] native_event_Inr [OF ev] in simp_all)
  qed
  have "count_where n_held (native_attempts d) \<le> 1" using wf by (simp add: native_wf_def)
  then have "q = cur" if "q \<in> set (native_attempts d)" "n_held q" for q
    using count_where_le_1_unique that cur get_attempt_Some [OF cur(1)] by metis
  then show "\<not> n_held q'" using q' cur(2) update_attempts_Inr [OF up] ev tr by (auto simp: set_update_where)
qed

subsection \<open>Properties\<close>

text \<open>
  C32: the lane has one writer: whatever claims, bindings, events, cancellations, finishes,
  quarantines, team saves and seedings run, in whatever order and by whatever owners, at most one
  attempt is held, attempt and job identifiers stay unique, no attempt is lost or loses its owner,
  worktree, authorization, session or cancellation, and the ledger is only appended to.
\<close>

theorem single_native_writer:
  assumes "native_wf d" and "(native_step sha tr)\<^sup>*\<^sup>* d d'"
  shows "native_wf d' \<and> count_where n_held (native_attempts d') \<le> 1 \<and>
    (\<forall>r\<in>set (native_attempts d). \<exists>r'\<in>set (native_attempts d'). attempt_evolves r r') \<and>
    map j_id (jobs d') = map j_id (jobs d) \<and> (\<exists>new. events d' = events d @ new)"
proof -
  have l: "lane_step d d'" using native_run_lane [OF assms(2)] .
  then have "native_wf d'" using assms(1) by (simp add: lane_step_def)
  moreover have "\<exists>r'\<in>set (native_attempts d'). attempt_evolves r r'" if "r \<in> set (native_attempts d)" for r
    using attempt_history.grows_mem [OF _ that] l unfolding lane_step_def attempts_evolve_def by blast
  ultimately show ?thesis using l by (auto simp: lane_step_def native_wf_def)
qed

definition sample_lane :: db where
  "sample_lane = (sample_db Running)\<lparr>native_attempts := [sample_attempt]\<rparr>"

lemma sample_lane_wf: "native_wf sample_lane"
  by (simp add: native_wf_def sample_lane_def sample_attempt_def sample_job_def attempt_check_def)

text \<open>The lane of the sample store is cancelled on the phone and then reports completion.\<close>

definition sample_cancelled :: "(exn + attempt_row) \<times> db" where
  "sample_cancelled =
     native_cancel sample_sha ''job-1'' ''attempt-1'' (Some ''op'') ''telegram'' 60 sample_lane"

definition sample_finished :: "(exn + unit) \<times> db" where
  "sample_finished = native_finish sample_sha sample_attempt ''completed'' 70 (snd sample_cancelled)"

lemma sample_cancelled_run: "\<exists>a. sample_cancelled = (Inr a, snd sample_cancelled)"
proof -
  have "case fst sample_cancelled of Inr a \<Rightarrow> True | Inl e \<Rightarrow> False" by code_simp
  then obtain a where "fst sample_cancelled = Inr a" by (auto split: sum.splits)
  then show ?thesis by (metis prod.collapse)
qed

lemma sample_finished_run: "sample_finished = (Inr (), snd sample_finished)"
proof -
  have "fst sample_finished = Inr ()" by code_simp
  then show ?thesis by (metis prod.collapse)
qed

lemma sample_cancelled_step: "(native_step sample_sha tr)\<^sup>*\<^sup>* sample_lane (snd sample_cancelled)"
proof -
  obtain a where "sample_cancelled = (Inr a, snd sample_cancelled)" using sample_cancelled_run by blast
  then have "native_step sample_sha tr sample_lane (snd sample_cancelled)"
    unfolding sample_cancelled_def by (rule native_step.cancel)
  then show ?thesis by blast
qed

lemma sample_run: "(native_step sample_sha tr)\<^sup>*\<^sup>* sample_lane (snd sample_finished)"
proof -
  have "native_step sample_sha tr (snd sample_cancelled) (snd sample_finished)"
    using sample_finished_run unfolding sample_finished_def by (rule native_step.finish)
  then show ?thesis by (rule rtranclp.rtrancl_into_rtrancl [OF sample_cancelled_step])
qed

theorem single_native_writer_witness:
  "count_where n_held (native_attempts (snd sample_finished)) \<le> 1 \<and>
   (\<exists>r\<in>set (native_attempts (snd sample_finished)). attempt_evolves sample_attempt r)"
  using single_native_writer [OF sample_lane_wf sample_run [of sample_repository]]
  by (auto simp: sample_lane_def)

text \<open>
  C7: a fresh claim admits exactly the job the caller saw, queued for Codex and authorized by its
  team at that moment, and only when no attempt is held; the attempt is recorded with the frozen
  authorization and the job runs. Claiming the job again, by any owner at any time, answers that
  attempt and changes nothing, and any other job that has no attempt is refused.
\<close>

theorem native_claim_exclusive:
  assumes "native_wf d" and "native_claim sha tr i owner wt job now d = (Inr (a, True), d')"
  shows "(\<forall>r\<in>set (native_attempts d). \<not> n_held r) \<and> get_attempt d (j_id job) = None \<and>
    select_job d (j_id job) = Some job \<and> j_state job = Queued \<and> j_runtime job = Codex \<and>
    (\<exists>auth slot. authorize sha tr job d = Inr auth \<and>
       a = new_attempt_row now i job owner slot (canon_obj wt) (canon_obj auth)) \<and>
    get_attempt d' (j_id job) = Some a \<and>
    select_job d' (j_id job) = Some (job\<lparr>j_state := Running, j_updated_at := now\<rparr>) \<and>
    (\<forall>tr2 i2 owner2 wt2 job2 now2.
       (j_id job2 = j_id job \<longrightarrow>
          native_claim sha tr2 i2 owner2 wt2 job2 now2 d' = (Inr (a, False), d')) \<and>
       (get_attempt d' (j_id job2) = None \<longrightarrow>
          (\<exists>e. native_claim sha tr2 i2 owner2 wt2 job2 now2 d' = (Inl e, d'))))"
proof -
  note f = claim_fresh_effect [OF assms]
  have held: "a \<in> set (native_attempts d')" "n_held a"
    using f get_attempt_Some by (auto simp: new_attempt_row_def)
  have again: "native_claim sha tr2 i2 owner2 wt2 job2 now2 d' = (Inr (a, False), d')"
    if "j_id job2 = j_id job" for tr2 i2 owner2 wt2 job2 now2
    unfolding native_claim_def write_connection_Inr using f that by (simp add: claim_tx_def)
  have other: "\<exists>e. native_claim sha tr2 i2 owner2 wt2 job2 now2 d' = (Inl e, d')"
    if "get_attempt d' (j_id job2) = None" for tr2 i2 owner2 wt2 job2 now2
  proof (cases "native_claim sha tr2 i2 owner2 wt2 job2 now2 d'")
    case (Pair r d2)
    show ?thesis
    proof (cases r)
      case (Inl e)
      then show ?thesis using Pair write_connection_Inl unfolding native_claim_def by blast
    next
      case (Inr x)
      then have "claim_tx sha tr2 now2 i2 owner2 wt2 job2 d' = Inr ((fst x, snd x), d2)"
        using Pair by (simp add: native_claim_def write_connection_Inr)
      from claim_tx_Inr [OF this] show ?thesis using that held by auto
    qed
  qed
  show ?thesis using f again other by simp
qed

text \<open>A queued job with the binding its submission froze.\<close>

definition sample_binding :: payload where
  "sample_binding =
     [(''connection'', JObj
        [(''account_slot'', JStr ''main''), (''credential_ref'', JNull), (''enabled'', JBool True),
         (''id'', JStr ''codex-main''), (''kind'', JStr ''codex'')]),
      (''model'', JObj
        [(''capabilities'', JList []), (''connection_id'', JStr ''codex-main''), (''id'', JStr ''m1''),
         (''model'', JNull), (''verified'', JBool True)]),
      (''profile'', JObj
        [(''allowed_write_paths'', JList [JStr ''src/app'']), (''document_paths'', JList []),
         (''id'', JStr ''impl''), (''max_output_tokens'', JNull), (''max_steps'', JNull),
         (''model_id'', JStr ''m1''), (''role'', JStr ''implementer''),
         (''tools'', JList [JStr ''native_workspace''])]),
      (''revision'', JInt 1),
      (''team'', JObj
        [(''agent_ids'', JList [JStr ''impl'']), (''enabled'', JBool True), (''lead_id'', JNull),
         (''max_active'', JInt 1), (''mode'', JStr ''manual''), (''paid_api_enabled'', JBool False),
         (''per_task_cap_usd'', JFloat ''0.1''), (''project_id'', JStr ''demo'')])]"

definition sample_claim_job :: job_row where
  "sample_claim_job = (sample_job Queued)\<lparr>j_request_snapshot :=
     [(''agent_binding'', JObj sample_binding),
      (''project'', JObj
        [(''cloud_allowed'', JBool True), (''id'', JStr ''demo''),
         (''permission_mode'', JStr ''sandboxed-write''), (''root'', JStr ''/srv/demo''),
         (''sensitivity'', JStr ''private'')])]\<rparr>"

definition sample_claim_db :: db where
  "sample_claim_db = sample_saved_db\<lparr>jobs := [sample_claim_job]\<rparr>"

theorem native_claim_exclusive_witness:
  "\<exists>a d'. native_claim sample_sha sample_repository ''attempt-1'' ''host'' [] sample_claim_job 60
       sample_claim_db = (Inr (a, True), d') \<and>
     native_claim sample_sha sample_repository ''attempt-2'' ''other'' [] sample_claim_job 61 d'
       = (Inr (a, False), d')"
proof -
  let ?t = "native_claim sample_sha sample_repository ''attempt-1'' ''host'' [] sample_claim_job 60 sample_claim_db"
  have "case fst ?t of Inr (a, fresh) \<Rightarrow> fresh | Inl e \<Rightarrow> False" by code_simp
  then obtain a d' where t: "?t = (Inr (a, True), d')" by (cases ?t) (auto split: sum.splits)
  have "native_wf sample_claim_db"
    by (simp add: native_wf_def sample_claim_db_def sample_saved_db_def sample_team_db_def)
  from native_claim_exclusive [OF this t] t show ?thesis by blast
qed

text \<open>
  C8: finishing settles: the owner's attempt releases the lane with the reported outcome, or as
  cancelled when a cancellation was requested, and the job makes the one allowed transition to the
  outcome's state; no attempt is held afterwards, so the next queued job can be claimed.
\<close>

theorem native_finish_settles:
  assumes "native_wf d" and "native_finish sha a reported now d = (Inr (), d')"
  shows "\<exists>cur oc job. get_attempt d (n_job_id a) = Some cur \<and> n_id cur = n_id a \<and> n_owner cur = n_owner a \<and>
    oc = (if n_cancel_requested cur then Some OCancelled else parse_outcome reported) \<and> oc \<noteq> None \<and>
    get_attempt d' (n_job_id a) = Some (cur\<lparr>n_phase := Settled, n_held := False, n_outcome := oc\<rparr>) \<and>
    select_job d (n_job_id a) = Some job \<and>
    validate_job_transition (j_state job) (outcome_target (the oc)) = Inr () \<and>
    select_job d' (n_job_id a) = Some (job\<lparr>j_state := outcome_target (the oc), j_updated_at := now\<rparr>) \<and>
    (\<forall>r\<in>set (native_attempts d'). \<not> n_held r)"
proof -
  obtain cur oc out job where f: "get_attempt d (n_job_id a) = Some cur" "n_id cur = n_id a" "n_owner cur = n_owner a"
      "parse_outcome reported = Some oc" "out = (if n_cancel_requested cur then OCancelled else oc)"
      "get_attempt d' (n_job_id a) = Some (cur\<lparr>n_phase := Settled, n_held := False, n_outcome := Some out\<rparr>)"
      "select_job d (n_job_id a) = Some job" "validate_job_transition (j_state job) (outcome_target out) = Inr ()"
      "select_job d' (n_job_id a) = Some (job\<lparr>j_state := outcome_target out, j_updated_at := now\<rparr>)"
    using finish_effect [OF assms] by blast
  have "\<forall>r\<in>set (native_attempts d'). \<not> n_held r" using finish_releases [OF assms] .
  then show ?thesis using f by (intro exI [of _ cur] exI [of _ "Some out"] exI [of _ job]) simp
qed

theorem native_finish_settles_witness:
  "list_all (\<lambda>r. \<not> n_held r) (native_attempts (snd sample_finished)) \<and>
   (\<exists>job. select_job (snd sample_finished) ''job-1'' = Some job \<and> j_state job = Cancelled)"
proof -
  have wf: "native_wf (snd sample_cancelled)"
    using native_run_lane [OF sample_cancelled_step [of sample_repository]] sample_lane_wf
    by (simp add: lane_step_def)
  have c: "map_option n_cancel_requested (get_attempt (snd sample_cancelled) ''job-1'') = Some True" by code_simp
  have "native_finish sample_sha sample_attempt ''completed'' 70 (snd sample_cancelled) = (Inr (), snd sample_finished)"
    using sample_finished_run unfolding sample_finished_def .
  from native_finish_settles [OF wf this] show ?thesis using c by (auto simp: sample_attempt_def list_all_iff)
qed

text \<open>
  A settled attempt is over: whatever runs afterwards, no handle on its job, however it was
  obtained, can check, bind, append to, finish or quarantine it, and its record stays what it was.
\<close>

theorem settled_attempt_fenced:
  assumes "native_wf d" and "get_attempt d (n_job_id h) = Some r" and "n_phase r = Settled"
    and "(native_step sha tr)\<^sup>*\<^sup>* d d'"
  shows "get_attempt d' (n_job_id h) = Some r \<and> native_check sha tr h d' = Inl NativeConflictError \<and>
    native_bind sha h s now d' = (Inl NativeConflictError, d') \<and>
    native_append sha h event now d' = (Inl NativeConflictError, d') \<and>
    native_finish sha h reported now d' = (Inl NativeConflictError, d') \<and>
    native_quarantine sha h now d' = (Inl NativeConflictError, d')"
proof -
  obtain r' where r': "get_attempt d' (n_job_id h) = Some r'" "attempt_evolves r r'"
    using run_attempt [OF assms(4,1,2)] by blast
  then have same: "r' = r" using assms(3) by (simp add: attempt_evolves_def)
  then have "owned h d' = Inl NativeConflictError"
    using not_owned r' wf_settled [OF assms(1,2)] assms(3) by blast
  from unowned_refused [OF this] r' same show ?thesis by simp
qed

theorem settled_attempt_fenced_witness:
  "native_bind sample_sha sample_attempt ''s'' 80 (snd sample_finished)
     = (Inl NativeConflictError, snd sample_finished)"
proof -
  have wf: "native_wf (snd sample_finished)"
    using native_run_lane [OF sample_run [of sample_repository]] sample_lane_wf by (simp add: lane_step_def)
  have "map_option n_phase (get_attempt (snd sample_finished) (n_job_id sample_attempt)) = Some Settled" by code_simp
  then obtain r where "get_attempt (snd sample_finished) (n_job_id sample_attempt) = Some r" "n_phase r = Settled"
    by auto
  from settled_attempt_fenced [OF wf this rtranclp.rtrancl_refl] show ?thesis by blast
qed

text \<open>
  A requested cancellation sticks: whatever runs after it, the attempt stays cancelled or is
  settled, no handle passes the owner's check again, and a finish, whatever it reports, records
  the outcome cancelled and cancels the job.
\<close>

theorem native_cancellation_sticks:
  assumes "native_wf d" and "native_cancel sha j i actor channel now d = (Inr a, d1)"
    and "n_phase a \<noteq> Settled" and "(native_step sha tr)\<^sup>*\<^sup>* d1 d2"
  shows "\<exists>r. get_attempt d2 j = Some r \<and> n_id r = i \<and> n_cancel_requested r \<and>
    (\<forall>h. n_job_id h = j \<longrightarrow> (\<exists>e. native_check sha tr h d2 = Inl e) \<and>
       (\<forall>reported now2 d3. native_finish sha h reported now2 d2 = (Inr (), d3) \<longrightarrow>
          (\<exists>r3 job. get_attempt d3 j = Some r3 \<and> n_outcome r3 = Some OCancelled \<and>
             select_job d3 j = Some job \<and> j_state job = Cancelled)))"
proof -
  note c = cancel_Inr [OF assms(1,2)]
  have wf1: "native_wf d1" using lane_step_cancel [OF assms(2)] assms(1) by (simp add: lane_step_def)
  then have wf2: "native_wf d2" using native_run_lane [OF assms(4)] by (simp add: lane_step_def)
  obtain r where r: "get_attempt d2 j = Some r" "attempt_evolves a r"
    using run_attempt [OF assms(4) wf1] c by blast
  have cancelled: "n_id r = i" "n_cancel_requested r" using r c assms(3) by (auto simp: attempt_evolves_def)
  have "\<exists>r3 job. get_attempt d3 j = Some r3 \<and> n_outcome r3 = Some OCancelled \<and>
      select_job d3 j = Some job \<and> j_state job = Cancelled"
    if "n_job_id h = j" "native_finish sha h reported now2 d2 = (Inr (), d3)" for h reported now2 d3
    using finish_effect [OF wf2 that(2)] that(1) r(1) cancelled by auto
  moreover have "\<exists>e. native_check sha tr h d2 = Inl e" if "n_job_id h = j" for h
    using check_cancelled [of d2 h r] that r(1) cancelled by simp
  ultimately show ?thesis using r(1) cancelled by blast
qed

theorem native_cancellation_sticks_witness:
  "\<exists>e. native_check sample_sha sample_repository sample_attempt (snd sample_cancelled) = Inl e"
proof -
  have "case fst sample_cancelled of Inr a \<Rightarrow> n_phase a \<noteq> Settled | Inl e \<Rightarrow> False" by code_simp
  then obtain a where a: "fst sample_cancelled = Inr a" "n_phase a \<noteq> Settled" by (auto split: sum.splits)
  then have "native_cancel sample_sha ''job-1'' ''attempt-1'' (Some ''op'') ''telegram'' 60 sample_lane
      = (Inr a, snd sample_cancelled)"
    by (metis prod.collapse sample_cancelled_def)
  moreover have "n_job_id sample_attempt = ''job-1''" by (simp add: sample_attempt_def)
  ultimately show ?thesis
    using native_cancellation_sticks [OF sample_lane_wf _ a(2) rtranclp.rtrancl_refl] by blast
qed

end
