(* ===== verification/RemoteCommands.thy ===== *)
theory RemoteCommands
  imports Teams
begin

text \<open>
  \<open>RemoteJournal\<close> (remote_commands.py): one receipt per update of a remote channel, its recorded
  reply and the single conservative attempt to send it. Receipts are rows of \<open>remote_receipts\<close>
  (migration 14 of db.py), whose constraints and trigger come first.
\<close>

subsection \<open>The table\<close>

definition with_receipts :: "receipt_row list \<Rightarrow> db \<Rightarrow> db" where
  "with_receipts rs d = d\<lparr>phone := (phone d)\<lparr>receipts := rs\<rparr>\<rparr>"

definition receipt_check :: "receipt_row \<Rightarrow> bool" where
  "receipt_check r \<longleftrightarrow>
     0 \<le> rr_update_id r \<and> sql_length (rr_payload_hash r) = 64 \<and> sql_length (rr_scope_hash r) = 64 \<and>
     opt_check (\<lambda>s. utf8_len s \<le> 16384) (rr_reply r) \<and>
     (rr_phase r \<in> {RReady, RSending, RSent, RUncertain} \<and> rr_reply r \<noteq> None \<or>
      rr_phase r \<in> {RReceived, RIgnored, RExpired}) \<and>
     (rr_phase r = RSent \<and> rr_message_id r \<noteq> None \<or> rr_phase r \<noteq> RSent \<and> rr_message_id r = None)"

text \<open>Trigger \<open>remote_receipt_identity\<close>.\<close>

definition receipt_update_aborts :: "receipt_row \<Rightarrow> receipt_row \<Rightarrow> bool" where
  "receipt_update_aborts old new \<longleftrightarrow>
     rr_channel new \<noteq> rr_channel old \<or> rr_update_id new \<noteq> rr_update_id old \<or>
     rr_payload_hash new \<noteq> rr_payload_hash old \<or> rr_scope_hash new \<noteq> rr_scope_hash old \<or>
     rr_actor new \<noteq> rr_actor old \<or> rr_chat new \<noteq> rr_chat old \<or> rr_issued_at new \<noteq> rr_issued_at old \<or>
     rr_expires_at new \<noteq> rr_expires_at old \<or> rr_reply old \<noteq> None \<and> rr_reply new \<noteq> rr_reply old \<or>
     rr_phase old \<in> {RSent, RUncertain, RIgnored, RExpired}"

definition receipt_key :: "receipt_row \<Rightarrow> string \<times> int" where
  "receipt_key r = (rr_channel r, rr_update_id r)"

definition insert_receipt :: "db \<Rightarrow> receipt_row \<Rightarrow> exn + db" where
  "insert_receipt d r =
     (if \<not> receipt_check r then Inl (IntegrityError CheckViolation)
      else if receipt_key r \<in> receipt_key ` set (receipts (phone d))
      then Inl (IntegrityError PrimaryKeyViolation)
      else Inr (with_receipts (receipts (phone d) @ [r]) d))"

definition update_receipts ::
  "db \<Rightarrow> (receipt_row \<Rightarrow> bool) \<Rightarrow> (receipt_row \<Rightarrow> receipt_row) \<Rightarrow> exn + db" where
  "update_receipts d p f =
     (if \<exists>r\<in>set (receipts (phone d)). p r \<and> receipt_update_aborts r (f r)
      then Inl (IntegrityError TriggerAbort)
      else if \<exists>r\<in>set (receipts (phone d)). p r \<and> \<not> receipt_check (f r)
      then Inl (IntegrityError CheckViolation)
      else Inr (with_receipts (update_where p f (receipts (phone d))) d))"

subsection \<open>Reading\<close>

definition select_receipt :: "db \<Rightarrow> string \<Rightarrow> int \<Rightarrow> receipt_row option" where
  "select_receipt d channel update_id =
     List.find (\<lambda>r. receipt_key r = (channel, update_id)) (receipts (phone d))"

definition journal_get :: "string \<Rightarrow> int \<Rightarrow> db \<Rightarrow> receipt_row option" where
  "journal_get channel update_id d = select_receipt d channel update_id"

definition journal_scope :: "(string \<Rightarrow> string) \<Rightarrow> int \<Rightarrow> string list \<Rightarrow> int \<Rightarrow> exn + string" where
  "journal_scope sha owner project_ids port =
     bindE (encode [(''owner'', JInt owner), (''projects'', JList (map JStr project_ids)),
                    (''port'', JInt port)]) (\<lambda>t. Inr (sha t))"

subsection \<open>Receiving\<close>

definition is_decimal :: "string \<Rightarrow> bool" where
  "is_decimal s \<longleftrightarrow> s \<noteq> [] \<and> list_all (\<lambda>c. 48 \<le> code_point c \<and> code_point c \<le> 57) s"

definition object_or_empty :: "json \<Rightarrow> payload" where
  "object_or_empty v = (case v of JObj kvs \<Rightarrow> kvs | _ \<Rightarrow> [])"

text \<open>The bound of a SQLite integer, \<open>2 ^ 63\<close>.\<close>

definition int64_bound :: int where
  "int64_bound = 9223372036854775808"

definition safe_int :: "json \<Rightarrow> int option" where
  "safe_int v =
     (case v of
        JInt i \<Rightarrow> if - int64_bound < i \<and> i < int64_bound then Some i else None
      | _ \<Rightarrow> None)"

definition receipt_identity :: "string \<Rightarrow> payload \<Rightarrow> string \<Rightarrow> exn + int" where
  "receipt_identity channel update scope =
     (case get_default update ''update_id'' JNull of
        JInt i \<Rightarrow>
          if \<not> is_decimal channel \<or> 20 < length channel \<or> i < 0 \<or> int64_bound \<le> i \<or> length scope \<noteq> 64
          then Inl RemoteJournalError else Inr i
      | _ \<Rightarrow> Inl RemoteJournalError)"

definition receipt_text :: "payload \<Rightarrow> exn + string" where
  "receipt_text update =
     (case encode update of
        Inl e \<Rightarrow> Inl RemoteJournalError
      | Inr t \<Rightarrow> if 262144 < utf8_len t then Inl RemoteJournalError else Inr t)"

text \<open>Who sent what when: a callback names its sender itself and carries no date.\<close>

definition new_receipt_row ::
  "(string \<Rightarrow> string) \<Rightarrow> string \<Rightarrow> payload \<Rightarrow> string \<Rightarrow> int \<Rightarrow> int \<Rightarrow> string \<Rightarrow> receipt_row" where
  "new_receipt_row sha channel update scope now identity payload_text =
     (let callback = get_default update ''callback_query'' JNull;
          message = object_or_empty (case callback of
              JObj c \<Rightarrow> get_default c ''message'' (JObj [])
            | _ \<Rightarrow> get_default update ''message'' (JObj []));
          sender = object_or_empty (case callback of
              JObj c \<Rightarrow> get_default c ''from'' (JObj [])
            | _ \<Rightarrow> get_default message ''from'' (JObj []));
          chat = object_or_empty (get_default message ''chat'' (JObj []));
          issued = (case callback of
              JObj c \<Rightarrow> None
            | _ \<Rightarrow> safe_int (get_default message ''date'' JNull))
      in \<lparr>rr_channel = channel, rr_update_id = identity, rr_payload_hash = sha payload_text,
          rr_scope_hash = scope, rr_actor = safe_int (get_default sender ''id'' JNull),
          rr_chat = safe_int (get_default chat ''id'' JNull), rr_issued_at = issued,
          rr_expires_at = (case issued of None \<Rightarrow> now | Some i \<Rightarrow> min (int64_bound - 1) (i + 120)),
          rr_phase = RReceived, rr_reply = None, rr_message_id = None\<rparr>)"

text \<open>Binding an integer beyond 64 bits raises \<open>OverflowError\<close>.\<close>

definition receive_tx :: "receipt_row \<Rightarrow> db \<Rightarrow> exn + (receipt_row option \<times> bool) \<times> db" where
  "receive_tx row d =
     (case select_receipt d (rr_channel row) (rr_update_id row) of
        Some stored \<Rightarrow>
          if rr_payload_hash stored \<noteq> rr_payload_hash row then Inl RemoteJournalError
          else Inr ((Some stored, False), d)
      | None \<Rightarrow>
          if rr_expires_at row < - int64_bound \<or> int64_bound \<le> rr_expires_at row then Inl OverflowErr
          else bindE (insert_receipt d row) (\<lambda>d'.
            Inr ((select_receipt d' (rr_channel row) (rr_update_id row), True), d')))"

definition journal_receive ::
  "(string \<Rightarrow> string) \<Rightarrow> string \<Rightarrow> payload \<Rightarrow> string \<Rightarrow> int \<Rightarrow> db \<Rightarrow> (exn + receipt_row option \<times> bool) \<times> db" where
  "journal_receive sha channel update scope now =
     validated
       (bindE (receipt_identity channel update scope) (\<lambda>identity.
        bindE (receipt_text update) (\<lambda>payload_text.
          Inr (new_receipt_row sha channel update scope now identity payload_text))))
       (\<lambda>row. write_connection RemoteJournalError (receive_tx row))"

subsection \<open>Replying\<close>

definition receipt_reply :: "string option \<Rightarrow> string list \<Rightarrow> exn + string option" where
  "receipt_reply reply egress =
     (if (case reply of None \<Rightarrow> False | Some t \<Rightarrow> t = [] \<or> 16384 < utf8_len t) then Inl RemoteJournalError
      else if 8 < length egress \<or> list_ex (\<lambda>p. p = [] \<or> 200 < length p) egress
      then Inl RemoteJournalError
      else case reply of
          None \<Rightarrow> Inr None
        | Some t \<Rightarrow>
            bindE (encode [(''text'', JStr t), (''projects'', JList (map JStr egress))]) (\<lambda>encoded.
            if 16384 < utf8_len encoded then Inl RemoteJournalError else Inr (Some encoded)))"

definition set_reply :: "string option \<Rightarrow> receipt_row \<Rightarrow> receipt_row" where
  "set_reply encoded r =
     r\<lparr>rr_phase := (if encoded = None then RIgnored else RReady), rr_reply := encoded\<rparr>"

definition journal_complete ::
  "string \<Rightarrow> int \<Rightarrow> string option \<Rightarrow> string list \<Rightarrow> db \<Rightarrow> (exn + receipt_row option) \<times> db" where
  "journal_complete channel update_id reply egress =
     validated (receipt_reply reply egress) (\<lambda>encoded.
       write_connection RemoteJournalError (\<lambda>d.
         case select_receipt d channel update_id of
           None \<Rightarrow> Inl RemoteJournalError
         | Some row \<Rightarrow>
             if rr_phase row \<noteq> RReceived then Inl RemoteJournalError
             else bindE (update_receipts d (\<lambda>r. receipt_key r = (channel, update_id)) (set_reply encoded))
               (\<lambda>d'. Inr (select_receipt d' channel update_id, d'))))"

definition set_phase :: "receipt_phase \<Rightarrow> receipt_row \<Rightarrow> receipt_row" where
  "set_phase phase r = r\<lparr>rr_phase := phase\<rparr>"

definition journal_claim ::
  "string \<Rightarrow> int \<Rightarrow> string \<Rightarrow> int \<Rightarrow> db \<Rightarrow> (exn + receipt_row option) \<times> db" where
  "journal_claim channel update_id scope now =
     write_connection RemoteJournalError (\<lambda>d.
       case select_receipt d channel update_id of
         None \<Rightarrow> Inr (None, d)
       | Some row \<Rightarrow>
           if rr_phase row \<noteq> RReady then Inr (None, d)
           else if rr_scope_hash row \<noteq> scope \<or> rr_expires_at row < now
           then bindE (update_receipts d (\<lambda>r. receipt_key r = (channel, update_id)) (set_phase RExpired))
             (\<lambda>d'. Inr (None, d'))
           else bindE (update_receipts d (\<lambda>r. receipt_key r = (channel, update_id)) (set_phase RSending))
             (\<lambda>d'. Inr (select_receipt d' channel update_id, d')))"

definition set_sent :: "int option \<Rightarrow> receipt_row \<Rightarrow> receipt_row" where
  "set_sent message_id r =
     r\<lparr>rr_phase := (if message_id = None then RUncertain else RSent), rr_message_id := message_id\<rparr>"

definition journal_finish :: "string \<Rightarrow> int \<Rightarrow> int option \<Rightarrow> db \<Rightarrow> (exn + unit) \<times> db" where
  "journal_finish channel update_id message_id =
     validated
       (ensure (case message_id of None \<Rightarrow> True | Some m \<Rightarrow> 0 < m \<and> m < int64_bound) RemoteJournalError) (\<lambda>_.
       write_connection RemoteJournalError (\<lambda>d.
         case select_receipt d channel update_id of
           None \<Rightarrow> Inl RemoteJournalError
         | Some row \<Rightarrow>
             if rr_phase row \<noteq> RSending then Inl RemoteJournalError
             else bindE (update_receipts d (\<lambda>r. receipt_key r = (channel, update_id)) (set_sent message_id))
               (\<lambda>d'. Inr ((), d'))))"

text \<open>After a crash a message whose sending was begun is never sent again.\<close>

definition journal_recover :: "string \<Rightarrow> db \<Rightarrow> (exn + nat) \<times> db" where
  "journal_recover channel =
     write_connection RemoteJournalError (\<lambda>d.
       bindE (update_receipts d (\<lambda>r. rr_channel r = channel \<and> rr_phase r = RSending) (set_phase RUncertain))
         (\<lambda>d'. Inr (count_where (\<lambda>r. rr_channel r = channel \<and> rr_phase r \<in> {RReceived, RUncertain})
                      (receipts (phone d')), d')))"

subsection \<open>The life of a receipt\<close>

inductive receipt_edge :: "receipt_phase \<Rightarrow> receipt_phase \<Rightarrow> bool" where
  reply: "receipt_edge RReceived RReady"
| ignore: "receipt_edge RReceived RIgnored"
| claim: "receipt_edge RReady RSending"
| expire: "receipt_edge RReady RExpired"
| sent: "receipt_edge RSending RSent"
| uncertain: "receipt_edge RSending RUncertain"

inductive_cases receipt_edge_cases: "receipt_edge p q"

lemma receipt_edge_sending: "receipt_edge\<^sup>*\<^sup>* RSending q \<Longrightarrow> q \<in> {RSending, RSent, RUncertain}"
  by (induction rule: rtranclp_induct) (auto elim: receipt_edge_cases)

text \<open>The abstract journal: a phase per update, moved along the edges only.\<close>

type_synonym delivery = "string \<times> int \<Rightarrow> receipt_phase option"

inductive delivery_step :: "delivery \<Rightarrow> delivery \<Rightarrow> bool" where
  receive: "m k = None \<Longrightarrow> delivery_step m (m(k \<mapsto> RReceived))"
| move: "m k = Some p \<Longrightarrow> receipt_edge p q \<Longrightarrow> delivery_step m (m(k \<mapsto> q))"

definition phases :: "receipt_row list \<Rightarrow> delivery" where
  "phases rs = map_of (map (\<lambda>r. (receipt_key r, rr_phase r)) rs)"

definition delivery_of :: "db \<Rightarrow> delivery" where
  "delivery_of d = phases (receipts (phone d))"

definition journal_wf :: "db \<Rightarrow> bool" where
  "journal_wf d \<longleftrightarrow>
     distinct (map receipt_key (receipts (phone d))) \<and> (\<forall>r\<in>set (receipts (phone d)). receipt_check r)"

text \<open>What a receipt keeps.\<close>

definition receipt_evolves :: "receipt_row \<Rightarrow> receipt_row \<Rightarrow> bool" where
  "receipt_evolves r r' \<longleftrightarrow>
     receipt_key r' = receipt_key r \<and> rr_payload_hash r' = rr_payload_hash r \<and>
     rr_scope_hash r' = rr_scope_hash r \<and> rr_actor r' = rr_actor r \<and> rr_chat r' = rr_chat r \<and>
     rr_issued_at r' = rr_issued_at r \<and> rr_expires_at r' = rr_expires_at r \<and>
     (rr_reply r \<noteq> None \<longrightarrow> rr_reply r' = rr_reply r) \<and> receipt_edge\<^sup>*\<^sup>* (rr_phase r) (rr_phase r')"

definition receipts_evolve :: "db \<Rightarrow> db \<Rightarrow> bool" where
  "receipts_evolve d d' \<longleftrightarrow>
     grows receipt_evolves (receipts (phone d)) (receipts (phone d'))"

inductive journal_step :: "(string \<Rightarrow> string) \<Rightarrow> db \<Rightarrow> db \<Rightarrow> bool" for sha where
  receive: "journal_receive sha c u s now d = (r, d') \<Longrightarrow> journal_step sha d d'"
| complete: "journal_complete c i reply egress d = (r1, d') \<Longrightarrow> journal_step sha d d'"
| claim: "journal_claim c i s now d = (r1, d') \<Longrightarrow> journal_step sha d d'"
| finish: "journal_finish c i m d = (r2, d') \<Longrightarrow> journal_step sha d d'"
| recover: "journal_recover c d = (r3, d') \<Longrightarrow> journal_step sha d d'"

subsection \<open>Rows\<close>

lemma with_receipts_simps [simp]:
  "receipts (phone (with_receipts rs d)) = rs"
  "with_receipts (receipts (phone d)) d = d"
  by (simp_all add: with_receipts_def)

interpretation receipt_history: row_history receipt_evolves
  by unfold_locales (auto simp: receipt_evolves_def intro: rtranclp_trans)

text \<open>One operation keeps the table well formed, evolves its rows and refines the abstract journal.\<close>

definition journal_move :: "db \<Rightarrow> db \<Rightarrow> bool" where
  "journal_move d d' \<longleftrightarrow>
     (journal_wf d \<longrightarrow>
        journal_wf d' \<and> delivery_step\<^sup>*\<^sup>* (delivery_of d) (delivery_of d') \<and> receipts_evolve d d')"

lemma journal_move_refl [simp]: "journal_move d d"
  by (simp add: journal_move_def receipts_evolve_def receipt_history.grows_refl)

lemma journal_move_trans: "journal_move d1 d2 \<Longrightarrow> journal_move d2 d3 \<Longrightarrow> journal_move d1 d3"
  unfolding journal_move_def receipts_evolve_def
  using receipt_history.grows_trans rtranclp_trans [of delivery_step] by blast

lemma phases_replace:
  assumes "receipt_key r' = receipt_key r" and "receipt_key r \<notin> receipt_key ` set xs"
  shows "phases (xs @ r' # ys) = (phases (xs @ r # ys))(receipt_key r \<mapsto> rr_phase r')"
    and "phases (xs @ r # ys) (receipt_key r) = Some (rr_phase r)"
proof -
  have none: "map_of (map (\<lambda>r. (receipt_key r, rr_phase r)) xs) (receipt_key r) = None"
    using assms(2) by (simp add: map_of_eq_None_iff image_image)
  show "phases (xs @ r' # ys) = (phases (xs @ r # ys))(receipt_key r \<mapsto> rr_phase r')"
    using none by (auto simp: phases_def map_add_def assms(1) fun_eq_iff split: option.splits)
  show "phases (xs @ r # ys) (receipt_key r) = Some (rr_phase r)"
    using none by (simp add: phases_def map_add_def)
qed

lemma phases_update:
  assumes "distinct (map receipt_key (xs @ rs))"
    and "\<And>r. r \<in> set rs \<Longrightarrow> p r \<Longrightarrow> receipt_key (f r) = receipt_key r \<and> receipt_edge (rr_phase r) (rr_phase (f r))"
  shows "delivery_step\<^sup>*\<^sup>* (phases (xs @ rs)) (phases (xs @ update_where p f rs))"
  using assms
proof (induction rs arbitrary: xs)
  case (Cons r rs)
  let ?r = "if p r then f r else r"
  have key: "receipt_key ?r = receipt_key r" using Cons.prems(2) [of r] by simp
  have a: "delivery_step\<^sup>*\<^sup>* (phases (xs @ r # rs)) (phases (xs @ ?r # rs))"
  proof (cases "p r")
    case True
    then have e: "receipt_edge (rr_phase r) (rr_phase (f r))" "receipt_key (f r) = receipt_key r"
      using Cons.prems(2) [of r] by simp_all
    have "receipt_key r \<notin> receipt_key ` set xs" using Cons.prems(1) by auto
    note rep = phases_replace [OF e(2) this, of rs]
    have "delivery_step (phases (xs @ r # rs)) (phases (xs @ f r # rs))"
      unfolding rep(1) using rep(2) e(1) by (rule delivery_step.move)
    then show ?thesis using True by simp
  qed simp
  have b: "delivery_step\<^sup>*\<^sup>* (phases ((xs @ [?r]) @ rs)) (phases ((xs @ [?r]) @ update_where p f rs))"
    by (rule Cons.IH) (use Cons.prems key in auto)
  show ?case using rtranclp_trans [OF a, of "phases (xs @ ?r # update_where p f rs)"] b by simp
qed simp

lemma update_receipts_Inr:
  "update_receipts d p f = Inr d' \<longleftrightarrow>
     d' = with_receipts (update_where p f (receipts (phone d))) d \<and>
     (\<forall>r\<in>set (receipts (phone d)). p r \<longrightarrow> \<not> receipt_update_aborts r (f r) \<and> receipt_check (f r))"
  by (auto simp: update_receipts_def split: if_splits)

lemma update_receipts_move:
  assumes u: "update_receipts d p f = Inr d'"
    and e: "\<And>r. r \<in> set (receipts (phone d)) \<Longrightarrow> p r \<Longrightarrow> journal_wf d \<Longrightarrow> receipt_edge (rr_phase r) (rr_phase (f r))"
    and wf: "journal_wf d"
  shows "journal_wf d'" "delivery_step\<^sup>*\<^sup>* (delivery_of d) (delivery_of d')" "receipts_evolve d d'"
proof -
  note u' = u [unfolded update_receipts_Inr]
  have keep: "receipt_key (f r) = receipt_key r" "receipt_evolves r (f r)"
    if "r \<in> set (receipts (phone d))" "p r" for r
    using u' that r_into_rtranclp [of receipt_edge, OF e [OF that wf]]
    by (auto simp: receipt_update_aborts_def receipt_key_def receipt_evolves_def)
  have keys: "map receipt_key (update_where p f (receipts (phone d))) = map receipt_key (receipts (phone d))"
    unfolding update_where_def using keep by auto
  then show "journal_wf d'" using u' wf by (auto simp: journal_wf_def set_update_where)
  have "delivery_step\<^sup>*\<^sup>* (phases ([] @ receipts (phone d))) (phases ([] @ update_where p f (receipts (phone d))))"
    by (rule phases_update) (use wf keep e in \<open>auto simp: journal_wf_def\<close>)
  then show "delivery_step\<^sup>*\<^sup>* (delivery_of d) (delivery_of d')" using u' by (simp add: delivery_of_def)
  show "receipts_evolve d d'"
    using u' receipt_history.grows_update keep(2) by (auto simp: receipts_evolve_def)
qed


lemma insert_receipt_Inr:
  "insert_receipt d r = Inr d' \<longleftrightarrow>
     d' = with_receipts (receipts (phone d) @ [r]) d \<and> receipt_check r \<and>
     receipt_key r \<notin> receipt_key ` set (receipts (phone d))"
  by (auto simp: insert_receipt_def)

lemma insert_receipt_move:
  assumes i: "insert_receipt d r = Inr d'" and p: "rr_phase r = RReceived"
  shows "journal_move d d'"
proof -
  note i' = i [unfolded insert_receipt_Inr]
  have none: "phases (receipts (phone d)) (receipt_key r) = None"
    using i' by (simp add: phases_def map_of_eq_None_iff image_image)
  then have "delivery_of d' = (delivery_of d)(receipt_key r \<mapsto> RReceived)"
    using i' p by (auto simp: delivery_of_def phases_def map_add_def fun_eq_iff split: option.splits)
  then have "delivery_step (delivery_of d) (delivery_of d')"
    using delivery_step.receive [of "delivery_of d" "receipt_key r"] none by (simp add: delivery_of_def)
  moreover have "receipts_evolve d d'"
    unfolding receipts_evolve_def using i' by (simp add: receipt_history.grows_append)
  ultimately show ?thesis using i' by (auto simp: journal_move_def journal_wf_def)
qed

lemma update_receipts_journal_move:
  assumes "update_receipts d p f = Inr d'"
    and "\<And>r. r \<in> set (receipts (phone d)) \<Longrightarrow> p r \<Longrightarrow> journal_wf d \<Longrightarrow> receipt_edge (rr_phase r) (rr_phase (f r))"
  shows "journal_move d d'"
  unfolding journal_move_def using update_receipts_move [OF assms] by blast

subsection \<open>Reading a receipt\<close>

lemma select_receipt_Some:
  "select_receipt d c i = Some r \<Longrightarrow> r \<in> set (receipts (phone d)) \<and> receipt_key r = (c, i)"
  by (auto simp: select_receipt_def dest: Prelude.find_Some_iff)

lemma select_receipt_mem:
  assumes "journal_wf d" and "r \<in> set (receipts (phone d))" and "receipt_key r = (c, i)"
  shows "select_receipt d c i = Some r"
  using find_unique [of receipt_key "receipts (phone d)" r] assms
  by (simp add: select_receipt_def journal_wf_def)

lemma row_of_key:
  assumes "journal_wf d" and "select_receipt d c i = Some r" and "q \<in> set (receipts (phone d))" and "receipt_key q = (c, i)"
  shows "q = r"
  using select_receipt_mem [OF assms(1,3,4)] assms(2) by simp

lemma select_updated:
  assumes wf: "journal_wf d" and sel: "select_receipt d c i = Some r"
    and u: "update_receipts d (\<lambda>r. receipt_key r = (c, i)) f = Inr d'"
    and e: "receipt_edge (rr_phase r) (rr_phase (f r))"
  shows "select_receipt d' c i = Some (f r)" and "journal_wf d'"
proof -
  note s = select_receipt_Some [OF sel] and u' = u [unfolded update_receipts_Inr]
  have "receipt_edge (rr_phase q) (rr_phase (f q))" if "q \<in> set (receipts (phone d))" "receipt_key q = (c, i)" for q
    using row_of_key [OF wf sel that] e by simp
  from update_receipts_move(1) [OF u this wf] show wf': "journal_wf d'" .
  have "f r \<in> set (receipts (phone d'))" "receipt_key (f r) = (c, i)"
    using u' s by (auto simp: set_update_where receipt_update_aborts_def receipt_key_def)
  then show "select_receipt d' c i = Some (f r)" using select_receipt_mem [OF wf'] by blast
qed

lemma select_evolved:
  assumes "receipts_evolve d d'" and "journal_wf d'" and "select_receipt d c i = Some r"
  shows "\<exists>r'. select_receipt d' c i = Some r' \<and> receipt_evolves r r'"
proof -
  note s = select_receipt_Some [OF assms(3)]
  obtain r' where r': "r' \<in> set (receipts (phone d'))" "receipt_evolves r r'"
    using receipt_history.grows_mem [of "receipts (phone d)" "receipts (phone d')" r] assms(1) s
    by (auto simp: receipts_evolve_def)
  moreover have "select_receipt d' c i = Some r'"
    by (rule select_receipt_mem [OF assms(2)]) (use r' s in \<open>auto simp: receipt_evolves_def\<close>)
  ultimately show ?thesis by blast
qed

subsection \<open>Every operation moves the journal along its edges\<close>

lemma move_tx:
  assumes "validated v (\<lambda>y. write_connection e (body y)) d = (r, d')"
    and "\<And>y x d1. v = Inr y \<Longrightarrow> body y d = Inr (x, d1) \<Longrightarrow> journal_move d d1"
  shows "journal_move d d'"
proof (cases r)
  case (Inl x)
  have "d' = d" using assms(1) unfolding Inl by (rule tx_rollback)
  then show ?thesis by simp
next
  case (Inr x)
  then show ?thesis using assms by (auto simp: tx_Inr)
qed

lemma write_as_validated: "write_connection e body = validated (Inr ()) (\<lambda>_. write_connection e body)"
  by (rule ext) (simp add: validated_def)

lemma receive_move: "journal_receive sha c u s now d = (r, d') \<Longrightarrow> journal_move d d'"
  unfolding journal_receive_def
  by (erule move_tx)
    (auto simp: receive_tx_def bindE_eq_Inr new_receipt_row_def Let_def split: option.splits if_splits
      intro!: insert_receipt_move)

lemma complete_move: "journal_complete c i reply egress d = (r, d') \<Longrightarrow> journal_move d d'"
  unfolding journal_complete_def
proof (erule move_tx)
  fix y x d1
  assume "(case select_receipt d c i of None \<Rightarrow> Inl RemoteJournalError
      | Some row \<Rightarrow> if rr_phase row \<noteq> RReceived then Inl RemoteJournalError
          else bindE (update_receipts d (\<lambda>r. receipt_key r = (c, i)) (set_reply y))
            (\<lambda>d'. Inr (select_receipt d' c i, d'))) = Inr (x, d1)"
  then obtain row where sel: "select_receipt d c i = Some row" "rr_phase row = RReceived"
    and u: "update_receipts d (\<lambda>r. receipt_key r = (c, i)) (set_reply y) = Inr d1"
    by (auto simp: bindE_eq_Inr split: option.splits if_splits)
  show "journal_move d d1"
    by (rule update_receipts_journal_move [OF u])
      (use row_of_key [OF _ sel(1)] sel(2) in \<open>auto simp: set_reply_def intro: receipt_edge.intros\<close>)
qed

lemma claim_move: "journal_claim c i s now d = (r, d') \<Longrightarrow> journal_move d d'"
  unfolding journal_claim_def
proof (subst (asm) write_as_validated, erule move_tx)
  fix y x d1
  assume "(case select_receipt d c i of None \<Rightarrow> Inr (None, d)
      | Some row \<Rightarrow> if rr_phase row \<noteq> RReady then Inr (None, d)
          else if rr_scope_hash row \<noteq> s \<or> rr_expires_at row < now
          then bindE (update_receipts d (\<lambda>r. receipt_key r = (c, i)) (set_phase RExpired)) (\<lambda>d'. Inr (None, d'))
          else bindE (update_receipts d (\<lambda>r. receipt_key r = (c, i)) (set_phase RSending))
            (\<lambda>d'. Inr (select_receipt d' c i, d'))) = Inr (x, d1)"
  then have "d1 = d \<or> (\<exists>row p. select_receipt d c i = Some row \<and> rr_phase row = RReady \<and> receipt_edge RReady p \<and>
      update_receipts d (\<lambda>r. receipt_key r = (c, i)) (set_phase p) = Inr d1)"
    by (auto simp: bindE_eq_Inr split: option.splits if_splits intro: receipt_edge.intros)
  then show "journal_move d d1"
  proof (elim disjE exE conjE)
    fix row p assume sel: "select_receipt d c i = Some row" "rr_phase row = RReady" and e: "receipt_edge RReady p"
      and u: "update_receipts d (\<lambda>r. receipt_key r = (c, i)) (set_phase p) = Inr d1"
    show "journal_move d d1"
      by (rule update_receipts_journal_move [OF u])
        (use row_of_key [OF _ sel(1)] sel(2) e in \<open>auto simp: set_phase_def\<close>)
  qed simp
qed

lemma finish_move: "journal_finish c i m d = (r, d') \<Longrightarrow> journal_move d d'"
  unfolding journal_finish_def
proof (erule move_tx)
  fix y x d1
  assume "(case select_receipt d c i of None \<Rightarrow> Inl RemoteJournalError
      | Some row \<Rightarrow> if rr_phase row \<noteq> RSending then Inl RemoteJournalError
          else bindE (update_receipts d (\<lambda>r. receipt_key r = (c, i)) (set_sent m)) (\<lambda>d'. Inr ((), d')))
      = Inr (x, d1)"
  then obtain row where sel: "select_receipt d c i = Some row" "rr_phase row = RSending"
    and u: "update_receipts d (\<lambda>r. receipt_key r = (c, i)) (set_sent m) = Inr d1"
    by (auto simp: bindE_eq_Inr split: option.splits if_splits)
  show "journal_move d d1"
    by (rule update_receipts_journal_move [OF u])
      (use row_of_key [OF _ sel(1)] sel(2) in \<open>auto simp: set_sent_def intro: receipt_edge.intros\<close>)
qed

lemma recover_move: "journal_recover c d = (r, d') \<Longrightarrow> journal_move d d'"
  unfolding journal_recover_def
  by (subst (asm) write_as_validated, erule move_tx)
    (auto simp: bindE_eq_Inr set_phase_def intro: receipt_edge.intros elim!: update_receipts_journal_move)

lemma journal_step_move: "journal_step sha d d' \<Longrightarrow> journal_move d d'"
  by (induction rule: journal_step.induct)
    (auto intro: receive_move complete_move claim_move finish_move recover_move)

lemma journal_run_move: "(journal_step sha)\<^sup>*\<^sup>* d d' \<Longrightarrow> journal_move d d'"
  by (induction rule: rtranclp_induct) (auto intro: journal_move_trans journal_step_move)

lemma claim_Some:
  assumes wf: "journal_wf d" and c: "journal_claim c i s now d = (Inr (Some r), d')"
  shows "\<exists>q. select_receipt d c i = Some q \<and> rr_phase q = RReady \<and> rr_scope_hash q = s \<and>
    now \<le> rr_expires_at q \<and> r = set_phase RSending q \<and> select_receipt d' c i = Some r"
proof -
  obtain q where q: "select_receipt d c i = Some q" "rr_phase q = RReady" "rr_scope_hash q = s"
      "now \<le> rr_expires_at q"
    and u: "update_receipts d (\<lambda>r. receipt_key r = (c, i)) (set_phase RSending) = Inr d'"
    and r: "select_receipt d' c i = Some r"
    using c by (auto simp: journal_claim_def write_connection_Inr bindE_eq_Inr split: option.splits if_splits)
  have "select_receipt d' c i = Some (set_phase RSending q)"
    using select_updated(1) [OF wf q(1) u] q(2) by (simp add: set_phase_def receipt_edge.claim)
  then show ?thesis using q r by auto
qed

lemma claim_not_ready:
  "select_receipt d c i = Some q \<Longrightarrow> rr_phase q \<noteq> RReady \<Longrightarrow> journal_claim c i s now d = (Inr None, d)"
  by (simp add: journal_claim_def write_connection_Inr)

lemma receive_Inr:
  assumes wf: "journal_wf d" and r: "journal_receive sha c u s now d = (Inr (x, fresh), d')"
  shows "\<exists>i t row. receipt_identity c u s = Inr i \<and> receipt_text u = Inr t \<and> x = Some row \<and>
    select_receipt d' c i = Some row \<and> rr_payload_hash row = sha t \<and>
    (fresh \<longleftrightarrow> select_receipt d c i = None) \<and>
    (if fresh then row = new_receipt_row sha c u s now i t else d' = d)"
proof -
  obtain i t where it: "receipt_identity c u s = Inr i" "receipt_text u = Inr t"
    and tx: "receive_tx (new_receipt_row sha c u s now i t) d = Inr ((x, fresh), d')"
    using r by (auto simp: journal_receive_def validated_Inr write_connection_Inr bindE_eq_Inr)
  let ?row = "new_receipt_row sha c u s now i t"
  have n: "rr_channel ?row = c" "rr_update_id ?row = i" "rr_payload_hash ?row = sha t" "receipt_key ?row = (c, i)"
    "rr_phase ?row = RReceived"
    by (simp_all add: new_receipt_row_def Let_def receipt_key_def)
  show ?thesis
  proof (cases "select_receipt d c i")
    case None
    then have ins: "insert_receipt d ?row = Inr d'" and x: "x = select_receipt d' c i" "fresh"
      using tx n by (auto simp: receive_tx_def bindE_eq_Inr split: if_splits)
    have "journal_wf d'" using insert_receipt_move [OF ins n(5)] wf by (simp add: journal_move_def)
    moreover have "?row \<in> set (receipts (phone d'))" using ins by (simp add: insert_receipt_Inr)
    ultimately have "select_receipt d' c i = Some ?row" using select_receipt_mem n(4) by blast
    then show ?thesis using it x None n(3) by simp
  next
    case (Some q)
    then have "x = Some q" "\<not> fresh" "d' = d" "rr_payload_hash q = sha t"
      using tx n by (auto simp: receive_tx_def split: if_splits)
    then show ?thesis using it Some by simp
  qed
qed

lemma identity_scope:
  "receipt_identity c u s = Inr i \<Longrightarrow> length s2 = 64 \<Longrightarrow> receipt_identity c u s2 = Inr i"
  by (auto simp: receipt_identity_def split: json.splits if_splits)

subsection \<open>Properties\<close>

text \<open>
  C9: a reply is sent at most once: a claim that hands a receipt out for sending took it from the
  ready state, in the scope that received it and before it expired, and whatever the journal does
  afterwards, crash recovery included, no later claim hands that receipt out again, and its reply
  text stays the recorded one.
\<close>

theorem remote_reply_sent_at_most_once:
  assumes "journal_wf d" and "journal_claim c i s now d = (Inr (Some r), d1)"
    and "(journal_step sha)\<^sup>*\<^sup>* d1 d2"
  shows "(\<exists>q. select_receipt d c i = Some q \<and> rr_phase q = RReady \<and> rr_scope_hash q = s \<and>
      now \<le> rr_expires_at q \<and> rr_reply q \<noteq> None \<and> r = set_phase RSending q) \<and>
    (\<exists>q. select_receipt d2 c i = Some q \<and> rr_reply q = rr_reply r \<and> rr_phase q \<in> {RSending, RSent, RUncertain}) \<and>
    journal_claim c i s2 now2 d2 = (Inr None, d2)"
proof -
  obtain q where q: "select_receipt d c i = Some q" "rr_phase q = RReady" "rr_scope_hash q = s"
      "now \<le> rr_expires_at q" "r = set_phase RSending q" "select_receipt d1 c i = Some r"
    using claim_Some [OF assms(1,2)] by blast
  have reply: "rr_reply q \<noteq> None"
    using q(1,2) assms(1) select_receipt_Some [OF q(1)] by (auto simp: journal_wf_def receipt_check_def)
  have wf1: "journal_wf d1" using claim_move [OF assms(2)] assms(1) by (simp add: journal_move_def)
  note run = journal_run_move [OF assms(3)]
  obtain p where p: "select_receipt d2 c i = Some p" "receipt_evolves r p"
    using select_evolved [OF _ _ q(6)] run wf1 by (auto simp: journal_move_def)
  have "rr_phase p \<in> {RSending, RSent, RUncertain}" "rr_reply p = rr_reply r"
    using p(2) reply receipt_edge_sending [of "rr_phase p"] by (auto simp: receipt_evolves_def q(5) set_phase_def)
  moreover from this(1) have "journal_claim c i s2 now2 d2 = (Inr None, d2)"
    by (intro claim_not_ready [OF p(1)]) auto
  ultimately show ?thesis using q reply p(1) by blast
qed

text \<open>The sample channel receives one message, replies to it and claims the reply.\<close>

definition sample_message :: payload where
  "sample_message = [(''update_id'', JInt 7), (''message'', JObj [(''from'', JObj [(''id'', JInt 1)]),
     (''chat'', JObj [(''id'', JInt 2)]), (''date'', JInt 100)])]"

definition sample_scope :: string where
  "sample_scope = replicate 64 CHR ''5''"

definition sample_received :: "(exn + receipt_row option \<times> bool) \<times> db" where
  "sample_received = journal_receive sample_sha ''42'' sample_message sample_scope 90 (sample_db Queued)"

definition sample_replied :: "(exn + receipt_row option) \<times> db" where
  "sample_replied = journal_complete ''42'' 7 (Some ''done'') [''demo''] (snd sample_received)"

definition sample_claimed :: "(exn + receipt_row option) \<times> db" where
  "sample_claimed = journal_claim ''42'' 7 sample_scope 150 (snd sample_replied)"

lemma sample_journal_wf: "journal_wf (sample_db Queued)"
  by (simp add: journal_wf_def sample_db_def empty_db_def)

lemma sample_journal_run:
  "(journal_step sample_sha)\<^sup>*\<^sup>* (sample_db Queued) (snd sample_replied)"
proof -
  have "journal_step sample_sha (sample_db Queued) (snd sample_received)"
    by (rule journal_step.receive [of _ "''42''" sample_message sample_scope 90 _ "fst sample_received"])
      (simp add: sample_received_def)
  moreover have "journal_step sample_sha (snd sample_received) (snd sample_replied)"
    by (rule journal_step.complete [of "''42''" 7 "Some ''done''" "[''demo'']" _ "fst sample_replied"])
      (simp add: sample_replied_def)
  ultimately show ?thesis by (meson rtranclp.rtrancl_into_rtrancl rtranclp.rtrancl_refl)
qed

theorem remote_reply_sent_at_most_once_witness:
  "\<exists>r. fst sample_claimed = Inr (Some r) \<and>
     journal_claim ''42'' 7 sample_scope 151 (snd sample_claimed) = (Inr None, snd sample_claimed)"
proof -
  have "case fst sample_claimed of Inr (Some r) \<Rightarrow> True | _ \<Rightarrow> False" by code_simp
  then obtain r where r: "fst sample_claimed = Inr (Some r)" by (auto split: sum.splits option.splits)
  then have c: "journal_claim ''42'' 7 sample_scope 150 (snd sample_replied) = (Inr (Some r), snd sample_claimed)"
    by (metis prod.collapse sample_claimed_def)
  have "journal_wf (snd sample_replied)"
    using journal_run_move [OF sample_journal_run] sample_journal_wf by (simp add: journal_move_def)
  from remote_reply_sent_at_most_once [OF this c rtranclp.rtrancl_refl] r show ?thesis by blast
qed

text \<open>
  C33: the journal refines the abstract delivery automaton: read as a phase per update, any run of
  receiving, completing, claiming, finishing and recovering is a run that records new updates as
  received and moves recorded ones along received, ready or ignored, sending or expired, sent or
  uncertain, and nothing else.
\<close>

theorem journal_refines_delivery:
  assumes "journal_wf d" and "(journal_step sha)\<^sup>*\<^sup>* d d'"
  shows "delivery_step\<^sup>*\<^sup>* (delivery_of d) (delivery_of d') \<and> journal_wf d'"
  using journal_run_move [OF assms(2)] assms(1) by (simp add: journal_move_def)

theorem journal_refines_delivery_witness:
  "delivery_step\<^sup>*\<^sup>* (\<lambda>k. None) (delivery_of (snd sample_replied)) \<and>
   delivery_of (snd sample_replied) (''42'', 7) = Some RReady"
proof -
  have "delivery_of (sample_db Queued) = (\<lambda>k. None)"
    by (simp add: delivery_of_def phases_def sample_db_def empty_db_def)
  moreover have "delivery_of (snd sample_replied) (''42'', 7) = Some RReady" by code_simp
  ultimately show ?thesis
    using journal_refines_delivery [OF sample_journal_wf sample_journal_run] by simp
qed

text \<open>
  An update is recorded once: after it was received, in any scope and at any later time its
  redelivery answers the current receipt, marked as known, and changes nothing, while an update
  that reuses its identity with another content is refused without a trace.
\<close>

theorem remote_update_recorded_once:
  assumes "journal_wf d" and "journal_receive sha c u s now d = (Inr (x, fresh), d1)"
    and "(journal_step sha)\<^sup>*\<^sup>* d1 d2" and "length s2 = 64"
  shows "\<exists>r q i. x = Some r \<and> receipt_key r = (c, i) \<and> (fresh \<longleftrightarrow> select_receipt d c i = None) \<and>
    select_receipt d2 c i = Some q \<and> receipt_evolves r q \<and>
    journal_receive sha c u s2 now2 d2 = (Inr (Some q, False), d2) \<and>
    (\<forall>u2 t t2. receipt_identity c u2 s2 = Inr i \<longrightarrow> receipt_text u = Inr t \<longrightarrow> receipt_text u2 = Inr t2 \<longrightarrow>
       sha t2 \<noteq> sha t \<longrightarrow> journal_receive sha c u2 s2 now2 d2 = (Inl RemoteJournalError, d2))"
proof -
  obtain i t r where f: "receipt_identity c u s = Inr i" "receipt_text u = Inr t" "x = Some r"
      "select_receipt d1 c i = Some r" "rr_payload_hash r = sha t" "fresh \<longleftrightarrow> select_receipt d c i = None"
    using receive_Inr [OF assms(1,2)] by blast
  have wf1: "journal_wf d1" using receive_move [OF assms(2)] assms(1) by (simp add: journal_move_def)
  obtain q where q: "select_receipt d2 c i = Some q" "receipt_evolves r q"
    using select_evolved [OF _ _ f(4)] journal_run_move [OF assms(3)] wf1 by (auto simp: journal_move_def)
  have hash: "rr_payload_hash q = sha t" using q(2) f(5) by (simp add: receipt_evolves_def)
  have row: "rr_channel (new_receipt_row sha c u2 s2 now2 i t2) = c"
    "rr_update_id (new_receipt_row sha c u2 s2 now2 i t2) = i"
    "rr_payload_hash (new_receipt_row sha c u2 s2 now2 i t2) = sha t2" for u2 t2
    by (simp_all add: new_receipt_row_def Let_def)
  have again: "journal_receive sha c u s2 now2 d2 = (Inr (Some q, False), d2)"
    using identity_scope [OF f(1) assms(4)] f(2) q(1) hash row
    by (simp add: journal_receive_def write_connection_Inr receive_tx_def)
  have other: "journal_receive sha c u2 s2 now2 d2 = (Inl RemoteJournalError, d2)"
    if "receipt_identity c u2 s2 = Inr i" "receipt_text u2 = Inr t2" "sha t2 \<noteq> sha t" for u2 t2
    using that q(1) hash row
    by (simp add: journal_receive_def write_connection_def connection_def receive_tx_def is_integrity_error_def)
  show ?thesis using f select_receipt_Some [OF f(4)] q again other by (auto intro!: exI)
qed

theorem remote_update_recorded_once_witness:
  "\<exists>q. journal_receive sample_sha ''42'' sample_message sample_scope 95 (snd sample_received)
     = (Inr (Some q, False), snd sample_received)"
proof -
  have "case fst sample_received of Inr p \<Rightarrow> True | Inl e \<Rightarrow> False" by code_simp
  then obtain x fresh where "fst sample_received = Inr (x, fresh)" by (auto split: sum.splits)
  then have r: "journal_receive sample_sha ''42'' sample_message sample_scope 90 (sample_db Queued)
      = (Inr (x, fresh), snd sample_received)"
    by (metis prod.collapse sample_received_def)
  have "length sample_scope = 64" by (simp add: sample_scope_def)
  from remote_update_recorded_once [OF sample_journal_wf r rtranclp.rtrancl_refl this, of 95]
  show ?thesis by (elim exE conjE) (rule exI)
qed

end
