(* ===== verification/Streams.thy ===== *)
theory Streams
  imports RuntimeEvents
begin

text \<open>
  \<open>RuntimeEventStreamNormalizer\<close> (engine.py): a provider's byte chunks become ordered runtime
  events. Bytes are characters. The decoder of the standard library (\<open>bytes.decode\<close> followed by
  \<open>json.loads\<close> with the duplicate and constant hooks of engine.py) is an argument of the
  definitions, since its texts reach beyond the model's strings; so is the clock, read at most once
  per sequence number.
\<close>

datatype decoded = BadEncoding | BadJson | Decoded json

record normalizer =
  nz_session :: adapter_session
  nz_next_sequence :: int
  nz_max_line_bytes :: int
  nz_buffer :: string
  nz_discarding :: bool
  nz_finished :: bool

definition make_normalizer :: "adapter_session \<Rightarrow> int \<Rightarrow> int \<Rightarrow> exn + normalizer" where
  "make_normalizer session first_sequence max_line_bytes =
     (if first_sequence < 1 \<or> max_line_bytes < 1 then Inl ValueErr
      else Inr \<lparr>nz_session = session, nz_next_sequence = first_sequence,
        nz_max_line_bytes = max_line_bytes, nz_buffer = [], nz_discarding = False,
        nz_finished = False\<rparr>)"

definition stream_event ::
  "(int \<Rightarrow> micros) \<Rightarrow> normalizer \<Rightarrow> runtime_event_kind \<Rightarrow> json \<Rightarrow> (exn + runtime_event) \<times> normalizer" where
  "stream_event clock nz kind payload =
     (case make_event (se_job_id (nz_session nz)) (nz_next_sequence nz) (se_runtime (nz_session nz))
             (clock (nz_next_sequence nz)) kind payload of
        Inl e \<Rightarrow> (Inl e, nz)
      | Inr event \<Rightarrow> (Inr event, nz\<lparr>nz_next_sequence := nz_next_sequence nz + 1\<rparr>))"

definition error_payload :: "string \<Rightarrow> string \<Rightarrow> json" where
  "error_payload code message =
     JObj [(''code'', JStr code), (''message'', JStr message), (''retryable'', JBool False)]"

definition stream_error ::
  "(int \<Rightarrow> micros) \<Rightarrow> normalizer \<Rightarrow> string \<Rightarrow> string \<Rightarrow> (exn + runtime_event) \<times> normalizer" where
  "stream_error clock nz code message = stream_event clock nz KError (error_payload code message)"

definition parse_kind :: "json \<Rightarrow> runtime_event_kind option" where
  "parse_kind v =
     (case v of JStr s \<Rightarrow> List.find (\<lambda>k. kind_value k = s) all_kinds | _ \<Rightarrow> None)"

definition too_large :: "string \<times> string" where
  "too_large = (''stream_message_too_large'',
     ''Provider stream message exceeded the configured size limit.'')"

definition invalid_event :: "string \<times> string" where
  "invalid_event = (''stream_invalid_event'',
     ''Provider stream message violated the event contract.'')"

text \<open>What the checks of \<open>_parse_line\<close> make of a decoded line: an error or a kind and payload.\<close>

definition decoded_message :: "decoded \<Rightarrow> (string \<times> string) + runtime_event_kind \<times> json" where
  "decoded_message v =
     (case v of
        BadEncoding \<Rightarrow> Inl (''stream_invalid_encoding'', ''Provider stream contained invalid UTF-8.'')
      | BadJson \<Rightarrow> Inl (''stream_invalid_json'', ''Provider stream contained invalid JSON.'')
      | Decoded (JObj kvs) \<Rightarrow>
          if fst ` set kvs \<noteq> {''kind'', ''payload''} then Inl invalid_event
          else (case (map_of kvs ''kind'', map_of kvs ''payload'') of
              (Some kind, Some payload) \<Rightarrow> (case parse_kind kind of
                  None \<Rightarrow> Inl invalid_event
                | Some k \<Rightarrow> Inr (k, payload))
            | _ \<Rightarrow> Inl invalid_event)
      | Decoded _ \<Rightarrow> Inl invalid_event)"

definition parse_line ::
  "(string \<Rightarrow> decoded) \<Rightarrow> (int \<Rightarrow> micros) \<Rightarrow> normalizer \<Rightarrow> string \<Rightarrow> (exn + runtime_event) \<times> normalizer" where
  "parse_line decode clock nz line =
     (case decoded_message (decode line) of
        Inl (code, message) \<Rightarrow> stream_error clock nz code message
      | Inr (kind, payload) \<Rightarrow>
          (case stream_event clock nz kind payload of
             (Inl e, nz') \<Rightarrow>
               if isa e TypeErr \<or> isa e ValueErr
               then stream_error clock nz' (fst invalid_event) (snd invalid_event)
               else (Inl e, nz')
           | (Inr event, nz') \<Rightarrow> (Inr event, nz')))"

text \<open>\<open>bytes.strip\<close> strips ASCII white space.\<close>

definition byte_space :: "char \<Rightarrow> bool" where
  "byte_space c \<longleftrightarrow> code_point c = 32 \<or> 9 \<le> code_point c \<and> code_point c \<le> 13"

definition blank_line :: "string \<Rightarrow> bool" where
  "blank_line line \<longleftrightarrow> list_all byte_space line"

abbreviation LF :: char where "LF \<equiv> CHR 0x0A"

abbreviation CR :: char where "CR \<equiv> CHR 0x0D"

definition drop_cr :: "string \<Rightarrow> string" where
  "drop_cr line = (if line \<noteq> [] \<and> last line = CR then butlast line else line)"

text \<open>The buffer up to the first newline and the rest after it, when there is one.\<close>

definition find_line :: "string \<Rightarrow> (string \<times> string) option" where
  "find_line buffer =
     (case dropWhile (\<lambda>c. c \<noteq> LF) buffer of
        [] \<Rightarrow> None
      | _ # rest \<Rightarrow> Some (takeWhile (\<lambda>c. c \<noteq> LF) buffer, rest))"

lemma find_line_Some:
  "find_line b = Some (line, rest) \<longleftrightarrow> b = line @ LF # rest \<and> LF \<notin> set line"
proof -
  have "find_line b = Some (line, rest)" if "b = line @ LF # rest" "LF \<notin> set line"
    using that by (simp add: find_line_def takeWhile_append dropWhile_append)
  moreover have "b = line @ LF # rest \<and> LF \<notin> set line" if "find_line b = Some (line, rest)"
    using that takeWhile_dropWhile_id [of "\<lambda>c. c \<noteq> LF" b] set_takeWhileD [of LF "\<lambda>c. c \<noteq> LF" b]
    by (auto simp: find_line_def dropWhile_eq_Cons_conv split: list.splits)
  ultimately show ?thesis by blast
qed

lemma find_line_None: "find_line b = None \<longleftrightarrow> LF \<notin> set b"
proof (cases "find_line b")
  case None
  then have "\<nexists>line rest. b = line @ LF # rest \<and> LF \<notin> set line"
    unfolding find_line_Some [symmetric] by simp
  then show ?thesis using None split_list_first [of LF b] by blast
next
  case (Some p)
  then obtain line rest where "find_line b = Some (line, rest)" by (cases p) simp
  then show ?thesis by (auto simp: find_line_Some)
qed

lemma find_line_shorter: "find_line b = Some (line, rest) \<Longrightarrow> length rest < length b"
  by (simp add: find_line_Some)

lemma stream_event_buffer: "stream_event clock nz k v = (r, nz') \<Longrightarrow> nz_buffer nz' = nz_buffer nz"
  by (auto simp: stream_event_def split: sum.splits)

lemma stream_error_buffer: "stream_error clock nz c m = (r, nz') \<Longrightarrow> nz_buffer nz' = nz_buffer nz"
  by (auto simp: stream_error_def dest: stream_event_buffer)

lemma parse_line_buffer: "parse_line decode clock nz line = (r, nz') \<Longrightarrow> nz_buffer nz' = nz_buffer nz"
  by (auto simp: parse_line_def split: sum.splits prod.splits if_splits
      dest!: stream_event_buffer stream_error_buffer)

text \<open>The loop of \<open>feed\<close>; an exception loses the events collected so far.\<close>

function feed_loop ::
  "(string \<Rightarrow> decoded) \<Rightarrow> (int \<Rightarrow> micros) \<Rightarrow> normalizer \<Rightarrow> runtime_event list
   \<Rightarrow> (exn + runtime_event list) \<times> normalizer" where
  "feed_loop decode clock nz events =
     (case find_line (nz_buffer nz) of
        None \<Rightarrow>
          if nz_max_line_bytes nz < int (length (nz_buffer nz))
          then (let nz1 = nz\<lparr>nz_buffer := []\<rparr> in
            if nz_discarding nz1 then (Inr events, nz1)
            else (case stream_error clock (nz1\<lparr>nz_discarding := True\<rparr>) (fst too_large) (snd too_large) of
                (Inl e, nz2) \<Rightarrow> (Inl e, nz2)
              | (Inr event, nz2) \<Rightarrow> (Inr (events @ [event]), nz2)))
          else (Inr events, nz)
      | Some (raw, rest) \<Rightarrow>
          let nz1 = nz\<lparr>nz_buffer := rest\<rparr> in
          if nz_discarding nz1 then feed_loop decode clock (nz1\<lparr>nz_discarding := False\<rparr>) events
          else let line = drop_cr raw in
            if nz_max_line_bytes nz1 < int (length line)
            then (case stream_error clock nz1 (fst too_large) (snd too_large) of
                (Inl e, nz2) \<Rightarrow> (Inl e, nz2)
              | (Inr event, nz2) \<Rightarrow> feed_loop decode clock nz2 (events @ [event]))
            else if blank_line line then feed_loop decode clock nz1 events
            else (case parse_line decode clock nz1 line of
                (Inl e, nz2) \<Rightarrow> (Inl e, nz2)
              | (Inr event, nz2) \<Rightarrow> feed_loop decode clock nz2 (events @ [event])))"
  by pat_completeness auto
termination
  by (relation "measure (\<lambda>(decode, clock, nz, events). length (nz_buffer nz))")
    (auto dest!: stream_error_buffer [OF sym] parse_line_buffer [OF sym] find_line_shorter)

definition stream_feed ::
  "(string \<Rightarrow> decoded) \<Rightarrow> (int \<Rightarrow> micros) \<Rightarrow> normalizer \<Rightarrow> string
   \<Rightarrow> (exn + runtime_event list) \<times> normalizer" where
  "stream_feed decode clock nz chunk =
     (if nz_finished nz then (Inl RuntimeErr, nz)
      else if chunk = [] then (Inr [], nz)
      else feed_loop decode clock (nz\<lparr>nz_buffer := nz_buffer nz @ chunk\<rparr>) [])"

definition stream_finish ::
  "(string \<Rightarrow> decoded) \<Rightarrow> (int \<Rightarrow> micros) \<Rightarrow> normalizer \<Rightarrow> (exn + runtime_event list) \<times> normalizer" where
  "stream_finish decode clock nz =
     (if nz_finished nz then (Inr [], nz)
      else (let line = drop_cr (nz_buffer nz);
                nz1 = nz\<lparr>nz_finished := True, nz_buffer := []\<rparr> in
        if nz_discarding nz then (Inr [], nz1)
        else if blank_line line then (Inr [], nz1)
        else (case parse_line decode clock nz1 line of
            (Inl e, nz2) \<Rightarrow> (Inl e, nz2)
          | (Inr event, nz2) \<Rightarrow> (Inr [event], nz2))))"

subsection \<open>The reference: lines of the whole text\<close>

text \<open>A message is a kind and a payload that the event constructor accepts.\<close>

type_synonym message = "runtime_event_kind \<times> payload"

definition error_message :: "string \<times> string \<Rightarrow> message" where
  "error_message cm =
     (KError, [(''code'', JStr (fst cm)), (''message'', JStr (snd cm)), (''retryable'', JBool False)])"

definition settle :: "(string \<times> string) + runtime_event_kind \<times> json \<Rightarrow> message" where
  "settle x =
     (case x of
        Inl cm \<Rightarrow> error_message cm
      | Inr (k, v) \<Rightarrow> (case v of
            JObj p \<Rightarrow> if event_payload_ok k p then (k, p) else error_message invalid_event
          | _ \<Rightarrow> error_message invalid_event))"

definition line_messages :: "(string \<Rightarrow> decoded) \<Rightarrow> int \<Rightarrow> string \<Rightarrow> message list" where
  "line_messages decode max_bytes raw =
     (let line = drop_cr raw in
      if max_bytes < int (length line) then [error_message too_large]
      else if blank_line line then []
      else [settle (decoded_message (decode line))])"

fun split_lf :: "string \<Rightarrow> string list" where
  "split_lf [] = [[]]"
| "split_lf (c # cs) =
     (if c = LF then [] # split_lf cs
      else (case split_lf cs of [] \<Rightarrow> [[c]] | l # ls \<Rightarrow> (c # l) # ls))"

definition text_messages :: "(string \<Rightarrow> decoded) \<Rightarrow> int \<Rightarrow> string list \<Rightarrow> message list" where
  "text_messages decode max_bytes pieces = concat (map (line_messages decode max_bytes) pieces)"

definition event_at :: "(int \<Rightarrow> micros) \<Rightarrow> adapter_session \<Rightarrow> int \<Rightarrow> message \<Rightarrow> runtime_event" where
  "event_at clock session n m =
     \<lparr>re_job_id = se_job_id session, re_sequence = n, re_runtime = se_runtime session,
      re_timestamp = clock n, re_kind = fst m, re_payload = snd m\<rparr>"

fun numbered_events :: "(int \<Rightarrow> micros) \<Rightarrow> adapter_session \<Rightarrow> int \<Rightarrow> message list \<Rightarrow> runtime_event list" where
  "numbered_events clock session n [] = []"
| "numbered_events clock session n (m # ms) =
     event_at clock session n m # numbered_events clock session (n + 1) ms"

text \<open>A client feeds chunks one by one and then finishes.\<close>

fun feed_all ::
  "(string \<Rightarrow> decoded) \<Rightarrow> (int \<Rightarrow> micros) \<Rightarrow> normalizer \<Rightarrow> string list
   \<Rightarrow> (exn + runtime_event list) \<times> normalizer" where
  "feed_all decode clock nz [] = (Inr [], nz)"
| "feed_all decode clock nz (c # cs) =
     (case stream_feed decode clock nz c of
        (Inl e, nz1) \<Rightarrow> (Inl e, nz1)
      | (Inr es, nz1) \<Rightarrow> (case feed_all decode clock nz1 cs of
            (Inl e, nz2) \<Rightarrow> (Inl e, nz2)
          | (Inr es2, nz2) \<Rightarrow> (Inr (es @ es2), nz2)))"

definition stream_all ::
  "(string \<Rightarrow> decoded) \<Rightarrow> (int \<Rightarrow> micros) \<Rightarrow> normalizer \<Rightarrow> string list \<Rightarrow> exn + runtime_event list" where
  "stream_all decode clock nz chunks =
     (case feed_all decode clock nz chunks of
        (Inl e, nz1) \<Rightarrow> Inl e
      | (Inr es, nz1) \<Rightarrow> bindE (fst (stream_finish decode clock nz1)) (\<lambda>es2. Inr (es @ es2)))"

lemma split_lf_not_Nil [simp]: "split_lf t \<noteq> []"
  by (cases t) (auto split: list.splits)

lemma split_lf_line: "LF \<notin> set a \<Longrightarrow> split_lf (a @ LF # b) = a # split_lf b"
  by (induction a) auto

lemma split_lf_tail: "LF \<notin> set a \<Longrightarrow> split_lf a = [a]"
  by (induction a) auto

lemma split_lf_append: "split_lf (a @ b) = butlast (split_lf a) @ split_lf (last (split_lf a) @ b)"
proof (induction a)
  case (Cons c a)
  show ?case
  proof (cases "c = LF")
    case False
    obtain l ls where s: "split_lf a = l # ls" by (cases "split_lf a") auto
    obtain m ms where "split_lf (l @ b) = m # ms" by (cases "split_lf (l @ b)") auto
    then show ?thesis using Cons False s by (cases ls) simp_all
  qed (use Cons in simp)
qed simp

lemma split_lf_no_LF: "l \<in> set (split_lf t) \<Longrightarrow> LF \<notin> set l"
proof (induction t arbitrary: l)
  case (Cons c t)
  then show ?case by (cases "split_lf t") (auto split: if_splits)
qed simp

lemma text_messages_simps [simp]:
  "text_messages decode n [] = []"
  "text_messages decode n (l # ls) = line_messages decode n l @ text_messages decode n ls"
  "text_messages decode n (ls @ ms) = text_messages decode n ls @ text_messages decode n ms"
  by (simp_all add: text_messages_def)

lemma numbered_append [simp]:
  "numbered_events clock s n (xs @ ys) = numbered_events clock s n xs @ numbered_events clock s (n + int (length xs)) ys"
  by (induction xs arbitrary: n) (auto simp: algebra_simps)

subsection \<open>Single lines\<close>

definition session_ok :: "adapter_session \<Rightarrow> bool" where
  "session_ok s \<longleftrightarrow> adapter_text (se_job_id s) \<and> se_job_id s = strip (se_job_id s) \<and> se_runtime s \<noteq> Auto"

definition bump :: "normalizer \<Rightarrow> normalizer" where
  "bump nz = nz\<lparr>nz_next_sequence := nz_next_sequence nz + 1\<rparr>"

lemma stream_event_ok:
  assumes "session_ok (nz_session nz)" and "1 \<le> nz_next_sequence nz"
  shows "stream_event clock nz k v =
    (case v of
       JObj p \<Rightarrow> if event_payload_ok k p
         then (Inr (event_at clock (nz_session nz) (nz_next_sequence nz) (k, p)), bump nz) else (Inl ValueErr, nz)
     | _ \<Rightarrow> (Inl ValueErr, nz))"
  using assms
  by (cases v) (simp_all add: stream_event_def make_event_def session_ok_def event_at_def bump_def)

lemma error_messages_ok:
  "event_payload_ok KError (snd (error_message too_large))"
  "event_payload_ok KError (snd (error_message invalid_event))"
  "decoded_message x = Inl cm \<Longrightarrow> event_payload_ok KError (snd (error_message cm))"
proof -
  have all: "event_payload_ok KError (snd (error_message cm))"
    if "adapter_text (fst cm)" "adapter_text (snd cm)" for cm
    using that by (auto simp: error_message_def event_payload_ok_def field_ok_def)
  have t: "adapter_text (fst too_large)" "adapter_text (snd too_large)"
    "adapter_text (fst invalid_event)" "adapter_text (snd invalid_event)"
    "adapter_text ''stream_invalid_encoding''" "adapter_text ''Provider stream contained invalid UTF-8.''"
    "adapter_text ''stream_invalid_json''" "adapter_text ''Provider stream contained invalid JSON.''"
    by code_simp+
  show "event_payload_ok KError (snd (error_message too_large))"
    "event_payload_ok KError (snd (error_message invalid_event))"
    using all t by blast+
  show "event_payload_ok KError (snd (error_message cm))" if "decoded_message x = Inl cm"
    using that all t
    by (auto simp: decoded_message_def split: decoded.splits json.splits if_splits option.splits)
qed

lemma settle_ok: "event_payload_ok (fst (settle (decoded_message x))) (snd (settle (decoded_message x)))"
  using error_messages_ok
  by (auto simp: settle_def error_message_def split: sum.splits json.splits prod.splits)

lemma stream_error_ok:
  assumes "session_ok (nz_session nz)" and "1 \<le> nz_next_sequence nz"
    and "event_payload_ok KError (snd (error_message (c, m)))"
  shows "stream_error clock nz c m =
    (Inr (event_at clock (nz_session nz) (nz_next_sequence nz) (error_message (c, m))), bump nz)"
  using assms by (simp add: stream_error_def stream_event_ok error_payload_def error_message_def)

lemma parse_line_ok:
  assumes "session_ok (nz_session nz)" and "1 \<le> nz_next_sequence nz"
  shows "parse_line decode clock nz line =
    (Inr (event_at clock (nz_session nz) (nz_next_sequence nz) (settle (decoded_message (decode line)))), bump nz)"
proof (cases "decoded_message (decode line)")
  case (Inl cm)
  then show ?thesis
    using stream_error_ok [OF assms, of "fst cm" "snd cm"] error_messages_ok(3) [OF Inl]
    by (cases cm) (simp add: parse_line_def settle_def)
next
  case (Inr kv)
  then show ?thesis
    using stream_error_ok [OF assms, of "fst invalid_event" "snd invalid_event"] error_messages_ok(2)
    by (cases kv; cases "snd kv")
      (simp_all add: parse_line_def settle_def stream_event_ok [OF assms])
qed

end
