(* ===== verification/StreamSpec.thy ===== *)
theory StreamSpec
  imports Streams
begin

text \<open>
  The stream normalizer (engine.py) against its reference: feeding chunks and finishing gives the
  numbered messages of the lines of the whole text, in bounded memory.
\<close>

subsection \<open>The loop against the reference\<close>

definition pending_messages :: "(string \<Rightarrow> decoded) \<Rightarrow> int \<Rightarrow> string list \<Rightarrow> message list" where
  "pending_messages decode n pieces =
     text_messages decode n (butlast pieces) @
     (if n < int (length (last pieces)) then [error_message too_large] else [])"

text \<open>
  A line is delimited unambiguously unless it is exactly one byte too long and ends in a carriage
  return: whether that byte counts depends on where the chunks are cut.
\<close>

definition clear_line :: "int \<Rightarrow> string \<Rightarrow> bool" where
  "clear_line n l \<longleftrightarrow> \<not> (int (length l) = n + 1 \<and> last l = CR)"

text \<open>The bytes of the current line that the normalizer has thrown away.\<close>

definition dropped :: "normalizer \<Rightarrow> string \<Rightarrow> bool" where
  "dropped nz s \<longleftrightarrow>
     (if nz_discarding nz then nz_max_line_bytes nz < int (length s) \<and> LF \<notin> set s else s = [])"

definition already_reported :: "normalizer \<Rightarrow> message list" where
  "already_reported nz = (if nz_discarding nz then [error_message too_large] else [])"

definition same_stream :: "normalizer \<Rightarrow> normalizer \<Rightarrow> bool" where
  "same_stream nz nz' \<longleftrightarrow>
     nz_session nz' = nz_session nz \<and> nz_max_line_bytes nz' = nz_max_line_bytes nz \<and>
     nz_finished nz' = nz_finished nz"

text \<open>What feeding a buffer that follows the dropped bytes does.\<close>

definition loop_result ::
  "(string \<Rightarrow> decoded) \<Rightarrow> (int \<Rightarrow> micros) \<Rightarrow> normalizer \<Rightarrow> string \<Rightarrow> message list \<Rightarrow> normalizer \<Rightarrow> string \<Rightarrow> bool" where
  "loop_result decode clock nz s ms nz' s' \<longleftrightarrow>
     same_stream nz nz' \<and> nz_next_sequence nz' = nz_next_sequence nz + int (length ms) \<and>
     dropped nz' s' \<and> s' @ nz_buffer nz' = last (split_lf (s @ nz_buffer nz)) \<and>
     int (length (nz_buffer nz')) \<le> nz_max_line_bytes nz \<and>
     (\<forall>m\<in>set ms. event_payload_ok (fst m) (snd m)) \<and>
     ((\<forall>l\<in>set (butlast (split_lf (s @ nz_buffer nz))). clear_line (nz_max_line_bytes nz) l) \<longrightarrow>
        already_reported nz @ ms =
          pending_messages decode (nz_max_line_bytes nz) (split_lf (s @ nz_buffer nz)))"

lemma drop_cr_length: "length (drop_cr l) \<le> length l" "length l \<le> Suc (length (drop_cr l))"
  by (auto simp: drop_cr_def)

lemma long_line_messages:
  "clear_line n l \<Longrightarrow> n < int (length l) \<Longrightarrow> line_messages decode n l = [error_message too_large]"
  by (auto simp: line_messages_def clear_line_def drop_cr_def Let_def)

lemma pending_messages_Cons:
  "S \<noteq> [] \<Longrightarrow> pending_messages decode n (l # S) = line_messages decode n l @ pending_messages decode n S"
  by (simp add: pending_messages_def)

lemma feed_loop_spec:
  assumes "session_ok (nz_session nz)" and "1 \<le> nz_next_sequence nz" and "0 < nz_max_line_bytes nz"
    and "dropped nz s"
  shows "\<exists>ms nz' s'. feed_loop decode clock nz events =
      (Inr (events @ numbered_events clock (nz_session nz) (nz_next_sequence nz) ms), nz') \<and>
    loop_result decode clock nz s ms nz' s'"
  using assms
proof (induction "length (nz_buffer nz)" arbitrary: nz s events rule: less_induct)
  case less
  note ok = less.prems
  let ?n = "nz_max_line_bytes nz"
  show ?case
  proof (cases "find_line (nz_buffer nz)")
    case None
    then have lf: "LF \<notin> set (s @ nz_buffer nz)"
      using ok(4) by (auto simp: find_line_None dropped_def split: if_splits)
    note one = split_lf_tail [OF lf]
    show ?thesis
    proof (cases "?n < int (length (nz_buffer nz)) \<and> \<not> nz_discarding nz")
      case True
      let ?nz = "bump (nz\<lparr>nz_buffer := [], nz_discarding := True\<rparr>)"
      have "stream_error clock (nz\<lparr>nz_buffer := [], nz_discarding := True\<rparr>) (fst too_large) (snd too_large)
          = (Inr (event_at clock (nz_session nz) (nz_next_sequence nz) (error_message too_large)), ?nz)"
        using stream_error_ok [of "nz\<lparr>nz_buffer := [], nz_discarding := True\<rparr>" "fst too_large" "snd too_large"]
          ok error_messages_ok(1) by simp
      then have "feed_loop decode clock nz events = (Inr (events @
          numbered_events clock (nz_session nz) (nz_next_sequence nz) [error_message too_large]), ?nz)"
        using True None by (simp add: feed_loop.simps [of _ _ nz] Let_def)
      moreover have "loop_result decode clock nz s [error_message too_large] ?nz (nz_buffer nz)"
        using True ok lf error_messages_ok(1)
        by (simp add: loop_result_def split_lf_tail same_stream_def bump_def dropped_def already_reported_def
            pending_messages_def error_message_def)
      ultimately show ?thesis by blast
    next
      case False
      let ?nz = "if ?n < int (length (nz_buffer nz)) then nz\<lparr>nz_buffer := []\<rparr> else nz"
      let ?s = "if ?n < int (length (nz_buffer nz)) then s @ nz_buffer nz else s"
      have "feed_loop decode clock nz events =
          (Inr (events @ numbered_events clock (nz_session nz) (nz_next_sequence nz) []), ?nz)"
        using False None by (simp add: feed_loop.simps [of _ _ nz] Let_def)
      moreover have "loop_result decode clock nz s [] ?nz ?s"
        using False ok lf
        by (auto simp: loop_result_def one same_stream_def dropped_def already_reported_def pending_messages_def)
      ultimately show ?thesis by blast
    qed
  next
    case (Some p)
    then obtain raw rest where line: "find_line (nz_buffer nz) = Some (raw, rest)" by (cases p) simp
    then have buf: "nz_buffer nz = raw @ LF # rest" "LF \<notin> set raw" by (simp_all add: find_line_Some)
    have split: "split_lf (s @ nz_buffer nz) = (s @ raw) # split_lf rest"
      using split_lf_line [of "s @ raw" rest] ok(4) buf by (simp add: dropped_def split: if_splits)
    let ?next = "\<lambda>m nz1. nz_buffer nz1 = rest \<and> \<not> nz_discarding nz1 \<and> same_stream nz nz1 \<and>
      nz_next_sequence nz1 = nz_next_sequence nz + int (length m) \<and>
      feed_loop decode clock nz events =
        feed_loop decode clock nz1 (events @ numbered_events clock (nz_session nz) (nz_next_sequence nz) m)"
    obtain m nz1 where step: "?next m nz1" and m_ok: "\<forall>x\<in>set m. event_payload_ok (fst x) (snd x)"
      and m: "clear_line ?n (s @ raw) \<Longrightarrow> already_reported nz @ m = line_messages decode ?n (s @ raw)"
    proof (cases "nz_discarding nz")
      case True
      have "?next [] (nz\<lparr>nz_buffer := rest, nz_discarding := False\<rparr>)"
        using True line by (simp add: feed_loop.simps [of _ _ nz] Let_def same_stream_def)
      then show thesis
        by (rule that) (use True ok(4) long_line_messages in \<open>auto simp: already_reported_def dropped_def\<close>)
    next
      case False
      then have s: "s = []" using ok(4) by (simp add: dropped_def)
      let ?nz1 = "nz\<lparr>nz_buffer := rest\<rparr>"
      note unfold = feed_loop.simps [of _ _ nz] Let_def line False
      consider (long) "?n < int (length (drop_cr raw))"
        | (blank) "int (length (drop_cr raw)) \<le> ?n" "blank_line (drop_cr raw)"
        | (parsed) "int (length (drop_cr raw)) \<le> ?n" "\<not> blank_line (drop_cr raw)" by linarith
      then show thesis
      proof cases
        case long
        have "?next [error_message too_large] (bump ?nz1)"
          using long stream_error_ok [of ?nz1 "fst too_large" "snd too_large"] ok error_messages_ok(1)
          by (simp add: unfold same_stream_def bump_def)
        then show thesis
          by (rule that) (use long False s error_messages_ok(1) in
            \<open>auto simp: already_reported_def line_messages_def Let_def error_message_def\<close>)
      next
        case blank
        then have "?next [] ?nz1" by (simp add: unfold same_stream_def)
        then show thesis
          by (rule that) (use blank False s in \<open>auto simp: already_reported_def line_messages_def Let_def\<close>)
      next
        case parsed
        then have "?next [settle (decoded_message (decode (drop_cr raw)))] (bump ?nz1)"
          using parse_line_ok [of ?nz1] ok by (simp add: unfold same_stream_def bump_def)
        then show thesis
          by (rule that) (use parsed False s settle_ok in
            \<open>auto simp: already_reported_def line_messages_def Let_def\<close>)
      qed
    qed
    have same: "nz_session nz1 = nz_session nz" "nz_max_line_bytes nz1 = ?n" using step by (simp_all add: same_stream_def)
    obtain ms nz' s' where ih: "feed_loop decode clock nz1
        (events @ numbered_events clock (nz_session nz) (nz_next_sequence nz) m) =
        (Inr ((events @ numbered_events clock (nz_session nz) (nz_next_sequence nz) m) @
           numbered_events clock (nz_session nz1) (nz_next_sequence nz1) ms), nz')"
      and res: "loop_result decode clock nz1 [] ms nz' s'"
      using less.hyps [of nz1 "[]"] ok step same buf by (fastforce simp: dropped_def)
    have "feed_loop decode clock nz events =
        (Inr (events @ numbered_events clock (nz_session nz) (nz_next_sequence nz) (m @ ms)), nz')"
      using step ih same by simp
    moreover have "loop_result decode clock nz s (m @ ms) nz' s'"
      using res step same m m_ok
      by (auto simp: loop_result_def split pending_messages_Cons same_stream_def already_reported_def)
    ultimately show ?thesis by blast
  qed
qed

definition live :: "normalizer \<Rightarrow> string \<Rightarrow> bool" where
  "live nz s \<longleftrightarrow>
     session_ok (nz_session nz) \<and> 1 \<le> nz_next_sequence nz \<and> 0 < nz_max_line_bytes nz \<and> dropped nz s \<and>
     \<not> nz_finished nz \<and> int (length (nz_buffer nz)) \<le> nz_max_line_bytes nz \<and> LF \<notin> set (s @ nz_buffer nz)"

lemma live_pending:
  "live nz s \<Longrightarrow> (nz_max_line_bytes nz < int (length (s @ nz_buffer nz))) = nz_discarding nz"
  by (auto simp: live_def dropped_def split: if_splits)

lemma feed_spec:
  assumes "live nz s"
  shows "\<exists>ms nz' s'. stream_feed decode clock nz chunk =
      (Inr (numbered_events clock (nz_session nz) (nz_next_sequence nz) ms), nz') \<and>
    live nz' s' \<and> nz_session nz' = nz_session nz \<and> nz_max_line_bytes nz' = nz_max_line_bytes nz \<and>
    nz_next_sequence nz' = nz_next_sequence nz + int (length ms) \<and>
    s' @ nz_buffer nz' = last (split_lf (s @ nz_buffer nz @ chunk)) \<and>
    (\<forall>m\<in>set ms. event_payload_ok (fst m) (snd m)) \<and>
    ((\<forall>l\<in>set (butlast (split_lf (s @ nz_buffer nz @ chunk))). clear_line (nz_max_line_bytes nz) l) \<longrightarrow>
       already_reported nz @ ms =
         text_messages decode (nz_max_line_bytes nz) (butlast (split_lf (s @ nz_buffer nz @ chunk))) @
         already_reported nz')"
proof (cases "chunk = []")
  case True
  have "split_lf (s @ nz_buffer nz) = [s @ nz_buffer nz]"
    by (rule split_lf_tail) (use assms in \<open>simp add: live_def\<close>)
  then show ?thesis
    using True assms
    by (intro exI [of _ "[]"] exI [of _ nz] exI [of _ s]) (simp add: stream_feed_def live_def)
next
  case False
  let ?nz = "nz\<lparr>nz_buffer := nz_buffer nz @ chunk\<rparr>"
  have "session_ok (nz_session ?nz)" "1 \<le> nz_next_sequence ?nz" "0 < nz_max_line_bytes ?nz" "dropped ?nz s"
    using assms by (simp_all add: live_def dropped_def)
  from feed_loop_spec [OF this, of decode clock "[]"] obtain ms nz' s' where
    f: "feed_loop decode clock ?nz [] = (Inr (numbered_events clock (nz_session nz) (nz_next_sequence nz) ms), nz')"
    and r: "loop_result decode clock ?nz s ms nz' s'" by auto
  have "LF \<notin> set (last (split_lf (s @ nz_buffer nz @ chunk)))"
    by (rule split_lf_no_LF [OF last_in_set]) simp
  then have live': "live nz' s'" using r assms by (simp add: live_def loop_result_def same_stream_def)
  have tail: "s' @ nz_buffer nz' = last (split_lf (s @ nz_buffer nz @ chunk))"
    using r by (simp add: loop_result_def)
  have "(nz_max_line_bytes nz < int (length (last (split_lf (s @ nz_buffer nz @ chunk))))) = nz_discarding nz'"
    using live_pending [OF live'] tail r by (simp add: loop_result_def same_stream_def del: length_append)
  then have "pending_messages decode (nz_max_line_bytes nz) (split_lf (s @ nz_buffer nz @ chunk)) =
      text_messages decode (nz_max_line_bytes nz) (butlast (split_lf (s @ nz_buffer nz @ chunk))) @
      already_reported nz'"
    by (simp add: pending_messages_def already_reported_def)
  then show ?thesis
    using f r live' False assms
    by (intro exI [of _ ms] exI [of _ nz'] exI [of _ s'])
      (simp add: stream_feed_def loop_result_def same_stream_def live_def already_reported_def)
qed

lemma feed_all_spec:
  assumes "live nz s"
  shows "\<exists>ms nz' s'. feed_all decode clock nz chunks =
      (Inr (numbered_events clock (nz_session nz) (nz_next_sequence nz) ms), nz') \<and>
    live nz' s' \<and> nz_session nz' = nz_session nz \<and> nz_max_line_bytes nz' = nz_max_line_bytes nz \<and>
    nz_next_sequence nz' = nz_next_sequence nz + int (length ms) \<and>
    s' @ nz_buffer nz' = last (split_lf (s @ nz_buffer nz @ concat chunks)) \<and>
    (\<forall>m\<in>set ms. event_payload_ok (fst m) (snd m)) \<and>
    ((\<forall>l\<in>set (butlast (split_lf (s @ nz_buffer nz @ concat chunks))). clear_line (nz_max_line_bytes nz) l) \<longrightarrow>
       already_reported nz @ ms =
         text_messages decode (nz_max_line_bytes nz) (butlast (split_lf (s @ nz_buffer nz @ concat chunks))) @
         already_reported nz')"
  using assms
proof (induction chunks arbitrary: nz s)
  case Nil
  have "split_lf (s @ nz_buffer nz) = [s @ nz_buffer nz]"
    by (rule split_lf_tail) (use Nil in \<open>simp add: live_def\<close>)
  then show ?case
    using Nil by (intro exI [of _ "[]"] exI [of _ nz] exI [of _ s]) simp
next
  case (Cons c cs)
  let ?t = "s @ nz_buffer nz @ c" and ?n = "nz_max_line_bytes nz"
  obtain m1 nz1 s1 where f: "stream_feed decode clock nz c =
      (Inr (numbered_events clock (nz_session nz) (nz_next_sequence nz) m1), nz1)"
    and l1: "live nz1 s1" and k1: "nz_session nz1 = nz_session nz" "nz_max_line_bytes nz1 = ?n"
      "nz_next_sequence nz1 = nz_next_sequence nz + int (length m1)"
      "s1 @ nz_buffer nz1 = last (split_lf ?t)" "\<forall>m\<in>set m1. event_payload_ok (fst m) (snd m)"
    and e1: "(\<forall>l\<in>set (butlast (split_lf ?t)). clear_line ?n l) \<longrightarrow>
      already_reported nz @ m1 = text_messages decode ?n (butlast (split_lf ?t)) @ already_reported nz1"
    using feed_spec [OF Cons.prems, of decode clock c] by blast
  let ?t2 = "s1 @ nz_buffer nz1 @ concat cs"
  obtain m2 nz2 s2 where g: "feed_all decode clock nz1 cs =
      (Inr (numbered_events clock (nz_session nz) (nz_next_sequence nz1) m2), nz2)"
    and l2: "live nz2 s2" and k2: "nz_session nz2 = nz_session nz" "nz_max_line_bytes nz2 = ?n"
      "nz_next_sequence nz2 = nz_next_sequence nz1 + int (length m2)"
      "s2 @ nz_buffer nz2 = last (split_lf ?t2)" "\<forall>m\<in>set m2. event_payload_ok (fst m) (snd m)"
    and e2: "(\<forall>l\<in>set (butlast (split_lf ?t2)). clear_line ?n l) \<longrightarrow>
      already_reported nz1 @ m2 = text_messages decode ?n (butlast (split_lf ?t2)) @ already_reported nz2"
    using Cons.IH [OF l1] unfolding k1(1,2) by blast
  have split: "split_lf (s @ nz_buffer nz @ c @ concat cs) = butlast (split_lf ?t) @ split_lf ?t2"
    using split_lf_append [of ?t "concat cs"] k1(4) by (simp flip: append_assoc)
  have all: "feed_all decode clock nz (c # cs) =
      (Inr (numbered_events clock (nz_session nz) (nz_next_sequence nz) (m1 @ m2)), nz2)"
    using f g k1(3) by simp
  have "(\<forall>l\<in>set (butlast (split_lf (s @ nz_buffer nz @ c @ concat cs))). clear_line ?n l) \<longrightarrow>
      already_reported nz @ m1 @ m2 = text_messages decode ?n
        (butlast (split_lf (s @ nz_buffer nz @ c @ concat cs))) @ already_reported nz2"
    unfolding split using e1 e2 by (auto simp: butlast_append) (metis append_assoc)
  then show ?case
    using all l2 k1 k2 split by (intro exI [of _ "m1 @ m2"] exI [of _ nz2] exI [of _ s2]) auto
qed

lemma finish_spec:
  assumes "live nz s" and "clear_line (nz_max_line_bytes nz) (s @ nz_buffer nz)"
  shows "\<exists>ms nz'. stream_finish decode clock nz =
      (Inr (numbered_events clock (nz_session nz) (nz_next_sequence nz) ms), nz') \<and>
    already_reported nz @ ms = line_messages decode (nz_max_line_bytes nz) (s @ nz_buffer nz)"
proof (cases "nz_discarding nz")
  case True
  then have "line_messages decode (nz_max_line_bytes nz) (s @ nz_buffer nz) = [error_message too_large]"
    using assms live_pending [OF assms(1)] by (intro long_line_messages) auto
  then show ?thesis
    using True assms(1) by (intro exI [of _ "[]"]) (simp add: stream_finish_def live_def already_reported_def Let_def)
next
  case False
  then have s: "s = []" using assms(1) by (simp add: live_def dropped_def)
  let ?nz = "nz\<lparr>nz_finished := True, nz_buffer := []\<rparr>" and ?line = "drop_cr (nz_buffer nz)"
  have short: "\<not> nz_max_line_bytes nz < int (length ?line)"
    using assms(1) drop_cr_length(1) [of "nz_buffer nz"] by (simp add: live_def)
  show ?thesis
  proof (cases "blank_line ?line")
    case True
    then show ?thesis using False s short assms(1)
      by (intro exI [of _ "[]"]) (simp add: stream_finish_def live_def already_reported_def line_messages_def Let_def)
  next
    case nb: False
    then show ?thesis using False s short assms(1) parse_line_ok [of ?nz decode clock ?line]
      by (intro exI [of _ "[settle (decoded_message (decode ?line))]"])
        (simp add: stream_finish_def live_def already_reported_def line_messages_def Let_def)
  qed
qed

lemma fresh_live:
  "make_normalizer session first n = Inr nz \<Longrightarrow> session_ok session \<Longrightarrow>
     live nz [] \<and> nz_session nz = session \<and> nz_next_sequence nz = first \<and> nz_max_line_bytes nz = n \<and>
     nz_buffer nz = [] \<and> already_reported nz = []"
  by (auto simp: make_normalizer_def live_def dropped_def already_reported_def split: if_splits)

subsection \<open>Properties\<close>

text \<open>
  C10: how the bytes are cut into chunks does not matter: fed chunk by chunk and finished, the
  normalizer returns, numbered from its first sequence, exactly the messages of the lines of the
  whole text, each line judged by itself: blank lines nothing, lines over the limit or malformed
  ones a single error event, after which the next line is read normally. (Lines one byte over the
  limit that end in a carriage return are the exception, see the last lemma.)
\<close>

theorem stream_chunks_irrelevant:
  assumes "make_normalizer session first n = Inr nz" and "session_ok session"
    and "\<forall>l\<in>set (split_lf (concat chunks)). clear_line n l"
  shows "stream_all decode clock nz chunks =
    Inr (numbered_events clock session first (text_messages decode n (split_lf (concat chunks))))"
proof -
  have fr: "live nz []" "nz_session nz = session" "nz_next_sequence nz = first" "nz_max_line_bytes nz = n"
      "nz_buffer nz = []" "already_reported nz = []"
    using fresh_live [OF assms(1,2)] by simp_all
  note spec = feed_all_spec [OF fr(1), of decode clock chunks, unfolded fr(2-) append_Nil]
  let ?S = "split_lf (concat chunks)"
  obtain ms nz' s' where f: "feed_all decode clock nz chunks = (Inr (numbered_events clock session first ms), nz')"
    and l: "live nz' s'" and k: "nz_session nz' = session" "nz_max_line_bytes nz' = n"
      "nz_next_sequence nz' = first + int (length ms)" "s' @ nz_buffer nz' = last ?S"
    and e: "(\<forall>l\<in>set (butlast ?S). clear_line n l) \<longrightarrow> ms = text_messages decode n (butlast ?S) @ already_reported nz'"
    using spec by blast
  have "clear_line n (last ?S)" using assms(3) by simp
  then obtain ms2 nz2 where g: "stream_finish decode clock nz' =
      (Inr (numbered_events clock session (first + int (length ms)) ms2), nz2)"
    and e2: "already_reported nz' @ ms2 = line_messages decode n (last ?S)"
    using finish_spec [OF l, of decode clock] k by auto
  have "ms @ ms2 = text_messages decode n (butlast ?S) @ line_messages decode n (last ?S)"
    using e e2 assms(3) by (auto dest: in_set_butlastD)
  also have "\<dots> = text_messages decode n (butlast ?S @ [last ?S])"
    using text_messages_simps(3) [of decode n "butlast ?S" "[last ?S]"] by simp
  finally have "ms @ ms2 = text_messages decode n ?S" by (simp only: append_butlast_last_id split_lf_not_Nil not_False_eq_True)
  then have "numbered_events clock session first (ms @ ms2) =
      numbered_events clock session first (text_messages decode n ?S)" by simp
  then show ?thesis using f g by (simp add: stream_all_def)
qed

text \<open>
  C34: the normalizer is bounded and ordered: however much a provider sends, in whatever chunks, no
  feed fails, the buffer never keeps more than the line limit, and the events are numbered without
  gaps from the first sequence, belong to the session and satisfy the event contract.
\<close>

theorem stream_bounded_and_ordered:
  assumes "make_normalizer session first n = Inr nz" and "session_ok session"
    and "feed_all decode clock nz chunks = (r, nz')"
  shows "\<exists>es. r = Inr es \<and> int (length (nz_buffer nz')) \<le> n \<and>
    map re_sequence es = map (\<lambda>i. first + int i) [0..<length es] \<and>
    nz_next_sequence nz' = first + int (length es) \<and>
    (\<forall>e\<in>set es. re_job_id e = se_job_id session \<and> re_runtime e = se_runtime session \<and>
       event_payload_ok (re_kind e) (re_payload e))"
proof -
  have fr: "live nz []" "nz_session nz = session" "nz_next_sequence nz = first" "nz_max_line_bytes nz = n"
      "nz_buffer nz = []" "already_reported nz = []"
    using fresh_live [OF assms(1,2)] by simp_all
  note spec = feed_all_spec [OF fr(1), of decode clock chunks, unfolded fr(2-) append_Nil]
  obtain ms s' where f: "r = Inr (numbered_events clock session first ms)" "live nz' s'"
      "nz_max_line_bytes nz' = n" "nz_next_sequence nz' = first + int (length ms)"
      "\<forall>m\<in>set ms. event_payload_ok (fst m) (snd m)"
    using spec assms(3) by auto
  have len: "length (numbered_events clock session k ms) = length ms" for k
    by (induction ms arbitrary: k) auto
  have seq: "map re_sequence (numbered_events clock session k ms) = map (\<lambda>i. k + int i) [0..<length ms]" for k
  proof (induction ms arbitrary: k)
    case (Cons m ms)
    then show ?case
      by (simp add: event_at_def upt_conv_Cons map_Suc_upt [symmetric] algebra_simps del: upt_Suc)
  qed simp
  have mem: "\<forall>e\<in>set (numbered_events clock session k ms). re_job_id e = se_job_id session \<and>
      re_runtime e = se_runtime session \<and> event_payload_ok (re_kind e) (re_payload e)" for k
    using f(5) by (induction ms arbitrary: k) (auto simp: event_at_def)
  have "int (length (nz_buffer nz')) \<le> n" using f(2,3) by (simp add: live_def)
  then show ?thesis using f seq mem len by simp
qed

text \<open>A provider session, a decoder that accepts one event line, and a stream cut within lines.\<close>

definition sample_session :: adapter_session where
  "sample_session = \<lparr>se_job_id = ''job-1'', se_runtime = Codex, se_session_id = ''s-1''\<rparr>"

definition sample_decode :: "string \<Rightarrow> decoded" where
  "sample_decode line =
     (if line = ''{ok}'' then Decoded (JObj [(''kind'', JStr ''text''), (''payload'', JObj [(''text'', JStr ''hi'')])])
      else BadJson)"

definition sample_stream :: normalizer where
  "sample_stream = \<lparr>nz_session = sample_session, nz_next_sequence = 5, nz_max_line_bytes = 6,
     nz_buffer = [], nz_discarding = False, nz_finished = False\<rparr>"

definition sample_chunks :: "string list" where
  "sample_chunks = [''{o'', ''k}'' @ [CR], [LF], ''oversized line'' @ [LF] @ ''{ok}'' @ [LF], ''bad'']"

lemma sample_stream_fresh: "make_normalizer sample_session 5 6 = Inr sample_stream"
  by (simp add: make_normalizer_def sample_stream_def)

lemma sample_session_ok: "session_ok sample_session"
  by code_simp

theorem stream_chunks_irrelevant_witness:
  "stream_all sample_decode (\<lambda>n. 0) sample_stream sample_chunks =
   stream_all sample_decode (\<lambda>n. 0) sample_stream [concat sample_chunks]"
proof -
  have "list_all (clear_line 6) (split_lf (concat sample_chunks))" by code_simp
  then have c: "\<forall>l\<in>set (split_lf (concat sample_chunks)). clear_line 6 l" by (simp add: list_all_iff)
  then have "\<forall>l\<in>set (split_lf (concat [concat sample_chunks])). clear_line 6 l" by simp
  from stream_chunks_irrelevant [OF sample_stream_fresh sample_session_ok this]
    stream_chunks_irrelevant [OF sample_stream_fresh sample_session_ok c]
  show ?thesis by simp
qed

theorem stream_bounded_and_ordered_witness:
  "\<exists>es nz'. feed_all sample_decode (\<lambda>n. 0) sample_stream sample_chunks = (Inr es, nz') \<and>
     int (length (nz_buffer nz')) \<le> 6 \<and> nz_next_sequence nz' = 5 + int (length es)"
proof -
  obtain r nz' where f: "feed_all sample_decode (\<lambda>n. 0) sample_stream sample_chunks = (r, nz')" by fastforce
  from stream_bounded_and_ordered [OF sample_stream_fresh sample_session_ok f] show ?thesis
    using f by blast
qed

text \<open>
  The exception: a line that exactly fills the limit and ends in a carriage return and a newline is
  parsed when it arrives in one chunk and reported as too large when the chunk ends between the two.
\<close>

lemma carriage_return_at_chunk_end:
  "stream_all (\<lambda>line. BadJson) (\<lambda>n. 0) sample_stream [''abcdef'' @ [CR, LF]] =
     Inr [event_at (\<lambda>n. 0) sample_session 5
       (error_message (''stream_invalid_json'', ''Provider stream contained invalid JSON.''))]"
  "stream_all (\<lambda>line. BadJson) (\<lambda>n. 0) sample_stream [''abcdef'' @ [CR], [LF]] =
     Inr [event_at (\<lambda>n. 0) sample_session 5 (error_message too_large)]"
  by code_simp+

text \<open>
  \<open>AdapterSession\<close> accepts a job identity with surrounding blanks, which no event may carry: then the
  first malformed line is no error event but an exception.
\<close>

lemma untrimmed_session_accepted:
  "make_session '' job'' Codex ''s-1'' = Inr (sample_session\<lparr>se_job_id := '' job''\<rparr>)"
  by code_simp

lemma untrimmed_session_raises:
  "fst (stream_feed (\<lambda>line. BadJson) (\<lambda>n. 0)
     (sample_stream\<lparr>nz_session := sample_session\<lparr>se_job_id := '' job''\<rparr>\<rparr>) (''x'' @ [LF])) = Inl ValueErr"
  by code_simp

end
