(* ===== verification/PlanningService.thy ===== *)
theory PlanningService
  imports Transitions
begin

text \<open>
  \<open>ReadOnlyPlanningService\<close> (planning.py): a job is classified, planned and queued by three keyed
  transitions, and the recorded demo plan is read back from the ledger. The loop makes five
  attempts, each of which reads the clock once; \<open>clock\<close> is indexed by the attempts that remain.
\<close>

record plan_block =
  pb_job_id :: string
  pb_state :: job_state
  pb_event_id :: int
  pb_source :: string
  pb_read_only :: bool
  pb_text :: string

definition plan_event_type :: string where
  "plan_event_type = ''job.plan.recorded''"

definition demo_plan :: string where
  "demo_plan =
     ''Demo planning preview. No repository files have been inspected.'' @ [CHR 0x0A] @
     ''1. Locate the source and tests relevant to the request.'' @ [CHR 0x0A] @
     ''2. Propose a bounded change in an isolated worktree.'' @ [CHR 0x0A] @
     ''3. Run focused verification and review the resulting diff.'' @ [CHR 0x0A] @
     ''4. Request approval before applying any change.''"

definition load_plan_job :: "string \<Rightarrow> db \<Rightarrow> exn + job_row" where
  "load_plan_job i d =
     handle (\<lambda>e. if isa e JobNotFoundError \<or> isa e JobValidationError then PlanningNotFoundError
               else if isa e JobRepositoryError then PlanningUnavailableError else e)
       (job_get i d)"

definition plan_events :: "(string \<Rightarrow> string) \<Rightarrow> string \<Rightarrow> db \<Rightarrow> exn + event_row list" where
  "plan_events sha i d =
     rethrow (\<lambda>e. isa e EventRepositoryError) PlanningUnavailableError (event_list sha i d)"

definition has_demo_start :: "(string \<Rightarrow> string) \<Rightarrow> string \<Rightarrow> db \<Rightarrow> exn + bool" where
  "has_demo_start sha i d =
     bindE (plan_events sha i d) (\<lambda>es. Inr (list_ex (\<lambda>e.
       e_event_type e = ''job.planning.started'' \<and> e_payload e = [(''source'', JStr ''demo'')]) es))"

definition read_recorded :: "(string \<Rightarrow> string) \<Rightarrow> job_row \<Rightarrow> db \<Rightarrow> exn + plan_block" where
  "read_recorded sha job d =
     bindE (plan_events sha (j_id job) d) (\<lambda>es.
       case filter (\<lambda>e. e_event_type e = plan_event_type) es of
         [event] \<Rightarrow>
           let p = e_payload event in
           if fst ` set p \<noteq> {''source'', ''read_only'', ''text''} \<or>
              map_of p ''source'' \<noteq> Some (JStr ''demo'') \<or>
              map_of p ''read_only'' \<noteq> Some (JBool True) \<or>
              map_of p ''text'' \<noteq> Some (JStr demo_plan)
           then Inl PlanningConflictError
           else Inr \<lparr>pb_job_id = j_id job, pb_state = j_state job, pb_event_id = e_id event,
                     pb_source = ''demo'', pb_read_only = True, pb_text = demo_plan\<rparr>
       | _ \<Rightarrow> Inl PlanningConflictError)"

definition advance_payload :: "job_state \<Rightarrow> payload" where
  "advance_payload target =
     (if target = Classified then [(''basis'', JStr ''stored_snapshot'')]
      else if target = Queued
      then [(''source'', JStr ''demo''), (''read_only'', JBool True), (''text'', JStr demo_plan)]
      else [(''source'', JStr ''demo'')])"

definition advance_update :: "job_row \<Rightarrow> job_state \<Rightarrow> job_update" where
  "advance_update job target =
     \<lparr>ju_id = j_id job, ju_state = target, ju_runtime = j_runtime job, ju_model = j_model job,
      ju_worktree_path = j_worktree_path job\<rparr>"

definition advance_event :: "job_row \<Rightarrow> job_state \<Rightarrow> string \<Rightarrow> string \<Rightarrow> event_create" where
  "advance_event job target event_type key =
     \<lparr>ec_job_id = j_id job, ec_event_type = event_type, ec_payload = advance_payload target,
      ec_idempotency_key = Some key\<rparr>"

text \<open>A conflict is left to the next attempt.\<close>

definition advance ::
  "(string \<Rightarrow> string) \<Rightarrow> job_row \<Rightarrow> job_state \<Rightarrow> string \<Rightarrow> string \<Rightarrow> micros \<Rightarrow> db \<Rightarrow> (exn + unit) \<times> db" where
  "advance sha job target event_type key now d =
     (case transition sha (advance_update job target) (advance_event job target event_type key)
             None now d of
        (Inr r, d') \<Rightarrow> (Inr (), d')
      | (Inl e, d') \<Rightarrow>
          (if isa e AtomicTransitionConflictError then Inr ()
           else if isa e AtomicTransitionError then Inl PlanningUnavailableError else Inl e, d'))"

text \<open>One attempt: the block, or nothing yet.\<close>

definition plan_attempt ::
  "(string \<Rightarrow> string) \<Rightarrow> micros \<Rightarrow> string \<Rightarrow> db \<Rightarrow> (exn + plan_block option) \<times> db" where
  "plan_attempt sha now i d =
     (case load_plan_job i d of
        Inl e \<Rightarrow> (Inl e, d)
      | Inr job \<Rightarrow>
          let step = (\<lambda>target event_type key. (case advance sha job target event_type key now d of
                 (Inl e, d') \<Rightarrow> (Inl e, d')
               | (Inr u, d') \<Rightarrow> (Inr None, d'))) in
          if j_worktree_path job \<noteq> None then (Inl PlanningConflictError, d)
          else if j_state job = Queued then (bindE (read_recorded sha job d) (\<lambda>b. Inr (Some b)), d)
          else if j_state job = Created then step Classified ''job.classified'' ''plan-classified''
          else if j_state job = Classified then step Planning ''job.planning.started'' ''plan-started''
          else if j_state job = Planning then
            (case has_demo_start sha (j_id job) d of
               Inl e \<Rightarrow> (Inl e, d)
             | Inr ok \<Rightarrow>
                 if \<not> ok then (Inl PlanningConflictError, d)
                 else step Queued plan_event_type ''plan-recorded'')
          else (Inl PlanningConflictError, d))"

fun plan_loop ::
  "(string \<Rightarrow> string) \<Rightarrow> (nat \<Rightarrow> micros) \<Rightarrow> nat \<Rightarrow> string \<Rightarrow> db \<Rightarrow> (exn + plan_block) \<times> db" where
  "plan_loop sha clock 0 i d = (Inl PlanningConflictError, d)"
| "plan_loop sha clock (Suc n) i d =
     (case plan_attempt sha (clock n) i d of
        (Inl e, d') \<Rightarrow> (Inl e, d')
      | (Inr (Some b), d') \<Rightarrow> (Inr b, d')
      | (Inr None, d') \<Rightarrow> plan_loop sha clock n i d')"

definition plan_run ::
  "(string \<Rightarrow> string) \<Rightarrow> (nat \<Rightarrow> micros) \<Rightarrow> string \<Rightarrow> db \<Rightarrow> (exn + plan_block) \<times> db" where
  "plan_run sha clock i d = plan_loop sha clock 5 i d"

definition plan_read :: "(string \<Rightarrow> string) \<Rightarrow> string \<Rightarrow> db \<Rightarrow> exn + plan_block" where
  "plan_read sha i d = bindE (load_plan_job i d) (\<lambda>job. read_recorded sha job d)"

subsection \<open>Stages\<close>

text \<open>What each transition leaves in the ledger: type, canonical payload and key.\<close>

definition plan_trace :: "(string \<times> payload \<times> string option) list" where
  "plan_trace =
     [(''job.classified'', canon_obj (advance_payload Classified), Some ''plan-classified''),
      (''job.planning.started'', canon_obj (advance_payload Planning), Some ''plan-started''),
      (plan_event_type, canon_obj (advance_payload Queued), Some ''plan-recorded'')]"

definition plan_states :: "job_state list" where
  "plan_states = [Created, Classified, Planning, Queued]"

definition plan_related :: "event_row \<Rightarrow> bool" where
  "plan_related r \<longleftrightarrow>
     e_event_type r \<in> {''job.planning.started'', plan_event_type} \<or>
     e_idempotency_key r \<in> set (map (\<lambda>t. snd (snd t)) plan_trace)"

definition trace_of :: "event_row \<Rightarrow> string \<times> payload \<times> string option" where
  "trace_of r = (e_event_type r, e_payload r, e_idempotency_key r)"

text \<open>
  The job has made \<open>k\<close> of the three transitions: it is in the \<open>k\<close>-th state and the planning events
  of its ledger are the first \<open>k\<close> of the trace, among whatever else was recorded for it.
\<close>

definition plan_stage :: "db \<Rightarrow> string \<Rightarrow> nat \<Rightarrow> job_row \<Rightarrow> bool" where
  "plan_stage d i k job \<longleftrightarrow>
     k \<le> 3 \<and> select_job d i = Some job \<and> j_worktree_path job = None \<and> j_state job = plan_states ! k \<and>
     map trace_of (filter plan_related (job_events d i)) = take k plan_trace"

lemma plan_payloads:
  "canon_obj (advance_payload Classified) = [(''basis'', JStr ''stored_snapshot'')]"
  "canon_obj (advance_payload Planning) = [(''source'', JStr ''demo'')]"
  "canon_obj (advance_payload Queued) =
     [(''read_only'', JBool True), (''source'', JStr ''demo''), (''text'', JStr demo_plan)]"
  by code_simp+

lemma plan_payload_valid:
  "\<exists>h. canonical_payload sha (advance_payload st) = Inr (canon_obj (advance_payload st), h)"
proof -
  have "\<not> has_nan_fields (advance_payload Classified)" "\<not> has_nan_fields (advance_payload Queued)"
    "\<not> has_nan_fields (advance_payload Planning)"
    "json_bytes (canon_obj (advance_payload Classified)) \<le> 1048576"
    "json_bytes (canon_obj (advance_payload Queued)) \<le> 1048576"
    "json_bytes (canon_obj (advance_payload Planning)) \<le> 1048576"
    by code_simp+
  then show ?thesis by (cases st) (auto simp: canonical_payload_iff advance_payload_def)
qed

lemma plan_texts:
  "plain_text ''job.classified''" "plain_text ''job.planning.started''" "plain_text plan_event_type"
  "plain_text ''plan-classified''" "plain_text ''plan-started''" "plain_text ''plan-recorded''"
  "utf8_len ''job.classified'' \<le> 128" "utf8_len ''job.planning.started'' \<le> 128" "utf8_len plan_event_type \<le> 128"
  "utf8_len ''plan-classified'' \<le> 128" "utf8_len ''plan-started'' \<le> 128" "utf8_len ''plan-recorded'' \<le> 128"
  by code_simp+

text \<open>A keyed transition that is new to the ledger and allowed by the table commits.\<close>

lemma transition_fresh:
  assumes dig: "digest_fun sha" and wf: "core_wf sha d"
    and v: "validate_job_update u = Inr ()" "validate_event sha e = Inr data" and id: "ju_id u = ec_job_id e"
    and fresh: "known_event e d = None" and old: "select_job d (ju_id u) = Some old"
    and allowed: "ju_state u \<in> set (ALLOWED_JOB_TRANSITIONS (j_state old))"
    and room: "int (length (job_events d (ec_job_id e))) < max_sequence"
  shows "transition sha u e None now d =
    (Inr (set_job now u old, next_event now e data d), add_event (next_event now e data d) (put_job now u d))"
  unfolding transition_Inr
  using assms transition_tx_cases [OF dig wf v id] by (intro exI [of _ data]) simp

lemma job_events_add: "job_events (add_event r d) i = job_events d i @ (if e_job_id r = i then [r] else [])"
  by (simp add: job_events_def)

lemma next_event_fields:
  "e_job_id (next_event now e data d) = ec_job_id e" "e_event_type (next_event now e data d) = ec_event_type e"
  "e_payload (next_event now e data d) = fst data" "e_idempotency_key (next_event now e data d) = snd (snd data)"
  by (simp_all add: next_event_def)

lemma less3_cases: "k < (3::nat) \<Longrightarrow> k = 0 \<or> k = 1 \<or> k = 2"
  by auto

lemma plan_trace_length: "length plan_trace = 3"
  by (simp add: plan_trace_def)

lemma plan_trace_nth:
  "k < 3 \<Longrightarrow> plan_trace ! k =
     (fst (plan_trace ! k), canon_obj (advance_payload (plan_states ! Suc k)), Some (the (snd (snd (plan_trace ! k)))))"
  by (drule less3_cases) (auto simp: plan_trace_def plan_states_def)

lemma key_fresh:
  assumes "map trace_of (filter plan_related (job_events d i)) = take k plan_trace" and "k < 3"
  shows "select_event_by_key d i (the (snd (snd (plan_trace ! k)))) = None"
proof -
  have "e_idempotency_key r \<noteq> snd (snd (plan_trace ! k))" if "r \<in> set (job_events d i)" for r
  proof
    assume key: "e_idempotency_key r = snd (snd (plan_trace ! k))"
    have "snd (snd (plan_trace ! k)) \<in> set (map (\<lambda>t. snd (snd t)) plan_trace)"
      using assms(2) by (auto simp: plan_trace_def dest!: less3_cases)
    then have "plan_related r" using key by (simp add: plan_related_def)
    then have "trace_of r \<in> trace_of ` set (filter plan_related (job_events d i))" using that by simp
    then have "trace_of r \<in> set (take k plan_trace)" by (simp only: set_map [symmetric] assms(1))
    then have "snd (snd (plan_trace ! k)) \<in> set (map (\<lambda>t. snd (snd t)) (take k plan_trace))"
      using key by (auto simp: trace_of_def rev_image_eqI)
    moreover have "snd (snd (plan_trace ! k)) \<notin> set (map (\<lambda>t. snd (snd t)) (take k plan_trace))"
      using less3_cases [OF assms(2)] by (elim disjE) (simp_all add: plan_trace_def take_Suc_conv_app_nth numeral_eq_Suc)
    ultimately show False by contradiction
  qed
  moreover have "Some (the (snd (snd (plan_trace ! k)))) = snd (snd (plan_trace ! k))"
    using plan_trace_nth [OF assms(2)] by (metis snd_conv option.sel)
  ultimately show ?thesis
    by (auto simp: select_event_by_key_None job_events_def)
qed

lemma advance_commits:
  assumes dig: "digest_fun sha" and wf: "core_wf sha d" and st: "plan_stage d i k job" and k: "k < 3"
    and room: "int (length (job_events d i)) < max_sequence"
  shows "\<exists>d' job'. advance sha job (plan_states ! Suc k) (fst (plan_trace ! k))
      (the (snd (snd (plan_trace ! k)))) now d = (Inr (), d') \<and>
    core_wf sha d' \<and> plan_stage d' i (Suc k) job' \<and> length (job_events d' i) = Suc (length (job_events d i)) \<and>
    job' = job\<lparr>j_state := plan_states ! Suc k, j_updated_at := now\<rparr> \<and>
    (\<forall>q. q \<noteq> i \<longrightarrow> select_job d' q = select_job d q \<and> job_events d' q = job_events d q)"
proof -
  let ?t = "plan_states ! Suc k" and ?ty = "fst (plan_trace ! k)" and ?key = "the (snd (snd (plan_trace ! k)))"
  let ?u = "advance_update job ?t" and ?e = "advance_event job ?t ?ty ?key"
  have job: "select_job d i = Some job" "j_id job = i" "j_worktree_path job = None" "j_state job = plan_states ! k"
    and tr: "map trace_of (filter plan_related (job_events d i)) = take k plan_trace"
    using st select_job_Some by (auto simp: plan_stage_def)
  have ok: "job_ok job" using wf select_job_ok job(1) by (auto simp: core_wf_def)
  then have id: "plain_text i" "plain_text_opt (j_model job)"
    using job(2) by (auto simp: job_ok_def validate_job_iff job_row_create_def)
  have v1: "validate_job_update ?u = Inr ()"
    using id job by (simp add: validate_job_update_iff advance_update_def plain_text_opt_def)
  obtain h where h: "canonical_payload sha (advance_payload ?t) = Inr (canon_obj (advance_payload ?t), h)"
    using plan_payload_valid by blast
  have words: "plain_text ?ty \<and> utf8_len ?ty \<le> 128 \<and> plain_text ?key \<and> utf8_len ?key \<le> 128"
    using less3_cases [OF k] plan_texts by (auto simp: plan_trace_def)
  have v2: "validate_event sha ?e = Inr (canon_obj (advance_payload ?t), h, Some ?key)"
    using h words id job(2) by (simp add: validate_event_iff advance_event_def)
  have fresh: "known_event ?e d = None"
    using key_fresh [OF tr k] job(2) by (simp add: known_event_def advance_event_def)
  have allowed: "?t \<in> set (ALLOWED_JOB_TRANSITIONS (j_state job))"
    using less3_cases [OF k] job(4) by (auto simp: plan_states_def with_stop_states_def)
  let ?data = "(canon_obj (advance_payload ?t), h, Some ?key)"
  let ?ev = "next_event now ?e ?data d"
  let ?d = "add_event ?ev (put_job now ?u d)"
  have tx: "transition sha ?u ?e None now d = (Inr (set_job now ?u job, ?ev), ?d)"
    using job room allowed by (intro transition_fresh [OF dig wf v1 v2 _ fresh])
      (simp_all add: advance_update_def advance_event_def)
  have evid: "e_job_id ?ev = i" "trace_of ?ev = plan_trace ! k"
    using job(2) plan_trace_nth [OF k] by (simp_all add: next_event_fields advance_event_def trace_of_def)
  then have rel: "plan_related ?ev"
    using less3_cases [OF k] by (auto simp: trace_of_def plan_related_def plan_trace_def)
  have evs: "job_events ?d q = job_events d q @ (if q = i then [?ev] else [])" for q
    using evid(1) by (auto simp: job_events_add)
  have trace: "map trace_of (filter plan_related (job_events ?d i)) = take (Suc k) plan_trace"
    using rel evid(2) tr k by (simp add: evs take_Suc_conv_app_nth plan_trace_length)
  have id_u: "ju_id ?u = i" using job(2) by (simp add: advance_update_def)
  have sel: "select_job ?d q = (if q = i then Some (set_job now ?u job) else select_job d q)" for q
    by (simp add: select_job_put_event id_u job(1))
  have "set_job now ?u job = job\<lparr>j_state := ?t, j_updated_at := now\<rparr>"
    by (simp add: set_job_def advance_update_def)
  moreover have "core_wf sha ?d" by (rule transition_wf [OF wf tx])
  moreover have "advance sha job ?t ?ty ?key now d = (Inr (), ?d)" by (simp add: advance_def tx)
  moreover have "plan_stage ?d i (Suc k) (set_job now ?u job)"
    unfolding plan_stage_def using k job(3) trace by (simp add: sel) (simp add: set_job_def advance_update_def)
  moreover have "length (job_events ?d i) = Suc (length (job_events d i))" by (simp add: evs)
  moreover have "\<forall>q. q \<noteq> i \<longrightarrow> select_job ?d q = select_job d q \<and> job_events ?d q = job_events d q"
    by (simp add: sel evs)
  ultimately show ?thesis by blast
qed

text \<open>One attempt at stage \<open>k\<close>, read off the branches of the loop body.\<close>

lemma plan_job_loads:
  assumes "core_wf sha d" and "plan_stage d i k job"
  shows "load_plan_job i d = Inr job" "plan_events sha i d = Inr (job_events d i)" "j_id job = i"
proof -
  have job: "select_job d i = Some job" "j_id job = i"
    using assms(2) select_job_Some by (auto simp: plan_stage_def)
  have ok: "job_ok job" using assms(1) select_job_ok job(1) by (auto simp: core_wf_def)
  then have "plain_text i" using job(2) by (auto simp: job_ok_def validate_job_iff job_row_create_def)
  then show "load_plan_job i d = Inr job" "plan_events sha i d = Inr (job_events d i)" "j_id job = i"
    using assms(1) ok job by (auto simp: load_plan_job_def job_get_def plan_events_def event_list_wf core_wf_def)
qed

lemma demo_start_recorded:
  assumes "map trace_of (filter plan_related es) = take 2 plan_trace"
  shows "list_ex (\<lambda>e. e_event_type e = ''job.planning.started'' \<and> e_payload e = [(''source'', JStr ''demo'')]) es"
proof -
  have "plan_trace ! 1 \<in> set (map trace_of (filter plan_related es))"
    unfolding assms by (simp add: plan_trace_def numeral_eq_Suc)
  then obtain e where "e \<in> set es" "trace_of e = plan_trace ! 1" by auto
  then show ?thesis
    by (auto simp: list_ex_iff trace_of_def plan_trace_def plan_payloads)
qed

lemma plan_attempt_advances:
  assumes "digest_fun sha" and wf: "core_wf sha d" and st: "plan_stage d i k job" and k: "k < 3"
    and "int (length (job_events d i)) < max_sequence"
  shows "\<exists>d' job'. plan_attempt sha now i d = (Inr None, d') \<and>
    core_wf sha d' \<and> plan_stage d' i (Suc k) job' \<and> length (job_events d' i) = Suc (length (job_events d i)) \<and>
    job' = job\<lparr>j_state := plan_states ! Suc k, j_updated_at := now\<rparr> \<and>
    (\<forall>q. q \<noteq> i \<longrightarrow> select_job d' q = select_job d q \<and> job_events d' q = job_events d q)"
proof -
  obtain d' job' where c: "advance sha job (plan_states ! Suc k) (fst (plan_trace ! k))
      (the (snd (snd (plan_trace ! k)))) now d = (Inr (), d')"
    and rest: "core_wf sha d'" "plan_stage d' i (Suc k) job'"
      "length (job_events d' i) = Suc (length (job_events d i))"
      "job' = job\<lparr>j_state := plan_states ! Suc k, j_updated_at := now\<rparr>"
      "\<forall>q. q \<noteq> i \<longrightarrow> select_job d' q = select_job d q \<and> job_events d' q = job_events d q"
    using advance_commits [OF assms, of now] by blast
  have job: "j_worktree_path job = None" "j_state job = plan_states ! k" using st by (auto simp: plan_stage_def)
  have start: "has_demo_start sha (j_id job) d = Inr True" if "k = 2"
    using demo_start_recorded [of "job_events d i"] st plan_job_loads [OF wf st] that
    by (simp add: has_demo_start_def plan_stage_def)
  have "plan_attempt sha now i d = (Inr None, d')"
    using less3_cases [OF k] c job start plan_job_loads(1) [OF wf st]
    by (elim disjE) (simp_all add: plan_attempt_def plan_states_def plan_trace_def)
  then show ?thesis using rest by blast
qed

text \<open>The plan is in the ledger: the block names the one event that records it.\<close>

definition recorded_block :: "string \<Rightarrow> int \<Rightarrow> plan_block" where
  "recorded_block i n = \<lparr>pb_job_id = i, pb_state = Queued, pb_event_id = n, pb_source = ''demo'',
     pb_read_only = True, pb_text = demo_plan\<rparr>"

lemma filter_map_eq_Cons: "map f (filter P xs) = [y] \<longleftrightarrow> (\<exists>x. filter P xs = [x] \<and> f x = y)"
  by auto

lemma plan_attempt_reads:
  assumes wf: "core_wf sha d" and st: "plan_stage d i 3 job"
  shows "\<exists>r. filter (\<lambda>e. e_event_type e = plan_event_type) (job_events d i) = [r] \<and>
    read_recorded sha job d = Inr (recorded_block i (e_id r)) \<and>
    plan_attempt sha now i d = (Inr (Some (recorded_block i (e_id r))), d)"
proof -
  let ?es = "job_events d i" and ?P = "\<lambda>e. e_event_type e = plan_event_type"
  have job: "j_worktree_path job = None" "j_state job = Queued"
    using st by (auto simp: plan_stage_def plan_states_def)
  have tr: "map trace_of (filter plan_related ?es) = plan_trace"
    using st by (simp add: plan_stage_def plan_trace_length)
  have "map trace_of (filter ?P ?es) = map trace_of (filter ?P (filter plan_related ?es))"
    by (simp add: plan_related_def) (rule arg_cong [where f = "map trace_of"], rule filter_cong, auto)
  also have "\<dots> = filter (\<lambda>t. fst t = plan_event_type) (map trace_of (filter plan_related ?es))"
    by (simp add: filter_map o_def trace_of_def)
  also have "\<dots> = [plan_trace ! 2]" unfolding tr by (simp add: plan_trace_def plan_event_type_def)
  finally obtain r where r: "filter ?P ?es = [r]" "trace_of r = plan_trace ! 2"
    unfolding filter_map_eq_Cons by blast
  have pay: "e_payload r = [(''read_only'', JBool True), (''source'', JStr ''demo''), (''text'', JStr demo_plan)]"
    using r(2) by (simp add: trace_of_def plan_trace_def plan_payloads)
  have read: "read_recorded sha job d = Inr (recorded_block i (e_id r))"
    using plan_job_loads [OF wf st] r(1) job
    by (auto simp: read_recorded_def pay recorded_block_def)
  then have "plan_attempt sha now i d = (Inr (Some (recorded_block i (e_id r))), d)"
    using plan_job_loads(1) [OF wf st] job by (simp add: plan_attempt_def)
  then show ?thesis using r(1) read by blast
qed

lemma plan_loop_completes:
  assumes dig: "digest_fun sha" and wf: "core_wf sha d" and st: "plan_stage d i k job"
    and fuel: "3 < n + k" and room: "int (length (job_events d i)) + (3 - int k) \<le> max_sequence"
  shows "\<exists>d' job' r. plan_loop sha clock n i d = (Inr (recorded_block i (e_id r)), d') \<and>
    core_wf sha d' \<and> plan_stage d' i 3 job' \<and>
    filter (\<lambda>e. e_event_type e = plan_event_type) (job_events d' i) = [r] \<and>
    length (job_events d' i) = length (job_events d i) + (3 - k) \<and>
    (\<forall>q. q \<noteq> i \<longrightarrow> select_job d' q = select_job d q \<and> job_events d' q = job_events d q)"
  using wf st fuel room
proof (induction n arbitrary: d k job)
  case 0
  then show ?case by (simp add: plan_stage_def)
next
  case (Suc n)
  have "k \<le> 3" using Suc.prems(2) by (simp add: plan_stage_def)
  then consider "k < 3" | "k = 3" by linarith
  then show ?case
  proof cases
    case 1
    obtain d' job' where c: "plan_attempt sha (clock n) i d = (Inr None, d')" "core_wf sha d'"
        "plan_stage d' i (Suc k) job'" "length (job_events d' i) = Suc (length (job_events d i))"
        "\<forall>q. q \<noteq> i \<longrightarrow> select_job d' q = select_job d q \<and> job_events d' q = job_events d q"
      using plan_attempt_advances [OF dig Suc.prems(1,2) 1, of "clock n"] Suc.prems(4) 1 by auto
    show ?thesis
      using Suc.IH [OF c(2,3)] Suc.prems(3,4) 1 c(1,4,5) by (auto simp: Suc_diff_Suc)
  next
    case 2
    then show ?thesis
      using plan_attempt_reads [OF Suc.prems(1), of i job "clock n"] Suc.prems(1,2) by auto
  qed
qed

text \<open>
  C35: a job that has made any \<open>k\<close> of its three planning transitions is finished by one run, at any
  readings of the clock: the five attempts suffice, the plan of the ledger comes back, the job is
  queued, exactly the \<open>3 - k\<close> missing events are recorded and no other job is touched; and from then on
  running again or reading gives the same block and writes nothing.
\<close>

theorem planning_completes:
  assumes "digest_fun sha" and "core_wf sha d" and "plan_stage d i k job"
    and "int (length (job_events d i)) + (3 - int k) \<le> max_sequence"
  shows "\<exists>d' job' r. plan_run sha clock i d = (Inr (recorded_block i (e_id r)), d') \<and>
    core_wf sha d' \<and> plan_stage d' i 3 job' \<and>
    filter (\<lambda>e. e_event_type e = plan_event_type) (job_events d' i) = [r] \<and>
    length (job_events d' i) = length (job_events d i) + (3 - k) \<and>
    (\<forall>q. q \<noteq> i \<longrightarrow> select_job d' q = select_job d q \<and> job_events d' q = job_events d q) \<and>
    (\<forall>clock'. plan_run sha clock' i d' = (Inr (recorded_block i (e_id r)), d')) \<and>
    plan_read sha i d' = Inr (recorded_block i (e_id r))"
proof -
  have "3 < 5 + k" by simp
  from plan_loop_completes [OF assms(1-3) this assms(4), of clock] obtain d' job' r where
    d': "plan_run sha clock i d = (Inr (recorded_block i (e_id r)), d')" "core_wf sha d'" "plan_stage d' i 3 job'"
      "filter (\<lambda>e. e_event_type e = plan_event_type) (job_events d' i) = [r]"
      "length (job_events d' i) = length (job_events d i) + (3 - k)"
      "\<forall>q. q \<noteq> i \<longrightarrow> select_job d' q = select_job d q \<and> job_events d' q = job_events d q"
    unfolding plan_run_def by blast
  have "read_recorded sha job' d' = Inr (recorded_block i (e_id r))"
    using plan_attempt_reads [OF d'(2,3)] d'(4) by auto
  moreover have "plan_attempt sha now i d' = (Inr (Some (recorded_block i (e_id r))), d')" for now
    using plan_attempt_reads [OF d'(2,3), of now] d'(4) by auto
  ultimately show ?thesis
    using d' plan_job_loads(1) [OF d'(2,3)]
    by (intro exI [of _ d'] exI [of _ job'] exI [of _ r]) (simp add: plan_run_def plan_read_def numeral_eq_Suc)
qed

definition planning_db :: db where
  "planning_db = empty_db\<lparr>projects := [sample_project],
     jobs := [(sample_job Created)\<lparr>j_worktree_path := None\<rparr>]\<rparr>"

lemma planning_db_wf: "core_wf sample_sha planning_db"
proof -
  have "job_ok ((sample_job Created)\<lparr>j_worktree_path := None\<rparr>)" by code_simp
  moreover have "project_ok sample_project" by code_simp
  ultimately show ?thesis
    by (auto simp: core_wf_def projects_wf_def jobs_wf_def events_wf_def planning_db_def empty_db_def
      job_events_def keyed_events_def numbered_def sample_project_def sample_job_def)
qed

theorem planning_completes_witness:
  "\<exists>d' (r :: event_row). plan_run sample_sha (\<lambda>n. 60 - int n) ''job-1'' planning_db = (Inr (recorded_block ''job-1'' (e_id r)), d') \<and>
    length (job_events d' ''job-1'') = 3"
proof -
  have stage: "plan_stage planning_db ''job-1'' 0 ((sample_job Created)\<lparr>j_worktree_path := None\<rparr>)"
    by code_simp
  have none: "job_events planning_db ''job-1'' = []" by code_simp
  then have room: "int (length (job_events planning_db ''job-1'')) + (3 - int 0) \<le> max_sequence"
    by (simp add: max_sequence_def)
  obtain d' r where "plan_run sample_sha (\<lambda>n. 60 - int n) ''job-1'' planning_db =
        (Inr (recorded_block ''job-1'' (e_id (r :: event_row))), d')"
      "length (job_events d' ''job-1'') = length (job_events planning_db ''job-1'') + (3 - 0)"
    using planning_completes [OF sample_sha_digest planning_db_wf stage room, of "\<lambda>n. 60 - int n"]
    by (elim exE conjE) (rule that)
  then show ?thesis by (intro exI [of _ d'] exI [of _ r]) (simp add: none)
qed

end
