(* ===== verification/Cancellation.thy ===== *)
theory Cancellation
  imports Transitions RuntimeEvents
begin

text \<open>
  \<open>CancellationService\<close> (cancellation.py): a cancellation is asked of the provider first, and a job
  becomes cancelled only when an event of its own session confirms it. The provider's answer to
  \<open>adapter.cancel\<close> is an argument.
\<close>

definition cancel_event :: "string \<Rightarrow> event_create" where
  "cancel_event job_id =
     \<lparr>ec_job_id = job_id, ec_event_type = ''job.cancelled'',
      ec_payload = [(''state'', JStr (job_state_value Cancelled))],
      ec_idempotency_key = Some ''job-cancel''\<rparr>"

definition cancel_update :: "job_row \<Rightarrow> job_update" where
  "cancel_update job =
     \<lparr>ju_id = j_id job, ju_state = Cancelled, ju_runtime = j_runtime job, ju_model = j_model job,
      ju_worktree_path = j_worktree_path job\<rparr>"

definition load_session_job :: "adapter_session \<Rightarrow> db \<Rightarrow> exn + job_row" where
  "load_session_job session d =
     bindE (rethrow (\<lambda>e. isa e JobRepositoryError) CancellationPersistenceError
              (job_get (se_job_id session) d)) (\<lambda>job.
       if j_runtime job \<noteq> se_runtime session then Inl CancellationConflictError else Inr job)"

definition require_cancellable :: "job_row \<Rightarrow> exn + unit" where
  "require_cancellable job =
     (if j_state job \<in> set TERMINAL_JOB_STATES then Inl CancellationConflictError
      else rethrow (\<lambda>e. isa e ForbiddenJobTransitionError) CancellationConflictError
             (validate_job_transition (j_state job) Cancelled))"

definition cancel_request ::
  "provider_capabilities \<Rightarrow> (adapter_session \<Rightarrow> exn + unit) \<Rightarrow> adapter_session \<Rightarrow> db \<Rightarrow> exn + unit" where
  "cancel_request capabilities cancel session d =
     (if cap_runtime capabilities \<noteq> se_runtime session then Inl CancellationConflictError
      else bindE (load_session_job session d) (\<lambda>job.
        if j_state job = Cancelled then Inr ()
        else bindE (require_cancellable job) (\<lambda>_.
          rethrow (\<lambda>e. isa e AdapterError) CancellationProviderError (cancel session))))"

definition confirm_handler :: "exn \<Rightarrow> exn" where
  "confirm_handler e =
     (if isa e AtomicTransitionConflictError then CancellationConflictError
      else if isa e AtomicTransitionError then CancellationPersistenceError else e)"

definition confirm_cancelled ::
  "(string \<Rightarrow> string) \<Rightarrow> adapter_session \<Rightarrow> runtime_event \<Rightarrow> micros \<Rightarrow> db
   \<Rightarrow> (exn + job_row \<times> event_row) \<times> db" where
  "confirm_cancelled sha session event now d =
     (if re_job_id event \<noteq> se_job_id session \<or> re_runtime event \<noteq> se_runtime session
      then (Inl CancellationConflictError, d)
      else if re_kind event \<noteq> KCompletion \<or>
        re_payload event \<noteq> [(''status'', JStr (job_state_value Cancelled))]
      then (Inl CancellationConflictError, d)
      else case load_session_job session d of
          Inl e \<Rightarrow> (Inl e, d)
        | Inr job \<Rightarrow>
            (case (if j_state job \<noteq> Cancelled then require_cancellable job else Inr ()) of
               Inl e \<Rightarrow> (Inl e, d)
             | Inr u \<Rightarrow>
                 (case transition sha (cancel_update job) (cancel_event (j_id job)) None now d of
                    (r, d') \<Rightarrow> (handle confirm_handler r, d'))))"

subsection \<open>Sessions and the jobs they own\<close>

definition confirms :: "adapter_session \<Rightarrow> runtime_event \<Rightarrow> bool" where
  "confirms session event \<longleftrightarrow>
     re_job_id event = se_job_id session \<and> re_runtime event = se_runtime session \<and>
     re_kind event = KCompletion \<and> re_payload event = [(''status'', JStr ''cancelled'')]"

lemma job_get_wf:
  assumes "jobs_wf d"
  shows "job_get i d =
    (case select_job d i of
       Some job \<Rightarrow> Inr job
     | None \<Rightarrow> Inl (if plain_text i then JobNotFoundError else JobValidationError))"
proof (cases "select_job d i")
  case None
  then show ?thesis by (auto simp: job_get_def validate_job_text_def bindE_def)
next
  case (Some job)
  have ok: "job_ok job" using select_job_ok [OF assms Some] .
  then have "plain_text i"
    using select_job_Some [OF Some] by (auto simp: job_ok_def validate_job_iff job_row_create_def)
  then show ?thesis using Some ok by (simp add: job_get_def)
qed

lemma load_session_job_wf:
  assumes "jobs_wf d"
  shows "load_session_job s d =
    (case select_job d (se_job_id s) of
       None \<Rightarrow> Inl CancellationPersistenceError
     | Some job \<Rightarrow> if j_runtime job \<noteq> se_runtime s then Inl CancellationConflictError else Inr job)"
  by (auto simp: load_session_job_def job_get_wf [OF assms] isa_def split: option.splits)

lemma require_cancellable_iff:
  "require_cancellable job =
     (if j_state job \<in> set TERMINAL_JOB_STATES then Inl CancellationConflictError else Inr ())"
  using stop_reachable [of "j_state job" Cancelled]
  by (auto simp: require_cancellable_def STOP_STATES_def lifecycle_step_iff)

text \<open>The one transition a confirmation asks for is valid for every stored job.\<close>

lemma cancel_valid:
  assumes "job_ok job"
  shows "validate_job_update (cancel_update job) = Inr ()"
    and "\<exists>h. validate_event sha (cancel_event (j_id job)) =
      Inr ([(''state'', JStr ''cancelled'')], h, Some ''job-cancel'')"
proof -
  have job: "plain_text (j_id job)" "plain_text_opt (j_model job)" "plain_text_opt (j_worktree_path job)"
    using assms by (auto simp: job_ok_def validate_job_iff job_row_create_def)
  then show "validate_job_update (cancel_update job) = Inr ()"
    by (simp add: validate_job_update_iff cancel_update_def)
  have "canon_obj [(''state'', JStr ''cancelled'')] = [(''state'', JStr ''cancelled'')]"
    "\<not> has_nan_fields [(''state'', JStr ''cancelled'')]"
    "json_bytes [(''state'', JStr ''cancelled'')] \<le> 1048576"
    "plain_text ''job.cancelled''" "utf8_len ''job.cancelled'' \<le> 128" "plain_text ''job-cancel''"
    "utf8_len ''job-cancel'' \<le> 128"
    by code_simp+
  then show "\<exists>h. validate_event sha (cancel_event (j_id job)) =
      Inr ([(''state'', JStr ''cancelled'')], h, Some ''job-cancel'')"
    using job(1) by (simp add: validate_event_iff cancel_event_def canonical_payload_iff)
qed

definition cancel_hash :: "(string \<Rightarrow> string) \<Rightarrow> string" where
  "cancel_hash sha = sha (render (JObj [(''state'', JStr ''cancelled'')]))"

definition cancelled_row :: "(string \<Rightarrow> string) \<Rightarrow> string \<Rightarrow> micros \<Rightarrow> db \<Rightarrow> event_row" where
  "cancelled_row sha i now d = next_event now (cancel_event i)
     ([(''state'', JStr ''cancelled'')], cancel_hash sha, Some ''job-cancel'') d"

lemma cancel_transition_cases:
  assumes dig: "digest_fun sha" and wf: "core_wf sha d" and job: "select_job d i = Some job"
  shows "transition sha (cancel_update job) (cancel_event i) None now d =
    (case select_event_by_key d i ''job-cancel'' of
       Some r \<Rightarrow>
         (if e_event_type r = ''job.cancelled'' \<and> e_payload_hash r = cancel_hash sha \<and> j_state job = Cancelled
          then Inr (job, r) else Inl AtomicTransitionConflictError, d)
     | None \<Rightarrow>
         if j_state job \<in> set TERMINAL_JOB_STATES then (Inl AtomicTransitionStateError, d)
         else if max_sequence \<le> int (length (job_events d i)) then (Inl AtomicTransitionError, d)
         else (Inr (job\<lparr>j_state := Cancelled, j_updated_at := now\<rparr>, cancelled_row sha i now d),
               add_event (cancelled_row sha i now d) (put_job now (cancel_update job) d)))"
proof -
  let ?data = "([(''state'', JStr ''cancelled'')], cancel_hash sha, Some ''job-cancel'')"
  have jwf: "jobs_wf d" using wf by (simp add: core_wf_def)
  have id: "j_id job = i" using select_job_Some [OF job] by simp
  have ok: "job_ok job" using select_job_ok [OF jwf job] .
  note v1 = cancel_valid(1) [OF ok]
  have "canon_obj [(''state'', JStr ''cancelled'')] = [(''state'', JStr ''cancelled'')]" by code_simp
  then have v2: "validate_event sha (cancel_event i) = Inr ?data"
    using cancel_valid(2) [OF ok, of sha] id
    by (auto simp: validate_event_iff canonical_payload_iff cancel_hash_def cancel_event_def)
  have ids: "ju_id (cancel_update job) = ec_job_id (cancel_event i)"
    by (simp add: cancel_update_def cancel_event_def id)
  have ev: "ec_job_id (cancel_event i) = i" "ec_event_type (cancel_event i) = ''job.cancelled''"
    "known_event (cancel_event i) d = select_event_by_key d i ''job-cancel''"
    by (simp_all add: cancel_event_def known_event_def)
  have upd: "ju_id (cancel_update job) = i" "ju_state (cancel_update job) = Cancelled"
    "matches_requested_state job (cancel_update job) \<longleftrightarrow> j_state job = Cancelled"
    "set_job now (cancel_update job) job = job\<lparr>j_state := Cancelled, j_updated_at := now\<rparr>"
    by (simp_all add: cancel_update_def matches_requested_state_def set_job_def id)
  have allowed: "Cancelled \<in> set (ALLOWED_JOB_TRANSITIONS (j_state job)) \<longleftrightarrow>
      j_state job \<notin> set TERMINAL_JOB_STATES"
    by (cases "j_state job") (simp_all add: terminal_list transition_defs)
  note tx = transition_tx_cases [OF dig wf v1 v2 ids, of now None, unfolded resolve_retry_wf [OF jwf] ev upd]
  have rq: "transition_request sha (cancel_update job) (cancel_event i) = Inr ?data"
    using v1 v2 by (simp add: transition_request_iff)
  show ?thesis
    using tx job allowed ids
    by (auto simp: transition_def rq upd write_connection_def connection_def handle_def transition_handler_def
        isa_def is_integrity_error_def cancelled_row_def split: option.splits)
qed

lemma confirm_cancelled_cases:
  assumes dig: "digest_fun sha" and wf: "core_wf sha d"
  shows "confirm_cancelled sha s event now d =
    (if \<not> confirms s event then (Inl CancellationConflictError, d)
     else case select_job d (se_job_id s) of
         None \<Rightarrow> (Inl CancellationPersistenceError, d)
       | Some job \<Rightarrow>
           if j_runtime job \<noteq> se_runtime s then (Inl CancellationConflictError, d)
           else case select_event_by_key d (se_job_id s) ''job-cancel'' of
               Some r \<Rightarrow>
                 (if e_event_type r = ''job.cancelled'' \<and> e_payload_hash r = cancel_hash sha \<and>
                     j_state job = Cancelled
                  then Inr (job, r) else Inl CancellationConflictError, d)
             | None \<Rightarrow>
                 if j_state job \<in> set TERMINAL_JOB_STATES then (Inl CancellationConflictError, d)
                 else if max_sequence \<le> int (length (job_events d (se_job_id s)))
                 then (Inl CancellationPersistenceError, d)
                 else (Inr (job\<lparr>j_state := Cancelled, j_updated_at := now\<rparr>,
                            cancelled_row sha (se_job_id s) now d),
                       add_event (cancelled_row sha (se_job_id s) now d)
                         (put_job now (cancel_update job) d)))"
proof (cases "confirms s event")
  case True
  have jwf: "jobs_wf d" using wf by (simp add: core_wf_def)
  have ev: "re_job_id event = se_job_id s" "re_runtime event = se_runtime s" "re_kind event = KCompletion"
    "re_payload event = [(''status'', JStr (job_state_value Cancelled))]"
    using True by (simp_all add: confirms_def)
  show ?thesis
  proof (cases "select_job d (se_job_id s)")
    case None
    then show ?thesis using True by (simp add: confirm_cancelled_def ev load_session_job_wf [OF jwf])
  next
    case (Some job)
    have "j_id job = se_job_id s" using select_job_Some [OF Some] by simp
    then show ?thesis
      using True Some cancel_transition_cases [OF dig wf Some, of now]
      by (auto simp: confirm_cancelled_def ev load_session_job_wf [OF jwf] require_cancellable_iff handle_def
          confirm_handler_def isa_def terminal_list split: option.splits)
  qed
qed (auto simp: confirm_cancelled_def confirms_def)

subsection \<open>At-least-once confirmation\<close>

text \<open>What a confirmation that writes found and left behind.\<close>

lemma confirm_cancelled_writes:
  assumes "digest_fun sha" and "core_wf sha d"
    and "confirm_cancelled sha s event now d = (r, d')" and "d' \<noteq> d"
  shows "\<exists>job. confirms s event \<and> select_job d (se_job_id s) = Some job \<and> j_runtime job = se_runtime s \<and>
    j_state job \<notin> set TERMINAL_JOB_STATES \<and> select_event_by_key d (se_job_id s) ''job-cancel'' = None \<and>
    int (length (job_events d (se_job_id s))) < max_sequence \<and>
    r = Inr (job\<lparr>j_state := Cancelled, j_updated_at := now\<rparr>, cancelled_row sha (se_job_id s) now d) \<and>
    d' = add_event (cancelled_row sha (se_job_id s) now d) (put_job now (cancel_update job) d)"
  using assms(3,4) unfolding confirm_cancelled_cases [OF assms(1,2)]
  by (auto split: if_splits option.splits)

lemma confirm_cancelled_transition:
  assumes "confirm_cancelled sha s event now d = (Inr x, d')"
  shows "\<exists>job. transition sha (cancel_update job) (cancel_event (j_id job)) None now d = (Inr x, d')"
  using assms by (auto simp: confirm_cancelled_def split: if_splits sum.splits prod.splits)

text \<open>After a confirmation, every confirmation of the same event gets the recorded answer.\<close>

lemma confirm_cancelled_again:
  assumes dig: "digest_fun sha" and wf: "core_wf sha d"
    and c: "confirm_cancelled sha s event now d = (Inr x, d')"
  shows "confirm_cancelled sha s event now' d' = (Inr x, d')"
proof (cases "d' = d")
  case True
  have ne: "add_event r (put_job n u d) \<noteq> d" for r n u
  proof
    assume eq: "add_event r (put_job n u d) = d"
    show False using arg_cong [OF eq, of "\<lambda>d. length (events d)"] by simp
  qed
  show ?thesis
    using c ne unfolding True confirm_cancelled_cases [OF dig wf]
    by (simp split: if_splits option.splits) auto
next
  case False
  obtain job where job: "confirms s event" "select_job d (se_job_id s) = Some job"
      "j_runtime job = se_runtime s" "select_event_by_key d (se_job_id s) ''job-cancel'' = None"
    and x: "x = (job\<lparr>j_state := Cancelled, j_updated_at := now\<rparr>, cancelled_row sha (se_job_id s) now d)"
    and d': "d' = add_event (cancelled_row sha (se_job_id s) now d) (put_job now (cancel_update job) d)"
    using confirm_cancelled_writes [OF dig wf c False] by auto
  obtain job' where "transition sha (cancel_update job') (cancel_event (j_id job')) None now d = (Inr x, d')"
    using confirm_cancelled_transition [OF c] by blast
  then have wf': "core_wf sha d'" using transition_wf [OF wf] by (cases x) blast
  have id: "ju_id (cancel_update job) = se_job_id s"
    using select_job_Some [OF job(2)] by (simp add: cancel_update_def)
  have sel: "select_job d' (se_job_id s) = Some (job\<lparr>j_state := Cancelled, j_updated_at := now\<rparr>)"
    by (simp add: d' select_job_put_event id job(2)) (simp add: set_job_def cancel_update_def)
  let ?r = "cancelled_row sha (se_job_id s) now d"
  have r: "e_job_id ?r = se_job_id s" "e_event_type ?r = ''job.cancelled''" "e_payload_hash ?r = cancel_hash sha"
    "e_idempotency_key ?r = Some ''job-cancel''"
    by (simp_all add: cancelled_row_def next_event_def cancel_event_def)
  have key: "select_event_by_key d' (se_job_id s) ''job-cancel'' = Some ?r"
    using job(4) r by (simp add: select_event_by_key_def d' find_append)
  show ?thesis
    using job(1,3) by (simp add: confirm_cancelled_cases [OF dig wf'] sel key r x)
qed

interpretation cancellation:
  idempotent_operation "confirm_cancelled sha s event" "\<lambda>d. digest_fun sha \<and> core_wf sha d" for sha s event
proof
  fix t d e d'
  assume "confirm_cancelled sha s event t d = (Inl e, d')"
  then show "d' = d"
    using transition_rollback
    by (auto simp: confirm_cancelled_def handle_def split: if_splits sum.splits prod.splits)
next
  fix d t x d'
  assume "digest_fun sha \<and> core_wf sha d" "confirm_cancelled sha s event t d = (Inr x, d')"
  then show "digest_fun sha \<and> core_wf sha d'"
    using transition_wf confirm_cancelled_transition by (metis surj_pair)
next
  fix d t x d' t'
  assume "digest_fun sha \<and> core_wf sha d" "confirm_cancelled sha s event t d = (Inr x, d')"
  then show "confirm_cancelled sha s event t' d' = (Inr x, d')"
    using confirm_cancelled_again by blast
qed

subsection \<open>Properties\<close>

text \<open>
  C36: a job becomes cancelled only by an event that confirms it: of the job and runtime of the session, of
  kind completion and with status cancelled, for a stored job of that runtime that is not terminal.
  Then exactly that job and one event of its ledger are written, and every later delivery of the
  confirmation gets the same record and writes nothing.
\<close>

theorem cancellation_confirmed_once:
  assumes "digest_fun sha" and "core_wf sha d"
    and "confirm_cancelled sha s event now d = (r, d')" and "d' \<noteq> d"
  shows "\<exists>job ev. re_job_id event = se_job_id s \<and> re_runtime event = se_runtime s \<and>
    re_kind event = KCompletion \<and> re_payload event = [(''status'', JStr ''cancelled'')] \<and>
    select_job d (se_job_id s) = Some job \<and> j_runtime job = se_runtime s \<and>
    j_state job \<notin> set TERMINAL_JOB_STATES \<and>
    e_job_id ev = se_job_id s \<and> e_event_type ev = ''job.cancelled'' \<and>
    r = Inr (job\<lparr>j_state := Cancelled, j_updated_at := now\<rparr>, ev) \<and>
    (\<forall>q. select_job d' q = (if q = se_job_id s
        then Some (job\<lparr>j_state := Cancelled, j_updated_at := now\<rparr>) else select_job d q)) \<and>
    events d' = events d @ [ev] \<and>
    deliver (confirm_cancelled sha s event) (now # later) d = (replicate (Suc (length later)) r, d')"
proof -
  obtain job where job: "confirms s event" "select_job d (se_job_id s) = Some job"
      "j_runtime job = se_runtime s" "j_state job \<notin> set TERMINAL_JOB_STATES"
    and r: "r = Inr (job\<lparr>j_state := Cancelled, j_updated_at := now\<rparr>, cancelled_row sha (se_job_id s) now d)"
    and d': "d' = add_event (cancelled_row sha (se_job_id s) now d) (put_job now (cancel_update job) d)"
    using confirm_cancelled_writes [OF assms] by blast
  have id: "ju_id (cancel_update job) = se_job_id s"
    using select_job_Some [OF job(2)] by (simp add: cancel_update_def)
  have upd: "set_job now (cancel_update job) job = job\<lparr>j_state := Cancelled, j_updated_at := now\<rparr>"
    by (simp add: set_job_def cancel_update_def)
  have sel: "select_job d' q = (if q = se_job_id s
      then Some (job\<lparr>j_state := Cancelled, j_updated_at := now\<rparr>) else select_job d q)" for q
    by (simp add: d' select_job_put_event id job(2) upd)
  have ev: "e_job_id (cancelled_row sha (se_job_id s) now d) = se_job_id s"
    "e_event_type (cancelled_row sha (se_job_id s) now d) = ''job.cancelled''"
    "events d' = events d @ [cancelled_row sha (se_job_id s) now d]"
    by (simp_all add: d' cancelled_row_def next_event_def cancel_event_def)
  have once: "deliver (confirm_cancelled sha s event) (now # later) d = (replicate (Suc (length later)) r, d')"
    using cancellation.deliver_once [of sha d s event now _ d' later] assms r by simp
  show ?thesis
    using job(1-4) r sel ev once
    by (intro exI [of _ job] exI [of _ "cancelled_row sha (se_job_id s) now d"])
      (simp add: confirms_def)
qed

definition sample_session :: adapter_session where
  "sample_session = \<lparr>se_job_id = ''job-1'', se_runtime = Codex, se_session_id = ''s-1''\<rparr>"

definition sample_cancelled :: runtime_event where
  "sample_cancelled = \<lparr>re_job_id = ''job-1'', re_sequence = 4, re_runtime = Codex, re_timestamp = 60,
     re_kind = KCompletion, re_payload = [(''status'', JStr ''cancelled'')]\<rparr>"

theorem cancellation_confirmed_once_witness:
  "\<exists>r d'. deliver (confirm_cancelled sample_sha sample_session sample_cancelled) [60, 61, 62]
      (sample_db Running) = ([r, r, r], d') \<and> map_option j_state (select_job d' ''job-1'') = Some Cancelled"
proof -
  let ?c = "confirm_cancelled sample_sha sample_session sample_cancelled 60 (sample_db Running)"
  have "length (events (snd ?c)) = 2" by code_simp
  then have ne: "snd ?c \<noteq> sample_db Running" by auto
  have c: "?c = (fst ?c, snd ?c)" by simp
  show ?thesis
    using cancellation_confirmed_once [OF sample_sha_digest sample_core_wf c ne, of "[61, 62]"]
    by (intro exI [of _ "fst ?c"] exI [of _ "snd ?c"]) (auto simp: sample_session_def numeral_eq_Suc)
qed

text \<open>
  Every branch of a confirmation, errors included. A confirmed event of an active job of the session is
  recorded whenever the ledger of the job has room; anything else is answered from the ledger or
  refused, without a trace in the store.
\<close>

theorem cancellation_outcome:
  assumes "digest_fun sha" and "core_wf sha d"
  shows "confirm_cancelled sha s event now d =
    (if re_job_id event \<noteq> se_job_id s \<or> re_runtime event \<noteq> se_runtime s \<or> re_kind event \<noteq> KCompletion \<or>
        re_payload event \<noteq> [(''status'', JStr ''cancelled'')]
     then (Inl CancellationConflictError, d)
     else case select_job d (se_job_id s) of
         None \<Rightarrow> (Inl CancellationPersistenceError, d)
       | Some job \<Rightarrow>
           if j_runtime job \<noteq> se_runtime s then (Inl CancellationConflictError, d)
           else case select_event_by_key d (se_job_id s) ''job-cancel'' of
               Some r \<Rightarrow>
                 (if e_event_type r = ''job.cancelled'' \<and> e_payload_hash r = cancel_hash sha \<and>
                     j_state job = Cancelled
                  then Inr (job, r) else Inl CancellationConflictError, d)
             | None \<Rightarrow>
                 if j_state job \<in> set TERMINAL_JOB_STATES then (Inl CancellationConflictError, d)
                 else if max_sequence \<le> int (length (job_events d (se_job_id s)))
                 then (Inl CancellationPersistenceError, d)
                 else (Inr (job\<lparr>j_state := Cancelled, j_updated_at := now\<rparr>,
                            cancelled_row sha (se_job_id s) now d),
                       add_event (cancelled_row sha (se_job_id s) now d)
                         (put_job now (cancel_update job) d)))"
  using confirm_cancelled_cases [OF assms, of s event now] by (simp add: confirms_def)

theorem cancellation_outcome_witness:
  "confirm_cancelled sample_sha sample_session sample_cancelled 60 (sample_db Completed) =
      (Inl CancellationConflictError, sample_db Completed) \<and>
   fst (confirm_cancelled sample_sha sample_session sample_cancelled 60 (sample_db Running)) =
      Inr ((sample_job Cancelled)\<lparr>j_updated_at := 60\<rparr>, cancelled_row sample_sha ''job-1'' 60 (sample_db Running))"
proof -
  have sel: "select_job (sample_db st) ''job-1'' = Some (sample_job st)" for st
    by (simp add: select_job_def sample_job_def)
  have key: "select_event_by_key (sample_db st) ''job-1'' ''job-cancel'' = None" for st
    by (simp add: select_event_by_key_def sample_ready_def)
  have len: "length (job_events (sample_db st) ''job-1'') = 1" for st
    by (simp add: job_events_def sample_ready_def)
  show ?thesis
    by (simp add: cancellation_outcome [OF sample_sha_digest sample_core_wf] sample_session_def
        sample_cancelled_def sel key len terminal_list max_sequence_def) (simp add: sample_job_def)
qed

end
