(* ===== verification/PhoneStore.thy ===== *)
theory PhoneStore
  imports RemoteCommands
begin

text \<open>
  \<open>PhoneStore\<close> (phone_store.py): the actions a phone may confirm and the outbox of messages to it, on
  the tables of migration 15 of db.py. The scope of the policy, the secret scanner, the test of
  eligibility and the random token of an action are arguments. An action is tied to the messages
  that offer it; a message is handed out for sending at most once.
\<close>

subsection \<open>The tables\<close>

definition with_actions :: "action_row list \<Rightarrow> db \<Rightarrow> db" where
  "with_actions rs d = d\<lparr>phone := (phone d)\<lparr>phone_actions := rs\<rparr>\<rparr>"

definition with_outbox :: "outbox_row list \<Rightarrow> db \<Rightarrow> db" where
  "with_outbox rs d = d\<lparr>phone := (phone d)\<lparr>phone_outbox := rs\<rparr>\<rparr>"

definition with_cursors :: "cursor_row list \<Rightarrow> db \<Rightarrow> db" where
  "with_cursors rs d = d\<lparr>phone := (phone d)\<lparr>phone_cursors := rs\<rparr>\<rparr>"

definition action_check :: "action_row \<Rightarrow> bool" where
  "action_check r \<longleftrightarrow>
     sql_length (pa_payload_hash r) = 64 \<and>
     (pa_phase r = AReady \<and> pa_choice r = None \<and> pa_outcome r = None \<or>
      pa_phase r = ARunning \<and> pa_choice r \<noteq> None \<and> pa_outcome r = None \<or>
      pa_phase r = ADone \<and> pa_choice r \<noteq> None \<and> pa_outcome r \<noteq> None)"

text \<open>Trigger \<open>phone_action_identity\<close>.\<close>

definition action_update_aborts :: "action_row \<Rightarrow> action_row \<Rightarrow> bool" where
  "action_update_aborts old new \<longleftrightarrow>
     pa_token new \<noteq> pa_token old \<or> pa_scope_hash new \<noteq> pa_scope_hash old \<or> pa_kind new \<noteq> pa_kind old \<or>
     pa_payload new \<noteq> pa_payload old \<or> pa_payload_hash new \<noteq> pa_payload_hash old \<or>
     pa_expires_at new \<noteq> pa_expires_at old \<or>
     pa_choice old \<noteq> None \<and> pa_choice new \<noteq> pa_choice old \<or> pa_phase old = ADone"

definition insert_action :: "db \<Rightarrow> action_row \<Rightarrow> exn + db" where
  "insert_action d r =
     (if \<not> action_check r then Inl (IntegrityError CheckViolation)
      else if pa_token r \<in> pa_token ` set (phone_actions (phone d))
      then Inl (IntegrityError PrimaryKeyViolation)
      else Inr (with_actions (phone_actions (phone d) @ [r]) d))"

definition update_actions ::
  "db \<Rightarrow> (action_row \<Rightarrow> bool) \<Rightarrow> (action_row \<Rightarrow> action_row) \<Rightarrow> exn + db" where
  "update_actions d p f =
     (if \<exists>r\<in>set (phone_actions (phone d)). p r \<and> action_update_aborts r (f r)
      then Inl (IntegrityError TriggerAbort)
      else if \<exists>r\<in>set (phone_actions (phone d)). p r \<and> \<not> action_check (f r)
      then Inl (IntegrityError CheckViolation)
      else Inr (with_actions (update_where p f (phone_actions (phone d))) d))"

definition outbox_check :: "outbox_row \<Rightarrow> bool" where
  "outbox_check r \<longleftrightarrow>
     0 \<le> po_part r \<and> sql_length (po_packet_hash r) = 64 \<and>
     (po_phase r = DSent \<and> (case po_message_id r of None \<Rightarrow> False | Some m \<Rightarrow> 0 < m) \<or>
      po_phase r \<noteq> DSent \<and> po_message_id r = None)"

text \<open>Trigger \<open>phone_outbox_identity\<close>.\<close>

definition outbox_update_aborts :: "outbox_row \<Rightarrow> outbox_row \<Rightarrow> bool" where
  "outbox_update_aborts old new \<longleftrightarrow>
     po_scope_hash new \<noteq> po_scope_hash old \<or> po_source_key new \<noteq> po_source_key old \<or>
     po_group_key new \<noteq> po_group_key old \<or> po_part new \<noteq> po_part old \<or>
     po_project_id new \<noteq> po_project_id old \<or> po_kind new \<noteq> po_kind old \<or>
     po_subject new \<noteq> po_subject old \<or> po_packet new \<noteq> po_packet old \<or>
     po_packet_hash new \<noteq> po_packet_hash old \<or> po_action_token new \<noteq> po_action_token old \<or>
     po_expires_at new \<noteq> po_expires_at old \<or> po_phase old \<in> {DSent, DUncertain, DDropped} \<or>
     po_phase old = DReady \<and> po_phase new \<notin> {DSending, DDropped} \<or>
     po_phase old = DSending \<and> po_phase new \<notin> {DSent, DUncertain}"

definition source_key :: "outbox_row \<Rightarrow> string \<times> string" where
  "source_key r = (po_scope_hash r, po_source_key r)"

text \<open>
  \<open>INSERT ... ON CONFLICT(scope_hash,source_key) DO NOTHING\<close>: the row gets the next number of the
  \<open>AUTOINCREMENT\<close> counter, unless its key is taken.
\<close>

definition insert_outbox :: "db \<Rightarrow> outbox_row \<Rightarrow> exn + db" where
  "insert_outbox d r =
     (if \<not> outbox_check r then Inl (IntegrityError CheckViolation)
      else if source_key r \<in> source_key ` set (phone_outbox (phone d)) then Inr d
      else if (case po_project_id r of None \<Rightarrow> False | Some p \<Rightarrow> p \<notin> p_id ` set (projects d)) \<or>
              (case po_action_token r of None \<Rightarrow> False
               | Some t \<Rightarrow> t \<notin> pa_token ` set (phone_actions (phone d)))
      then Inl (IntegrityError ForeignKeyViolation)
      else Inr (d\<lparr>phone := (phone d)
             \<lparr>phone_outbox := phone_outbox (phone d) @ [r\<lparr>po_id := outbox_seq (phone d) + 1\<rparr>],
              outbox_seq := outbox_seq (phone d) + 1\<rparr>\<rparr>))"

definition update_outbox ::
  "db \<Rightarrow> (outbox_row \<Rightarrow> bool) \<Rightarrow> (outbox_row \<Rightarrow> outbox_row) \<Rightarrow> exn + db" where
  "update_outbox d p f =
     (if \<exists>r\<in>set (phone_outbox (phone d)). p r \<and> outbox_update_aborts r (f r)
      then Inl (IntegrityError TriggerAbort)
      else if \<exists>r\<in>set (phone_outbox (phone d)). p r \<and> \<not> outbox_check (f r)
      then Inl (IntegrityError CheckViolation)
      else Inr (with_outbox (update_where p f (phone_outbox (phone d))) d))"

subsection \<open>Cursors\<close>

definition phone_cursor :: "string \<Rightarrow> db \<Rightarrow> cursor_row option \<times> db" where
  "phone_cursor scope d =
     (let d' = (if scope \<in> pk_scope_hash ` set (phone_cursors (phone d)) then d
                else with_cursors (phone_cursors (phone d) @
                  [\<lparr>pk_scope_hash = scope, pk_event_id = 0, pk_muted = False, pk_last_send = 0\<rparr>]) d)
      in (List.find (\<lambda>c. pk_scope_hash c = scope) (phone_cursors (phone d')), d'))"

subsection \<open>Actions\<close>

definition hex_token :: "string \<Rightarrow> bool" where
  "hex_token s \<longleftrightarrow> length s = 32 \<and> (\<forall>c\<in>set s. c \<in> set hex_digits)"

definition select_action :: "db \<Rightarrow> string \<Rightarrow> string \<Rightarrow> action_row option" where
  "select_action d scope token =
     List.find (\<lambda>r. pa_token r = token \<and> pa_scope_hash r = scope) (phone_actions (phone d))"

definition phone_action :: "(string \<Rightarrow> string) \<Rightarrow> string \<Rightarrow> string \<Rightarrow> db \<Rightarrow> exn + action_row" where
  "phone_action sha scope token d =
     (if \<not> hex_token token then Inl PhoneError
      else case select_action d scope token of
          None \<Rightarrow> Inl PhoneError
        | Some row \<Rightarrow>
            if sha (render (JObj (pa_payload row))) \<noteq> pa_payload_hash row then Inl PhoneError
            else Inr row)"

definition add_action ::
  "(string \<Rightarrow> string) \<Rightarrow> string \<Rightarrow> string \<Rightarrow> action_kind \<Rightarrow> payload \<Rightarrow> int \<Rightarrow> db \<Rightarrow> exn + string \<times> db" where
  "add_action sha scope token kind data expires d =
     bindE (encode data) (\<lambda>t.
       if 524288 < utf8_len t then Inl PhoneError
       else bindE (insert_action d
              \<lparr>pa_token = token, pa_scope_hash = scope, pa_kind = kind, pa_payload = canon_obj data,
               pa_payload_hash = sha t, pa_expires_at = expires, pa_phase = AReady, pa_choice = None,
               pa_outcome = None\<rparr>) (\<lambda>d'. Inr (token, d')))"

definition offered :: "string \<Rightarrow> string \<Rightarrow> int \<Rightarrow> outbox_row \<Rightarrow> bool" where
  "offered scope token message_id r \<longleftrightarrow>
     po_scope_hash r = scope \<and> po_action_token r = Some token \<and> po_message_id r = Some message_id \<and>
     po_phase r = DSent"

definition record_choice :: "string \<Rightarrow> action_row \<Rightarrow> action_row" where
  "record_choice choice r = r\<lparr>pa_phase := ARunning, pa_choice := Some choice\<rparr>"

definition begin_tx ::
  "(string \<Rightarrow> string) \<Rightarrow> string \<Rightarrow> string \<Rightarrow> string \<Rightarrow> int \<Rightarrow> int \<Rightarrow> db \<Rightarrow> exn + action_row \<times> db" where
  "begin_tx sha scope token choice message_id now d =
     bindE (phone_action sha scope token d) (\<lambda>row.
       case List.find (offered scope token message_id) (phone_outbox (phone d)) of
         None \<Rightarrow> Inl PhoneError
       | Some delivered \<Rightarrow>
           if list_ex (\<lambda>r. po_scope_hash r = scope \<and> po_group_key r = po_group_key delivered \<and>
                 po_phase r \<noteq> DSent) (phone_outbox (phone d))
           then Inl PhoneError
           else bindE
             (if pa_phase row = AReady
              then if pa_expires_at row \<le> now then Inl PhoneError
                   else update_actions d (\<lambda>r. pa_token r = token) (record_choice choice)
              else if pa_choice row \<noteq> Some choice then Inl PhoneError else Inr d) (\<lambda>d'.
             bindE (phone_action sha scope token d') (\<lambda>row'. Inr (row', d'))))"

definition phone_begin ::
  "(string \<Rightarrow> string) \<Rightarrow> string \<Rightarrow> string \<Rightarrow> string \<Rightarrow> int \<Rightarrow> int \<Rightarrow> db \<Rightarrow> (exn + action_row) \<times> db" where
  "phone_begin sha scope token choice message_id now =
     write_connection PhoneError (begin_tx sha scope token choice message_id now)"

definition finish_action ::
  "(string \<Rightarrow> string) \<Rightarrow> string \<Rightarrow> string \<Rightarrow> string \<Rightarrow> db \<Rightarrow> exn + db" where
  "finish_action sha scope token outcome d =
     bindE (phone_action sha scope token d) (\<lambda>row.
       if pa_phase row = ADone
       then if pa_outcome row \<noteq> Some outcome then Inl PhoneError else Inr d
       else update_actions d (\<lambda>r. pa_token r = token \<and> pa_phase r = ARunning)
              (\<lambda>r. r\<lparr>pa_phase := ADone, pa_outcome := Some outcome\<rparr>))"

subsection \<open>The outbox\<close>

text \<open>A text of Latin-1 characters has one UTF-16 unit per character.\<close>

definition packet_ok :: "(string \<Rightarrow> bool) \<Rightarrow> payload \<Rightarrow> bool" where
  "packet_ok findings packet \<longleftrightarrow>
     list_all (\<lambda>(k, v). k = ''text'' \<or> k = ''reply_markup'') packet \<and>
     (case map_of packet ''text'' of
        Some (JStr t) \<Rightarrow> 1 \<le> length t \<and> length t \<le> 4000 \<and> \<not> findings t
      | _ \<Rightarrow> False)"

record queue_request =
  qr_key :: string
  qr_packets :: "payload list"
  qr_expires :: int
  qr_project :: "string option"
  qr_kind :: delivery_kind
  qr_subject :: payload
  qr_token :: "string option"

fun queue_parts ::
  "(string \<Rightarrow> string) \<Rightarrow> (string \<Rightarrow> bool) \<Rightarrow> string \<Rightarrow> queue_request \<Rightarrow> nat \<Rightarrow> payload list \<Rightarrow> db \<Rightarrow> exn + db" where
  "queue_parts sha findings scope q part [] d = Inr d"
| "queue_parts sha findings scope q part (packet # packets) d =
     (if \<not> packet_ok findings packet then Inl PhoneError
      else bindE (encode packet) (\<lambda>t. bindE (encode (qr_subject q)) (\<lambda>u.
        bindE (insert_outbox d
          \<lparr>po_id = 0, po_scope_hash = scope, po_source_key = qr_key q @ '':'' @ int_text (int part),
           po_group_key = qr_key q, po_part = int part, po_project_id = qr_project q, po_kind = qr_kind q,
           po_subject = canon_obj (qr_subject q), po_packet = canon_obj packet, po_packet_hash = sha t,
           po_action_token = qr_token q, po_expires_at = qr_expires q, po_phase = DReady,
           po_message_id = None\<rparr>)
          (queue_parts sha findings scope q (Suc part) packets))))"

definition phone_queue ::
  "(string \<Rightarrow> string) \<Rightarrow> (string \<Rightarrow> bool) \<Rightarrow> string \<Rightarrow> queue_request \<Rightarrow> db \<Rightarrow> exn + db" where
  "phone_queue sha findings scope q d =
     (if length (qr_packets q) < 1 \<or> 8 < length (qr_packets q) then Inl PhoneError
      else queue_parts sha findings scope q 0 (qr_packets q) d)"

definition complete_receipt :: "string \<Rightarrow> int \<Rightarrow> db \<Rightarrow> exn + db" where
  "complete_receipt channel identity d =
     update_receipts d (\<lambda>r. receipt_key r = (channel, identity) \<and> rr_phase r = RReceived) (set_phase RIgnored)"

definition receipt_pending :: "string \<Rightarrow> int \<Rightarrow> int \<Rightarrow> db \<Rightarrow> bool" where
  "receipt_pending scope bot_id identity d =
     (case select_receipt d (int_text bot_id) identity of
        None \<Rightarrow> False
      | Some row \<Rightarrow> rr_phase row = RReceived \<and> rr_scope_hash row = scope)"

definition sent_prompt :: "string \<Rightarrow> int \<Rightarrow> db \<Rightarrow> string option" where
  "sent_prompt scope message_id d =
     (case List.find (\<lambda>r. po_scope_hash r = scope \<and> po_message_id r = Some message_id \<and> po_phase r = DSent)
             (phone_outbox (phone d)) of
        None \<Rightarrow> None
      | Some row \<Rightarrow> po_action_token row)"

subsection \<open>Delivery\<close>

definition acknowledge_tx :: "string \<Rightarrow> int \<Rightarrow> int option \<Rightarrow> db \<Rightarrow> exn + unit \<times> db" where
  "acknowledge_tx scope identity message_id d =
     (case List.find (\<lambda>r. po_id r = identity \<and> po_scope_hash r = scope) (phone_outbox (phone d)) of
        None \<Rightarrow> Inl PhoneError
      | Some row \<Rightarrow>
          let phase = (if message_id \<noteq> None then DSent else DUncertain) in
          if po_phase row = phase \<and> po_message_id row = message_id then Inr ((), d)
          else if po_phase row \<noteq> DSending then Inl PhoneError
          else bindE (update_outbox d (\<lambda>r. po_id r = identity)
                 (\<lambda>r. r\<lparr>po_phase := phase, po_message_id := message_id\<rparr>)) (\<lambda>d'. Inr ((), d')))"

definition phone_acknowledge :: "string \<Rightarrow> int \<Rightarrow> int option \<Rightarrow> db \<Rightarrow> (exn + unit) \<times> db" where
  "phone_acknowledge scope identity message_id =
     validated
       (ensure (case message_id of None \<Rightarrow> True | Some m \<Rightarrow> 0 < m \<and> m < int64_bound) PhoneError) (\<lambda>_.
       write_connection PhoneError (acknowledge_tx scope identity message_id))"

definition phone_recover :: "string \<Rightarrow> db \<Rightarrow> (exn + unit) \<times> db" where
  "phone_recover scope =
     write_connection PhoneError (\<lambda>d.
       bindE (update_outbox d (\<lambda>r. po_scope_hash r = scope \<and> po_phase r = DSending)
                (\<lambda>r. r\<lparr>po_phase := DUncertain\<rparr>)) (\<lambda>d'. Inr ((), d')))"

definition set_delivery :: "delivery_phase \<Rightarrow> int \<Rightarrow> db \<Rightarrow> exn + db" where
  "set_delivery phase i d = update_outbox d (\<lambda>r. po_id r = i) (\<lambda>r. r\<lparr>po_phase := phase\<rparr>)"

text \<open>The hundred oldest ready messages, notices after everything else.\<close>

definition ready_queue :: "string \<Rightarrow> db \<Rightarrow> outbox_row list" where
  "ready_queue scope d =
     take 100 (sort_key (\<lambda>r. (if po_kind r = DKNotice then (1::int) else 0, po_id r))
       (filter (\<lambda>r. po_scope_hash r = scope \<and> po_phase r = DReady) (phone_outbox (phone d))))"

record send_message =
  sm_delivery_id :: int
  sm_packet :: payload

fun delivery_scan ::
  "(string \<Rightarrow> string) \<Rightarrow> string \<Rightarrow> (outbox_row \<Rightarrow> db \<Rightarrow> exn + bool) \<Rightarrow> bool \<Rightarrow> int \<Rightarrow> outbox_row list
   \<Rightarrow> db \<Rightarrow> exn + send_message option \<times> db" where
  "delivery_scan sha scope eligible silent now [] d = Inr (None, d)"
| "delivery_scan sha scope eligible silent now (row # rows) d =
     (if sha (render (JObj (po_packet row))) \<noteq> po_packet_hash row then Inl PhoneError
      else bindE (if po_expires_at row \<le> now then Inr False else eligible row d) (\<lambda>alive.
        if \<not> alive
        then bindE (set_delivery DDropped (po_id row) d) (delivery_scan sha scope eligible silent now rows)
        else if po_kind row = DKNotice \<and> silent then delivery_scan sha scope eligible silent now rows d
        else if list_ex (\<lambda>r. po_scope_hash r = scope \<and> po_group_key r = po_group_key row \<and>
                  po_part r < po_part row \<and> po_phase r \<noteq> DSent) (phone_outbox (phone d))
        then delivery_scan sha scope eligible silent now rows d
        else bindE (set_delivery DSending (po_id row) d) (\<lambda>d'.
          Inr (Some \<lparr>sm_delivery_id = po_id row, sm_packet = po_packet row\<rparr>,
               with_cursors (update_where (\<lambda>c. pk_scope_hash c = scope) (\<lambda>c. c\<lparr>pk_last_send := now\<rparr>)
                 (phone_cursors (phone d'))) d'))))"

text \<open>\<open>quiet\<close> is the policy's \<open>quiet(now)\<close>; the chat of the message is the owner's.\<close>

definition delivery_tx ::
  "(string \<Rightarrow> string) \<Rightarrow> string \<Rightarrow> bool \<Rightarrow> (outbox_row \<Rightarrow> db \<Rightarrow> exn + bool) \<Rightarrow> int \<Rightarrow> db
   \<Rightarrow> exn + send_message option \<times> db" where
  "delivery_tx sha scope quiet eligible now d =
     (case phone_cursor scope d of
        (None, d') \<Rightarrow> Inl TypeErr
      | (Some cursor, d') \<Rightarrow>
          if now - pk_last_send cursor < 1 then Inr (None, d')
          else delivery_scan sha scope eligible (pk_muted cursor \<or> quiet) now (ready_queue scope d') d')"

definition phone_delivery ::
  "(string \<Rightarrow> string) \<Rightarrow> string \<Rightarrow> bool \<Rightarrow> (outbox_row \<Rightarrow> db \<Rightarrow> exn + bool) \<Rightarrow> int \<Rightarrow> db
   \<Rightarrow> (exn + send_message option) \<times> db" where
  "phone_delivery sha scope quiet eligible now =
     write_connection PhoneError (delivery_tx sha scope quiet eligible now)"

end
