(* ===== verification/PhoneSafety.thy ===== *)
theory PhoneSafety
  imports PhoneStore
begin

text \<open>
  What the phone tables keep over every run of their operations: messages move along ready,
  sending or dropped, sent or uncertain; actions keep their content and the first choice. The two
  histories interpret the locale of tables that only grow.
\<close>

subsection \<open>Histories\<close>

inductive delivery_edge :: "delivery_phase \<Rightarrow> delivery_phase \<Rightarrow> bool" where
  send: "delivery_edge DReady DSending"
| drop: "delivery_edge DReady DDropped"
| sent: "delivery_edge DSending DSent"
| uncertain: "delivery_edge DSending DUncertain"

inductive_cases delivery_edge_cases: "delivery_edge p q"

lemma delivery_edge_sending: "delivery_edge\<^sup>*\<^sup>* DSending q \<Longrightarrow> q \<in> {DSending, DSent, DUncertain}"
  by (induction rule: rtranclp_induct) (auto elim: delivery_edge_cases)

lemma delivery_edge_sent: "delivery_edge\<^sup>*\<^sup>* DSent q \<Longrightarrow> q = DSent"
  by (induction rule: rtranclp_induct) (auto elim: delivery_edge_cases)

definition outbox_evolves :: "outbox_row \<Rightarrow> outbox_row \<Rightarrow> bool" where
  "outbox_evolves r r' \<longleftrightarrow>
     po_id r' = po_id r \<and> po_scope_hash r' = po_scope_hash r \<and> po_source_key r' = po_source_key r \<and>
     po_group_key r' = po_group_key r \<and> po_part r' = po_part r \<and> po_packet r' = po_packet r \<and>
     po_action_token r' = po_action_token r \<and> po_expires_at r' = po_expires_at r \<and>
     delivery_edge\<^sup>*\<^sup>* (po_phase r) (po_phase r') \<and>
     (po_phase r = DSent \<longrightarrow> po_message_id r' = po_message_id r)"

definition action_evolves :: "action_row \<Rightarrow> action_row \<Rightarrow> bool" where
  "action_evolves r r' \<longleftrightarrow>
     pa_token r' = pa_token r \<and> pa_scope_hash r' = pa_scope_hash r \<and> pa_kind r' = pa_kind r \<and>
     pa_payload r' = pa_payload r \<and> pa_expires_at r' = pa_expires_at r \<and>
     (pa_choice r \<noteq> None \<longrightarrow> pa_choice r' = pa_choice r) \<and> (pa_phase r = ADone \<longrightarrow> r' = r)"

interpretation outbox_history: row_history outbox_evolves
proof
  fix r s t
  show "outbox_evolves r r" by (simp add: outbox_evolves_def)
  assume rs: "outbox_evolves r s" and st: "outbox_evolves s t"
  have "delivery_edge\<^sup>*\<^sup>* (po_phase r) (po_phase t)"
    using rs st by (auto simp: outbox_evolves_def intro: rtranclp_trans)
  moreover have "po_phase s = DSent" if "po_phase r = DSent"
    using rs that delivery_edge_sent by (auto simp: outbox_evolves_def)
  ultimately show "outbox_evolves r t" using rs st by (simp add: outbox_evolves_def)
qed

interpretation action_history: row_history action_evolves
  by unfold_locales (auto simp: action_evolves_def)

definition phone_wf :: "db \<Rightarrow> bool" where
  "phone_wf d \<longleftrightarrow>
     distinct (map po_id (phone_outbox (phone d))) \<and>
     (\<forall>r\<in>set (phone_outbox (phone d)). po_id r \<le> outbox_seq (phone d) \<and> outbox_check r) \<and>
     distinct (map pa_token (phone_actions (phone d))) \<and>
     (\<forall>r\<in>set (phone_actions (phone d)). action_check r)"

definition phone_move :: "db \<Rightarrow> db \<Rightarrow> bool" where
  "phone_move d d' \<longleftrightarrow>
     (phone_wf d \<longrightarrow> phone_wf d') \<and>
     grows outbox_evolves (phone_outbox (phone d)) (phone_outbox (phone d')) \<and>
     grows action_evolves (phone_actions (phone d)) (phone_actions (phone d'))"

lemma phone_move_refl [simp]: "phone_move d d"
  by (simp add: phone_move_def)

lemma phone_move_trans: "phone_move d1 d2 \<Longrightarrow> phone_move d2 d3 \<Longrightarrow> phone_move d1 d3"
  unfolding phone_move_def using outbox_history.grows_trans action_history.grows_trans by blast

text \<open>A transaction composed of these steps commits them together.\<close>

inductive phone_step :: "(string \<Rightarrow> string) \<Rightarrow> db \<Rightarrow> db \<Rightarrow> bool" for sha where
  add: "add_action sha s t k data e d = Inr (t', d') \<Longrightarrow> phone_step sha d d'"
| begin_choice: "phone_begin sha s t c m now d = (r, d') \<Longrightarrow> phone_step sha d d'"
| finish: "finish_action sha s t oc d = Inr d' \<Longrightarrow> phone_step sha d d'"
| queue: "phone_queue sha findings s q d = Inr d' \<Longrightarrow> phone_step sha d d'"
| complete: "complete_receipt c i d = Inr d' \<Longrightarrow> phone_step sha d d'"
| acknowledge: "phone_acknowledge s i mid d = (r1, d') \<Longrightarrow> phone_step sha d d'"
| recover: "phone_recover s d = (r1, d') \<Longrightarrow> phone_step sha d d'"
| deliver: "phone_delivery sha s quiet eligible now d = (r2, d') \<Longrightarrow> phone_step sha d d'"

subsection \<open>The statements\<close>

lemma with_tables_simps [simp]:
  "phone_actions (phone (with_actions rs d)) = rs"
  "phone_outbox (phone (with_actions rs d)) = phone_outbox (phone d)"
  "outbox_seq (phone (with_actions rs d)) = outbox_seq (phone d)"
  "phone_outbox (phone (with_outbox os d)) = os"
  "phone_actions (phone (with_outbox os d)) = phone_actions (phone d)"
  "outbox_seq (phone (with_outbox os d)) = outbox_seq (phone d)"
  "phone_cursors (phone (with_outbox os d)) = phone_cursors (phone d)"
  "phone_outbox (phone (with_cursors cs d)) = phone_outbox (phone d)"
  "phone_actions (phone (with_cursors cs d)) = phone_actions (phone d)"
  "outbox_seq (phone (with_cursors cs d)) = outbox_seq (phone d)"
  "phone_cursors (phone (with_cursors cs d)) = cs"
  "phone_outbox (phone (with_receipts qs d)) = phone_outbox (phone d)"
  "phone_actions (phone (with_receipts qs d)) = phone_actions (phone d)"
  "outbox_seq (phone (with_receipts qs d)) = outbox_seq (phone d)"
  by (simp_all add: with_actions_def with_outbox_def with_cursors_def with_receipts_def)

lemma phone_move_frame:
  "phone_outbox (phone d') = phone_outbox (phone d) \<Longrightarrow> phone_actions (phone d') = phone_actions (phone d) \<Longrightarrow>
   outbox_seq (phone d') = outbox_seq (phone d) \<Longrightarrow> phone_move d d'"
  by (simp add: phone_move_def phone_wf_def)

lemma update_outbox_Inr:
  "update_outbox d p f = Inr d' \<longleftrightarrow>
     d' = with_outbox (update_where p f (phone_outbox (phone d))) d \<and>
     (\<forall>r\<in>set (phone_outbox (phone d)). p r \<longrightarrow> \<not> outbox_update_aborts r (f r) \<and> outbox_check (f r))"
  by (auto simp: update_outbox_def split: if_splits)

lemma update_actions_Inr:
  "update_actions d p f = Inr d' \<longleftrightarrow>
     d' = with_actions (update_where p f (phone_actions (phone d))) d \<and>
     (\<forall>r\<in>set (phone_actions (phone d)). p r \<longrightarrow> \<not> action_update_aborts r (f r) \<and> action_check (f r))"
  by (auto simp: update_actions_def split: if_splits)

text \<open>The triggers alone keep every accepted update on the edges.\<close>

lemma outbox_trigger_edge:
  assumes "\<not> outbox_update_aborts r r'"
  shows "delivery_edge (po_phase r) (po_phase r')"
  using assms by (cases "po_phase r"; cases "po_phase r'")
    (auto simp: outbox_update_aborts_def intro: delivery_edge.intros)

lemma outbox_trigger_evolves:
  assumes "\<not> outbox_update_aborts r r'" and "po_id r' = po_id r"
  shows "outbox_evolves r r'"
proof -
  have "po_phase r \<noteq> DSent" using assms(1) by (simp add: outbox_update_aborts_def)
  then show ?thesis
    using assms r_into_rtranclp [of delivery_edge, OF outbox_trigger_edge [OF assms(1)]]
    by (simp add: outbox_evolves_def outbox_update_aborts_def)
qed

lemma action_trigger_evolves: "\<not> action_update_aborts r r' \<Longrightarrow> action_evolves r r'"
  by (auto simp: action_evolves_def action_update_aborts_def)

lemma update_outbox_move:
  assumes u: "update_outbox d p f = Inr d'" and id: "\<And>r. po_id (f r) = po_id r"
  shows "phone_move d d'"
proof -
  note u' = u [unfolded update_outbox_Inr]
  have "map po_id (update_where p f (phone_outbox (phone d))) = map po_id (phone_outbox (phone d))"
    by (rule map_update_where_frame) (rule id)
  then have "phone_wf d \<Longrightarrow> phone_wf d'"
    using u' id by (auto simp: phone_wf_def set_update_where)
  moreover have "grows outbox_evolves (phone_outbox (phone d)) (phone_outbox (phone d'))"
    using u' outbox_trigger_evolves [OF _ id] by (auto intro!: outbox_history.grows_update)
  ultimately show ?thesis using u' by (simp add: phone_move_def)
qed

lemma update_actions_move:
  assumes u: "update_actions d p f = Inr d'"
  shows "phone_move d d'"
proof -
  note u' = u [unfolded update_actions_Inr]
  have evolves: "action_evolves r (f r)" if "r \<in> set (phone_actions (phone d))" "p r" for r
    using u' that action_trigger_evolves by blast
  then have "map pa_token (update_where p f (phone_actions (phone d))) = map pa_token (phone_actions (phone d))"
    by (auto simp: update_where_def action_evolves_def)
  then have "phone_wf d \<Longrightarrow> phone_wf d'"
    using u' by (auto simp: phone_wf_def set_update_where)
  moreover have "grows action_evolves (phone_actions (phone d)) (phone_actions (phone d'))"
    using u' evolves by (auto intro!: action_history.grows_update)
  ultimately show ?thesis using u' by (simp add: phone_move_def)
qed

lemma insert_action_move:
  assumes "insert_action d r = Inr d'"
  shows "phone_move d d'"
  using assms by (auto simp: insert_action_def phone_move_def phone_wf_def
      intro: action_history.grows_append split: if_splits)

lemma insert_outbox_move:
  assumes "insert_outbox d r = Inr d'"
  shows "phone_move d d'"
proof (cases "d' = d")
  case False
  let ?r = "r\<lparr>po_id := outbox_seq (phone d) + 1\<rparr>"
  have i: "outbox_check r" "d' = d\<lparr>phone := (phone d)\<lparr>phone_outbox := phone_outbox (phone d) @ [?r],
      outbox_seq := outbox_seq (phone d) + 1\<rparr>\<rparr>"
    using assms False by (auto simp: insert_outbox_def split: if_splits)
  have "outbox_check ?r" using i(1) by (simp add: outbox_check_def)
  then have "phone_wf d \<Longrightarrow> phone_wf d'" by (auto simp: phone_wf_def i(2))
  then show ?thesis by (simp add: phone_move_def i(2) outbox_history.grows_append)
qed simp

subsection \<open>The operations\<close>

lemma queue_parts_move: "queue_parts sha findings s q n ps d = Inr d' \<Longrightarrow> phone_move d d'"
proof (induction ps arbitrary: n d)
  case (Cons p ps)
  then obtain r d1 where "insert_outbox d r = Inr d1" "queue_parts sha findings s q (Suc n) ps d1 = Inr d'"
    by (auto simp: bindE_eq_Inr split: if_splits)
  then show ?case using insert_outbox_move Cons.IH phone_move_trans by blast
qed simp

lemma write_move:
  assumes "write_connection e body d = (r, d')" and "\<And>x d1. body d = Inr (x, d1) \<Longrightarrow> phone_move d d1"
  shows "phone_move d d'"
proof (cases r)
  case (Inl x)
  then have "d' = d" using assms(1) write_connection_Inl by blast
  then show ?thesis by simp
next
  case (Inr x)
  then show ?thesis using assms by (simp add: write_connection_Inr)
qed

lemma begin_move: "phone_begin sha s t c m now d = (r, d') \<Longrightarrow> phone_move d d'"
  unfolding phone_begin_def
  by (erule write_move)
    (auto simp: begin_tx_def bindE_eq_Inr split: option.splits if_splits intro: update_actions_move)

lemma acknowledge_move: "phone_acknowledge s i mid d = (r, d') \<Longrightarrow> phone_move d d'"
proof -
  assume a: "phone_acknowledge s i mid d = (r, d')"
  have tx: "phone_move d d1" if "acknowledge_tx s i mid d = Inr (x, d1)" for x d1
    using that by (auto simp: acknowledge_tx_def bindE_eq_Inr Let_def split: option.splits if_splits
        intro: update_outbox_move)
  show ?thesis
    using a unfolding phone_acknowledge_def validated_def
    by (auto split: sum.splits intro: tx write_move)
qed

lemma phone_recover_move: "phone_recover s d = (r, d') \<Longrightarrow> phone_move d d'"
  unfolding phone_recover_def
  by (erule write_move) (auto simp: bindE_eq_Inr intro: update_outbox_move)

lemma set_delivery_move: "set_delivery p i d = Inr d' \<Longrightarrow> phone_move d d'"
  unfolding set_delivery_def by (erule update_outbox_move) simp

lemma delivery_scan_move: "delivery_scan sha s eligible silent now rows d = Inr (r, d') \<Longrightarrow> phone_move d d'"
proof (induction rows arbitrary: d)
  case (Cons row rows)
  have cur: "phone_move d1 (with_cursors cs d1)" for cs d1 by (rule phone_move_frame) simp_all
  show ?case
    using Cons.prems Cons.IH set_delivery_move phone_move_trans [OF set_delivery_move] cur
    by (auto simp: bindE_eq_Inr split: if_splits)
qed simp

lemma cursor_move: "phone_cursor s d = (c, d') \<Longrightarrow> phone_move d d'"
  by (rule phone_move_frame) (auto simp: phone_cursor_def Let_def)

lemma delivery_move: "phone_delivery sha s quiet eligible now d = (r, d') \<Longrightarrow> phone_move d d'"
  unfolding phone_delivery_def
  by (erule write_move)
    (auto simp: delivery_tx_def split: prod.splits option.splits if_splits
      intro: phone_move_trans cursor_move delivery_scan_move)

lemma phone_step_move: "phone_step sha d d' \<Longrightarrow> phone_move d d'"
proof (induction rule: phone_step.induct)
  case (complete c i d d')
  then show ?case
    by (intro phone_move_frame) (auto simp: complete_receipt_def update_receipts_Inr)
qed (auto simp: add_action_def finish_action_def phone_queue_def bindE_eq_Inr split: if_splits
    intro: insert_action_move update_actions_move queue_parts_move begin_move acknowledge_move phone_recover_move
      delivery_move)

lemma phone_run_move: "(phone_step sha)\<^sup>*\<^sup>* d d' \<Longrightarrow> phone_move d d'"
  by (induction rule: rtranclp_induct) (auto intro: phone_move_trans phone_step_move)

subsection \<open>A message that is handed out\<close>

lemma row_by_id:
  assumes "distinct (map po_id rows)" and "r \<in> set rows" and "q \<in> set rows" and "po_id q = po_id r"
  shows "q = r"
  using assms by (auto simp: distinct_map dest: inj_onD)

lemma set_delivery_others:
  assumes "set_delivery ph i d = Inr d1"
  shows "map po_id (phone_outbox (phone d1)) = map po_id (phone_outbox (phone d))"
    and "r \<in> set (phone_outbox (phone d)) \<Longrightarrow> po_id r \<noteq> i \<Longrightarrow> r \<in> set (phone_outbox (phone d1))"
    and "r \<in> set (phone_outbox (phone d)) \<Longrightarrow> po_id r = i \<Longrightarrow> r\<lparr>po_phase := ph\<rparr> \<in> set (phone_outbox (phone d1))"
    and "r \<in> set (phone_outbox (phone d1)) \<Longrightarrow> po_id r \<noteq> i \<Longrightarrow> r \<in> set (phone_outbox (phone d))"
    and "phone_cursors (phone d1) = phone_cursors (phone d)"
  using assms
  by (auto simp: set_delivery_def update_outbox_Inr set_update_where intro!: map_update_where_frame)

lemma delivery_scan_Some:
  assumes "distinct (map po_id (phone_outbox (phone d)))" and "distinct (map po_id rows)"
    and "set rows \<subseteq> set (phone_outbox (phone d))"
    and "delivery_scan sha s eligible silent now rows d = Inr (Some m, d')"
  shows "\<exists>row\<in>set rows. m = \<lparr>sm_delivery_id = po_id row, sm_packet = po_packet row\<rparr> \<and>
    sha (render (JObj (po_packet row))) = po_packet_hash row \<and> now < po_expires_at row \<and>
    (\<exists>d0. eligible row d0 = Inr True) \<and> (po_kind row = DKNotice \<longrightarrow> \<not> silent) \<and>
    row\<lparr>po_phase := DSending\<rparr> \<in> set (phone_outbox (phone d')) \<and>
    (\<forall>q\<in>set (phone_outbox (phone d')). po_scope_hash q = s \<and> po_group_key q = po_group_key row \<and>
       po_part q < po_part row \<longrightarrow> po_phase q = DSent) \<and>
    phone_cursors (phone d') = update_where (\<lambda>c. pk_scope_hash c = s) (\<lambda>c. c\<lparr>pk_last_send := now\<rparr>)
      (phone_cursors (phone d))"
  using assms
proof (induction rows arbitrary: d)
  case (Cons row rows)
  note sc = Cons.prems(4)
  have hash: "sha (render (JObj (po_packet row))) = po_packet_hash row" using sc by (auto split: if_splits)
  obtain alive where al: "(if po_expires_at row \<le> now then Inr False else eligible row d) = Inr alive"
    using sc hash by (auto simp: bindE_eq_Inr simp del: if_split)
  have in_d: "row \<in> set (phone_outbox (phone d))" using Cons.prems(3) by simp
  consider (drop) "\<not> alive" | (silent) "alive" "po_kind row = DKNotice \<and> silent"
    | (wait) "alive" "\<not> (po_kind row = DKNotice \<and> silent)"
      "\<exists>r\<in>set (phone_outbox (phone d)). po_scope_hash r = s \<and> po_group_key r = po_group_key row \<and>
         po_part r < po_part row \<and> po_phase r \<noteq> DSent"
    | (send) "alive" "\<not> (po_kind row = DKNotice \<and> silent)"
      "\<not> (\<exists>r\<in>set (phone_outbox (phone d)). po_scope_hash r = s \<and> po_group_key r = po_group_key row \<and>
         po_part r < po_part row \<and> po_phase r \<noteq> DSent)"
    by blast
  then show ?case
  proof cases
    case drop
    obtain d1 where d1: "set_delivery DDropped (po_id row) d = Inr d1"
      and rest: "delivery_scan sha s eligible silent now rows d1 = Inr (Some m, d')"
      using sc hash al drop by (auto simp: bindE_eq_Inr simp del: if_split)
    have "set rows \<subseteq> set (phone_outbox (phone d1))"
    proof
      fix x assume x: "x \<in> set rows"
      have "po_id x \<noteq> po_id row" using Cons.prems(2) imageI [OF x, of po_id] by auto
      then show "x \<in> set (phone_outbox (phone d1))"
        using set_delivery_others(2) [OF d1] Cons.prems(3) x by auto
    qed
    then show ?thesis
      using Cons.IH [OF _ _ _ rest] Cons.prems(1,2) set_delivery_others(1,5) [OF d1] by auto
  next
    case silent
    then have "delivery_scan sha s eligible silent now rows d = Inr (Some m, d')"
      using sc hash al by (simp del: if_split)
    then show ?thesis using Cons.IH Cons.prems(1-3) by auto
  next
    case wait
    have "list_ex (\<lambda>r. po_scope_hash r = s \<and> po_group_key r = po_group_key row \<and> po_part r < po_part row \<and>
        po_phase r \<noteq> DSent) (phone_outbox (phone d)) = True"
      using wait(3) by (auto simp: list_ex_iff)
    then have "delivery_scan sha s eligible silent now rows d = Inr (Some m, d')"
      using sc hash al wait(1,2)
      by (cases silent; cases "po_kind row = DKNotice") (simp_all del: if_split)
    then show ?thesis using Cons.IH Cons.prems(1-3) by auto
  next
    case send
    have "list_ex (\<lambda>r. po_scope_hash r = s \<and> po_group_key r = po_group_key row \<and> po_part r < po_part row \<and>
        po_phase r \<noteq> DSent) (phone_outbox (phone d)) = False"
      using send(3) by (auto simp: list_ex_iff)
    then obtain d1 where d1: "set_delivery DSending (po_id row) d = Inr d1"
      and m: "m = \<lparr>sm_delivery_id = po_id row, sm_packet = po_packet row\<rparr>"
      and d': "d' = with_cursors (update_where (\<lambda>c. pk_scope_hash c = s) (\<lambda>c. c\<lparr>pk_last_send := now\<rparr>)
                 (phone_cursors (phone d1))) d1"
      using sc hash al send(1,2) by (auto simp: bindE_eq_Inr simp del: if_split)
    have live: "now < po_expires_at row" "eligible row d = Inr True"
      using al send(1) by (auto split: if_splits)
    have "po_phase q = DSent" if "q \<in> set (phone_outbox (phone d1))" "po_scope_hash q = s"
      "po_group_key q = po_group_key row" "po_part q < po_part row" for q
    proof -
      have new: "row\<lparr>po_phase := DSending\<rparr> \<in> set (phone_outbox (phone d1))"
        using set_delivery_others(3) [OF d1 in_d] by simp
      have "po_id q \<noteq> po_id row"
        using row_by_id [OF _ new that(1)] Cons.prems(1) set_delivery_others(1) [OF d1] that(4) by auto
      then show ?thesis using set_delivery_others(4) [OF d1 that(1)] send(3) that by blast
    qed
    then show ?thesis
      using m hash live send(2) set_delivery_others(3,5) [OF d1] in_d d' by auto
  qed
qed simp

lemma ready_queue_rows:
  assumes "distinct (map po_id (phone_outbox (phone d)))"
  shows "distinct (map po_id (ready_queue s d))"
    and "set (ready_queue s d) \<subseteq> {r \<in> set (phone_outbox (phone d)). po_scope_hash r = s \<and> po_phase r = DReady}"
proof -
  let ?f = "filter (\<lambda>r. po_scope_hash r = s \<and> po_phase r = DReady) (phone_outbox (phone d))"
  have "distinct (map po_id (sort_key k ?f))" for k :: "outbox_row \<Rightarrow> int \<times> int"
    using assms by (simp add: distinct_map_filter distinct_map inj_on_def)
  then show "distinct (map po_id (ready_queue s d))"
    unfolding ready_queue_def by (simp add: take_map [symmetric] distinct_take)
  show "set (ready_queue s d) \<subseteq> {r \<in> set (phone_outbox (phone d)). po_scope_hash r = s \<and> po_phase r = DReady}"
    unfolding ready_queue_def by (auto dest!: in_set_takeD)
qed

lemma cursor_frame:
  assumes "phone_cursor s d = (c, d')"
  shows "phone_outbox (phone d') = phone_outbox (phone d)"
    and "List.find (\<lambda>c. pk_scope_hash c = s) (phone_cursors (phone d')) = c"
    and "s \<in> pk_scope_hash ` set (phone_cursors (phone d'))"
  using assms by (auto simp: phone_cursor_def Let_def)

text \<open>What a delivery that hands a message out found, and what it left behind.\<close>

lemma delivery_Some:
  assumes wf: "phone_wf d" and del: "phone_delivery sha s quiet eligible now d = (Inr (Some m), d')"
  shows "\<exists>row\<in>set (phone_outbox (phone d)). po_scope_hash row = s \<and> po_phase row = DReady \<and>
    m = \<lparr>sm_delivery_id = po_id row, sm_packet = po_packet row\<rparr> \<and> now < po_expires_at row \<and>
    (\<exists>d0. eligible row d0 = Inr True) \<and>
    (\<exists>c. fst (phone_cursor s d) = Some c \<and> pk_last_send c + 1 \<le> now \<and>
       (po_kind row = DKNotice \<longrightarrow> \<not> pk_muted c \<and> \<not> quiet)) \<and>
    row\<lparr>po_phase := DSending\<rparr> \<in> set (phone_outbox (phone d')) \<and>
    (\<forall>q\<in>set (phone_outbox (phone d')). po_scope_hash q = s \<and> po_group_key q = po_group_key row \<and>
       po_part q < po_part row \<longrightarrow> po_phase q = DSent) \<and>
    (\<exists>c. phone_cursor s d' = (Some c, d') \<and> pk_last_send c = now)"
proof -
  obtain c d1 where c: "phone_cursor s d = (Some c, d1)" "1 \<le> now - pk_last_send c"
    and scan: "delivery_scan sha s eligible (pk_muted c \<or> quiet) now (ready_queue s d1) d1 = Inr (Some m, d')"
    using del by (auto simp: phone_delivery_def write_connection_Inr delivery_tx_def
        split: prod.splits option.splits if_splits)
  note fr = cursor_frame [OF c(1)]
  have dist: "distinct (map po_id (phone_outbox (phone d1)))" using wf by (simp add: fr phone_wf_def)
  have sub: "set (ready_queue s d1) \<subseteq> set (phone_outbox (phone d1))"
    using ready_queue_rows(2) [OF dist, of s] by auto
  obtain row where row: "row \<in> set (ready_queue s d1)"
      "m = \<lparr>sm_delivery_id = po_id row, sm_packet = po_packet row\<rparr>" "now < po_expires_at row"
      "\<exists>d0. eligible row d0 = Inr True" "po_kind row = DKNotice \<longrightarrow> \<not> (pk_muted c \<or> quiet)"
      "row\<lparr>po_phase := DSending\<rparr> \<in> set (phone_outbox (phone d'))"
      "\<forall>q\<in>set (phone_outbox (phone d')). po_scope_hash q = s \<and> po_group_key q = po_group_key row \<and>
         po_part q < po_part row \<longrightarrow> po_phase q = DSent"
      "phone_cursors (phone d') = update_where (\<lambda>c. pk_scope_hash c = s) (\<lambda>c. c\<lparr>pk_last_send := now\<rparr>)
        (phone_cursors (phone d1))"
    using delivery_scan_Some [OF dist ready_queue_rows(1) [OF dist] sub scan] by blast
  have "map pk_scope_hash (phone_cursors (phone d')) = map pk_scope_hash (phone_cursors (phone d1))"
    unfolding row(8) by (rule map_update_where_frame) simp
  then have "s \<in> pk_scope_hash ` set (phone_cursors (phone d'))"
    using fr(3) by (metis list.set_map)
  moreover have "List.find (\<lambda>c. pk_scope_hash c = s) (phone_cursors (phone d')) = Some (c\<lparr>pk_last_send := now\<rparr>)"
    using fr(2) unfolding row(8) by (subst find_update_where) (auto dest: Prelude.find_Some_iff)
  ultimately have "\<exists>c. phone_cursor s d' = (Some c, d') \<and> pk_last_send c = now"
    by (simp add: phone_cursor_def Let_def)
  then show ?thesis
    using row c ready_queue_rows(2) [OF dist, of s] fr(1)
    by (intro bexI [of _ row]) auto
qed

subsection \<open>An action that is chosen\<close>

lemma phone_action_Inr:
  "phone_action sha s t d = Inr r \<longleftrightarrow>
     hex_token t \<and> select_action d s t = Some r \<and> sha (render (JObj (pa_payload r))) = pa_payload_hash r"
  by (auto simp: phone_action_def split: option.splits)

lemma select_action_Some:
  "select_action d s t = Some r \<Longrightarrow> r \<in> set (phone_actions (phone d)) \<and> pa_token r = t \<and> pa_scope_hash r = s"
  by (auto simp: select_action_def dest: Prelude.find_Some_iff)

lemma action_by_token:
  assumes "phone_wf d" and "r \<in> set (phone_actions (phone d))" and "q \<in> set (phone_actions (phone d))"
    and "pa_token q = pa_token r"
  shows "q = r"
  using assms by (auto simp: phone_wf_def distinct_map dest: inj_onD)

lemma begin_Inr:
  assumes wf: "phone_wf d" and b: "phone_begin sha s t c m now d = (Inr row, d')"
  shows "pa_choice row = Some c" and "select_action d' s t = Some row" and "phone_wf d'"
    and "\<exists>old. select_action d s t = Some old \<and> action_evolves old row \<and> (pa_phase old = AReady \<longrightarrow> now < pa_expires_at old)"
    and "\<exists>shown\<in>set (phone_outbox (phone d)). offered s t m shown \<and>
      (\<forall>q\<in>set (phone_outbox (phone d)). po_scope_hash q = s \<and> po_group_key q = po_group_key shown \<longrightarrow>
         po_phase q = DSent)"
proof -
  obtain old shown where old: "phone_action sha s t d = Inr old"
    and shown: "List.find (offered s t m) (phone_outbox (phone d)) = Some shown"
      "\<not> list_ex (\<lambda>r. po_scope_hash r = s \<and> po_group_key r = po_group_key shown \<and> po_phase r \<noteq> DSent)
         (phone_outbox (phone d))"
    and upd: "(if pa_phase old = AReady
        then if pa_expires_at old \<le> now then Inl PhoneError
             else update_actions d (\<lambda>r. pa_token r = t) (record_choice c)
        else if pa_choice old \<noteq> Some c then Inl PhoneError else Inr d) = Inr d'"
    and new: "phone_action sha s t d' = Inr row"
    using b by (auto simp: phone_begin_def write_connection_Inr begin_tx_def bindE_eq_Inr
        split: option.splits if_splits)
  show wf': "phone_wf d'" using begin_move [OF b] wf by (simp add: phone_move_def)
  have o1: "old \<in> set (phone_actions (phone d))" "pa_token old = t" "pa_scope_hash old = s"
      "select_action d s t = Some old"
    using old select_action_Some by (auto simp: phone_action_Inr)
  show sel: "select_action d' s t = Some row" using new by (simp add: phone_action_Inr)
  have r1: "row \<in> set (phone_actions (phone d'))" "pa_token row = t"
    using select_action_Some [OF sel] by auto
  have row: "if pa_phase old = AReady then row = record_choice c old \<and> now < pa_expires_at old
      else row = old \<and> pa_choice old = Some c"
  proof (cases "pa_phase old = AReady")
    case True
    then have u: "update_actions d (\<lambda>r. pa_token r = t) (record_choice c) = Inr d'" "now < pa_expires_at old"
      using upd by (auto split: if_splits)
    have "record_choice c old \<in> set (phone_actions (phone d'))"
      using u(1) o1 by (auto simp: update_actions_Inr set_update_where)
    then have "row = record_choice c old"
      using action_by_token [OF wf' _ r1(1)] r1(2) o1(2) by (simp add: record_choice_def)
    then show ?thesis using True u(2) by simp
  next
    case False
    then have "d' = d" "pa_choice old = Some c" using upd by (auto split: if_splits)
    then show ?thesis using False sel o1(4) by simp
  qed
  show "pa_choice row = Some c" using row by (auto simp: record_choice_def split: if_splits)
  have "pa_choice old = None" if "pa_phase old = AReady"
    using wf o1(1) that by (auto simp: phone_wf_def action_check_def)
  then have "action_evolves old row"
    using row by (auto simp: record_choice_def action_evolves_def split: if_splits)
  then show "\<exists>old. select_action d s t = Some old \<and> action_evolves old row \<and> (pa_phase old = AReady \<longrightarrow> now < pa_expires_at old)"
    using o1(4) row by (auto split: if_splits)
  show "\<exists>shown\<in>set (phone_outbox (phone d)). offered s t m shown \<and>
      (\<forall>q\<in>set (phone_outbox (phone d)). po_scope_hash q = s \<and> po_group_key q = po_group_key shown \<longrightarrow>
         po_phase q = DSent)"
    using Prelude.find_Some_iff [OF shown(1)] shown(2) by (auto simp: list_ex_iff)
qed

text \<open>The rows a run starts with are still there, evolved.\<close>

lemma action_evolved:
  assumes run: "phone_move d d'" and wf: "phone_wf d" and sel: "select_action d s t = Some r"
  shows "\<exists>r'. select_action d' s t = Some r' \<and> action_evolves r r'"
proof -
  note sl = select_action_Some [OF sel]
  obtain r' where r': "r' \<in> set (phone_actions (phone d'))" "action_evolves r r'"
    using action_history.grows_mem [of "phone_actions (phone d)" "phone_actions (phone d')" r] run sl
    by (auto simp: phone_move_def)
  have wf': "phone_wf d'" using run wf by (simp add: phone_move_def)
  have t: "pa_token r' = t" "pa_scope_hash r' = s" using r'(2) sl by (auto simp: action_evolves_def)
  then obtain q where q: "select_action d' s t = Some q"
    using r'(1) by (cases "select_action d' s t") (auto simp: select_action_def find_None_iff2)
  have "q = r'" using action_by_token [OF wf' r'(1)] select_action_Some [OF q] t by auto
  then show ?thesis using q r'(2) by blast
qed

lemma queue_parts_again:
  assumes "queue_parts sha findings s q n ps d = Inr d1"
    and "grows outbox_evolves (phone_outbox (phone d1)) (phone_outbox (phone d2))"
  shows "queue_parts sha findings s q n ps d2 = Inr d2"
  using assms
proof (induction ps arbitrary: n d)
  case (Cons p ps)
  obtain t u where t: "packet_ok findings p" "encode p = Inr t" "encode (qr_subject q) = Inr u"
    using Cons.prems(1) by (auto simp: bindE_eq_Inr split: if_splits)
  define r where "r = \<lparr>po_id = 0, po_scope_hash = s, po_source_key = qr_key q @ '':'' @ int_text (int n),
      po_group_key = qr_key q, po_part = int n, po_project_id = qr_project q, po_kind = qr_kind q,
      po_subject = canon_obj (qr_subject q), po_packet = canon_obj p, po_packet_hash = sha t,
      po_action_token = qr_token q, po_expires_at = qr_expires q, po_phase = DReady, po_message_id = None\<rparr>"
  obtain d' where d': "insert_outbox d r = Inr d'" "queue_parts sha findings s q (Suc n) ps d' = Inr d1"
    using Cons.prems(1) t by (auto simp: bindE_eq_Inr r_def)
  have chk: "outbox_check r" using d'(1) by (auto simp: insert_outbox_def split: if_splits)
  have "source_key r \<in> source_key ` set (phone_outbox (phone d'))"
    using d'(1) by (auto simp: insert_outbox_def source_key_def split: if_splits)
  then obtain x where x: "x \<in> set (phone_outbox (phone d'))" "source_key x = source_key r" by auto
  have "grows outbox_evolves (phone_outbox (phone d')) (phone_outbox (phone d2))"
    using queue_parts_move [OF d'(2)] Cons.prems(2) outbox_history.grows_trans by (auto simp: phone_move_def)
  then obtain y where "y \<in> set (phone_outbox (phone d2))" "outbox_evolves x y"
    using outbox_history.grows_mem x(1) by blast
  then have "source_key r \<in> source_key ` set (phone_outbox (phone d2))"
    using x(2) by (auto simp: outbox_evolves_def source_key_def intro!: image_eqI [of _ _ y])
  then have "insert_outbox d2 r = Inr d2" using chk by (simp add: insert_outbox_def)
  then show ?case using t Cons.IH [OF d'(2) Cons.prems(2)] by (simp add: r_def)
qed simp

subsection \<open>Properties\<close>

text \<open>
  C37: a phone message is handed out for sending at most once: whatever the phone tables go through after a
  delivery, crash recovery, acknowledgements and further queueing included, no later delivery, of any
  scope and at any time, hands out the same message.
\<close>

theorem phone_message_sent_at_most_once:
  assumes "phone_wf d" and "phone_delivery sha s quiet eligible now d = (Inr (Some m), d1)"
    and "(phone_step sha)\<^sup>*\<^sup>* d1 d2"
    and "phone_delivery sha s2 quiet2 eligible2 now2 d2 = (Inr (Some m2), d3)"
  shows "sm_delivery_id m2 \<noteq> sm_delivery_id m"
proof
  assume same: "sm_delivery_id m2 = sm_delivery_id m"
  obtain row where row: "m = \<lparr>sm_delivery_id = po_id row, sm_packet = po_packet row\<rparr>"
      "row\<lparr>po_phase := DSending\<rparr> \<in> set (phone_outbox (phone d1))"
    using delivery_Some [OF assms(1,2)] by blast
  have wf1: "phone_wf d1" using delivery_move [OF assms(2)] assms(1) by (simp add: phone_move_def)
  note run = phone_run_move [OF assms(3)]
  have wf2: "phone_wf d2" using run wf1 by (simp add: phone_move_def)
  obtain r where r: "r \<in> set (phone_outbox (phone d2))" "outbox_evolves (row\<lparr>po_phase := DSending\<rparr>) r"
    using outbox_history.grows_mem [OF _ row(2)] run by (auto simp: phone_move_def)
  obtain row2 where row2: "row2 \<in> set (phone_outbox (phone d2))" "po_phase row2 = DReady"
      "m2 = \<lparr>sm_delivery_id = po_id row2, sm_packet = po_packet row2\<rparr>"
    using delivery_Some [OF wf2 assms(4)] by blast
  have "row2 = r"
    using row_by_id [OF _ r(1) row2(1)] wf2 r(2) row(1) row2(3) same
    by (simp add: phone_wf_def outbox_evolves_def)
  then show False
    using r(2) row2(2) delivery_edge_sending [of "po_phase r"] by (auto simp: outbox_evolves_def)
qed

text \<open>A store with one message of two parts that offers an action, ready to be sent.\<close>

definition sample_token :: string where
  "sample_token = replicate 32 CHR ''a''"

definition sample_request :: queue_request where
  "sample_request = \<lparr>qr_key = ''update:7'', qr_packets = [[(''text'', JStr ''part 1'')], [(''text'', JStr ''part 2'')]],
     qr_expires = 300, qr_project = None, qr_kind = DKReply, qr_subject = [], qr_token = Some sample_token\<rparr>"

definition sample_queued :: db where
  "sample_queued = (case add_action sample_sha sample_scope sample_token AKSubmit [] 300 (sample_db Queued) of
     Inl e \<Rightarrow> sample_db Queued
   | Inr (t, d) \<Rightarrow> (case phone_queue sample_sha (\<lambda>t. False) sample_scope sample_request d of
        Inl e \<Rightarrow> d | Inr d' \<Rightarrow> d'))"

abbreviation sample_deliver :: "int \<Rightarrow> db \<Rightarrow> (exn + send_message option) \<times> db" where
  "sample_deliver \<equiv> phone_delivery sample_sha sample_scope False (\<lambda>r d. Inr True)"

lemma sample_queued_wf: "phone_wf sample_queued"
proof -
  have "distinct (map po_id (phone_outbox (phone sample_queued)))"
    "list_all (\<lambda>r. po_id r \<le> outbox_seq (phone sample_queued)) (phone_outbox (phone sample_queued))"
    "distinct (map pa_token (phone_actions (phone sample_queued)))"
    by code_simp+
  moreover have "list_all (\<lambda>r. sql_length (po_packet_hash r) = 64 \<and> 0 \<le> po_part r \<and> po_phase r = DReady \<and>
      po_message_id r = None) (phone_outbox (phone sample_queued))"
    "list_all (\<lambda>r. sql_length (pa_payload_hash r) = 64 \<and> pa_phase r = AReady \<and> pa_choice r = None \<and>
      pa_outcome r = None) (phone_actions (phone sample_queued))"
    by code_simp+
  ultimately show ?thesis by (auto simp: phone_wf_def list_all_iff outbox_check_def action_check_def)
qed

lemma delivered_id:
  assumes "map_sum (\<lambda>e. ()) (map_option sm_delivery_id) (fst x) = Inr (Some i)"
  shows "\<exists>m. x = (Inr (Some m), snd x) \<and> sm_delivery_id m = i"
  using assms by (cases x; cases "fst x") (auto split: option.splits)

theorem phone_message_sent_at_most_once_witness:
  "\<exists>m m2 d1 d2 d3. sample_deliver 100 sample_queued = (Inr (Some m), d1) \<and>
     phone_acknowledge sample_scope 1 (Some 11) d1 = (Inr (), d2) \<and>
     sample_deliver 102 d2 = (Inr (Some m2), d3) \<and> sm_delivery_id m2 \<noteq> sm_delivery_id m"
proof -
  let ?a = "sample_deliver 100 sample_queued"
  let ?b = "phone_acknowledge sample_scope 1 (Some 11) (snd ?a)"
  let ?c = "sample_deliver 102 (snd ?b)"
  have "map_sum (\<lambda>e. ()) (map_option sm_delivery_id) (fst ?a) = Inr (Some 1)" by code_simp
  then obtain m where m: "?a = (Inr (Some m), snd ?a)" using delivered_id by blast
  have "map_sum (\<lambda>e. ()) id (fst ?b) = Inr ()" by code_simp
  then have b: "?b = (Inr (), snd ?b)" by (cases ?b; cases "fst ?b") auto
  have "map_sum (\<lambda>e. ()) (map_option sm_delivery_id) (fst ?c) = Inr (Some 2)" by code_simp
  then obtain m2 where m2: "?c = (Inr (Some m2), snd ?c)" using delivered_id by blast
  have "(phone_step sample_sha)\<^sup>*\<^sup>* (snd ?a) (snd ?b)"
    using phone_step.acknowledge [OF b] by blast
  from phone_message_sent_at_most_once [OF sample_queued_wf m this m2] show ?thesis
    using m b m2 by blast
qed

text \<open>
  C38: a delivery hands out a ready message of its own scope that has not expired and passed the eligibility
  check, whose earlier parts were all sent; a notice only outside quiet hours and unless muted; at
  least one second after the previous delivery, so that a second one at the same time gets nothing.
\<close>

theorem phone_parts_in_order:
  assumes "phone_wf d" and "phone_delivery sha s quiet eligible now d = (Inr (Some m), d')"
  shows "(\<exists>row\<in>set (phone_outbox (phone d)). po_scope_hash row = s \<and> po_phase row = DReady \<and>
      m = \<lparr>sm_delivery_id = po_id row, sm_packet = po_packet row\<rparr> \<and> now < po_expires_at row \<and>
      (\<exists>d0. eligible row d0 = Inr True) \<and>
      (\<exists>c. fst (phone_cursor s d) = Some c \<and> pk_last_send c + 1 \<le> now \<and>
         (po_kind row = DKNotice \<longrightarrow> \<not> pk_muted c \<and> \<not> quiet)) \<and>
      row\<lparr>po_phase := DSending\<rparr> \<in> set (phone_outbox (phone d')) \<and>
      (\<forall>q\<in>set (phone_outbox (phone d')). po_scope_hash q = s \<and> po_group_key q = po_group_key row \<and>
         po_part q < po_part row \<longrightarrow> po_phase q = DSent)) \<and>
    phone_delivery sha s quiet2 eligible2 now d' = (Inr None, d')"
proof -
  obtain c where "phone_cursor s d' = (Some c, d')" "pk_last_send c = now"
    using delivery_Some [OF assms] by blast
  then have "phone_delivery sha s quiet2 eligible2 now d' = (Inr None, d')"
    by (simp add: phone_delivery_def write_connection_Inr delivery_tx_def)
  then show ?thesis using delivery_Some [OF assms] by blast
qed

theorem phone_parts_in_order_witness:
  "\<exists>d1. snd (sample_deliver 100 sample_queued) = d1 \<and> sample_deliver 100 d1 = (Inr None, d1)"
proof -
  let ?a = "sample_deliver 100 sample_queued"
  have "map_sum (\<lambda>e. ()) (map_option sm_delivery_id) (fst ?a) = Inr (Some 1)" by code_simp
  then obtain m where m: "?a = (Inr (Some m), snd ?a)" using delivered_id by blast
  from phone_parts_in_order [OF sample_queued_wf m, of False "\<lambda>r d. Inr True"] show ?thesis by blast
qed

text \<open>
  C39: the first choice made for an action stands: it is accepted only on a message that offers the
  action, when every message of its group was sent, and before the action expires; whatever happens
  later, every accepted choice for the action is the same one, on the same content, and an action
  that is done stays as it is.
\<close>

theorem phone_choice_final:
  assumes "phone_wf d" and "phone_begin sha s t c m now d = (Inr row, d1)"
    and "(phone_step sha)\<^sup>*\<^sup>* d1 d2" and "phone_begin sha s t c2 m2 now2 d2 = (Inr row2, d3)"
  shows "c2 = c \<and> pa_kind row2 = pa_kind row \<and> pa_payload row2 = pa_payload row \<and>
    (pa_phase row = ADone \<longrightarrow> row2 = row) \<and>
    (\<exists>old. select_action d s t = Some old \<and> pa_payload row = pa_payload old \<and>
       (pa_phase old = AReady \<longrightarrow> now < pa_expires_at old)) \<and>
    (\<exists>shown\<in>set (phone_outbox (phone d)). offered s t m shown \<and>
      (\<forall>q\<in>set (phone_outbox (phone d)). po_scope_hash q = s \<and> po_group_key q = po_group_key shown \<longrightarrow>
         po_phase q = DSent))"
proof -
  note b1 = begin_Inr [OF assms(1,2)]
  have mv: "phone_move d1 d2" by (rule phone_run_move [OF assms(3)])
  have wf2: "phone_wf d2" using mv b1(3) by (simp add: phone_move_def)
  note b2 = begin_Inr [OF wf2 assms(4)]
  obtain r where r: "select_action d2 s t = Some r" "action_evolves row r"
    using action_evolved [OF mv b1(3) b1(2)] by blast
  then have "action_evolves row row2" using b2(4) action_history.evolves_trans by auto
  then have "pa_choice row2 = pa_choice row" "pa_kind row2 = pa_kind row" "pa_payload row2 = pa_payload row"
    "pa_phase row = ADone \<longrightarrow> row2 = row"
    using b1(1) by (auto simp: action_evolves_def)
  moreover have "\<exists>old. select_action d s t = Some old \<and> pa_payload row = pa_payload old \<and>
       (pa_phase old = AReady \<longrightarrow> now < pa_expires_at old)"
    using b1(4) by (auto simp: action_evolves_def)
  ultimately show ?thesis using b1(1,5) b2(1) by auto
qed

definition sample_sent :: db where
  "sample_sent = snd (phone_acknowledge sample_scope 2 (Some 12) (snd (sample_deliver 102
     (snd (phone_acknowledge sample_scope 1 (Some 11) (snd (sample_deliver 100 sample_queued)))))))"

theorem phone_choice_final_witness:
  "\<exists>row d1. phone_begin sample_sha sample_scope sample_token ''confirm'' 12 110 sample_sent = (Inr row, d1) \<and>
     fst (phone_begin sample_sha sample_scope sample_token ''confirm'' 12 500 d1) = Inr row \<and>
     pa_payload row = []"
proof -
  let ?b = "phone_begin sample_sha sample_scope sample_token ''confirm'' 12 110 sample_sent"
  let ?c = "phone_begin sample_sha sample_scope sample_token ''confirm'' 12 500 (snd ?b)"
  have wf: "phone_wf sample_sent"
    unfolding sample_sent_def
    using phone_move_trans [OF phone_move_trans [OF phone_move_trans [OF delivery_move acknowledge_move] delivery_move]
        acknowledge_move, OF prod.collapse [symmetric] prod.collapse [symmetric] prod.collapse [symmetric]
        prod.collapse [symmetric]] sample_queued_wf
    by (auto simp: phone_move_def)
  have eq: "map_sum (\<lambda>e. ()) id (fst ?b) = map_sum (\<lambda>e. ()) id (fst ?c)" and
    pay: "map_sum (\<lambda>e. ()) pa_payload (fst ?b) = Inr []" by code_simp+
  obtain row where b: "?b = (Inr row, snd ?b)" using pay by (cases ?b; cases "fst ?b") auto
  then have "fst ?c = Inr row" using eq by (cases "fst ?c") (auto simp: prod_eq_iff)
  then have c: "?c = (Inr row, snd ?c)" by (simp add: prod_eq_iff)
  have "pa_payload row = []" using pay b by (metis fst_conv map_sum.simps(2) sum.inject(2))
  then show ?thesis
    using phone_choice_final [OF wf b rtranclp.rtrancl_refl c] b c by (metis fst_conv)
qed

text \<open>
  A queued reply is queued once: after it was queued, queueing it again, after anything else that
  happened to the tables, adds and changes nothing.
\<close>

theorem phone_queue_once:
  assumes "phone_queue sha findings s q d = Inr d1" and "(phone_step sha)\<^sup>*\<^sup>* d1 d2"
  shows "phone_queue sha findings s q d2 = Inr d2"
  using assms(1) phone_run_move [OF assms(2)]
  by (auto simp: phone_queue_def phone_move_def intro: queue_parts_again split: if_splits)

theorem phone_queue_once_witness:
  "\<exists>d1. phone_queue sample_sha (\<lambda>t. False) sample_scope (sample_request\<lparr>qr_token := None\<rparr>) (sample_db Queued) = Inr d1 \<and>
     length (phone_outbox (phone d1)) = 2 \<and>
     phone_queue sample_sha (\<lambda>t. False) sample_scope (sample_request\<lparr>qr_token := None\<rparr>) d1 = Inr d1"
proof -
  let ?q = "phone_queue sample_sha (\<lambda>t. False) sample_scope (sample_request\<lparr>qr_token := None\<rparr>) (sample_db Queued)"
  have "map_sum (\<lambda>e. ()) (\<lambda>d. length (phone_outbox (phone d))) ?q = Inr 2" by code_simp
  then obtain d1 where "?q = Inr d1" "length (phone_outbox (phone d1)) = 2" by (cases ?q) auto
  then show ?thesis using phone_queue_once [OF _ rtranclp.rtrancl_refl] by blast
qed

end
