(* ===== verification/Diffs.thy ===== *)
theory Diffs
  imports Json Errors
begin

text \<open>
  The reviewed change set (diff_types.py): \<open>UnifiedDiff\<close> with its entries, the limits of a diff and the
  commit identities Git reports. \<open>unified_diff_json\<close> is what \<open>to_dict\<close> returns.
\<close>

datatype diff_status = FileAdded | FileModified | FileDeleted | FileRenamed | FileTypeChanged

datatype diff_content_kind = TextContent | BinaryContent | LargeContent | OmittedContent

fun diff_status_value :: "diff_status \<Rightarrow> string" where
  "diff_status_value FileAdded = ''added''"
| "diff_status_value FileModified = ''modified''"
| "diff_status_value FileDeleted = ''deleted''"
| "diff_status_value FileRenamed = ''renamed''"
| "diff_status_value FileTypeChanged = ''type_changed''"

definition diff_status_from_git :: "string \<Rightarrow> exn + diff_status" where
  "diff_status_from_git code =
     (case map_of [(''A'', FileAdded), (''M'', FileModified), (''D'', FileDeleted),
                   (''R'', FileRenamed), (''T'', FileTypeChanged)] code of
        Some s \<Rightarrow> Inr s | None \<Rightarrow> Inl DiffConflictError)"

fun content_kind_value :: "diff_content_kind \<Rightarrow> string" where
  "content_kind_value TextContent = ''text''"
| "content_kind_value BinaryContent = ''binary''"
| "content_kind_value LargeContent = ''large''"
| "content_kind_value OmittedContent = ''omitted''"

record diff_limits =
  dl_max_files :: int
  dl_max_text_file_bytes :: int
  dl_max_patch_bytes :: int
  dl_context_lines :: int

definition make_diff_limits :: "int \<Rightarrow> int \<Rightarrow> int \<Rightarrow> int \<Rightarrow> exn + diff_limits" where
  "make_diff_limits max_files max_text_file_bytes max_patch_bytes context_lines =
     bindE (ensure (1 \<le> max_files \<and> max_files \<le> 1000) ValueErr) (\<lambda>_.
     bindE (ensure (1 \<le> max_text_file_bytes \<and> max_text_file_bytes \<le> 4 * 1024 * 1024) ValueErr) (\<lambda>_.
     bindE (ensure (1 \<le> max_patch_bytes \<and> max_patch_bytes \<le> 8 * 1024 * 1024) ValueErr) (\<lambda>_.
     bindE (ensure (0 \<le> context_lines \<and> context_lines \<le> 10) ValueErr) (\<lambda>_.
     Inr \<lparr>dl_max_files = max_files, dl_max_text_file_bytes = max_text_file_bytes,
       dl_max_patch_bytes = max_patch_bytes, dl_context_lines = context_lines\<rparr>))))"

record diff_entry =
  de_status :: diff_status
  de_path :: string
  de_previous_path :: "string option"
  de_content_kind :: diff_content_kind
  de_old_size :: "int option"
  de_new_size :: "int option"
  de_patch :: "string option"
  de_summary :: "string option"

record unified_diff =
  ud_base_commit :: string
  ud_files :: "diff_entry list"
  ud_patch_bytes :: int
  ud_truncated :: bool

definition json_opt_of :: "('a \<Rightarrow> json) \<Rightarrow> 'a option \<Rightarrow> json" where
  "json_opt_of f x = (case x of None \<Rightarrow> JNull | Some y \<Rightarrow> f y)"

definition diff_entry_json :: "diff_entry \<Rightarrow> json" where
  "diff_entry_json e = JObj
     [(''status'', JStr (diff_status_value (de_status e))), (''path'', JStr (de_path e)),
      (''previous_path'', json_opt_of JStr (de_previous_path e)),
      (''content_kind'', JStr (content_kind_value (de_content_kind e))),
      (''old_size'', json_opt_of JInt (de_old_size e)), (''new_size'', json_opt_of JInt (de_new_size e)),
      (''patch'', json_opt_of JStr (de_patch e)), (''summary'', json_opt_of JStr (de_summary e))]"

definition unified_diff_fields :: "unified_diff \<Rightarrow> payload" where
  "unified_diff_fields d =
     [(''base_commit'', JStr (ud_base_commit d)), (''files'', JList (map diff_entry_json (ud_files d))),
      (''patch_bytes'', JInt (ud_patch_bytes d)), (''truncated'', JBool (ud_truncated d))]"

record diff_change =
  dc_status :: diff_status
  dc_path :: string
  dc_previous_path :: "string option"
  dc_old_mode :: string
  dc_new_mode :: string
  dc_old_object :: "string option"
  dc_tracked :: bool

definition summarized ::
  "diff_change \<Rightarrow> diff_content_kind \<Rightarrow> int option \<Rightarrow> int option \<Rightarrow> string \<Rightarrow> diff_entry" where
  "summarized change kind old_size new_size summary =
     \<lparr>de_status = dc_status change, de_path = dc_path change, de_previous_path = dc_previous_path change,
      de_content_kind = kind, de_old_size = old_size, de_new_size = new_size, de_patch = None,
      de_summary = Some summary\<rparr>"

subsection \<open>Commit identities\<close>

definition hexdigit :: "char \<Rightarrow> bool" where
  "hexdigit c \<longleftrightarrow> c \<in> set (hex_digits @ ''ABCDEF'')"

definition lower_char :: "char \<Rightarrow> char" where
  "lower_char c = (if 65 \<le> code_point c \<and> code_point c \<le> 90 then char_of (code_point c + 32) else c)"

definition valid_object_id :: "string \<Rightarrow> bool" where
  "valid_object_id v \<longleftrightarrow> length v \<in> {40, 64} \<and> list_all hexdigit v"

text \<open>\<open>decode_object_id\<close> on the bytes Git wrote; a byte above 127 is not ASCII.\<close>

definition decode_object_id :: "string \<Rightarrow> exn + string" where
  "decode_object_id bytes =
     bindE (ensure (list_all (\<lambda>c. code_point c < 128) bytes) DiffConflictError) (\<lambda>_.
       let object_id = map lower_char (strip bytes) in
       if valid_object_id object_id then Inr object_id else Inl DiffConflictError)"

lemma lower_hexdigit: "hexdigit c \<Longrightarrow> lower_char c \<in> set hex_digits"
proof -
  have "\<forall>c\<in>set (hex_digits @ ''ABCDEF''). lower_char c \<in> set hex_digits" by code_simp
  then show "hexdigit c \<Longrightarrow> lower_char c \<in> set hex_digits" unfolding hexdigit_def by (rule bspec)
qed

lemma unified_diff_no_nan: "\<not> has_nan_fields (unified_diff_fields u)"
  by (auto simp: unified_diff_fields_def has_nan_list_ex diff_entry_json_def json_opt_of_def
      split: option.splits)

end
