(* ===== verification/Submission.thy ===== *)
theory Submission
  imports Teams RuntimeEvents Diffs
begin

text \<open>
  \<open>JobSubmissionService\<close> (job_submission.py): a client's submission is checked, frozen together with the
  project policy, the Git head and the agent binding of that moment, and stored as a new job, either
  at once or after an explicit confirmation from the phone. The Git process, the identity of the new
  job and the digest are arguments; \<open>git root\<close> is what running \<open>git rev-parse\<close> there gives: an exception,
  or the exit status and the bytes written.
\<close>

subsection \<open>The client's payload\<close>

record job_submission =
  js_project_id :: string
  js_request :: string
  js_runtime :: job_runtime
  js_model :: "string option"
  js_agent_id :: "string option"

fun runtime_from_value :: "string \<Rightarrow> exn + job_runtime" where
  "runtime_from_value v =
     (if v = ''auto'' then Inr Auto else if v = ''claude'' then Inr Claude
      else if v = ''codex'' then Inr Codex else if v = ''local'' then Inr Local else Inl ValueErr)"

text \<open>An absent optional field and an explicit null are the same.\<close>

definition submission_text :: "(string \<Rightarrow> bool) \<Rightarrow> json \<Rightarrow> exn + string option" where
  "submission_text ok v =
     (case v of
        JNull \<Rightarrow> Inr None
      | JStr s \<Rightarrow> if ok s then Inr (Some s) else Inl JobSubmissionValidationError
      | _ \<Rightarrow> Inl JobSubmissionValidationError)"

definition from_payload :: "json \<Rightarrow> exn + job_submission" where
  "from_payload payload =
     (case payload of
        JObj p \<Rightarrow>
          if \<not> {''project_id'', ''request''} \<subseteq> fst ` set p then Inl JobSubmissionValidationError
          else if \<not> fst ` set p \<subseteq> {''project_id'', ''request'', ''runtime'', ''model'', ''agent_id''}
          then Inl JobSubmissionValidationError
          else (case (get_default p ''project_id'' JNull, get_default p ''request'' JNull,
                      get_default p ''runtime'' (JStr ''auto'')) of
              (JStr project_id, JStr request, JStr named) \<Rightarrow>
                if \<not> plain_text project_id then Inl JobSubmissionValidationError
                else if strip request = [] \<or> NUL \<in> set request \<or> 262144 < utf8_len request
                then Inl JobSubmissionValidationError
                else bindE (rethrow (\<lambda>e. isa e ValueErr) JobSubmissionValidationError
                              (runtime_from_value named)) (\<lambda>runtime.
                  bindE (submission_text plain_text (get_default p ''model'' JNull)) (\<lambda>model.
                  bindE (submission_text (\<lambda>s. plain_text s \<and> length s \<le> 192)
                           (get_default p ''agent_id'' JNull)) (\<lambda>agent_id.
                    Inr \<lparr>js_project_id = project_id, js_request = request, js_runtime = runtime,
                         js_model = model, js_agent_id = agent_id\<rparr>)))
            | _ \<Rightarrow> Inl JobSubmissionValidationError)
      | _ \<Rightarrow> Inl JobSubmissionValidationError)"

subsection \<open>What is frozen\<close>

record submission_service =
  ss_active_project_ids :: "string list"
  ss_teams :: "team_repository option"
  ss_config_version :: int

definition load_project :: "submission_service \<Rightarrow> string \<Rightarrow> db \<Rightarrow> exn + project_row" where
  "load_project ss project_id d =
     (if project_id \<notin> set (ss_active_project_ids ss) then Inl JobSubmissionNotFoundError
      else handle (\<lambda>e. if isa e ProjectNotFoundError then JobSubmissionNotFoundError
                     else if isa e ProjectRepositoryError then JobSubmissionUnavailableError else e)
             (project_get project_id d))"

definition read_repo_head :: "(string \<Rightarrow> exn + int \<times> string) \<Rightarrow> string \<Rightarrow> exn + string" where
  "read_repo_head git root =
     bindE (handle (\<lambda>e. if isa e ValueErr then JobSubmissionConflictError
                       else if isa e ProcessRunnerError then JobSubmissionUnavailableError else e)
              (git root)) (\<lambda>(returncode, stdout).
       if returncode \<noteq> 0 then Inl JobSubmissionConflictError
       else if \<not> list_all (\<lambda>c. code_point c < 128) stdout then Inl JobSubmissionConflictError
       else let head = strip stdout in
         if length head \<notin> {40, 64} \<or> \<not> list_all hexdigit head then Inl JobSubmissionConflictError
         else Inr (map lower_char head))"

definition project_snapshot :: "project_row \<Rightarrow> json" where
  "project_snapshot r = JObj
     [(''cloud_allowed'', JBool (p_cloud_allowed r)), (''id'', JStr (p_id r)),
      (''permission_mode'', JStr (permission_mode_value (p_permission_mode r))), (''root'', JStr (p_root r)),
      (''sensitivity'', JStr (sensitivity_value (p_sensitivity r)))]"

text \<open>A runtime or model the client names must be the one of the selected agent.\<close>

definition select_agent ::
  "(string \<Rightarrow> string) \<Rightarrow> submission_service \<Rightarrow> job_submission \<Rightarrow> string \<Rightarrow> db
   \<Rightarrow> exn + payload \<times> job_submission" where
  "select_agent sha ss submission agent d =
     (case ss_teams ss of
        None \<Rightarrow> Inl JobSubmissionConflictError
      | Some tr \<Rightarrow>
          rethrow (\<lambda>e. isa e TeamConfigError \<or> isa e TeamStoreError \<or> isa e ValueErr) JobSubmissionConflictError
            (bindE (team_snapshot sha tr (js_project_id submission) agent d) (\<lambda>b.
             bindE (item (JObj b) ''connection'') (\<lambda>connection.
             bindE (item connection ''kind'') (\<lambda>kind.
             bindE (case kind of JStr k \<Rightarrow> runtime_from_value k | _ \<Rightarrow> Inl ValueErr) (\<lambda>selected.
             bindE (item (JObj b) ''model'') (\<lambda>model.
             bindE (item model ''model'') (\<lambda>selected_model.
               if js_runtime submission \<notin> {Auto, selected} \<or>
                  (case js_model submission of None \<Rightarrow> False | Some m \<Rightarrow> JStr m \<noteq> selected_model)
               then Inl TeamConfigError
               else Inr (b, submission\<lparr>js_runtime := selected,
                 js_model := (case selected_model of JStr m \<Rightarrow> Some m | _ \<Rightarrow> None)\<rparr>)))))))))"

definition prepare ::
  "(string \<Rightarrow> string) \<Rightarrow> (string \<Rightarrow> exn + int \<times> string) \<Rightarrow> submission_service \<Rightarrow> string \<Rightarrow> json \<Rightarrow> db
   \<Rightarrow> exn + job_create" where
  "prepare sha git ss new_id payload d =
     bindE (from_payload payload) (\<lambda>submission.
     bindE (load_project ss (js_project_id submission) d) (\<lambda>project.
     bindE (case js_agent_id submission of
              None \<Rightarrow> Inr (None, submission)
            | Some agent \<Rightarrow> bindE (select_agent sha ss submission agent d) (\<lambda>(b, s). Inr (Some b, s)))
       (\<lambda>(b, submission).
     bindE (read_repo_head git (p_root project)) (\<lambda>repo_head.
       Inr \<lparr>jc_id = new_id, jc_project_id = js_project_id submission, jc_request = js_request submission,
         jc_request_snapshot =
           [(''config_version'', JInt (ss_config_version ss)), (''model'', json_opt JStr (js_model submission)),
            (''policy_version'', JInt 1), (''project'', project_snapshot project),
            (''prompt_hash'', JStr (''sha256:'' @ sha (js_request submission))),
            (''repo_head'', JStr repo_head), (''runtime'', JStr (runtime_value (js_runtime submission)))] @
           (case b of None \<Rightarrow> [] | Some frozen \<Rightarrow> [(''agent_binding'', JObj frozen)]),
         jc_state = Created, jc_runtime = js_runtime submission, jc_model = js_model submission,
         jc_worktree_path = None\<rparr>))))"

subsection \<open>Storing\<close>

definition submit ::
  "(string \<Rightarrow> string) \<Rightarrow> (string \<Rightarrow> exn + int \<times> string) \<Rightarrow> submission_service \<Rightarrow> string \<Rightarrow> json \<Rightarrow> micros \<Rightarrow> db
   \<Rightarrow> (exn + job_row) \<times> db" where
  "submit sha git ss new_id payload now d =
     (case prepare sha git ss new_id payload d of
        Inl e \<Rightarrow> (Inl e, d)
      | Inr job \<Rightarrow> (case job_create_op job now d of
          (r, d') \<Rightarrow>
            (handle (\<lambda>e. if isa e JobAlreadyExistsError then JobSubmissionConflictError
                       else if isa e JobRepositoryError then JobSubmissionUnavailableError else e) r, d')))"

definition phone_created :: "string \<Rightarrow> string \<Rightarrow> event_create" where
  "phone_created job_id actor =
     \<lparr>ec_job_id = job_id, ec_event_type = ''phone.task.created'',
      ec_payload = [(''actor'', JStr actor), (''channel'', JStr ''telegram'')],
      ec_idempotency_key = Some (''phone:'' @ job_id)\<rparr>"

definition commit_tx ::
  "(string \<Rightarrow> string) \<Rightarrow> submission_service \<Rightarrow> job_create \<Rightarrow> payload \<Rightarrow> string \<Rightarrow> micros \<Rightarrow> db
   \<Rightarrow> exn + job_row \<times> db" where
  "commit_tx sha ss job encoded actor now d =
     (case select_job d (jc_id job) of
        Some row \<Rightarrow> bindE (job_to_record row) (\<lambda>existing.
          if j_request existing \<noteq> jc_request job \<or>
             canon_obj (j_request_snapshot existing) \<noteq> canon_obj (jc_request_snapshot job)
          then Inl JobSubmissionConflictError else Inr (existing, d))
      | None \<Rightarrow>
          bindE (load_project ss (jc_project_id job) d) (\<lambda>project.
          bindE (item (JObj (jc_request_snapshot job)) ''project'') (\<lambda>frozen.
            if canon (project_snapshot project) \<noteq> canon frozen then Inl JobSubmissionConflictError
            else (case ss_teams ss of
                None \<Rightarrow> Inl JobSubmissionConflictError
              | Some tr \<Rightarrow>
                  bindE (authorize sha tr (new_job_row now job (jc_request_snapshot job)) d) (\<lambda>b.
                  bindE (job_insert now job encoded d) (\<lambda>(stored, d1).
                  bindE (validate_event sha (phone_created (jc_id job) actor)) (\<lambda>data.
                  bindE (event_append_tx sha now (phone_created (jc_id job) actor) data d1) (\<lambda>(event, d2).
                    Inr (stored, d2)))))))))"

definition commit_prepared ::
  "(string \<Rightarrow> string) \<Rightarrow> submission_service \<Rightarrow> job_create \<Rightarrow> string \<Rightarrow> micros \<Rightarrow> db \<Rightarrow> (exn + job_row) \<times> db" where
  "commit_prepared sha ss job actor now =
     validated (validate_job job) (\<lambda>encoded.
       write_connection JobRepositoryError (commit_tx sha ss job encoded actor now))"

subsection \<open>What a prepared job says\<close>

text \<open>The two spellings of the project policy, field by field in another order, are the same object.\<close>

lemma sort_key_same_set:
  assumes "distinct (map fst xs)" and "distinct (map fst ys)" and "set xs = set ys"
  shows "sort_key fst xs = sort_key fst ys"
proof (rule map_sorted_distinct_set_unique)
  show "inj_on fst (set (sort_key fst xs) \<union> set (sort_key fst ys))"
    using assms(1,3) by (simp add: distinct_map)
  show "sorted (map fst (sort_key fst xs))" "sorted (map fst (sort_key fst ys))" by simp_all
  show "distinct (map fst (sort_key fst xs))" "distinct (map fst (sort_key fst ys))"
    using assms(1,2) by (simp_all add: distinct_map)
  show "set (sort_key fst xs) = set (sort_key fst ys)" using assms(3) by simp
qed

lemma policy_spellings: "canon (project_snapshot r) = canon (project_policy r)"
  unfolding project_snapshot_def project_policy_def canon.simps
  by (rule arg_cong [where f = JObj], rule sort_key_same_set) auto

lemma read_repo_head_Inr:
  assumes "read_repo_head git root = Inr h"
  shows "\<exists>stdout. git root = Inr (0, stdout) \<and> h = map lower_char (strip stdout) \<and>
    length h \<in> {40, 64} \<and> set h \<subseteq> set hex_digits"
proof -
  obtain stdout where g: "git root = Inr (0, stdout)" "length (strip stdout) \<in> {40, 64}"
      "list_all hexdigit (strip stdout)" "h = map lower_char (strip stdout)"
    using assms by (cases "git root") (auto simp: read_repo_head_def Let_def split: if_splits)
  have "set h \<subseteq> set hex_digits" using g(3,4) lower_hexdigit by (auto simp: list_all_iff)
  then show ?thesis using g(1,2,4) by simp
qed

lemma load_project_Inr:
  "load_project ss p d = Inr r \<Longrightarrow> p \<in> set (ss_active_project_ids ss) \<and> project_get p d = Inr r"
  by (auto simp: load_project_def split: if_splits)

lemma select_agent_Inr:
  assumes "select_agent sha ss sub a d = Inr (b, sub')"
  shows "\<exists>tr conn model. ss_teams ss = Some tr \<and> team_snapshot sha tr (js_project_id sub) a d = Inr b \<and>
    map_of b ''connection'' = Some (JObj conn) \<and> map_of conn ''kind'' = Some (JStr (runtime_value (js_runtime sub'))) \<and>
    map_of b ''model'' = Some (JObj model) \<and> map_of model ''model'' = Some (json_opt JStr (js_model sub')) \<and>
    (js_runtime sub = Auto \<or> js_runtime sub = js_runtime sub') \<and>
    (js_model sub = None \<or> js_model sub = js_model sub') \<and>
    js_project_id sub' = js_project_id sub \<and> js_request sub' = js_request sub"
proof -
  obtain tr where tr: "ss_teams ss = Some tr" using assms by (auto simp: select_agent_def split: option.splits)
  obtain conn kind model m rt where snap: "team_snapshot sha tr (js_project_id sub) a d = Inr b"
    and c: "item (JObj b) ''connection'' = Inr conn" "item conn ''kind'' = Inr (JStr kind)"
      "runtime_from_value kind = Inr rt"
    and m: "item (JObj b) ''model'' = Inr model" "item model ''model'' = Inr m"
    and ok: "js_runtime sub \<in> {Auto, rt}" "case js_model sub of None \<Rightarrow> True | Some x \<Rightarrow> JStr x = m"
    and sub': "sub' = sub\<lparr>js_runtime := rt, js_model := (case m of JStr m \<Rightarrow> Some m | _ \<Rightarrow> None)\<rparr>"
    using assms tr
    by (auto simp: select_agent_def bindE_eq_Inr split: if_splits json.splits option.splits)
  note sh = snapshot_shape(4) [OF snap]
  obtain conn' where conn': "map_of b ''connection'' = Some (JObj conn')" "conn = JObj conn'"
      "map_of conn' ''kind'' = Some (JStr kind)"
    using sh c(1,2) by (auto simp: item_def split: option.splits)
  obtain model' m' where model': "map_of b ''model'' = Some (JObj model')" "model = JObj model'"
      "map_of model' ''model'' = Some (json_opt JStr m')" "m = json_opt JStr m'"
    using sh m by (auto simp: item_def split: option.splits)
  have "runtime_value rt = kind" using c(3) by (auto split: if_splits)
  moreover have "(case m of JStr m \<Rightarrow> Some m | _ \<Rightarrow> None) = m'"
    using model'(4) by (cases m') (simp_all add: json_opt_def)
  ultimately show ?thesis
    using tr snap conn' model' ok sub' by (cases "js_model sub") (auto simp: json_opt_def split: option.splits)
qed

lemma prepare_Inr:
  assumes "prepare sha git ss i payload d = Inr job"
  shows "\<exists>sub r h sub'. from_payload payload = Inr sub \<and> js_project_id sub \<in> set (ss_active_project_ids ss) \<and>
    project_get (js_project_id sub) d = Inr r \<and> read_repo_head git (p_root r) = Inr h \<and>
    js_project_id sub' = js_project_id sub \<and> js_request sub' = js_request sub \<and>
    (case js_agent_id sub of
       None \<Rightarrow> sub' = sub \<and> map_of (jc_request_snapshot job) ''agent_binding'' = None
     | Some a \<Rightarrow> \<exists>b. select_agent sha ss sub a d = Inr (b, sub') \<and>
         map_of (jc_request_snapshot job) ''agent_binding'' = Some (JObj b)) \<and>
    jc_id job = i \<and> jc_project_id job = js_project_id sub \<and> jc_request job = js_request sub \<and>
    jc_state job = Created \<and> jc_runtime job = js_runtime sub' \<and> jc_model job = js_model sub' \<and>
    jc_worktree_path job = None \<and> map_of (jc_request_snapshot job) ''project'' = Some (project_snapshot r) \<and>
    map_of (jc_request_snapshot job) ''repo_head'' = Some (JStr h) \<and>
    map_of (jc_request_snapshot job) ''prompt_hash'' = Some (JStr (''sha256:'' @ sha (js_request sub))) \<and>
    map_of (jc_request_snapshot job) ''runtime'' = Some (JStr (runtime_value (js_runtime sub'))) \<and>
    map_of (jc_request_snapshot job) ''model'' = Some (json_opt JStr (js_model sub'))"
proof -
  obtain sub r b sub' h where p: "from_payload payload = Inr sub" "load_project ss (js_project_id sub) d = Inr r"
      "(case js_agent_id sub of None \<Rightarrow> Inr (None, sub)
        | Some agent \<Rightarrow> bindE (select_agent sha ss sub agent d) (\<lambda>(b, s). Inr (Some b, s))) = Inr (b, sub')"
      "read_repo_head git (p_root r) = Inr h"
    and job: "job = \<lparr>jc_id = i, jc_project_id = js_project_id sub', jc_request = js_request sub',
         jc_request_snapshot =
           [(''config_version'', JInt (ss_config_version ss)), (''model'', json_opt JStr (js_model sub')),
            (''policy_version'', JInt 1), (''project'', project_snapshot r),
            (''prompt_hash'', JStr (''sha256:'' @ sha (js_request sub'))),
            (''repo_head'', JStr h), (''runtime'', JStr (runtime_value (js_runtime sub')))] @
           (case b of None \<Rightarrow> [] | Some frozen \<Rightarrow> [(''agent_binding'', JObj frozen)]),
         jc_state = Created, jc_runtime = js_runtime sub', jc_model = js_model sub',
         jc_worktree_path = None\<rparr>"
    using assms by (auto simp: prepare_def bindE_eq_Inr)
  have same: "js_project_id sub' = js_project_id sub" "js_request sub' = js_request sub"
    using p(3) select_agent_Inr by (auto simp: bindE_eq_Inr split: option.splits; blast)+
  show ?thesis
    using p load_project_Inr [OF p(2)] same
    by (intro exI [of _ sub] exI [of _ r] exI [of _ h] exI [of _ sub'])
      (auto simp: job bindE_eq_Inr split: option.splits)
qed

subsection \<open>Confirmed submissions\<close>

lemma commit_tx_Inr:
  assumes "commit_tx sha ss job s actor now d = Inr (x, d')"
  shows "(d' = d \<and> select_job d (jc_id job) = Some x \<and> j_request x = jc_request job \<and>
      canon_obj (j_request_snapshot x) = canon_obj (jc_request_snapshot job)) \<or>
    (\<exists>tr b data ev d1. select_job d (jc_id job) = None \<and> ss_teams ss = Some tr \<and>
       authorize sha tr (new_job_row now job (jc_request_snapshot job)) d = Inr b \<and>
       job_insert now job s d = Inr (x, d1) \<and> validate_event sha (phone_created (jc_id job) actor) = Inr data \<and>
       event_append_tx sha now (phone_created (jc_id job) actor) data d1 = Inr (ev, d'))"
  using assms
  by (auto simp: commit_tx_def bindE_eq_Inr split: option.splits if_splits dest: job_to_record_Inr)

lemma commit_prepared_Inr:
  "commit_prepared sha ss job actor now d = (Inr x, d') \<longleftrightarrow>
     (\<exists>s. validate_job job = Inr s \<and> commit_tx sha ss job s actor now d = Inr (x, d'))"
  by (simp add: commit_prepared_def tx_Inr)

lemma events_wf_more_jobs:
  "events_wf sha d \<Longrightarrow> events_wf sha (d\<lparr>jobs := jobs d @ js\<rparr>)"
  by (auto simp: events_wf_def job_events_def keyed_events_def)

lemma core_wf_insert:
  assumes wf: "core_wf sha d" and v: "validate_job job = Inr s" and i: "job_insert now job s d = Inr (x, d')"
  shows "core_wf sha d'" "x = new_job_row now job s" "d' = d\<lparr>jobs := jobs d @ [x]\<rparr>"
proof -
  note f = job_insert_Inr [OF i]
  then show "x = new_job_row now job s" "d' = d\<lparr>jobs := jobs d @ [x]\<rparr>" by simp_all
  have "jobs_wf d'" using f jobs_wf_insert [OF _ v] wf by (simp add: core_wf_def)
  then show "core_wf sha d'"
    using wf f events_wf_more_jobs by (simp add: core_wf_def projects_wf_def)
qed

lemma validate_job_snapshot: "validate_job job = Inr s \<Longrightarrow> s = canon_obj (jc_request_snapshot job)"
  by (auto simp: validate_job_iff)

lemma commit_prepared_wf:
  assumes wf: "core_wf sha d" and c: "commit_prepared sha ss job actor now d = (Inr x, d')"
  shows "core_wf sha d'"
proof -
  obtain s where s: "validate_job job = Inr s" "commit_tx sha ss job s actor now d = Inr (x, d')"
    using c by (auto simp: commit_prepared_Inr)
  from commit_tx_Inr [OF s(2)] show ?thesis
    using wf core_wf_append [OF core_wf_insert(1) [OF wf s(1)]] by blast
qed

lemma commit_prepared_stored:
  assumes wf: "core_wf sha d" and c: "commit_prepared sha ss job actor now d = (Inr x, d')"
  shows "select_job d' (jc_id job) = Some x \<and> j_request x = jc_request job \<and>
    canon_obj (j_request_snapshot x) = canon_obj (jc_request_snapshot job)"
proof -
  obtain s where s: "validate_job job = Inr s" "commit_tx sha ss job s actor now d = Inr (x, d')"
    using c by (auto simp: commit_prepared_Inr)
  from commit_tx_Inr [OF s(2)] show ?thesis
  proof (elim disjE exE conjE)
    fix tr b data ev d1
    assume i: "job_insert now job s d = Inr (x, d1)"
      and app: "event_append_tx sha now (phone_created (jc_id job) actor) data d1 = Inr (ev, d')"
    note f = core_wf_insert [OF wf s(1) i]
    have "x \<in> set (jobs d')" "j_id x = jc_id job" "jobs_wf d'"
      using f commit_prepared_wf [OF wf c] event_append_tx_frame [OF app] by (auto simp: core_wf_def)
    then have "select_job d' (jc_id job) = Some x" using select_job_wf [of d' x] by simp
    then show ?thesis using f(2) validate_job_snapshot [OF s(1)] by (simp add: new_job_row_def)
  qed auto
qed

interpretation confirmed_submission:
  idempotent_operation "commit_prepared sha ss job actor" "core_wf sha" for sha ss job actor
proof
  fix t d e d' assume "commit_prepared sha ss job actor t d = (Inl e, d')"
  then show "d' = d" unfolding commit_prepared_def by (rule tx_rollback)
next
  fix d t x d' assume "core_wf sha d" "commit_prepared sha ss job actor t d = (Inr x, d')"
  then show "core_wf sha d'" by (rule commit_prepared_wf)
next
  fix d t x d' t' assume wf: "core_wf sha d" and c: "commit_prepared sha ss job actor t d = (Inr x, d')"
  note st = commit_prepared_stored [OF wf c]
  have "job_ok x" using commit_prepared_wf [OF wf c] st select_job_ok by (auto simp: core_wf_def)
  then show "commit_prepared sha ss job actor t' d' = (Inr x, d')"
    using c st by (auto simp: commit_prepared_Inr commit_tx_def)
qed

lemma no_job_no_events: "core_wf sha d \<Longrightarrow> select_job d i = None \<Longrightarrow> job_events d i = []"
  by (auto simp: core_wf_def events_wf_def job_events_def select_job_None filter_empty_conv)

text \<open>A job that was prepared for an agent is confirmed on any later store with the same policy and teams.\<close>

lemma prepared_commits:
  assumes dig: "digest_fun sha" and wf: "core_wf sha d2" and pre: "prepare sha git ss i payload d = Inr job"
    and agent: "map_of (jc_request_snapshot job) ''agent_binding'' \<noteq> None"
    and same: "projects d2 = projects d" "teams d2 = teams d" and fresh: "select_job d2 i = None"
    and v: "validate_job job = Inr s" "validate_event sha (phone_created i actor) = Inr data"
  shows "\<exists>ev. commit_prepared sha ss job actor now d2 =
    (Inr (new_job_row now job s), d2\<lparr>jobs := jobs d2 @ [new_job_row now job s], events := events d2 @ [ev]\<rparr>) \<and>
    e_job_id ev = i \<and> e_event_type ev = ''phone.task.created''"
proof -
  obtain sub r sub' a b where p: "js_project_id sub \<in> set (ss_active_project_ids ss)"
      "project_get (js_project_id sub) d = Inr r" "jc_id job = i" "jc_project_id job = js_project_id sub"
      "map_of (jc_request_snapshot job) ''project'' = Some (project_snapshot r)"
    and b: "select_agent sha ss sub a d = Inr (b, sub')"
      "map_of (jc_request_snapshot job) ''agent_binding'' = Some (JObj b)"
    using prepare_Inr [OF pre] agent by (auto split: option.splits)
  obtain tr where tr: "ss_teams ss = Some tr" "team_snapshot sha tr (jc_project_id job) a d = Inr b"
    using select_agent_Inr [OF b(1)] p(4) by auto
  have sel: "select_project d (jc_project_id job) = Some r"
    using p(2,4) by (auto simp: project_get_def bindE_eq_Inr validate_project_id_iff project_to_record_iff
        split: option.splits)
  have sp: "select_project d2 = select_project d" and st: "select_team d2 = select_team d"
    using same by (simp_all add: fun_eq_iff select_project_def select_team_def)
  have "team_validate tr t d2 = team_validate tr t d" "team_get_tx sha tr q d2 = team_get_tx sha tr q d" for t q
    by (simp_all add: team_validate_def team_get_tx_def sp st)
  then have snap: "team_snapshot sha tr q ag d2 = team_snapshot sha tr q ag d" for q ag
    by (simp add: team_snapshot_def)
  have get: "project_get q d2 = project_get q d" for q
    by (simp add: project_get_def sp)
  note reads = sp snap get
  let ?row = "new_job_row now job s"
  note sh = snapshot_shape [OF tr(2)]
  obtain prof where prof: "map_of b ''profile'' = Some (JObj prof)" "map_of prof ''id'' = Some (JStr a)"
    using sh(3) by blast
  have auth: "authorize sha tr (new_job_row now job (jc_request_snapshot job)) d2 = Inr b"
    by (rule frozen_authorized [where s = b and p = "jc_project_id job" and agent = a and r = r and prof = prof])
      (use tr(2) sel p(5) b(2) prof in
        \<open>simp_all add: reads new_job_row_def get_default_def policy_spellings [of r]\<close>)
  have load: "load_project ss (jc_project_id job) d2 = Inr r"
    using p(1,2,4) by (simp add: load_project_def reads)
  have ins: "job_insert now job s d2 = Inr (?row, d2\<lparr>jobs := jobs d2 @ [?row]\<rparr>)"
  proof -
    have "\<exists>q\<in>set (projects d2). p_id q = jc_project_id job"
      using sel select_project_Some same(1) by fastforce
    then have "job_create_op job now d2 = (Inr ?row, d2\<lparr>jobs := jobs d2 @ [?row]\<rparr>)"
      using v(1) fresh p(3) by (auto simp: job_create_cases select_job_None)
    then show ?thesis using v(1) by (auto simp: job_create_op_def tx_Inr)
  qed
  let ?d1 = "d2\<lparr>jobs := jobs d2 @ [?row]\<rparr>" and ?e = "phone_created i actor"
  have wf1: "core_wf sha ?d1" using core_wf_insert(1) [OF wf v(1) ins] .
  have none: "job_events ?d1 i = []" using no_job_no_events [OF wf fresh] by (simp add: job_events_def)
  have known: "known_event ?e ?d1 = None"
    using none by (auto simp: known_event_def phone_created_def select_event_by_key_None job_events_def filter_empty_conv)
  have "event_append_tx sha now ?e data ?d1 = Inr (next_event now ?e data ?d1, add_event (next_event now ?e data ?d1) ?d1)"
    using event_append_tx_cases [OF dig _ v(2), of ?d1 now] wf1 known none p(3)
    by (auto simp: core_wf_def phone_created_def max_sequence_def)
  then have "commit_tx sha ss job s actor now d2 = Inr (?row, add_event (next_event now ?e data ?d1) ?d1)"
    using fresh p(3,5) tr(1) load auth ins v(2) by (simp add: commit_tx_def item_def)
  then show ?thesis
    using v(1) by (intro exI [of _ "next_event now ?e data ?d1"])
      (simp add: commit_prepared_Inr add_event_def next_event_def phone_created_def)
qed

subsection \<open>Properties\<close>

text \<open>
  C16: what a prepared submission says is what the server observed: an active, stored project with its present
  policy, the commit (40 or 64 lower-case hexadecimal digits) that Git printed when it was asked for the head of
  that project's root, the digest of the request, and the runtime and the model of the job; when an agent was
  named, exactly the binding the team store gives for it, whose runtime and model are those of the job, and
  which a runtime or a model the client named must equal, and otherwise those the client asked for.
\<close>

theorem submission_freezes_observed_state:
  assumes "prepare sha git ss i payload d = Inr job"
  shows "\<exists>sub r h stdout. from_payload payload = Inr sub \<and> jc_id job = i \<and> jc_project_id job = js_project_id sub \<and>
    jc_request job = js_request sub \<and> jc_state job = Created \<and> jc_worktree_path job = None \<and>
    js_project_id sub \<in> set (ss_active_project_ids ss) \<and> project_get (js_project_id sub) d = Inr r \<and>
    (\<exists>policy. map_of (jc_request_snapshot job) ''project'' = Some policy \<and> canon policy = canon (project_policy r)) \<and>
    git (p_root r) = Inr (0, stdout) \<and> h = map lower_char (strip stdout) \<and>
    map_of (jc_request_snapshot job) ''repo_head'' = Some (JStr h) \<and> length h \<in> {40, 64} \<and> set h \<subseteq> set hex_digits \<and>
    map_of (jc_request_snapshot job) ''prompt_hash'' = Some (JStr (''sha256:'' @ sha (js_request sub))) \<and>
    map_of (jc_request_snapshot job) ''runtime'' = Some (JStr (runtime_value (jc_runtime job))) \<and>
    map_of (jc_request_snapshot job) ''model'' = Some (json_opt JStr (jc_model job)) \<and>
    (js_runtime sub = Auto \<or> js_runtime sub = jc_runtime job) \<and> (js_model sub = None \<or> js_model sub = jc_model job) \<and>
    (case js_agent_id sub of
       None \<Rightarrow> map_of (jc_request_snapshot job) ''agent_binding'' = None \<and>
         jc_runtime job = js_runtime sub \<and> jc_model job = js_model sub
     | Some a \<Rightarrow> \<exists>tr b conn model. ss_teams ss = Some tr \<and> team_snapshot sha tr (js_project_id sub) a d = Inr b \<and>
         map_of (jc_request_snapshot job) ''agent_binding'' = Some (JObj b) \<and>
         map_of b ''connection'' = Some (JObj conn) \<and>
         map_of conn ''kind'' = Some (JStr (runtime_value (jc_runtime job))) \<and>
         map_of b ''model'' = Some (JObj model) \<and>
         map_of model ''model'' = Some (json_opt JStr (jc_model job)))"
proof -
  obtain sub r h sub' where p: "from_payload payload = Inr sub" "js_project_id sub \<in> set (ss_active_project_ids ss)"
    "project_get (js_project_id sub) d = Inr r" "read_repo_head git (p_root r) = Inr h"
    and ag: "case js_agent_id sub of
       None \<Rightarrow> sub' = sub \<and> map_of (jc_request_snapshot job) ''agent_binding'' = None
     | Some a \<Rightarrow> \<exists>b. select_agent sha ss sub a d = Inr (b, sub') \<and>
         map_of (jc_request_snapshot job) ''agent_binding'' = Some (JObj b)"
    and j: "jc_id job = i" "jc_project_id job = js_project_id sub" "jc_request job = js_request sub"
      "jc_state job = Created" "jc_runtime job = js_runtime sub'" "jc_model job = js_model sub'"
      "jc_worktree_path job = None" "map_of (jc_request_snapshot job) ''project'' = Some (project_snapshot r)"
      "map_of (jc_request_snapshot job) ''repo_head'' = Some (JStr h)"
      "map_of (jc_request_snapshot job) ''prompt_hash'' = Some (JStr (''sha256:'' @ sha (js_request sub)))"
      "map_of (jc_request_snapshot job) ''runtime'' = Some (JStr (runtime_value (js_runtime sub')))"
      "map_of (jc_request_snapshot job) ''model'' = Some (json_opt JStr (js_model sub'))"
    using prepare_Inr [OF assms] by auto
  have sel: "(js_runtime sub = Auto \<or> js_runtime sub = jc_runtime job) \<and> (js_model sub = None \<or> js_model sub = jc_model job) \<and>
    (case js_agent_id sub of
       None \<Rightarrow> map_of (jc_request_snapshot job) ''agent_binding'' = None \<and>
         jc_runtime job = js_runtime sub \<and> jc_model job = js_model sub
     | Some a \<Rightarrow> \<exists>tr b conn model. ss_teams ss = Some tr \<and> team_snapshot sha tr (js_project_id sub) a d = Inr b \<and>
         map_of (jc_request_snapshot job) ''agent_binding'' = Some (JObj b) \<and>
         map_of b ''connection'' = Some (JObj conn) \<and>
         map_of conn ''kind'' = Some (JStr (runtime_value (jc_runtime job))) \<and>
         map_of b ''model'' = Some (JObj model) \<and>
         map_of model ''model'' = Some (json_opt JStr (jc_model job)))"
  proof (cases "js_agent_id sub")
    case None
    then show ?thesis using ag j(5,6) by simp
  next
    case (Some a)
    then obtain b where b: "select_agent sha ss sub a d = Inr (b, sub')"
        "map_of (jc_request_snapshot job) ''agent_binding'' = Some (JObj b)" using ag by auto
    show ?thesis using select_agent_Inr [OF b(1)] b(2) Some j(5,6) by auto
  qed
  obtain stdout where head: "git (p_root r) = Inr (0, stdout)" "h = map lower_char (strip stdout)"
      "length h \<in> {40, 64}" "set h \<subseteq> set hex_digits"
    using read_repo_head_Inr [OF p(4)] by blast
  show ?thesis
    using p(1-3) j sel head policy_spellings [of r]
    by (intro exI [of _ sub] exI [of _ r] exI [of _ h] exI [of _ stdout]) (simp del: canon.simps)
qed

definition sample_service :: submission_service where
  "sample_service = \<lparr>ss_active_project_ids = [''demo''], ss_teams = Some sample_repository,
     ss_config_version = 1\<rparr>"

definition sample_git :: "string \<Rightarrow> exn + int \<times> string" where
  "sample_git root = Inr (0, replicate 40 CHR ''A'' @ [CHR 0x0A])"

definition sample_submission :: json where
  "sample_submission = JObj [(''project_id'', JStr ''demo''), (''request'', JStr ''tidy up''),
     (''agent_id'', JStr ''impl'')]"

definition sample_prepared :: "exn + job_create" where
  "sample_prepared = prepare sample_sha sample_git sample_service ''job-2'' sample_submission sample_saved_db"

lemma sample_prepared_ok: "\<exists>job. sample_prepared = Inr job"
proof -
  have "case sample_prepared of Inr job \<Rightarrow> True | Inl e \<Rightarrow> False" by code_simp
  then show ?thesis by (auto split: sum.splits)
qed

theorem submission_freezes_observed_state_witness:
  "\<exists>job. sample_prepared = Inr job \<and>
     map_of (jc_request_snapshot job) ''repo_head'' = Some (JStr (replicate 40 CHR ''a'')) \<and>
     map_of (jc_request_snapshot job) ''runtime'' = Some (JStr (runtime_value (jc_runtime job)))"
proof -
  obtain job where job: "sample_prepared = Inr job" using sample_prepared_ok by blast
  have head: "map lower_char (strip (replicate 40 CHR ''A'' @ [CHR 0x0A])) = replicate 40 CHR ''a''" by code_simp
  show ?thesis
    using submission_freezes_observed_state [OF job [unfolded sample_prepared_def]] job head
    by (auto simp: sample_git_def)
qed

text \<open>
  C17: a submission prepared for an agent is confirmed: on any later store with the same projects and teams
  where its identity is free, the confirmation stores the job and its event together, and every
  repeated confirmation gets that job back and writes nothing.
\<close>

theorem prepared_submission_commits:
  assumes "digest_fun sha" and "core_wf sha d2" and "prepare sha git ss i payload d = Inr job"
    and "map_of (jc_request_snapshot job) ''agent_binding'' \<noteq> None"
    and "projects d2 = projects d" and "teams d2 = teams d" and "select_job d2 i = None"
    and "validate_job job = Inr s" and "validate_event sha (phone_created i actor) = Inr data"
  shows "\<exists>ev d3. d3 = d2\<lparr>jobs := jobs d2 @ [new_job_row now job s], events := events d2 @ [ev]\<rparr> \<and>
    e_job_id ev = i \<and> e_event_type ev = ''phone.task.created'' \<and>
    deliver (commit_prepared sha ss job actor) (now # later) d2 =
      (replicate (Suc (length later)) (Inr (new_job_row now job s)), d3)"
proof -
  obtain ev where ev: "commit_prepared sha ss job actor now d2 =
      (Inr (new_job_row now job s), d2\<lparr>jobs := jobs d2 @ [new_job_row now job s], events := events d2 @ [ev]\<rparr>)"
      "e_job_id ev = i" "e_event_type ev = ''phone.task.created''"
    using prepared_commits [OF assms] by blast
  show ?thesis
    using ev(2,3) confirmed_submission.deliver_once [OF assms(2) ev(1)] by blast
qed

lemma sample_saved_core: "core_wf sample_sha sample_saved_db"
proof -
  have "project_ok (sample_project\<lparr>p_sensitivity := SPrivate, p_cloud_allowed := True\<rparr>)" by code_simp
  then show ?thesis
    using sample_core_wf [of Queued]
    by (simp add: core_wf_def projects_wf_def jobs_wf_def events_wf_def job_events_def keyed_events_def
        sample_saved_db_def sample_team_db_def sample_project_def)
qed

theorem prepared_submission_commits_witness:
  "\<exists>job x d3. sample_prepared = Inr job \<and>
     deliver (commit_prepared sample_sha sample_service job ''telegram:5'') [70, 80] sample_saved_db
       = ([Inr x, Inr x], d3) \<and> length (jobs d3) = 2"
proof -
  obtain job where job: "sample_prepared = Inr job" using sample_prepared_ok by blast
  have bound: "map_sum (\<lambda>e. ()) (\<lambda>job. map_of (jc_request_snapshot job) ''agent_binding'' = None) sample_prepared = Inr False"
    by code_simp
  have agent: "map_of (jc_request_snapshot job) ''agent_binding'' \<noteq> None"
    using bound unfolding job map_sum.simps sum.inject by blast
  have valid: "(case sample_prepared of Inr job \<Rightarrow> (case validate_job job of Inr s \<Rightarrow> True | Inl e \<Rightarrow> False) | Inl e \<Rightarrow> False)"
    by code_simp
  obtain s where s: "validate_job job = Inr s" using valid unfolding job by (auto split: sum.splits)
  have "case validate_event sample_sha (phone_created ''job-2'' ''telegram:5'') of Inr x \<Rightarrow> True | Inl e \<Rightarrow> False"
    by code_simp
  then obtain data where data: "validate_event sample_sha (phone_created ''job-2'' ''telegram:5'') = Inr data"
    by (auto split: sum.splits)
  have none: "select_job sample_saved_db ''job-2'' = None" by code_simp
  have len: "length (jobs sample_saved_db) = 1" by code_simp
  have "\<exists>ev d3. d3 = sample_saved_db\<lparr>jobs := jobs sample_saved_db @ [new_job_row 70 job s],
        events := events sample_saved_db @ [ev]\<rparr> \<and>
      e_job_id ev = ''job-2'' \<and> e_event_type ev = ''phone.task.created'' \<and>
      deliver (commit_prepared sample_sha sample_service job ''telegram:5'') (70 # [80]) sample_saved_db
        = (replicate (Suc (length [80 :: int])) (Inr (new_job_row 70 job s)), d3)"
    by (rule prepared_submission_commits [OF sample_sha_digest sample_saved_core job [unfolded sample_prepared_def]
        agent refl refl none s data])
  then obtain ev d3 where d3: "d3 = sample_saved_db\<lparr>jobs := jobs sample_saved_db @ [new_job_row 70 job s],
        events := events sample_saved_db @ [ev]\<rparr>"
      and dl: "deliver (commit_prepared sample_sha sample_service job ''telegram:5'') (70 # [80]) sample_saved_db
        = (replicate (Suc (length [80 :: int])) (Inr (new_job_row 70 job s)), d3)"
    by (elim exE conjE) (rule that; assumption)
  have "length (jobs d3) = 2" unfolding d3 using len by simp
  moreover have "deliver (commit_prepared sample_sha sample_service job ''telegram:5'') [70, 80] sample_saved_db
        = ([Inr (new_job_row 70 job s), Inr (new_job_row 70 job s)], d3)"
    unfolding dl by (simp add: numeral_2_eq_2)
  ultimately show ?thesis using job
    by (intro exI [of _ job] exI [of _ "new_job_row 70 job s"] exI [of _ d3] conjI)
qed

end
