(* ===== verification/Patterns.thy ===== *)
theory Patterns
  imports Prelude
begin

text \<open>
  The patterns of Python's \<open>re\<close> the source uses: runs of a character class, sequence, ordered choice and
  the word boundary. \<open>matches\<close> lists the ways a pattern can match at a position in the order the
  backtracking matcher tries them (a run is greedy, the left alternative first), so its first element
  is the match \<open>re\<close> reports. A position is the text before it, reversed, and the text after it.
\<close>

datatype pattern =
    Run "char \<Rightarrow> bool" nat "nat option"
  | Then pattern pattern
  | Either pattern pattern
  | WordBoundary
  | Blank

type_synonym position = "string \<times> string"

text \<open>\<open>\w\<close> on text: the alphanumeric code points of Latin-1 and the underscore.\<close>

definition word_char :: "char \<Rightarrow> bool" where
  "word_char c \<longleftrightarrow>
     (let n = code_point c in
      48 \<le> n \<and> n \<le> 57 \<or> 65 \<le> n \<and> n \<le> 90 \<or> n = 95 \<or> 97 \<le> n \<and> n \<le> 122 \<or>
      n \<in> {170, 178, 179, 181, 185, 186, 188, 189, 190} \<or>
      192 \<le> n \<and> n \<noteq> 215 \<and> n \<noteq> 247)"

definition at_boundary :: "position \<Rightarrow> bool" where
  "at_boundary p \<longleftrightarrow>
     (case fst p of [] \<Rightarrow> False | c # _ \<Rightarrow> word_char c) \<noteq> (case snd p of [] \<Rightarrow> False | c # _ \<Rightarrow> word_char c)"

definition advance_by :: "nat \<Rightarrow> position \<Rightarrow> position" where
  "advance_by n p = (rev (take n (snd p)) @ fst p, drop n (snd p))"

definition run_lengths :: "(char \<Rightarrow> bool) \<Rightarrow> nat \<Rightarrow> nat option \<Rightarrow> string \<Rightarrow> nat list" where
  "run_lengths p lo hi s =
     (let k = length (takeWhile p s); m = (case hi of None \<Rightarrow> k | Some h \<Rightarrow> min h k) in rev [lo..<Suc m])"

fun matches :: "pattern \<Rightarrow> position \<Rightarrow> position list" where
  "matches (Run p lo hi) pos = map (\<lambda>n. advance_by n pos) (run_lengths p lo hi (snd pos))"
| "matches (Then a b) pos = concat (map (matches b) (matches a pos))"
| "matches (Either a b) pos = matches a pos @ matches b pos"
| "matches WordBoundary pos = (if at_boundary pos then [pos] else [])"
| "matches Blank pos = [pos]"

text \<open>\<open>pattern.search(text)\<close> finds something: the pattern matches at some position.\<close>

fun found_from :: "pattern \<Rightarrow> string \<Rightarrow> string \<Rightarrow> bool" where
  "found_from p l [] = (matches p (l, []) \<noteq> [])"
| "found_from p l (c # r) = (matches p (l, c # r) \<noteq> [] \<or> found_from p (c # l) r)"

definition found :: "pattern \<Rightarrow> string \<Rightarrow> bool" where
  "found p s = found_from p [] s"

subsection \<open>Abbreviations of the pattern syntax\<close>

definition any_of :: "string \<Rightarrow> char \<Rightarrow> bool" where
  "any_of s c \<longleftrightarrow> c \<in> set s"

definition in_range :: "char \<Rightarrow> char \<Rightarrow> char \<Rightarrow> bool" where
  "in_range a b c \<longleftrightarrow> code_point a \<le> code_point c \<and> code_point c \<le> code_point b"

definition ascii_upper :: "char \<Rightarrow> bool" where "ascii_upper = in_range CHR ''A'' CHR ''Z''"
definition ascii_lower :: "char \<Rightarrow> bool" where "ascii_lower = in_range CHR ''a'' CHR ''z''"
definition ascii_digit :: "char \<Rightarrow> bool" where "ascii_digit = in_range CHR ''0'' CHR ''9''"
definition ascii_alnum :: "char \<Rightarrow> bool" where "ascii_alnum c \<longleftrightarrow> ascii_upper c \<or> ascii_lower c \<or> ascii_digit c"

definition single :: "(char \<Rightarrow> bool) \<Rightarrow> pattern" where "single p = Run p 1 (Some 1)"
definition at_least :: "(char \<Rightarrow> bool) \<Rightarrow> nat \<Rightarrow> pattern" where "at_least p lo = Run p lo None"
definition optional :: "pattern \<Rightarrow> pattern" where "optional p = Either p Blank"

fun seq :: "pattern list \<Rightarrow> pattern" where
  "seq [] = Blank"
| "seq [p] = p"
| "seq (p # q # ps) = Then p (seq (q # ps))"

fun alts :: "pattern list \<Rightarrow> pattern" where
  "alts [] = Run (\<lambda>c. False) 1 None"
| "alts [p] = p"
| "alts (p # q # ps) = Either p (alts (q # ps))"

text \<open>Literal text, as written and under \<open>(?i)\<close>.\<close>

definition lit :: "string \<Rightarrow> pattern" where
  "lit s = seq (map (\<lambda>c. single ((=) c)) s)"

definition ilit :: "string \<Rightarrow> pattern" where
  "ilit s = seq (map (\<lambda>c. single (\<lambda>d. d = c \<or> ascii_lower c \<and> code_point d + 32 = code_point c)) s)"

subsection \<open>A match consumes text\<close>

lemma advance_by_text [simp]: "rev (fst (advance_by n p)) @ snd (advance_by n p) = rev (fst p) @ snd p"
  by (simp add: advance_by_def)

text \<open>A match moves the position forward over the same text.\<close>

definition ahead :: "position \<Rightarrow> position \<Rightarrow> bool" where
  "ahead p q \<longleftrightarrow> (\<exists>n \<le> length (snd p). q = advance_by n p)"

lemma ahead_refl: "ahead p p"
  by (auto simp: ahead_def advance_by_def intro: exI [of _ 0])

lemma ahead_trans:
  assumes "ahead p q" and "ahead q r"
  shows "ahead p r"
proof -
  obtain m where m: "m \<le> length (snd p)" "q = advance_by m p" using assms(1) by (auto simp: ahead_def)
  obtain n where n: "n \<le> length (snd q)" "r = advance_by n q" using assms(2) by (auto simp: ahead_def)
  have "r = advance_by (m + n) p" using m n by (simp add: advance_by_def take_add add.commute)
  moreover have "m + n \<le> length (snd p)" using m n by (simp add: advance_by_def)
  ultimately show ?thesis unfolding ahead_def by blast
qed

lemma run_lengths_bound: "n \<in> set (run_lengths p lo hi s) \<Longrightarrow> n \<le> length s \<and> lo \<le> n"
  using length_takeWhile_le [of p s]
  by (auto simp: run_lengths_def Let_def split: option.splits)

lemma matches_ahead: "q \<in> set (matches p pos) \<Longrightarrow> ahead pos q"
proof (induction p arbitrary: pos q)
  case (Run p lo hi)
  then show ?case by (auto simp: ahead_def dest!: run_lengths_bound)
next
  case (Then a b)
  then obtain m where "m \<in> set (matches a pos)" "q \<in> set (matches b m)" by auto
  then show ?case using Then.IH ahead_trans by blast
qed (auto simp: ahead_refl split: if_splits)

lemma ahead_length: "ahead p q \<Longrightarrow> length (snd q) \<le> length (snd p)"
  by (auto simp: ahead_def advance_by_def)

lemma found_from_iff: "found_from p l r \<longleftrightarrow> (\<exists>n \<le> length r. matches p (advance_by n (l, r)) \<noteq> [])"
proof (induction r arbitrary: l)
  case Nil
  then show ?case by (simp add: advance_by_def)
next
  case (Cons c r)
  have split: "(\<exists>n \<le> Suc (length r). P n) \<longleftrightarrow> P 0 \<or> (\<exists>n \<le> length r. P (Suc n))" for P
    by (metis Suc_le_mono le0 not0_implies_Suc)
  have "advance_by (Suc n) (l, c # r) = advance_by n (c # l, r)" for n
    by (simp add: advance_by_def)
  then show ?case by (simp add: split Cons.IH) (simp add: advance_by_def)
qed

end
