(* ===== verification/SecretGate.thy ===== *)
theory SecretGate
  imports SecretScan Transitions
begin

text \<open>
  \<open>PreReviewSecretGate\<close> (secret_gate.py): the diff of a job's worktree is collected and scanned; a clean
  scan moves the job to review, a blocked one is recorded without moving it. \<open>collect worktree base\<close>
  stands for \<open>ReadOnlyDiffService(worktree, base).collect()\<close>. The job is read from the store \<open>d0\<close>, before
  Git runs; the outcome is written to \<open>d\<close>, which other operations may have changed meanwhile. The locks
  only serialize evaluations of one job.
\<close>

record review_readiness =
  rd_job_id :: string
  rd_state :: job_state
  rd_event_id :: int
  rd_scan :: scan_result

definition gate_job_id :: "string \<Rightarrow> exn + string" where
  "gate_job_id i = (if \<not> plain_text i then Inl SecretGateNotFoundError else Inr i)"

definition load_gate_job :: "string \<Rightarrow> db \<Rightarrow> exn + job_row" where
  "load_gate_job i d =
     bindE (handle (\<lambda>e. if isa e JobNotFoundError \<or> isa e JobValidationError then SecretGateNotFoundError
                       else if isa e JobRepositoryError then SecretGateUnavailableError else e)
              (job_get i d)) (\<lambda>job.
       if j_state job \<notin> {Verifying, ReviewReady} then Inl SecretGateConflictError
       else if j_worktree_path job = None then Inl SecretGateConflictError
       else (case map_of (j_request_snapshot job) ''repo_head'' of
           Some (JStr base_commit) \<Rightarrow>
             if valid_object_id base_commit then Inr job else Inl SecretGateConflictError
         | _ \<Rightarrow> Inl SecretGateConflictError))"

definition json_text :: "json \<Rightarrow> string" where
  "json_text v = (case v of JStr s \<Rightarrow> s | _ \<Rightarrow> [])"

definition job_base :: "job_row \<Rightarrow> string" where
  "job_base job = (case map_of (j_request_snapshot job) ''repo_head'' of Some v \<Rightarrow> json_text v | None \<Rightarrow> [])"

definition worktree_of :: "job_row \<Rightarrow> string" where
  "worktree_of job = (case j_worktree_path job of Some p \<Rightarrow> p | None \<Rightarrow> [])"

definition gate_collect ::
  "(string \<Rightarrow> string \<Rightarrow> exn + unified_diff) \<Rightarrow> job_row \<Rightarrow> exn + unified_diff" where
  "gate_collect collect job =
     rethrow (\<lambda>e. isa e DiffServiceError \<or> isa e KeyErr \<or> isa e TypeErr \<or> isa e ValueErr)
       SecretGateUnavailableError (collect (worktree_of job) (job_base job))"

definition blocked_event :: "job_row \<Rightarrow> scan_result \<Rightarrow> event_create" where
  "blocked_event job scan = \<lparr>ec_job_id = j_id job, ec_event_type = ''job.secret_scan.blocked'',
     ec_payload = scan_event_payload scan,
     ec_idempotency_key = Some (''secret-scan-blocked:'' @ sr_digest scan)\<rparr>"

definition record_blocked ::
  "(string \<Rightarrow> string) \<Rightarrow> job_row \<Rightarrow> scan_result \<Rightarrow> micros \<Rightarrow> db \<Rightarrow> (exn + event_row) \<times> db" where
  "record_blocked sha job scan now d =
     (case event_append sha (blocked_event job scan) now d of
        (r, d') \<Rightarrow> (rethrow (\<lambda>e. isa e EventRepositoryError) SecretGateUnavailableError r, d'))"

definition ready_update :: "job_row \<Rightarrow> job_update" where
  "ready_update job = \<lparr>ju_id = j_id job, ju_state = ReviewReady, ju_runtime = j_runtime job,
     ju_model = j_model job, ju_worktree_path = j_worktree_path job\<rparr>"

definition ready_event :: "job_row \<Rightarrow> scan_result \<Rightarrow> event_row list \<Rightarrow> event_create" where
  "ready_event job scan history = \<lparr>ec_job_id = j_id job, ec_event_type = ''job.review_ready'',
     ec_payload = scan_event_payload scan,
     ec_idempotency_key = Some (''secret-scan-passed:'' @ sr_digest scan @ '':'' @
       int_text (if history = [] then 0 else e_id (last history)))\<rparr>"

definition record_passed ::
  "(string \<Rightarrow> string) \<Rightarrow> job_row \<Rightarrow> scan_result \<Rightarrow> micros \<Rightarrow> db \<Rightarrow> (exn + job_row \<times> event_row) \<times> db" where
  "record_passed sha job scan now d =
     validated (rethrow (\<lambda>e. isa e EventRepositoryError) SecretGateUnavailableError
                  (event_list sha (j_id job) d))
       (\<lambda>history d.
         if j_state job = ReviewReady
         then ((case List.find (\<lambda>e. e_event_type e = ''job.review_ready'') (rev history) of
                  Some latest \<Rightarrow>
                    if map_of (e_payload latest) ''scan_digest'' = Some (JStr (sr_digest scan))
                    then Inr (job, latest) else Inl SecretGateConflictError
                | None \<Rightarrow> Inl SecretGateConflictError), d)
         else (case transition sha (ready_update job) (ready_event job scan history) None now d of
             (r, d') \<Rightarrow>
               (handle (\<lambda>e. if isa e AtomicTransitionConflictError then SecretGateConflictError
                          else if isa e AtomicTransitionError then SecretGateUnavailableError else e) r, d'))) d"

definition gate_scanned ::
  "(string \<Rightarrow> string) \<Rightarrow> job_row \<Rightarrow> scan_result \<Rightarrow> string option \<Rightarrow> micros \<Rightarrow> db
   \<Rightarrow> (exn + review_readiness) \<times> db" where
  "gate_scanned sha job scan expected now d =
     (if expected \<noteq> None \<and> expected \<noteq> Some (sr_digest scan) then (Inl SecretGateConflictError, d)
      else if \<not> scan_passed scan then
        if j_state job = ReviewReady then (Inl SecretGateConflictError, d)
        else (case record_blocked sha job scan now d of
            (r, d') \<Rightarrow> (bindE r (\<lambda>event. Inl SecretGateBlockedError), d'))
      else (case record_passed sha job scan now d of
          (r, d') \<Rightarrow>
            (bindE r (\<lambda>(stored, event). Inr \<lparr>rd_job_id = j_id stored, rd_state = j_state stored,
               rd_event_id = e_id event, rd_scan = scan\<rparr>), d')))"

definition gate_evaluate ::
  "(string \<Rightarrow> string) \<Rightarrow> (string \<Rightarrow> string \<Rightarrow> exn + unified_diff) \<Rightarrow> string \<Rightarrow> string option \<Rightarrow> micros
   \<Rightarrow> db \<Rightarrow> db \<Rightarrow> (exn + review_readiness) \<times> db" where
  "gate_evaluate sha collect job_id expected now d0 d =
     validated
       (bindE (gate_job_id job_id) (\<lambda>i.
        bindE (load_gate_job i d0) (\<lambda>job.
        bindE (gate_collect collect job) (\<lambda>review. Inr (job, review)))))
       (\<lambda>(job, review). gate_scanned sha job (secret_scan sha review) expected now) d"

subsection \<open>What the gate loads\<close>

lemma load_gate_job_Inr:
  assumes "load_gate_job i d = Inr job"
  shows "select_job d i = Some job \<and> job_to_record job = Inr job \<and> j_id job = i \<and> j_state job \<in> {Verifying, ReviewReady} \<and>
    (\<exists>p. j_worktree_path job = Some p \<and> worktree_of job = p) \<and>
    map_of (j_request_snapshot job) ''repo_head'' = Some (JStr (job_base job)) \<and> valid_object_id (job_base job)"
proof -
  obtain j where j: "job_get i d = Inr j" using assms by (auto simp: load_gate_job_def bindE_eq_Inr)
  then have sel: "select_job d i = Some j \<and> job_to_record j = Inr j"
    by (auto simp: job_get_def bindE_eq_Inr validate_job_text_iff split: option.splits dest: job_to_record_Inr)
  have rest: "job = j" "j_state j \<in> {Verifying, ReviewReady}" "j_worktree_path j \<noteq> None"
      "\<exists>b. map_of (j_request_snapshot j) ''repo_head'' = Some (JStr b) \<and> valid_object_id b"
    using assms j by (auto simp: load_gate_job_def split: if_splits option.splits json.splits)
  then show ?thesis using sel select_job_Some [of d i j]
    by (auto simp: worktree_of_def job_base_def json_text_def)
qed

text \<open>What a successful transition leaves in the store.\<close>

lemma transition_stored:
  assumes wf: "core_wf sha d" and tr: "transition sha u e expected now d = (Inr (j, ev), d')"
  shows "select_job d' (ju_id u) = Some j \<and> matches_requested_state j u \<and> ev \<in> set (events d') \<and>
    e_job_id ev = ju_id u \<and> e_event_type ev = ec_event_type e \<and>
    e_payload_hash ev = sha (render (JObj (canon_obj (ec_payload e)))) \<and> event_ok sha ev \<and>
    (d' = d \<or> (\<exists>old. select_job d (ju_id u) = Some old \<and> (expected \<noteq> None \<longrightarrow> expected = Some old) \<and>
        lifecycle_step (j_state old) (ju_state u) \<and> j = set_job now u old \<and>
        d' = add_event ev (put_job now u d) \<and> e_payload ev = canon_obj (ec_payload e)))"
proof -
  obtain data where v: "validate_job_update u = Inr ()" "validate_event sha e = Inr data"
    and id: "ju_id u = ec_job_id e" and tx: "transition_tx sha now u e data expected d = Inr ((j, ev), d')"
    using tr by (auto simp: transition_Inr)
  have ewf: "events_wf sha d" using wf by (simp add: core_wf_def)
  have data: "data = (canon_obj (ec_payload e), sha (render (JObj (canon_obj (ec_payload e)))), ec_idempotency_key e)"
    using v(2) by (cases data) (auto simp: validate_event_iff canonical_payload_iff)
  from transition_tx_Inr [OF tx] show ?thesis
  proof (elim disjE exE conjE)
    assume r: "d' = d" "matching_idempotent_event sha e (fst (snd data)) (snd (snd data)) d = Inr (Some ev)"
      "select_job d (ju_id u) = Some j" "matches_requested_state j u"
    then show ?thesis
      using id data by (auto simp: matching_Some dest!: select_event_by_key_Some)
  next
    fix old
    assume old: "select_job d (ju_id u) = Some old" "expected \<noteq> None \<longrightarrow> expected = Some old"
      "ju_state u \<in> set (ALLOWED_JOB_TRANSITIONS (j_state old))" "j = set_job now u old"
      and app: "event_append_tx sha now e data (put_job now u d) = Inr (ev, d')"
      and m: "matching_idempotent_event sha e (fst (snd data)) (snd (snd data)) d = Inr None"
    have new: "d' = add_event (next_event now e data d) (put_job now u d)" "ev = next_event now e data d"
        "event_ok sha ev"
      using event_append_tx_Inr [OF app] m by auto
    have "select_job d' (ju_id u) = Some j"
      unfolding new(1) select_job_put_event using old(1,4) by simp
    then show ?thesis
      using old new data id by (simp add: matches_requested_state_def next_event_def lifecycle_step_iff
          validate_job_transition_def)
  qed
qed

lemma job_to_record_id: "job_to_record r = Inr r \<Longrightarrow> plain_text (j_id r)"
  by (auto simp: job_to_record_def bindE_eq_Inr validate_job_iff job_row_create_def)

lemma gate_evaluate_Inr:
  assumes "gate_evaluate sha collect i expected now d0 d = (Inr ready, d')"
  shows "\<exists>job review. load_gate_job i d0 = Inr job \<and> collect (worktree_of job) (job_base job) = Inr review \<and>
    scan_passed (secret_scan sha review) \<and> (expected = None \<or> expected = Some (scan_digest sha review)) \<and>
    (\<exists>stored event. record_passed sha job (secret_scan sha review) now d = (Inr (stored, event), d') \<and>
       ready = \<lparr>rd_job_id = j_id stored, rd_state = j_state stored, rd_event_id = e_id event,
         rd_scan = secret_scan sha review\<rparr>)"
proof -
  obtain job review where job: "load_gate_job i d0 = Inr job" "gate_collect collect job = Inr review"
      and sc: "gate_scanned sha job (secret_scan sha review) expected now d = (Inr ready, d')"
    using assms by (auto simp: gate_evaluate_def validated_Inr bindE_eq_Inr gate_job_id_def split: if_splits)
  have passed: "scan_passed (secret_scan sha review)" "expected = None \<or> expected = Some (scan_digest sha review)"
    using sc by (auto simp: gate_scanned_def bindE_eq_Inr split: if_splits prod.splits)
  then obtain stored event where "record_passed sha job (secret_scan sha review) now d = (Inr (stored, event), d')"
      "ready = \<lparr>rd_job_id = j_id stored, rd_state = j_state stored, rd_event_id = e_id event,
         rd_scan = secret_scan sha review\<rparr>"
    using sc by (auto simp: gate_scanned_def bindE_eq_Inr split: if_splits prod.splits)
  then show ?thesis using job passed by (auto simp: gate_collect_def)
qed

lemma record_passed_Inr:
  assumes wf: "core_wf sha d" and id: "plain_text (j_id job)"
    and rp: "record_passed sha job scan now d = (Inr (stored, ev), d')"
  shows "ev \<in> set (events d') \<and> e_job_id ev = j_id job \<and> e_event_type ev = ''job.review_ready'' \<and>
    (map_of (e_payload ev) ''scan_digest'' = Some (JStr (sr_digest scan)) \<or>
     e_payload_hash ev = sha (render (JObj (canon_obj (scan_event_payload scan))))) \<and>
    j_id stored = j_id job \<and> j_state stored = ReviewReady \<and>
    (d' = d \<or> (\<exists>old. select_job d (j_id job) = Some old \<and> lifecycle_step (j_state old) ReviewReady \<and>
       d' = add_event ev (put_job now (ready_update job) d)))"
proof -
  have history: "event_list sha (j_id job) d = Inr (job_events d (j_id job))"
    using event_list_wf wf id by (simp add: core_wf_def)
  show ?thesis
  proof (cases "j_state job = ReviewReady")
    case True
    have found: "List.find (\<lambda>e. e_event_type e = ''job.review_ready'') (rev (job_events d (j_id job))) = Some ev"
        "map_of (e_payload ev) ''scan_digest'' = Some (JStr (sr_digest scan))" "stored = job" "d' = d"
      using rp by (auto simp: record_passed_def history True split: option.splits if_splits)
    then have "ev \<in> set (job_events d (j_id job))" "e_event_type ev = ''job.review_ready''"
      using Prelude.find_Some_iff [OF found(1)] by simp_all
    then show ?thesis using found True by (auto simp: job_events_def)
  next
    case False
    obtain r where tr: "transition sha (ready_update job) (ready_event job scan (job_events d (j_id job))) None now d = (Inr (stored, ev), d')"
      using rp by (auto simp: record_passed_def history False split: prod.splits)
    show ?thesis
      using transition_stored [OF wf tr] select_job_Some [of d' "j_id job" stored]
      by (auto simp: ready_update_def ready_event_def matches_requested_state_def)
  qed
qed

subsection \<open>Samples\<close>

text \<open>An evaluated run that succeeds has a result.\<close>

lemma run_result: "(case fst p of Inr x \<Rightarrow> True | Inl e \<Rightarrow> False) \<Longrightarrow> \<exists>x d'. p = (Inr x, d')"
  by (cases p) (auto split: sum.splits)

lemma sum_result: "(case m of Inr x \<Rightarrow> True | Inl e \<Rightarrow> False) \<Longrightarrow> \<exists>x. m = Inr x"
  by (cases m) auto

definition sample_gate_db :: "job_state \<Rightarrow> db" where
  "sample_gate_db st = (sample_db st)\<lparr>jobs := [(sample_job st)\<lparr>j_request_snapshot :=
     [(''repo_head'', JStr (replicate 40 CHR ''a''))]\<rparr>]\<rparr>"

lemma sample_gate_wf: "core_wf sample_sha (sample_gate_db Verifying)"
proof -
  have "job_ok ((sample_job Verifying)\<lparr>j_request_snapshot := [(''repo_head'', JStr (replicate 40 CHR ''a''))]\<rparr>)"
    by code_simp
  then show ?thesis
    using sample_core_wf [of Verifying]
    by (simp add: core_wf_def projects_wf_def jobs_wf_def events_wf_def job_events_def keyed_events_def
        sample_gate_db_def sample_job_def)
qed

definition sample_collect :: "string \<Rightarrow> string \<Rightarrow> string \<Rightarrow> exn + unified_diff" where
  "sample_collect patch worktree base = Inr (sample_review patch)"

definition sample_clean_patch :: string where
  "sample_clean_patch = patch_text sample_preamble [sample_hunk]"


definition sample_gate_job :: job_row where
  "sample_gate_job = (sample_job Verifying)\<lparr>j_request_snapshot := [(''repo_head'', JStr (replicate 40 CHR ''a''))]\<rparr>"

definition sample_scan :: scan_result where
  "sample_scan = \<lparr>sr_digest = replicate 64 CHR ''0'', sr_scanned_files = 1, sr_scanned_lines = 2,
     sr_findings = [], sr_incomplete_paths = []\<rparr>"

lemma sample_scan_result: "secret_scan sample_sha (sample_review sample_clean_patch) = sample_scan"
proof -
  have "foldl scan_entry ([], [], 0, 0) (ud_files (sample_review sample_clean_patch)) = ([], [], 1, 2)" by code_simp
  moreover have "scan_digest sample_sha u = replicate 64 CHR ''0''" for u
    by (simp add: scan_digest_def sample_sha_def)
  ultimately show ?thesis by (simp add: secret_scan_def sample_scan_def sample_review_def)
qed

lemma sample_gate_loaded: "load_gate_job ''job-1'' (sample_gate_db Verifying) = Inr sample_gate_job"
proof -
  have "case load_gate_job ''job-1'' (sample_gate_db Verifying) of Inr job \<Rightarrow> True | Inl e \<Rightarrow> False" by code_simp
  from sum_result [OF this] obtain job where job: "load_gate_job ''job-1'' (sample_gate_db Verifying) = Inr job"
    by blast
  have "select_job (sample_gate_db Verifying) ''job-1'' = Some sample_gate_job"
    by (simp add: select_job_def sample_gate_db_def sample_gate_job_def) (simp add: sample_job_def)
  then show ?thesis using load_gate_job_Inr [OF job] job by simp
qed

subsection \<open>Properties\<close>

text \<open>
  C23: a job is reported ready for review only after a scan of the collected worktree diff, which the caller
  may have pinned by its digest, found every file shown and clean; a readiness event of the job then records
  that digest, and the store is unchanged or the job made one lifecycle step together with that event.
\<close>

theorem gate_ready_only_clean:
  assumes "core_wf sha d" and "gate_evaluate sha collect i expected now d0 d = (Inr ready, d')"
  shows "\<exists>job review ev. load_gate_job i d0 = Inr job \<and> collect (worktree_of job) (job_base job) = Inr review \<and>
    rd_scan ready = secret_scan sha review \<and> rd_state ready = ReviewReady \<and>
    \<not> ud_truncated review \<and> list_all entry_clean (ud_files review) \<and>
    (expected = None \<or> expected = Some (scan_digest sha review)) \<and>
    ev \<in> set (events d') \<and> e_id ev = rd_event_id ready \<and> e_job_id ev = i \<and>
    e_event_type ev = ''job.review_ready'' \<and>
    (map_of (e_payload ev) ''scan_digest'' = Some (JStr (scan_digest sha review)) \<or>
     e_payload_hash ev = sha (render (JObj (canon_obj (scan_event_payload (secret_scan sha review)))))) \<and>
    (d' = d \<or> (\<exists>old. select_job d i = Some old \<and> lifecycle_step (j_state old) ReviewReady \<and>
       d' = add_event ev (put_job now (ready_update job) d)))"
proof -
  obtain job review stored ev where load: "load_gate_job i d0 = Inr job"
      and c: "collect (worktree_of job) (job_base job) = Inr review" "scan_passed (secret_scan sha review)"
        "expected = None \<or> expected = Some (scan_digest sha review)"
      and rp: "record_passed sha job (secret_scan sha review) now d = (Inr (stored, ev), d')"
      and ready: "ready = \<lparr>rd_job_id = j_id stored, rd_state = j_state stored, rd_event_id = e_id ev,
         rd_scan = secret_scan sha review\<rparr>"
    using gate_evaluate_Inr [OF assms(2)] by blast
  have id: "j_id job = i" "plain_text (j_id job)"
    using load_gate_job_Inr [OF load] job_to_record_id by auto
  have f: "ev \<in> set (events d')" "e_job_id ev = i" "e_event_type ev = ''job.review_ready''"
      "map_of (e_payload ev) ''scan_digest'' = Some (JStr (scan_digest sha review)) \<or>
       e_payload_hash ev = sha (render (JObj (canon_obj (scan_event_payload (secret_scan sha review)))))"
      "j_state stored = ReviewReady"
      "d' = d \<or> (\<exists>old. select_job d i = Some old \<and> lifecycle_step (j_state old) ReviewReady \<and>
         d' = add_event ev (put_job now (ready_update job) d))"
    using record_passed_Inr [OF assms(1) id(2) rp] by (simp_all only: id(1) scan_result_digest)
  have r: "rd_scan ready = secret_scan sha review" "rd_state ready = ReviewReady" "e_id ev = rd_event_id ready"
    by (simp_all add: ready f(5))
  have clean: "\<not> ud_truncated review" "list_all entry_clean (ud_files review)"
    using c(2) by (simp_all add: scan_passed_clean)
  show ?thesis
    by (rule exI [of _ job], rule exI [of _ review], rule exI [of _ ev]) (intro conjI load c(1,3) r clean f)
qed

theorem gate_ready_only_clean_witness:
  "\<exists>ready d'. gate_evaluate sample_sha (sample_collect sample_clean_patch) ''job-1'' None 50
      (sample_gate_db Verifying) (sample_gate_db Verifying) = (Inr ready, d') \<and> rd_state ready = ReviewReady"
proof -
  let ?d = "sample_gate_db Verifying"
  have "case fst (gate_scanned sample_sha sample_gate_job sample_scan None 50 ?d) of
      Inr ready \<Rightarrow> True | Inl e \<Rightarrow> False" by code_simp
  from run_result [OF this] obtain ready d' where
    sc: "gate_scanned sample_sha sample_gate_job sample_scan None 50 ?d = (Inr ready, d')" by (elim exE) (rule that)
  have g: "gate_evaluate sample_sha (sample_collect sample_clean_patch) ''job-1'' None 50 ?d ?d = (Inr ready, d')"
    using load_gate_job_Inr [OF sample_gate_loaded] job_to_record_id [of sample_gate_job]
    by (simp add: gate_evaluate_def gate_job_id_def sample_gate_loaded gate_collect_def sample_collect_def
        sample_scan_result sc)
  have "rd_state ready = ReviewReady" using gate_ready_only_clean [OF sample_gate_wf g] by blast
  then show ?thesis using g by blast
qed








end
