(* ===== verification/WriteBoundary.thy ===== *)
theory WriteBoundary
  imports TeamConfig Diffs
begin

text \<open>
  \<open>WriteBoundary\<close> (write_boundary.py): which paths below a worktree may be written. A \<open>file_system\<close> is what
  the process observes at one moment: \<open>fs_lstat\<close> and \<open>fs_resolve\<close> of an absolute path, given by its parts
  after the single leading slash. A \<open>Path\<close> argument arrives as its \<open>as_posix\<close> text.
\<close>

datatype file_kind = Symlink | Directory | RegularFile | OtherFile

record file_status =
  st_kind :: file_kind
  st_dev :: int
  st_ino :: int
  st_nlink :: int

record file_system =
  fs_lstat :: "string list \<Rightarrow> exn + file_status"
  fs_resolve :: "string list \<Rightarrow> exn + string list"

record write_boundary =
  wb_root :: "string list"
  wb_root_identity :: "int \<times> int"
  wb_device :: int
  wb_scopes :: "string list list"
  wb_writable_identities :: "(int \<times> int) list option"

subsection \<open>Paths\<close>

definition path_text :: "string list \<Rightarrow> string" where
  "path_text ps = (if ps = [] then ''.'' else join_slash ps)"

definition control_char :: "char \<Rightarrow> bool" where
  "control_char c \<longleftrightarrow> code_point c < 32 \<or> code_point c = 127"

text \<open>\<open>str.isalpha\<close> among the code points of the model.\<close>

definition alpha_char :: "char \<Rightarrow> bool" where
  "alpha_char c \<longleftrightarrow>
     (let n = code_point c in
      65 \<le> n \<and> n \<le> 90 \<or> 97 \<le> n \<and> n \<le> 122 \<or> n \<in> {170, 181, 186} \<or>
      192 \<le> n \<and> n \<noteq> 215 \<and> n \<noteq> 247)"

definition protected_directories :: "string list" where
  "protected_directories = [''.agents'', ''.codex'', ''.git'']"

text \<open>Only the ASCII letters of a name can make it, folded, one of the protected names.\<close>

definition protected_name :: "string \<Rightarrow> bool" where
  "protected_name p \<longleftrightarrow> map lower_char p \<in> set protected_directories"

definition relative_parts :: "bool \<Rightarrow> string \<Rightarrow> exn + string list" where
  "relative_parts allow_root v =
     (if v = [] \<or> list_ex control_char v then Inl WriteBoundaryError
      else if CHR 0x5C \<in> set v \<or> hd v = CHR ''/'' then Inl WriteBoundaryError
      else if 2 \<le> length v \<and> alpha_char (v ! 0) \<and> v ! 1 = CHR '':'' then Inl WriteBoundaryError
      else if v = ''.'' then (if allow_root then Inr [] else Inl WriteBoundaryError)
      else let parts = split_slash v in
        if list_ex (\<lambda>p. p = [] \<or> p = ''.'' \<or> p = ''..'') parts then Inl WriteBoundaryError
        else if list_ex protected_name parts then Inl WriteBoundaryError
        else Inr parts)"

text \<open>
  An absolute candidate is taken relative to the root; \<open>Path\<close> drops empty and \<open>.\<close> parts, and a path that
  starts with exactly two slashes has another root.
\<close>

definition candidate_parts :: "write_boundary \<Rightarrow> string \<Rightarrow> exn + string list" where
  "candidate_parts b candidate =
     (if candidate \<noteq> [] \<and> hd candidate = CHR ''/'' then
        (let parts = posix_parts candidate; n = length (wb_root b) in
         if take 2 candidate = ''//'' \<and> take 3 candidate \<noteq> ''///'' \<or> take n parts \<noteq> wb_root b
         then Inl WriteBoundaryError
         else relative_parts False (path_text (drop n parts)))
      else relative_parts False candidate)"

definition within :: "string list \<Rightarrow> string list \<Rightarrow> bool" where
  "within candidate scope \<longleftrightarrow> scope = [] \<or> take (length scope) candidate = scope"

subsection \<open>Construction\<close>

definition load_root :: "file_system \<Rightarrow> string list \<Rightarrow> exn + file_status" where
  "load_root fs worktree =
     bindE (rethrow (\<lambda>e. isa e OsErr \<or> isa e RuntimeErr) WriteBoundaryError
              (bindE (fs_lstat fs worktree) (\<lambda>metadata.
               bindE (fs_resolve fs worktree) (\<lambda>resolved. Inr (metadata, resolved)))))
       (\<lambda>(metadata, resolved).
         if st_kind metadata \<noteq> Directory then Inl WriteBoundaryError
         else if resolved \<noteq> worktree then Inl WriteBoundaryError
         else Inr metadata)"

definition make_boundary :: "file_system \<Rightarrow> string \<Rightarrow> string list \<Rightarrow> exn + write_boundary" where
  "make_boundary fs worktree allowed_paths =
     (if worktree = [] \<or> hd worktree \<noteq> CHR ''/'' then Inl ValueErr
      else if allowed_paths = [] then Inl TypeErr
      else let root = posix_parts worktree in
        bindE (load_root fs root) (\<lambda>metadata.
        bindE (mapE (relative_parts True) allowed_paths) (\<lambda>scopes.
          if \<not> distinct scopes then Inl ValueErr
          else Inr \<lparr>wb_root = root, wb_root_identity = (st_dev metadata, st_ino metadata),
                 wb_device = st_dev metadata, wb_scopes = scopes, wb_writable_identities = None\<rparr>)))"

definition allowed_paths :: "write_boundary \<Rightarrow> string list" where
  "allowed_paths b = map path_text (wb_scopes b)"

subsection \<open>Authorization\<close>

definition boundary_verify :: "file_system \<Rightarrow> write_boundary \<Rightarrow> exn + unit" where
  "boundary_verify fs b =
     bindE (rethrow (\<lambda>e. isa e OsErr) WriteBoundaryError (fs_lstat fs (wb_root b))) (\<lambda>metadata.
       if st_kind metadata \<noteq> Directory \<or> (st_dev metadata, st_ino metadata) \<noteq> wb_root_identity b
       then Inl WriteBoundaryError else Inr ())"

text \<open>The walk over the parts of the target; \<open>current\<close> has been checked.\<close>

fun inspect :: "file_system \<Rightarrow> int \<Rightarrow> string list \<Rightarrow> string list \<Rightarrow> exn + unit" where
  "inspect fs device current [] = Inr ()"
| "inspect fs device current (part # rest) =
     (case fs_lstat fs (current @ [part]) of
        Inl e \<Rightarrow> if isa e FileNotFoundErr then Inr ()
                 else if isa e OsErr then Inl WriteBoundaryError else Inl e
      | Inr metadata \<Rightarrow>
          if st_kind metadata = Symlink then Inl WriteBoundaryError
          else if st_dev metadata \<noteq> device then Inl WriteBoundaryError
          else if rest \<noteq> [] \<and> st_kind metadata \<noteq> Directory then Inl WriteBoundaryError
          else if rest = [] \<and> st_kind metadata \<noteq> RegularFile \<and> st_kind metadata \<noteq> Directory
          then Inl WriteBoundaryError
          else if rest = [] \<and> st_kind metadata = RegularFile \<and> st_nlink metadata \<noteq> 1
          then Inl WriteBoundaryError
          else inspect fs device (current @ [part]) rest)"

definition authorize_parts :: "file_system \<Rightarrow> write_boundary \<Rightarrow> string \<Rightarrow> exn + string list \<times> string list" where
  "authorize_parts fs b candidate =
     bindE (boundary_verify fs b) (\<lambda>_.
     bindE (candidate_parts b candidate) (\<lambda>parts.
       if \<not> list_ex (within parts) (wb_scopes b) then Inl WriteBoundaryError
       else bindE (inspect fs (wb_device b) (wb_root b) parts) (\<lambda>_. Inr (wb_root b @ parts, parts))))"

definition boundary_authorize :: "file_system \<Rightarrow> write_boundary \<Rightarrow> string \<Rightarrow> exn + string list" where
  "boundary_authorize fs b candidate = bindE (authorize_parts fs b candidate) (\<lambda>(target, _). Inr target)"

definition boundary_relative :: "file_system \<Rightarrow> write_boundary \<Rightarrow> string \<Rightarrow> exn + string" where
  "boundary_relative fs b candidate =
     bindE (authorize_parts fs b candidate) (\<lambda>(_, parts). Inr (path_text parts))"

definition writable_root ::
  "file_system \<Rightarrow> write_boundary \<Rightarrow> string list \<Rightarrow> exn + string list \<times> int \<times> int" where
  "writable_root fs b scope =
     (if scope = [] then Inr (wb_root b, wb_root_identity b)
      else bindE (boundary_authorize fs b (path_text scope)) (\<lambda>target.
           bindE (rethrow (\<lambda>e. isa e OsErr) WriteBoundaryError (fs_lstat fs target)) (\<lambda>metadata.
             if st_kind metadata \<noteq> Directory then Inl WriteBoundaryError
             else Inr (target, st_dev metadata, st_ino metadata))))"

definition writable_roots ::
  "file_system \<Rightarrow> write_boundary \<Rightarrow> (exn + string list list) \<times> write_boundary" where
  "writable_roots fs b =
     (case bindE (boundary_verify fs b) (\<lambda>_. mapE (writable_root fs b) (wb_scopes b)) of
        Inl e \<Rightarrow> (Inl e, b)
      | Inr observed \<Rightarrow>
          (case wb_writable_identities b of
             None \<Rightarrow> (Inr (map fst observed), b\<lparr>wb_writable_identities := Some (map snd observed)\<rparr>)
           | Some identities \<Rightarrow>
               (if identities \<noteq> map snd observed then Inl WriteBoundaryError
                else Inr (map fst observed), b)))"

subsection \<open>What an authorization guarantees\<close>

lemma relative_parts_Inr:
  assumes "relative_parts False v = Inr parts"
  shows "parts = split_slash v \<and> v \<noteq> [] \<and> hd v \<noteq> CHR ''/'' \<and> v \<noteq> ''.'' \<and>
    list_all (\<lambda>p. p \<noteq> [] \<and> p \<noteq> ''.'' \<and> p \<noteq> ''..'' \<and> \<not> protected_name p) parts \<and>
    list_all (\<lambda>c. \<not> control_char c \<and> c \<noteq> CHR 0x5C) v"
  using assms
  by (auto simp: relative_parts_def Let_def list_ex_iff list_all_iff split: if_splits)

lemma split_slash_nonempty: "split_slash v \<noteq> []"
  by (cases v) (auto split: list.splits)

lemma join_split: "join_slash (split_slash v) = v"
proof (induction v)
  case (Cons c v)
  obtain p ps where "split_slash v = p # ps" using split_slash_nonempty by (cases "split_slash v") auto
  then show ?case using Cons.IH by (cases ps) auto
qed simp

lemma split_slash_chars: "p \<in> set (split_slash v) \<Longrightarrow> set p \<subseteq> set v - {CHR ''/''}"
proof (induction v arbitrary: p)
  case (Cons c v)
  obtain q qs where q: "split_slash v = q # qs" using split_slash_nonempty by (cases "split_slash v") auto
  have "set x \<subseteq> set v - {CHR ''/''}" if "x \<in> {q} \<union> set qs" for x
    using Cons.IH [of x] that q by auto
  then show ?case using Cons.prems q by (auto split: if_splits) blast+
qed auto

lemma candidate_parts_Inr:
  "candidate_parts b c = Inr parts \<Longrightarrow> \<exists>v. relative_parts False v = Inr parts"
  by (auto simp: candidate_parts_def Let_def split: if_splits)

lemma candidate_parts_text:
  assumes "candidate_parts b c = Inr parts"
  shows "candidate_parts b (path_text parts) = Inr parts"
proof -
  obtain v where v: "relative_parts False v = Inr parts" using candidate_parts_Inr [OF assms] by blast
  note r = relative_parts_Inr [OF v]
  have "path_text parts = v" using r join_split [of v] split_slash_nonempty [of v] by (simp add: path_text_def)
  then show ?thesis using v r by (simp add: candidate_parts_def)
qed

text \<open>What the walk has seen of a target when it accepts it, part by part up to the first missing one.\<close>

fun walked :: "file_system \<Rightarrow> int \<Rightarrow> string list \<Rightarrow> string list \<Rightarrow> bool" where
  "walked fs device current [] = True"
| "walked fs device current (part # rest) =
     (case fs_lstat fs (current @ [part]) of
        Inl e \<Rightarrow> isa e FileNotFoundErr
      | Inr m \<Rightarrow> st_dev m = device \<and>
          (if rest = [] then st_kind m = Directory \<or> st_kind m = RegularFile \<and> st_nlink m = 1
           else st_kind m = Directory) \<and> walked fs device (current @ [part]) rest)"

lemma inspect_walked: "inspect fs device current parts = Inr () \<longleftrightarrow> walked fs device current parts"
proof (induction parts arbitrary: current)
  case (Cons part rest)
  show ?case
  proof (cases "fs_lstat fs (current @ [part])")
    case (Inr m)
    then show ?thesis using Cons.IH [of "current @ [part]"] by (cases "st_kind m") auto
  qed auto
qed simp

lemma authorize_parts_Inr:
  "authorize_parts fs b c = Inr (target, parts) \<longleftrightarrow>
     boundary_verify fs b = Inr () \<and> candidate_parts b c = Inr parts \<and> target = wb_root b @ parts \<and>
     list_ex (within parts) (wb_scopes b) \<and> walked fs (wb_device b) (wb_root b) parts"
  by (auto simp: authorize_parts_def bindE_eq_Inr inspect_walked split: if_splits)

text \<open>A target the walk accepts has no symbolic link and no other device among its existing parts.\<close>

lemma walked_prefix:
  assumes "walked fs device current parts" and "k < length parts"
    and "\<forall>j<k. \<exists>m. fs_lstat fs (current @ take (Suc j) parts) = Inr m"
    and "fs_lstat fs (current @ take (Suc k) parts) = Inr m"
  shows "st_dev m = device \<and> st_kind m \<noteq> Symlink \<and> (Suc k < length parts \<longrightarrow> st_kind m = Directory)"
  using assms
proof (induction parts arbitrary: current k)
  case (Cons part rest)
  show ?case
  proof (cases k)
    case 0
    then show ?thesis using Cons.prems(1,4) by (auto split: if_splits)
  next
    case (Suc i)
    obtain m0 where "fs_lstat fs (current @ [part]) = Inr m0" using Cons.prems(3) Suc by force
    then have "walked fs device (current @ [part]) rest" using Cons.prems(1) by simp
    moreover have "\<forall>j<i. \<exists>m. fs_lstat fs ((current @ [part]) @ take (Suc j) rest) = Inr m"
      using Cons.prems(3) Suc by (metis Suc_mono append_Cons append_assoc append_Nil take_Suc_Cons)
    ultimately show ?thesis using Cons.IH [of "current @ [part]" i] Cons.prems(2,4) Suc by simp
  qed
qed simp

subsection \<open>Samples\<close>

definition sample_fs :: file_system where
  "sample_fs = \<lparr>fs_lstat = (\<lambda>p.
       if p = [''srv'', ''wt''] then Inr \<lparr>st_kind = Directory, st_dev = 1, st_ino = 10, st_nlink = 2\<rparr>
       else if p = [''srv'', ''wt'', ''src''] then Inr \<lparr>st_kind = Directory, st_dev = 1, st_ino = 11, st_nlink = 2\<rparr>
       else if p = [''srv'', ''wt'', ''src'', ''link''] then Inr \<lparr>st_kind = Symlink, st_dev = 1, st_ino = 12, st_nlink = 1\<rparr>
       else Inl FileNotFoundErr),
     fs_resolve = Inr\<rparr>"

definition sample_boundary :: write_boundary where
  "sample_boundary = \<lparr>wb_root = [''srv'', ''wt''], wb_root_identity = (1, 10), wb_device = 1,
     wb_scopes = [[''src'']], wb_writable_identities = None\<rparr>"

lemma sample_boundary_made: "make_boundary sample_fs ''/srv/wt'' [''src''] = Inr sample_boundary"
  by code_simp

subsection \<open>Properties\<close>

text \<open>
  C27: an authorized path is the verified worktree root followed by ordinary names inside an allowed scope,
  none of them a protected directory, an alias such as a dot name, or a name with a slash; and on the file
  system it was checked on no part of it that exists is a symbolic link or lies on another device, and no
  parent of it is anything but a directory.
\<close>

theorem boundary_confines:
  assumes "boundary_authorize fs b candidate = Inr target"
  shows "\<exists>parts. target = wb_root b @ parts \<and> parts \<noteq> [] \<and> list_ex (within parts) (wb_scopes b) \<and>
    list_all (\<lambda>p. p \<noteq> [] \<and> p \<noteq> ''.'' \<and> p \<noteq> ''..'' \<and> CHR ''/'' \<notin> set p \<and> \<not> protected_name p) parts \<and>
    boundary_verify fs b = Inr () \<and>
    (\<forall>k m. k < length parts \<and> (\<forall>j<k. \<exists>m. fs_lstat fs (wb_root b @ take (Suc j) parts) = Inr m) \<and>
        fs_lstat fs (wb_root b @ take (Suc k) parts) = Inr m \<longrightarrow>
      st_dev m = wb_device b \<and> st_kind m \<noteq> Symlink \<and> (Suc k < length parts \<longrightarrow> st_kind m = Directory))"
proof -
  obtain parts where a: "authorize_parts fs b candidate = Inr (target, parts)"
    using assms by (auto simp: boundary_authorize_def bindE_eq_Inr)
  note p = a [unfolded authorize_parts_Inr]
  obtain v where v: "relative_parts False v = Inr parts" using candidate_parts_Inr p by blast
  note r = relative_parts_Inr [OF v]
  have "list_all (\<lambda>p. CHR ''/'' \<notin> set p) parts"
    using r split_slash_chars by (auto simp: list_all_iff)
  then have "list_all (\<lambda>p. p \<noteq> [] \<and> p \<noteq> ''.'' \<and> p \<noteq> ''..'' \<and> CHR ''/'' \<notin> set p \<and> \<not> protected_name p) parts"
    using r by (auto simp: list_all_iff)
  then show ?thesis
    using p r walked_prefix [of fs "wb_device b" "wb_root b" parts] split_slash_nonempty
    by (intro exI [of _ parts]) auto
qed

theorem boundary_confines_witness:
  "boundary_authorize sample_fs sample_boundary ''/srv/wt/./src/new.py'' = Inr [''srv'', ''wt'', ''src'', ''new.py''] \<and>
   boundary_authorize sample_fs sample_boundary ''src/link/x'' = Inl WriteBoundaryError \<and>
   (\<exists>parts. [''srv'', ''wt'', ''src'', ''new.py''] = [''srv'', ''wt''] @ parts \<and> parts \<noteq> [])"
proof -
  have a: "boundary_authorize sample_fs sample_boundary ''/srv/wt/./src/new.py'' = Inr [''srv'', ''wt'', ''src'', ''new.py'']"
    by code_simp
  have l: "boundary_authorize sample_fs sample_boundary ''src/link/x'' = Inl WriteBoundaryError" by code_simp
  have "wb_root sample_boundary = [''srv'', ''wt'']" by (simp add: sample_boundary_def)
  then show ?thesis using a l boundary_confines [OF a] by metis
qed

text \<open>
  The provider facing name of an authorized path denotes that path again: it is authorized on the same
  file system, names itself, and has the same target.
\<close>

theorem boundary_relative_roundtrip:
  assumes "boundary_relative fs b candidate = Inr name"
  shows "boundary_relative fs b name = Inr name \<and> boundary_authorize fs b name = boundary_authorize fs b candidate"
proof -
  obtain target parts where a: "authorize_parts fs b candidate = Inr (target, parts)" "name = path_text parts"
    using assms by (auto simp: boundary_relative_def bindE_eq_Inr)
  then have "authorize_parts fs b name = Inr (target, parts)"
    using candidate_parts_text by (auto simp: authorize_parts_Inr)
  then show ?thesis using a by (simp add: boundary_relative_def boundary_authorize_def)
qed

theorem boundary_relative_roundtrip_witness:
  "boundary_relative sample_fs sample_boundary ''/srv/wt//src/a/'' = Inr ''src/a'' \<and>
   boundary_relative sample_fs sample_boundary ''src/a'' = Inr ''src/a''"
proof -
  have a: "boundary_relative sample_fs sample_boundary ''/srv/wt//src/a/'' = Inr ''src/a''" by code_simp
  show ?thesis using a boundary_relative_roundtrip [OF a] by simp
qed

end
