(* ===== verification/LiveReview.thy ===== *)
theory LiveReview
  imports Workflow RuntimeEvents SecretGate
begin

text \<open>
  \<open>ApprovalService\<close> (approval_service.py): what a person sees of a review, the request for a decision and the
  decision itself, each bound to the frozen bundle and to the live content of the worktree.
  \<open>collect worktree base\<close> stands for \<open>ReadOnlyDiffService(worktree, base).collect()\<close>. A handler reads from
  the store \<open>d0\<close> before Git runs and writes to \<open>d\<close>, which other operations may have changed meanwhile;
  \<open>clk\<close> is the service's clock and \<open>t\<close> the clocks of the workflow repository.
\<close>

subsection \<open>Requests and bindings\<close>

definition approval_body :: "json \<Rightarrow> string list \<Rightarrow> exn + payload" where
  "approval_body value names =
     (case value of
        JObj p \<Rightarrow> if fst ` set p = set names then Inr p else Inl ApprovalInputError
      | _ \<Rightarrow> Inl ApprovalInputError)"

definition bundle_hash_text :: "json \<Rightarrow> exn + string" where
  "bundle_hash_text value =
     (case value of JStr v \<Rightarrow> if hex64 v then Inr v else Inl ApprovalInputError | _ \<Rightarrow> Inl ApprovalInputError)"

definition approval_binding :: "string \<Rightarrow> int \<Rightarrow> string \<Rightarrow> payload" where
  "approval_binding job_id scan_event_id bundle_hash =
     [(''job_id'', JStr job_id), (''scan_event_id'', JInt scan_event_id), (''bundle_hash'', JStr bundle_hash)]"

definition event_binding :: "(string \<Rightarrow> string) \<Rightarrow> event_row \<Rightarrow> approval_row \<Rightarrow> exn + payload" where
  "event_binding sha event approval =
     (case get_field (e_payload event) ''scan_event_id'' of
        JInt scan_event_id \<Rightarrow>
          if e_job_id event \<noteq> a_job_id approval \<or>
             get_field (e_payload event) ''approval_id'' \<noteq> JStr (a_id approval) \<or>
             get_field (e_payload event) ''expires_at'' \<noteq> JStr (format_timestamp (a_expires_at approval)) \<or>
             scan_event_id < 1
          then Inl ApprovalStateError
          else bindE (rethrow (\<lambda>e. isa e ApprovalInputError) ApprovalStateError
                        (bundle_hash_text (get_field (e_payload event) ''bundle_hash''))) (\<lambda>h.
               let b = approval_binding (a_job_id approval) scan_event_id h in
               bindE (payload_hash sha b) (\<lambda>ph.
                 if ph \<noteq> a_payload_hash approval then Inl ApprovalStateError else Inr b))
      | _ \<Rightarrow> Inl ApprovalStateError)"

subsection \<open>The live worktree\<close>

definition evidence_names_job :: "(string \<Rightarrow> string) \<Rightarrow> string \<Rightarrow> job_row \<Rightarrow> bundle_row \<Rightarrow> bool" where
  "evidence_names_job sha snapshot job b =
     (let evidence = b_payload b in
      get_field evidence ''job_id'' = JStr (j_id job) \<and>
      get_field evidence ''project_id'' = JStr (j_project_id job) \<and>
      get_field evidence ''runtime'' = JStr (runtime_value (j_runtime job)) \<and>
      get_field evidence ''model'' = json_opt_of JStr (j_model job) \<and>
      get_field evidence ''request_snapshot_hash'' = JStr (sha snapshot) \<and>
      get_field evidence ''scan_event_id'' = JInt (b_scan_event_id b))"

definition assert_live ::
  "(string \<Rightarrow> string) \<Rightarrow> (string \<Rightarrow> string \<Rightarrow> exn + unified_diff) \<Rightarrow> job_row \<Rightarrow> bundle_row \<Rightarrow> exn + unit" where
  "assert_live sha collect job b =
     (case (j_worktree_path job, map_of (j_request_snapshot job) ''repo_head'') of
        (Some worktree, Some (JStr base)) \<Rightarrow>
          if \<not> valid_object_id base then Inl ApprovalStateError
          else (case dumps (j_request_snapshot job) of
              None \<Rightarrow> Inl ValueErr
            | Some snapshot \<Rightarrow>
                if \<not> evidence_names_job sha snapshot job b then Inl ApprovalStateError
                else bindE (rethrow (\<lambda>e. isa e DiffServiceError \<or> isa e OsErr \<or> isa e TypeErr \<or> isa e ValueErr)
                              ApprovalUnavailableError (collect worktree base)) (\<lambda>diff.
                  let scan = secret_scan sha diff in
                  if \<not> scan_passed scan \<or>
                     get_field (b_payload b) ''diff_digest'' \<noteq> JStr (sr_digest scan) \<or>
                     canon (JObj (unified_diff_fields diff)) \<noteq> canon (get_field (b_payload b) ''diff'')
                  then Inl ApprovalStateError else Inr ()))
      | _ \<Rightarrow> Inl ApprovalStateError)"

subsection \<open>Reading\<close>

datatype approval_status_kind = ApprovalDecided | ApprovalExpired | ApprovalPending

record approval_status =
  as_approval_id :: string
  as_bundle_hash :: "string option"
  as_expires_at :: micros
  as_state :: approval_status_kind
  as_decision :: "approval_decision option"
  as_decided_at :: "micros option"
  as_event_id :: int

record review_status =
  rs_job_id :: string
  rs_project_id :: string
  rs_job_state :: job_state
  rs_bundle_hash :: "string option"
  rs_review_current :: bool
  rs_server_time :: micros
  rs_approval :: "approval_status option"

definition read_handler :: "exn \<Rightarrow> exn" where
  "read_handler e =
     (if isa e JobNotFoundError \<or> isa e ApprovalValidationError then ApprovalMissingError
      else if isa e ApprovalWorkflowConflictError then ApprovalStateError
      else if isa e DatabaseError then ApprovalUnavailableError else e)"

definition approval_read :: "(string \<Rightarrow> string) \<Rightarrow> micros \<Rightarrow> string \<Rightarrow> db \<Rightarrow> exn + review_status" where
  "approval_read sha clk job_id d =
     bindE (handle read_handler (read_review sha job_id d)) (\<lambda>review.
       let bundle_hash = map_option b_payload_hash (rv_bundle review);
           base = \<lparr>rs_job_id = j_id (rv_job review), rs_project_id = j_project_id (rv_job review),
             rs_job_state = j_state (rv_job review), rs_bundle_hash = bundle_hash,
             rs_review_current = rv_current review, rs_server_time = clk, rs_approval = None\<rparr> in
       case rv_approval review of
         None \<Rightarrow> Inr base
       | Some approval \<Rightarrow>
           (case (rv_requested review, rv_bundle review) of
              (Some requested, Some b) \<Rightarrow>
                bindE (event_binding sha requested approval) (\<lambda>binding.
                if binding \<noteq> approval_binding job_id (b_scan_event_id b) (b_payload_hash b)
                then Inl ApprovalStateError
                else if (case a_decision approval of
                      None \<Rightarrow> False
                    | Some decision \<Rightarrow> (case rv_decided review of
                          None \<Rightarrow> True
                        | Some decided \<Rightarrow> e_payload decided \<noteq> decision_payload (a_id approval)
                            (JStr (b_payload_hash b)) (json_opt_of JStr (a_channel approval)) decision
                            (decision_target decision)))
                then Inl ApprovalStateError
                else Inr (base\<lparr>rs_approval := Some \<lparr>as_approval_id = a_id approval,
                  as_bundle_hash = bundle_hash, as_expires_at = a_expires_at approval,
                  as_state = (if a_decision approval \<noteq> None then ApprovalDecided
                    else if a_expires_at approval \<le> clk then ApprovalExpired else ApprovalPending),
                  as_decision = a_decision approval, as_decided_at = a_decided_at approval,
                  as_event_id = e_id (case rv_decided review of Some decided \<Rightarrow> decided | None \<Rightarrow> requested)\<rparr>\<rparr>))
            | _ \<Rightarrow> Inl ApprovalStateError))"

subsection \<open>Loading\<close>

definition review_job :: "string \<Rightarrow> db \<Rightarrow> exn + job_row" where
  "review_job job_id d =
     handle (\<lambda>e. if isa e JobNotFoundError \<or> isa e JobValidationError then ApprovalMissingError
               else if isa e DatabaseError then ApprovalUnavailableError else e) (job_get job_id d)"

definition review_bundle :: "(string \<Rightarrow> string) \<Rightarrow> string \<Rightarrow> db \<Rightarrow> exn + bundle_row" where
  "review_bundle sha job_id d =
     handle (\<lambda>e. if isa e ReviewBundleNotFoundError then ApprovalStateError
               else if isa e DatabaseError then ApprovalUnavailableError else e) (bundle_get sha job_id d)"

subsection \<open>Requesting\<close>

record request_response =
  rq_approval_id :: string
  rq_job_id :: string
  rq_bundle_hash :: string
  rq_expires_at :: micros
  rq_event_id :: int

definition request_check ::
  "(string \<Rightarrow> string) \<Rightarrow> (string \<Rightarrow> string \<Rightarrow> exn + unified_diff) \<Rightarrow> string \<Rightarrow> json \<Rightarrow> db
   \<Rightarrow> exn + job_row \<times> bundle_row" where
  "request_check sha collect job_id body d =
     bindE (approval_body body [''bundle_hash'']) (\<lambda>p.
     bindE (bundle_hash_text (get_field p ''bundle_hash'')) (\<lambda>viewed_hash.
     bindE (review_job job_id d) (\<lambda>job.
     if j_state job \<notin> {ReviewReady, WaitingApproval} then Inl ApprovalStateError
     else bindE (review_bundle sha (j_id job) d) (\<lambda>b.
     if viewed_hash \<noteq> b_payload_hash b then Inl ApprovalStateError
     else bindE (assert_live sha collect job b) (\<lambda>_. Inr (job, b))))))"

definition request_handler :: "exn \<Rightarrow> exn" where
  "request_handler e =
     (if isa e ApprovalExpiredError \<or> isa e ApprovalWorkflowConflictError then ApprovalStateError
      else if isa e DatabaseError then ApprovalUnavailableError else e)"

definition approval_request ::
  "(string \<Rightarrow> string) \<Rightarrow> (string \<Rightarrow> string \<Rightarrow> exn + unified_diff) \<Rightarrow> string \<Rightarrow> micros \<Rightarrow> micros \<times> micros
   \<Rightarrow> string \<Rightarrow> json \<Rightarrow> db \<Rightarrow> db \<Rightarrow> (exn + request_response) \<times> db" where
  "approval_request sha collect new_id clk t job_id body d0 d =
     validated (request_check sha collect job_id body d0) (\<lambda>(job, b) d.
       if clk + 900000000 > max_instant then (Inl OverflowErr, d)
       else (case workflow_request sha
               \<lparr>ac_id = new_id, ac_job_id = j_id job,
                ac_payload = approval_binding (j_id job) (b_scan_event_id b) (b_payload_hash b),
                ac_expires_at = clk + 900000000\<rparr> job b t d of
           (r, d') \<Rightarrow>
             (bindE (handle request_handler r) (\<lambda>(approval, event).
                Inr \<lparr>rq_approval_id = a_id approval, rq_job_id = a_job_id approval,
                  rq_bundle_hash = b_payload_hash b, rq_expires_at = a_expires_at approval,
                  rq_event_id = e_id event\<rparr>), d'))) d"

subsection \<open>Deciding\<close>

record decision_request =
  dq_decision :: approval_decision
  dq_viewed_hash :: string
  dq_binding :: payload
  dq_expected :: "(job_row \<times> bundle_row) option"
  dq_identity :: "payload option"

fun decision_of :: "json \<Rightarrow> exn + approval_decision" where
  "decision_of (JStr v) =
     (if v = ''approved'' then Inr DApproved else if v = ''rejected'' then Inr DRejected
      else if v = ''changes_requested'' then Inr DChangesRequested else Inl ApprovalInputError)"
| "decision_of _ = Inl ApprovalInputError"

definition decide_load_handler :: "exn \<Rightarrow> exn" where
  "decide_load_handler e =
     (if isa e ApprovalNotFoundError then ApprovalMissingError
      else if isa e ApprovalValidationError then ApprovalInputError
      else if isa e ApprovalWorkflowConflictError then ApprovalStateError
      else if isa e DatabaseError then ApprovalUnavailableError else e)"

text \<open>The live check of a decision that is still open; a rejection also records the identity of the worktree.\<close>

definition decide_live ::
  "(string \<Rightarrow> string) \<Rightarrow> (string \<Rightarrow> string \<Rightarrow> exn + unified_diff) \<Rightarrow> (string \<Rightarrow> exn + payload option)
   \<Rightarrow> approval_decision \<Rightarrow> string \<Rightarrow> payload \<Rightarrow> approval_row \<Rightarrow> db
   \<Rightarrow> exn + (job_row \<times> bundle_row) option \<times> payload option" where
  "decide_live sha collect identity decision viewed_hash binding approval d =
     (if a_decision approval \<noteq> None then Inr (None, None)
      else bindE (review_job (a_job_id approval) d) (\<lambda>job.
           bindE (review_bundle sha (a_job_id approval) d) (\<lambda>b.
           if j_state job \<noteq> WaitingApproval \<or> b_payload_hash b \<noteq> viewed_hash \<or>
              JInt (b_scan_event_id b) \<noteq> get_field binding ''scan_event_id''
           then Inl ApprovalStateError
           else bindE (assert_live sha collect job b) (\<lambda>_.
             if decision \<noteq> DRejected then Inr (Some (job, b), None)
             else bindE (rethrow (\<lambda>e. isa e WorktreeError) ApprovalUnavailableError
                           (identity (worktree_of job))) (\<lambda>retained.
               Inr (Some (job, b), retained))))))"

definition decide_check ::
  "(string \<Rightarrow> string) \<Rightarrow> (string \<Rightarrow> string \<Rightarrow> exn + unified_diff) \<Rightarrow> (string \<Rightarrow> exn + payload option)
   \<Rightarrow> string \<Rightarrow> json \<Rightarrow> db \<Rightarrow> exn + decision_request" where
  "decide_check sha collect identity approval_id body d =
     bindE (approval_body body [''decision'', ''bundle_hash'']) (\<lambda>p.
     bindE (bundle_hash_text (get_field p ''bundle_hash'')) (\<lambda>viewed_hash.
     bindE (decision_of (get_field p ''decision'')) (\<lambda>decision.
     bindE (handle decide_load_handler
              (bindE (approval_get approval_id d) (\<lambda>approval.
               bindE (get_request_event sha (a_id approval) (a_job_id approval) d) (\<lambda>requested.
                 Inr (approval, requested))))) (\<lambda>(approval, requested).
     bindE (event_binding sha requested approval) (\<lambda>binding.
     if JStr viewed_hash \<noteq> get_field binding ''bundle_hash'' then Inl ApprovalStateError
     else bindE (decide_live sha collect identity decision viewed_hash binding approval d) (\<lambda>(expected, retained).
       Inr \<lparr>dq_decision = decision, dq_viewed_hash = viewed_hash, dq_binding = binding,
         dq_expected = expected, dq_identity = retained\<rparr>))))))"

definition decide_handler :: "exn \<Rightarrow> exn" where
  "decide_handler e =
     (if isa e ApprovalDecisionConflictError \<or> isa e ApprovalExpiredError \<or> isa e ApprovalPayloadMismatchError \<or>
         isa e ApprovalWorkflowConflictError then ApprovalStateError
      else if isa e ApprovalValidationError then ApprovalInputError
      else if isa e DatabaseError then ApprovalUnavailableError else e)"

record decision_response =
  dr_approval_id :: string
  dr_job_id :: string
  dr_bundle_hash :: string
  dr_decision :: "approval_decision option"
  dr_job_state :: json
  dr_decided_at :: "micros option"
  dr_event_id :: int

definition approval_decision_service ::
  "(string \<Rightarrow> string) \<Rightarrow> (string \<Rightarrow> string \<Rightarrow> exn + unified_diff) \<Rightarrow> (string \<Rightarrow> exn + payload option) \<Rightarrow> int
   \<Rightarrow> string \<Rightarrow> string \<Rightarrow> string \<Rightarrow> json \<Rightarrow> micros \<times> micros \<Rightarrow> db \<Rightarrow> db \<Rightarrow> (exn + decision_response) \<times> db" where
  "approval_decision_service sha collect identity days actor channel approval_id body t d0 d =
     validated (decide_check sha collect identity approval_id body d0) (\<lambda>q d.
       case workflow_resolve sha days approval_id
              \<lparr>ar_decision = dq_decision q, ar_actor = actor, ar_channel = channel, ar_payload = dq_binding q\<rparr>
              (dq_expected q) (dq_identity q) t d of
         (r, d') \<Rightarrow>
           (bindE (handle decide_handler r) (\<lambda>(approval, event).
              Inr \<lparr>dr_approval_id = a_id approval, dr_job_id = a_job_id approval,
                dr_bundle_hash = dq_viewed_hash q, dr_decision = a_decision approval,
                dr_job_state = get_field (e_payload event) ''job_state'', dr_decided_at = a_decided_at approval,
                dr_event_id = e_id event\<rparr>), d')) d"

subsection \<open>What the live check establishes\<close>

text \<open>The worktree shows, complete and free of secrets, exactly the diff the bundle froze.\<close>

definition live_content ::
  "(string \<Rightarrow> string) \<Rightarrow> (string \<Rightarrow> string \<Rightarrow> exn + unified_diff) \<Rightarrow> job_row \<Rightarrow> bundle_row \<Rightarrow> unified_diff \<Rightarrow> bool" where
  "live_content sha collect job b diff \<longleftrightarrow>
     (\<exists>worktree base. j_worktree_path job = Some worktree \<and>
        map_of (j_request_snapshot job) ''repo_head'' = Some (JStr base) \<and> valid_object_id base \<and>
        collect worktree base = Inr diff) \<and>
     \<not> ud_truncated diff \<and> list_all entry_clean (ud_files diff) \<and>
     get_field (b_payload b) ''diff_digest'' = JStr (scan_digest sha diff) \<and>
     canon (get_field (b_payload b) ''diff'') = canon (JObj (unified_diff_fields diff)) \<and>
     (\<exists>snapshot. dumps (j_request_snapshot job) = Some snapshot \<and> evidence_names_job sha snapshot job b)"

lemma assert_live_Inr:
  assumes "assert_live sha collect job b = Inr ()"
  shows "\<exists>diff. live_content sha collect job b diff"
proof -
  obtain worktree base where w: "j_worktree_path job = Some worktree"
      "map_of (j_request_snapshot job) ''repo_head'' = Some (JStr base)" "valid_object_id base"
    using assms by (auto simp: assert_live_def split: option.splits json.splits if_splits)
  obtain snapshot where sn: "dumps (j_request_snapshot job) = Some snapshot" "evidence_names_job sha snapshot job b"
    using assms w by (auto simp: assert_live_def split: option.splits if_splits)
  obtain diff where diff: "collect worktree base = Inr diff" "scan_passed (secret_scan sha diff)"
      "get_field (b_payload b) ''diff_digest'' = JStr (scan_digest sha diff)"
      "canon (JObj (unified_diff_fields diff)) = canon (get_field (b_payload b) ''diff'')"
    using assms w sn by (auto simp: assert_live_def bindE_eq_Inr Let_def simp del: canon.simps split: if_splits)
  then show ?thesis
    using w sn unfolding live_content_def scan_passed_clean by metis
qed

lemma handle_eq_Inr: "handle h r = Inr x \<longleftrightarrow> r = Inr x"
  by simp

lemma decide_check_Inr:
  assumes "decide_check sha collect identity approval_id body d = Inr q"
  shows "(\<exists>p. body = JObj p \<and> get_field p ''bundle_hash'' = JStr (dq_viewed_hash q)) \<and>
    (\<forall>job b. dq_expected q = Some (job, b) \<longrightarrow>
       b_payload_hash b = dq_viewed_hash q \<and> assert_live sha collect job b = Inr ())"
proof -
  obtain p viewed_hash decision approval requested binding where
    p: "body = JObj p" "bundle_hash_text (get_field p ''bundle_hash'') = Inr viewed_hash"
    and r: "bindE (decide_live sha collect identity decision viewed_hash binding approval d)
       (\<lambda>(expected, retained). Inr \<lparr>dq_decision = decision, dq_viewed_hash = viewed_hash,
          dq_binding = binding, dq_expected = expected, dq_identity = retained\<rparr>) = Inr q"
    using assms by (auto simp: decide_check_def bindE_eq_Inr approval_body_def split: json.splits if_splits prod.splits)
  then obtain expected retained where
    l: "decide_live sha collect identity decision viewed_hash binding approval d = Inr (expected, retained)"
    and q: "q = \<lparr>dq_decision = decision, dq_viewed_hash = viewed_hash,
          dq_binding = binding, dq_expected = expected, dq_identity = retained\<rparr>"
    by (auto simp: bindE_eq_Inr)
  have "get_field p ''bundle_hash'' = JStr viewed_hash"
    using p(2) by (auto simp: bundle_hash_text_def split: json.splits if_splits)
  moreover have "b_payload_hash b = viewed_hash \<and> assert_live sha collect job b = Inr ()"
    if "expected = Some (job, b)" for job b
    using l that by (auto simp: decide_live_def bindE_eq_Inr split: if_splits)
  ultimately show ?thesis using p(1) q by simp
qed

lemma decision_service_Inr:
  assumes "approval_decision_service sha collect identity days actor channel approval_id body t d0 d = (Inr resp, d')"
  shows "\<exists>q approval event. decide_check sha collect identity approval_id body d0 = Inr q \<and>
        workflow_resolve sha days approval_id
          \<lparr>ar_decision = dq_decision q, ar_actor = actor, ar_channel = channel, ar_payload = dq_binding q\<rparr>
          (dq_expected q) (dq_identity q) t d = (Inr (approval, event), d') \<and>
        dr_decision resp = a_decision approval"
proof -
  obtain q where q: "decide_check sha collect identity approval_id body d0 = Inr q"
    using assms by (auto simp: approval_decision_service_def validated_Inr)
  obtain r d2 where w: "workflow_resolve sha days approval_id
          \<lparr>ar_decision = dq_decision q, ar_actor = actor, ar_channel = channel, ar_payload = dq_binding q\<rparr>
          (dq_expected q) (dq_identity q) t d = (r, d2)" by fastforce
  show ?thesis
    using assms q w by (cases r) (auto simp: approval_decision_service_def)
qed

lemma decision_service_reports:
  assumes "decide_check sha collect identity approval_id body d0 = Inr q"
    and "workflow_resolve sha days approval_id
      \<lparr>ar_decision = dq_decision q, ar_actor = actor, ar_channel = channel, ar_payload = dq_binding q\<rparr>
      (dq_expected q) (dq_identity q) t d = (Inr (approval, event), d')"
  shows "\<exists>resp. approval_decision_service sha collect identity days actor channel approval_id body t d0 d
      = (Inr resp, d') \<and> dr_decision resp = a_decision approval"
  using assms by (simp add: approval_decision_service_def)

subsection \<open>Samples\<close>

definition live_patch :: string where
  "live_patch = ''diff --git a/f b/f'' @ CHR 0x0A # ''@@ -1 +1 @@'' @ CHR 0x0A # ''+x'' @ [CHR 0x0A]"

definition live_diff :: unified_diff where
  "live_diff = \<lparr>ud_base_commit = replicate 40 CHR ''a'', ud_files =
     [\<lparr>de_status = FileModified, de_path = ''f'', de_previous_path = None, de_content_kind = TextContent,
       de_old_size = Some 0, de_new_size = Some 2, de_patch = Some live_patch, de_summary = None\<rparr>],
     ud_patch_bytes = 34, ud_truncated = False\<rparr>"

definition live_diff_json :: json where
  "live_diff_json = JObj
     [(''base_commit'', JStr (replicate 40 CHR ''a'')),
      (''files'', JList [JObj [(''content_kind'', JStr ''text''), (''new_size'', JInt 2), (''old_size'', JInt 0),
        (''patch'', JStr live_patch), (''path'', JStr ''f''), (''previous_path'', JNull),
        (''status'', JStr ''modified''), (''summary'', JNull)]]),
      (''patch_bytes'', JInt 34), (''truncated'', JBool False)]"

definition live_policy :: payload where
  "live_policy = [(''cloud_allowed'', JBool False), (''id'', JStr ''demo''),
     (''permission_mode'', JStr ''sandboxed-write''), (''root'', JStr ''/srv/demo''), (''sensitivity'', JStr ''internal'')]"

definition live_job :: "job_state \<Rightarrow> job_row" where
  "live_job st = (sample_job st)\<lparr>j_request_snapshot :=
     [(''project'', JObj live_policy), (''repo_head'', JStr (replicate 40 CHR ''a''))]\<rparr>"

definition live_bundle :: bundle_row where
  "live_bundle = sample_bundle\<lparr>b_payload :=
     [(''diff'', live_diff_json), (''diff_digest'', JStr (replicate 64 CHR ''0'')),
      (''job_id'', JStr ''job-1''), (''model'', JNull), (''project_id'', JStr ''demo''),
      (''request_snapshot_hash'', JStr (replicate 64 CHR ''0'')), (''runtime'', JStr ''codex''),
      (''scan_event_id'', JInt 1)]\<rparr>"

definition live_db :: "job_state \<Rightarrow> db" where
  "live_db st = (sample_db st)\<lparr>jobs := [live_job st], review_bundles := [live_bundle]\<rparr>"

definition live_collect :: "string \<Rightarrow> string \<Rightarrow> exn + unified_diff" where
  "live_collect worktree base = Inr live_diff"

definition live_approval :: approval_create where
  "live_approval = \<lparr>ac_id = ''appr-1'', ac_job_id = ''job-1'',
     ac_payload = review_binding ''job-1'' live_bundle, ac_expires_at = 5000\<rparr>"

definition live_waiting_db :: db where
  "live_waiting_db = (live_db WaitingApproval)\<lparr>approvals := [sample_pending_row],
     events := [sample_ready, sample_requested]\<rparr>"

lemma live_bundle_ok: "bundle_ok sample_sha live_bundle"
  by code_simp

lemma live_job_ok: "job_ok (live_job WaitingApproval)"
  by code_simp

lemma live_job_fields [simp]:
  "j_id (live_job st) = j_id (sample_job st)"
  "j_project_id (live_job st) = j_project_id (sample_job st)"
  "j_state (live_job st) = j_state (sample_job st)"
  by (simp_all add: live_job_def)

lemma live_waiting_wf: "review_wf sample_sha live_waiting_db"
proof -
  have wf: "review_wf sample_sha sample_waiting_db" by (rule sample_waiting_wf)
  have "events_wf sample_sha live_waiting_db = events_wf sample_sha sample_waiting_db"
    by (simp add: events_wf_def job_events_def keyed_events_def live_waiting_db_def live_db_def sample_waiting_db_def)
  moreover have "jobs_wf live_waiting_db"
    using wf live_job_ok
    by (simp add: review_wf_def core_wf_def jobs_wf_def live_waiting_db_def live_db_def sample_waiting_db_def)
  moreover have "projects_wf live_waiting_db = projects_wf sample_waiting_db"
    by (simp add: projects_wf_def live_waiting_db_def live_db_def sample_waiting_db_def)
  moreover have "approvals_wf live_waiting_db = approvals_wf sample_waiting_db"
    by (simp add: approvals_wf_def live_waiting_db_def live_db_def sample_waiting_db_def)
  moreover have "bundles_wf sample_sha live_waiting_db"
    using wf live_bundle_ok
    by (simp add: review_wf_def bundles_wf_def live_waiting_db_def live_db_def sample_waiting_db_def live_bundle_def)
  ultimately show ?thesis using wf by (simp add: review_wf_def core_wf_def)
qed

lemma live_diff_canon: "canon (JObj (unified_diff_fields live_diff)) = live_diff_json"
  by code_simp

lemma live_diff_json_canon: "canon live_diff_json = live_diff_json"
  by code_simp

lemma live_diff_clean: "\<not> ud_truncated live_diff" "list_all entry_clean (ud_files live_diff)"
  by code_simp+

lemma live_digest: "scan_digest sample_sha u = replicate 64 CHR ''0''"
  by (simp add: scan_digest_def sample_sha_def)

lemma live_snapshot: "dumps (j_request_snapshot (live_job st)) \<noteq> None"
  by (simp add: live_job_def dumps_def live_policy_def)

lemma live_asserted: "assert_live sample_sha live_collect (live_job st) live_bundle = Inr ()"
proof -
  obtain snapshot where sn: "dumps (j_request_snapshot (live_job st)) = Some snapshot"
    using live_snapshot by blast
  have base: "j_worktree_path (live_job st) = Some ''/srv/wt/job-1''"
      "map_of (j_request_snapshot (live_job st)) ''repo_head'' = Some (JStr (replicate 40 CHR ''a''))"
      "valid_object_id (replicate 40 CHR ''a'')"
    by (simp_all add: live_job_def sample_job_def valid_object_id_def hexdigit_def hex_digits_def list_all_iff)
  have ev: "evidence_names_job sample_sha snapshot (live_job st) live_bundle"
    by (simp add: evidence_names_job_def live_bundle_def sample_bundle_def live_job_def sample_job_def
        get_field_def sample_sha_def json_opt_of_def)
  have fld: "get_field (b_payload live_bundle) ''diff'' = live_diff_json"
      "get_field (b_payload live_bundle) ''diff_digest'' = JStr (replicate 64 CHR ''0'')"
    by (simp_all add: live_bundle_def get_field_def)
  show ?thesis
    by (simp add: assert_live_def base sn ev live_collect_def scan_passed_clean live_diff_clean fld
        live_digest live_diff_canon live_diff_json_canon del: canon.simps)
qed

definition live_body :: json where
  "live_body = JObj [(''decision'', JStr ''approved''), (''bundle_hash'', JStr (replicate 64 CHR ''0''))]"

definition live_resolution :: approval_resolution where
  "live_resolution = \<lparr>ar_decision = DApproved, ar_actor = ''owner'', ar_channel = ''local'',
     ar_payload = approval_binding ''job-1'' 1 (replicate 64 CHR ''0'')\<rparr>"

definition live_resolved :: "(exn + approval_row \<times> event_row) \<times> db" where
  "live_resolved = workflow_resolve sample_sha 7 ''appr-1'' live_resolution
     (Some (live_job WaitingApproval, live_bundle)) None (200, 201) live_waiting_db"

lemma resolved_result:
  "(case p of (Inr (a, e), d') \<Rightarrow> P a e d' | _ \<Rightarrow> False) \<Longrightarrow> \<exists>a e d'. p = (Inr (a, e), d') \<and> P a e d'"
  by (cases p, cases "fst p") auto

lemma live_resolved_ok:
  "\<exists>a e d'. live_resolved = (Inr (a, e), d') \<and> (a_decision a = Some DApproved \<and> length (events d') = 3)"
  by (rule resolved_result) code_simp

lemma live_reads:
  "approval_get ''appr-1'' live_waiting_db = Inr sample_pending_row"
  "get_request_event sample_sha (a_id sample_pending_row) (a_job_id sample_pending_row) live_waiting_db = Inr sample_requested"
  "event_binding sample_sha sample_requested sample_pending_row = Inr (approval_binding ''job-1'' 1 (replicate 64 CHR ''0''))"
  "review_job (a_job_id sample_pending_row) live_waiting_db = Inr (live_job WaitingApproval)"
  "review_bundle sample_sha (a_job_id sample_pending_row) live_waiting_db = Inr live_bundle"
  by code_simp+

lemma live_checked:
  "decide_check sample_sha live_collect identity ''appr-1'' live_body live_waiting_db = Inr
     \<lparr>dq_decision = DApproved, dq_viewed_hash = replicate 64 CHR ''0'',
      dq_binding = approval_binding ''job-1'' 1 (replicate 64 CHR ''0''),
      dq_expected = Some (live_job WaitingApproval, live_bundle), dq_identity = None\<rparr>"
proof -
  have h: "bundle_hash_text (JStr (replicate 64 CHR ''0'')) = Inr (replicate 64 CHR ''0'')"
    by (simp add: bundle_hash_text_def hex64_def hex_digits_def)
  have f: "j_state (live_job WaitingApproval) = WaitingApproval" "b_payload_hash live_bundle = replicate 64 CHR ''0''"
      "b_scan_event_id live_bundle = 1" "a_decision sample_pending_row = None"
    by (simp_all add: sample_job_def live_bundle_def sample_bundle_def sample_pending_row_def)
  have l: "decide_live sample_sha live_collect identity DApproved (replicate 64 CHR ''0'')
      (approval_binding ''job-1'' 1 (replicate 64 CHR ''0'')) sample_pending_row live_waiting_db
      = Inr (Some (live_job WaitingApproval, live_bundle), None)"
    by (simp add: decide_live_def f live_reads(4,5) live_asserted approval_binding_def get_field_def del: live_job_fields)
  show ?thesis
    unfolding decide_check_def live_body_def approval_body_def
    by (simp add: get_field_def h live_reads(1-3) l) (simp add: approval_binding_def get_field_def l insert_commute)
qed

definition live_decided :: "(exn + decision_response) \<times> db" where
  "live_decided = approval_decision_service sample_sha live_collect (\<lambda>p. Inr None) 7 ''owner'' ''local''
     ''appr-1'' live_body (200, 201) live_waiting_db live_waiting_db"

lemma live_decided_ok:
  "\<exists>resp d'. live_decided = (Inr resp, d') \<and> dr_decision resp = Some DApproved \<and> length (events d') = 3"
proof -
  obtain a e d' where r: "live_resolved = (Inr (a, e), d')" "a_decision a = Some DApproved" "length (events d') = 3"
    using live_resolved_ok by (elim exE conjE) (rule that)
  have w: "workflow_resolve sample_sha 7 ''appr-1'' live_resolution
     (Some (live_job WaitingApproval, live_bundle)) None (200, 201) live_waiting_db = (Inr (a, e), d')"
    using r(1) by (simp only: live_resolved_def)
  show ?thesis
    unfolding live_decided_def
    using decision_service_reports [OF live_checked, where days = 7 and actor = "''owner''" and channel = "''local''"
        and t = "(200, 201)" and d = live_waiting_db and approval = a and event = e and d' = d'] w r(2,3)
    by (fastforce simp: live_resolution_def)
qed

subsection \<open>Properties\<close>

text \<open>
  C18: a decision that is written binds what was reviewed to what is in the worktree: the person named the
  hash of the bundle, Git just showed the worktree to hold exactly the frozen diff, complete and free of
  secrets, the job and its latest bundle are in the store as they were checked, and the job moves to the
  state the decision stands for.
\<close>

theorem decision_binds_live_content:
  assumes "review_wf sha d"
    and "approval_decision_service sha collect identity days actor channel approval_id body t d0 d = (Inr resp, d')"
    and "d' \<noteq> d"
  shows "\<exists>job b diff decision p. live_content sha collect job b diff \<and>
    body = JObj p \<and> get_field p ''bundle_hash'' = JStr (b_payload_hash b) \<and>
    select_job d (j_id job) = Some job \<and> j_state job = WaitingApproval \<and> select_bundle d (j_id job) = Some b \<and>
    latest_readiness d (j_id job) = Some (b_scan_event_id b) \<and> dr_decision resp = Some decision \<and>
    select_job d' (j_id job) = Some (job\<lparr>j_state := decision_target decision, j_updated_at := snd t\<rparr>)"
proof -
  obtain q approval event where q: "decide_check sha collect identity approval_id body d0 = Inr q"
    and wr: "workflow_resolve sha days approval_id
          \<lparr>ar_decision = dq_decision q, ar_actor = actor, ar_channel = channel, ar_payload = dq_binding q\<rparr>
          (dq_expected q) (dq_identity q) t d = (Inr (approval, event), d')"
    and resp: "dr_decision resp = a_decision approval"
    using decision_service_Inr [OF assms(2)] by blast
  from workflow_resolve_effect [OF assms(1) wr assms(3)] obtain row job b where
    e: "dq_expected q = Some (job, b)" "select_job d (a_job_id row) = Some job" "j_state job = WaitingApproval"
      "select_bundle d (j_id job) = Some b" "latest_readiness d (j_id job) = Some (b_scan_event_id b)"
      "approval = decide_row (fst t)
         \<lparr>ar_decision = dq_decision q, ar_actor = actor, ar_channel = channel, ar_payload = dq_binding q\<rparr> row"
      "select_job d' (j_id job) = Some (job\<lparr>j_state := decision_target (dq_decision q), j_updated_at := snd t\<rparr>)"
    by auto
  obtain p where p: "body = JObj p" "get_field p ''bundle_hash'' = JStr (b_payload_hash b)"
    and live: "assert_live sha collect job b = Inr ()"
    using decide_check_Inr [OF q] e(1) by auto
  obtain diff where "live_content sha collect job b diff" using assert_live_Inr [OF live] by blast
  moreover have "dr_decision resp = Some (dq_decision q)" unfolding resp e(6) by (simp add: decide_row_def)
  moreover have "j_id job = a_job_id row" using select_job_Some [OF e(2)] by simp
  ultimately show ?thesis using p e(2-5,7) by metis
qed

theorem decision_binds_live_content_witness:
  "\<exists>resp d' job. live_decided = (Inr resp, d') \<and> select_job d' ''job-1'' = Some job \<and> j_state job = Approved"
proof -
  obtain resp d' where ok: "live_decided = (Inr resp, d')" "dr_decision resp = Some DApproved" "length (events d') = 3"
    using live_decided_ok by blast
  then have ne: "d' \<noteq> live_waiting_db" by (auto simp: live_waiting_db_def)
  obtain job decision where j: "select_job live_waiting_db (j_id job) = Some job" "dr_decision resp = Some decision"
      "select_job d' (j_id job) = Some (job\<lparr>j_state := decision_target decision, j_updated_at := snd (200 :: micros, 201 :: micros)\<rparr>)"
    using decision_binds_live_content [OF live_waiting_wf ok(1) [unfolded live_decided_def] ne]
    by (elim exE conjE) (rule that)
  moreover have "j_id job = ''job-1''"
    using select_job_Some [OF j(1)] by (simp add: live_waiting_db_def live_db_def) (simp add: sample_job_def)
  ultimately have "select_job d' ''job-1'' = Some (job\<lparr>j_state := Approved, j_updated_at := 201\<rparr>)"
    using ok by simp
  then show ?thesis using ok(1) by (intro exI conjI) (assumption, assumption, simp)
qed

end
