(* ===== verification/PromotionTarget.thy ===== *)
theory PromotionTarget
  imports WriteBoundary SecretGate
begin

text \<open>
  promotion_target.py: the lock of a project, the tests of the checked out target before and after a patch,
  and the state of one file. A \<open>world\<close> is what one call observes outside the process: the file system,
  what \<open>ReadOnlyDiffService\<close> reports of a worktree (\<open>w_collect\<close>, \<open>w_porcelain\<close>), whether the worktree
  manager still finds the worktree of a job (\<open>w_bound\<close>), opening and locking a file, and what
  \<open>git apply\<close> answers. Bytes are the characters with their codes.
\<close>

record file_meta =
  fm_regular :: bool
  fm_nlink :: int
  fm_dev :: int
  fm_ino :: int
  fm_size :: int
  fm_mtime :: int
  fm_executable :: bool
  fm_owned :: bool
  fm_private :: bool

record opened_file =
  of_before :: "exn + file_meta"
  of_data :: "exn + string"
  of_after :: "exn + file_meta"

record world =
  w_files :: file_system
  w_open :: "string list \<Rightarrow> exn + opened_file"
  w_flock :: "string list \<Rightarrow> exn + bool"
  w_collect :: "string \<Rightarrow> string \<Rightarrow> exn + unified_diff"
  w_porcelain :: "string \<Rightarrow> string \<Rightarrow> exn + string"
  w_bound :: "job_row \<Rightarrow> exn + unit"
  w_apply :: "string \<Rightarrow> string \<Rightarrow> bool \<Rightarrow> exn + int"

type_synonym file_state = "(bool \<times> string) option"

subsection \<open>The lock\<close>

text \<open>\<open>str(Path(path))\<close> of an absolute path.\<close>

definition path_str :: "string \<Rightarrow> string" where
  "path_str path =
     (if take 2 path = ''//'' \<and> take 3 path \<noteq> ''///'' then ''//'' @ join_slash (posix_parts path)
      else ''/'' @ join_slash (posix_parts path))"

definition lock_name :: "(string \<Rightarrow> string) \<Rightarrow> string \<Rightarrow> string" where
  "lock_name sha root = ''promotion-'' @ sha (path_str root) @ ''.lock''"

text \<open>Taking the lock; \<open>w_flock\<close> says whether the lock was free.\<close>

definition take_lock :: "(string \<Rightarrow> string) \<Rightarrow> world \<Rightarrow> string \<Rightarrow> string \<Rightarrow> exn + unit" where
  "take_lock sha w root locks_root =
     bindE (make_boundary (w_files w) locks_root [''.'']) (\<lambda>boundary.
     bindE (boundary_authorize (w_files w) boundary (lock_name sha root)) (\<lambda>lock_path.
     bindE (w_open w lock_path) (\<lambda>descriptor.
     bindE (of_before descriptor) (\<lambda>metadata.
       if \<not> fm_regular metadata \<or> fm_nlink metadata \<noteq> 1 \<or> \<not> fm_owned metadata \<or> \<not> fm_private metadata
       then Inl TargetUnavailableError
       else bindE (w_flock w lock_path) (\<lambda>free.
         if free then Inr () else Inl TargetConflictError)))))"

definition lock_failure :: "exn \<Rightarrow> exn" where
  "lock_failure e = (if isa e OsErr \<or> isa e WriteBoundaryError then TargetUnavailableError else e)"

text \<open>\<^verbatim>\<open>with target_lock(root, locks_root): body\<close>: the \<open>except\<close> clause also covers the body.\<close>

definition target_lock ::
  "(string \<Rightarrow> string) \<Rightarrow> world \<Rightarrow> string \<Rightarrow> string \<Rightarrow> (db \<Rightarrow> (exn + 'a) \<times> db \<times> 'w list) \<Rightarrow> db
   \<Rightarrow> (exn + 'a) \<times> db \<times> 'w list" where
  "target_lock sha w root locks_root body d =
     (case take_lock sha w root locks_root of
        Inl e \<Rightarrow> (Inl (lock_failure e), d, [])
      | Inr _ \<Rightarrow> (case body d of (r, d', written) \<Rightarrow> (handle lock_failure r, d', written)))"

subsection \<open>The target before and after\<close>

definition require_clean_target :: "world \<Rightarrow> string \<Rightarrow> string \<Rightarrow> exn + unit" where
  "require_clean_target w root base =
     bindE (rethrow (\<lambda>e. isa e DiffServiceError) TargetConflictError
              (bindE (w_collect w root base) (\<lambda>current.
               bindE (w_porcelain w root base) (\<lambda>status. Inr (current, status))))) (\<lambda>(current, status).
       if ud_files current \<noteq> [] \<or> status \<noteq> [] then Inl TargetConflictError else Inr ())"

definition file_state :: "world \<Rightarrow> write_boundary \<Rightarrow> string \<Rightarrow> exn + file_state" where
  "file_state w boundary path =
     bindE (boundary_authorize (w_files w) boundary path) (\<lambda>target.
       case w_open w target of
         Inl e \<Rightarrow> if isa e FileNotFoundErr then Inr None else Inl e
       | Inr f \<Rightarrow>
           bindE (of_before f) (\<lambda>before_meta.
             if \<not> fm_regular before_meta \<or> fm_nlink before_meta \<noteq> 1 \<or> 262144 < fm_size before_meta
             then Inl TargetConflictError
             else bindE (of_data f) (\<lambda>data.
                  bindE (of_after f) (\<lambda>after_meta.
                    if int (length data) \<noteq> fm_size before_meta \<or>
                       fm_dev after_meta \<noteq> fm_dev before_meta \<or> fm_ino after_meta \<noteq> fm_ino before_meta \<or>
                       fm_size after_meta \<noteq> fm_size before_meta \<or> fm_mtime after_meta \<noteq> fm_mtime before_meta
                    then Inl TargetConflictError
                    else Inr (Some (fm_executable before_meta, data))))))"

definition entry_paths :: "diff_entry \<Rightarrow> string list" where
  "entry_paths entry = de_path entry # (case de_previous_path entry of None \<Rightarrow> [] | Some p \<Rightarrow> [p])"

text \<open>\<^verbatim>\<open>status.split(b"\0")\<close>\<close>

fun split_nul :: "string \<Rightarrow> string list" where
  "split_nul [] = [[]]"
| "split_nul (c # cs) =
     (if c = NUL then [] # split_nul cs
      else case split_nul cs of [] \<Rightarrow> [[c]] | r # rs \<Rightarrow> (c # r) # rs)"

definition index_record :: "string \<Rightarrow> bool" where
  "index_record r \<longleftrightarrow> r \<noteq> [] \<and> take 2 r \<noteq> ''??'' \<and> take 1 r \<noteq> '' ''"

fun compare_states :: "world \<Rightarrow> write_boundary \<Rightarrow> (string \<times> file_state) list \<Rightarrow> exn + unit" where
  "compare_states w boundary [] = Inr ()"
| "compare_states w boundary ((path, approved) # rest) =
     bindE (file_state w boundary path) (\<lambda>actual.
       if approved \<noteq> actual then Inl TargetConflictError else compare_states w boundary rest)"

definition assert_applied ::
  "world \<Rightarrow> string \<Rightarrow> (string \<times> file_state) list \<Rightarrow> unified_diff \<Rightarrow> exn + unit" where
  "assert_applied w root approved_states actual =
     (if ud_truncated actual \<or>
         fst ` set approved_states \<noteq> set (concat (map entry_paths (ud_files actual))) \<or>
         list_ex (\<lambda>entry. de_content_kind entry \<noteq> TextContent) (ud_files actual)
      then Inl TargetConflictError
      else bindE (rethrow (\<lambda>e. isa e WriteBoundaryError \<or> isa e OsErr \<or> isa e DiffServiceError)
                    TargetUnavailableError
                    (bindE (make_boundary (w_files w) root [''.'']) (\<lambda>target.
                     bindE (compare_states w target approved_states) (\<lambda>_.
                       w_porcelain w root (ud_base_commit actual))))) (\<lambda>status.
             if list_ex index_record (split_nul status) then Inl TargetConflictError else Inr ()))"

text \<open>\<^verbatim>\<open>git apply\<close> with the patch on its input; the answer is the exit status.\<close>

definition apply_patch :: "world \<Rightarrow> string \<Rightarrow> string \<Rightarrow> bool \<Rightarrow> exn + int" where
  "apply_patch w root patch check =
     rethrow (\<lambda>e. check \<and> (isa e ProcessRunnerError \<or> isa e ValueErr)) TargetUnavailableError
       (w_apply w root patch check)"

subsection \<open>What the tests establish\<close>

definition clean_target :: "world \<Rightarrow> string \<Rightarrow> string \<Rightarrow> bool" where
  "clean_target w root base \<longleftrightarrow>
     (\<exists>current. w_collect w root base = Inr current \<and> ud_files current = []) \<and> w_porcelain w root base = Inr []"

lemma require_clean_iff: "require_clean_target w root base = Inr () \<longleftrightarrow> clean_target w root base"
  by (auto simp: require_clean_target_def clean_target_def bindE_eq_Inr split: if_splits)

text \<open>Every listed file is, in the target, what it was in the reviewed worktree.\<close>

definition holds_states :: "world \<Rightarrow> write_boundary \<Rightarrow> (string \<times> file_state) list \<Rightarrow> bool" where
  "holds_states w boundary states \<longleftrightarrow> list_all (\<lambda>(path, state). file_state w boundary path = Inr state) states"

lemma compare_states_iff: "compare_states w boundary states = Inr () \<longleftrightarrow> holds_states w boundary states"
  by (induction states) (auto simp: holds_states_def bindE_eq_Inr split: if_splits)

definition target_applied :: "world \<Rightarrow> string \<Rightarrow> (string \<times> file_state) list \<Rightarrow> unified_diff \<Rightarrow> bool" where
  "target_applied w root states actual \<longleftrightarrow>
     \<not> ud_truncated actual \<and> fst ` set states = set (concat (map entry_paths (ud_files actual))) \<and>
     list_all (\<lambda>entry. de_content_kind entry = TextContent) (ud_files actual) \<and>
     (\<exists>target status. make_boundary (w_files w) root [''.''] = Inr target \<and> holds_states w target states \<and>
        w_porcelain w root (ud_base_commit actual) = Inr status \<and> \<not> list_ex index_record (split_nul status))"

lemma assert_applied_iff:
  "assert_applied w root states actual = Inr () \<longleftrightarrow> target_applied w root states actual"
  by (auto simp: assert_applied_def target_applied_def compare_states_iff bindE_eq_Inr list_ex_iff list_all_iff)

text \<open>
  Observations that fail only the way the called code fails: the diff service turns what it expects into its
  own errors, but an error of the operating system can come out of it (\<open>_read_worktree\<close> inspects and reads an
  open file unguarded) and out of starting Git (\<open>run_process\<close> looks at the directory).
\<close>

definition honest :: "world \<Rightarrow> bool" where
  "honest w \<longleftrightarrow>
     (\<forall>p e. fs_lstat (w_files w) p = Inl e \<longrightarrow> isa e OsErr) \<and>
     (\<forall>p e. fs_resolve (w_files w) p = Inl e \<longrightarrow> isa e OsErr \<or> isa e RuntimeErr) \<and>
     (\<forall>p e. w_open w p = Inl e \<longrightarrow> isa e OsErr) \<and>
     (\<forall>p f e. w_open w p = Inr f \<and> (of_before f = Inl e \<or> of_data f = Inl e \<or> of_after f = Inl e) \<longrightarrow> isa e OsErr) \<and>
     (\<forall>r b e. w_collect w r b = Inl e \<longrightarrow> isa e DiffServiceError \<or> isa e ValueErr \<or> isa e OsErr) \<and>
     (\<forall>r b e. w_porcelain w r b = Inl e \<longrightarrow> isa e DiffServiceError \<or> isa e ValueErr \<or> isa e OsErr) \<and>
     (\<forall>r p c e. w_apply w r p c = Inl e \<longrightarrow> isa e ProcessRunnerError \<or> isa e ValueErr \<or> isa e OsErr)"

end
