(* ===== verification/Promotion.thy ===== *)
theory Promotion
  imports LiveReview Submission PromotionTarget
begin

text \<open>
  \<open>PromotionService\<close> (promotion.py): an approved, frozen patch is applied to the project it was made for,
  once. \<open>obs n\<close> is the world at the n-th call that leaves the process, in the order of the code; the reads
  of a promotion see the store \<open>d0\<close>, its first write meets the store \<open>d\<close>, and \<open>meanwhile\<close> is what other
  operations do to the store between its two writes. The third component of a result lists the patches
  handed to \<open>git apply\<close>. Two promotions in one process wait for each other (\<open>asyncio.Lock\<close>); across
  processes the lock file of the project excludes them. No theorem below relies on either.
\<close>

subsection \<open>The request\<close>

definition promotion_hash :: "json \<Rightarrow> exn + string" where
  "promotion_hash body =
     (case body of
        JObj p \<Rightarrow>
          if fst ` set p \<noteq> {''bundle_hash''} then Inl PromotionInputError
          else (case get_field p ''bundle_hash'' of
                  JStr v \<Rightarrow> if hex64 v then Inr v else Inl PromotionInputError
                | _ \<Rightarrow> Inl PromotionInputError)
      | _ \<Rightarrow> Inl PromotionInputError)"

definition promotion_load_handler :: "exn \<Rightarrow> exn" where
  "promotion_load_handler e =
     (if isa e ApprovalNotFoundError \<or> isa e JobNotFoundError then PromotionMissingError
      else if isa e ReviewBundleNotFoundError then PromotionConflictError
      else if isa e ApprovalValidationError \<or> isa e ApprovalWorkflowConflictError then PromotionConflictError
      else if isa e ApprovalRepositoryError \<or> isa e JobRepositoryError \<or> isa e ReviewBundleRepositoryError
      then PromotionUnavailableError else e)"

definition promotion_load ::
  "(string \<Rightarrow> string) \<Rightarrow> string \<Rightarrow> db
   \<Rightarrow> exn + approval_row \<times> job_row \<times> bundle_row \<times> event_row \<times> event_row" where
  "promotion_load sha approval_id d = handle promotion_load_handler
     (bindE (approval_get approval_id d) (\<lambda>approval.
      bindE (job_get (a_job_id approval) d) (\<lambda>job.
      bindE (bundle_get sha (j_id job) d) (\<lambda>b.
      bindE (get_request_event sha (a_id approval) (j_id job) d) (\<lambda>requested.
      bindE (get_decision_event sha (a_id approval) (j_id job) d) (\<lambda>decided.
        Inr (approval, job, b, requested, decided)))))))"

text \<open>The approval, the two events around it and the hash the caller names all bind the latest bundle.\<close>

definition binds_bundle ::
  "(string \<Rightarrow> string) \<Rightarrow> string \<Rightarrow> approval_row \<Rightarrow> job_row \<Rightarrow> bundle_row \<Rightarrow> event_row \<Rightarrow> event_row \<Rightarrow> bool" where
  "binds_bundle sha viewed_hash approval job b requested decided \<longleftrightarrow>
     viewed_hash = b_payload_hash b \<and> a_decision approval = Some DApproved \<and> a_decided_at approval \<noteq> None \<and>
     payload_hash sha (approval_binding (j_id job) (b_scan_event_id b) (b_payload_hash b))
       = Inr (a_payload_hash approval) \<and>
     e_payload requested = request_payload (a_id approval) b (a_expires_at approval) \<and>
     e_payload decided = decision_payload (a_id approval) (JStr (b_payload_hash b))
       (json_opt_of JStr (a_channel approval)) DApproved Approved"

definition promotion_target :: "job_row \<Rightarrow> db \<Rightarrow> exn + string \<times> string" where
  "promotion_target job d =
     (case (map_of (j_request_snapshot job) ''project'', map_of (j_request_snapshot job) ''repo_head'') of
        (Some (JObj snapshot), Some (JStr base)) \<Rightarrow>
          if \<not> valid_object_id base then Inl PromotionConflictError
          else bindE (handle (\<lambda>e. if isa e ProjectNotFoundError then PromotionConflictError
                          else if isa e ProjectRepositoryError then PromotionUnavailableError else e)
                        (project_get (j_project_id job) d)) (\<lambda>project.
               if canon (JObj snapshot) \<noteq> canon (project_snapshot project) \<or>
                  p_permission_mode project \<noteq> SandboxedWrite
               then Inl PromotionConflictError
               else Inr (p_root project, map lower_char base))
      | _ \<Rightarrow> Inl PromotionConflictError)"

definition promotion_check ::
  "(string \<Rightarrow> string) \<Rightarrow> string \<Rightarrow> json \<Rightarrow> db
   \<Rightarrow> exn + approval_row \<times> job_row \<times> bundle_row \<times> string \<times> string" where
  "promotion_check sha approval_id body d =
     bindE (promotion_hash body) (\<lambda>viewed_hash.
     if approval_id = [] \<or> NUL \<in> set approval_id then Inl PromotionInputError
     else bindE (promotion_load sha approval_id d) (\<lambda>(approval, job, b, requested, decided).
       if \<not> binds_bundle sha viewed_hash approval job b requested decided then Inl PromotionConflictError
       else if j_state job \<noteq> Approved then Inl PromotionConflictError
       else bindE (promotion_target job d) (\<lambda>(root, base). Inr (approval, job, b, root, base))))"

subsection \<open>The frozen patch\<close>

text \<open>One entry of the frozen diff; a status that is a list or an object cannot be looked up in a set.\<close>

definition frozen_item :: "json \<Rightarrow> exn + string \<times> string list" where
  "frozen_item entry =
     (case entry of
        JObj p \<Rightarrow>
          if get_field p ''content_kind'' \<noteq> JStr ''text'' then Inl PromotionConflictError
          else (case get_field p ''status'' of
              JList _ \<Rightarrow> Inl TypeErr
            | JObj _ \<Rightarrow> Inl TypeErr
            | status \<Rightarrow>
                if status \<notin> set (map JStr [''added'', ''modified'', ''deleted'', ''renamed''])
                then Inl PromotionConflictError
                else (case get_field p ''patch'' of
                    JStr patch \<Rightarrow>
                      if \<not> starts_with patch ''diff --git '' then Inl PromotionConflictError
                      else (case (get_field p ''path'', get_field p ''previous_path'') of
                          (JStr path, JNull) \<Rightarrow> Inr (patch, [path])
                        | (JStr path, JStr previous) \<Rightarrow> Inr (patch, [path, previous])
                        | _ \<Rightarrow> Inl PromotionConflictError)
                  | _ \<Rightarrow> Inl PromotionConflictError))
      | _ \<Rightarrow> Inl PromotionConflictError)"

definition frozen_patch :: "payload \<Rightarrow> string \<Rightarrow> exn + string \<times> string list" where
  "frozen_patch p base =
     (case get_field p ''diff'' of
        JObj diff \<Rightarrow>
          if get_field diff ''base_commit'' \<noteq> JStr base then Inl PromotionConflictError
          else (case get_field diff ''files'' of
              JList files \<Rightarrow>
                if get_field diff ''truncated'' \<noteq> JBool False \<or> files = [] then Inl PromotionConflictError
                else bindE (mapE frozen_item files) (\<lambda>items.
                  let data = concat (map fst items) in
                  if get_field diff ''patch_bytes'' \<noteq> JInt (utf8_len data) then Inl PromotionConflictError
                  else Inr (data, concat (map snd items)))
            | _ \<Rightarrow> Inl PromotionConflictError)
      | _ \<Rightarrow> Inl PromotionConflictError)"

definition file_count :: "payload \<Rightarrow> int" where
  "file_count p =
     (case get_field p ''diff'' of
        JObj diff \<Rightarrow> (case get_field diff ''files'' of JList files \<Rightarrow> int (length files) | _ \<Rightarrow> 0)
      | _ \<Rightarrow> 0)"

subsection \<open>Preflight\<close>

definition bound_live ::
  "(string \<Rightarrow> string) \<Rightarrow> world \<Rightarrow> job_row \<Rightarrow> bundle_row \<Rightarrow> exn + unit" where
  "bound_live sha w job b = handle
     (\<lambda>e. if isa e WorktreeConflictError \<or> isa e ApprovalStateError then PromotionConflictError
          else if isa e WorktreeUnavailableError \<or> isa e ApprovalUnavailableError then PromotionUnavailableError
          else e)
     (bindE (w_bound w job) (\<lambda>_. assert_live sha (w_collect w) job b))"

definition authorize_all :: "world \<Rightarrow> string \<Rightarrow> string list \<Rightarrow> exn + unit" where
  "authorize_all w root paths =
     rethrow (\<lambda>e. isa e WriteBoundaryError \<or> isa e OsErr \<or> isa e ValueErr) PromotionConflictError
       (bindE (make_boundary (w_files w) root [''.'']) (\<lambda>boundary.
        bindE (mapE (boundary_authorize (w_files w) boundary) paths) (\<lambda>_. Inr ())))"

text \<open>The states of the reviewed files, read before the live content is compared once more.\<close>

definition reviewed_states ::
  "(string \<Rightarrow> string) \<Rightarrow> world \<Rightarrow> world \<Rightarrow> job_row \<Rightarrow> bundle_row \<Rightarrow> string list
   \<Rightarrow> exn + (string \<times> file_state) list" where
  "reviewed_states sha w w' job b paths = handle
     (\<lambda>e. if isa e WriteBoundaryError \<or> isa e OsErr \<or> isa e TargetConflictError \<or> isa e ApprovalStateError
          then PromotionConflictError
          else if isa e ApprovalUnavailableError then PromotionUnavailableError else e)
     (bindE (make_boundary (w_files w) (worktree_of job) [''.'']) (\<lambda>source.
      bindE (mapE (\<lambda>path. bindE (file_state w source path) (\<lambda>state. Inr (path, state))) (remdups paths)) (\<lambda>states.
      bindE (assert_live sha (w_collect w') job b) (\<lambda>_. Inr states))))"

definition promotion_preflight ::
  "(string \<Rightarrow> string) \<Rightarrow> (nat \<Rightarrow> world) \<Rightarrow> job_row \<Rightarrow> bundle_row \<Rightarrow> string \<Rightarrow> string
   \<Rightarrow> exn + string \<times> (string \<times> file_state) list" where
  "promotion_preflight sha obs job b root base =
     bindE (bound_live sha (obs 1) job b) (\<lambda>_.
     bindE (frozen_patch (b_payload b) base) (\<lambda>(patch, paths).
     bindE (authorize_all (obs 2) root paths) (\<lambda>_.
     bindE (reviewed_states sha (obs 3) (obs 4) job b paths) (\<lambda>states.
     bindE (require_clean_target (obs 5) root base) (\<lambda>_.
     bindE (apply_patch (obs 6) root patch True) (\<lambda>code.
     if code \<noteq> 0 then Inl PromotionConflictError
     else bindE (require_clean_target (obs 7) root base) (\<lambda>_. Inr (patch, states))))))))"

subsection \<open>Applying\<close>

definition promotion_update :: "job_row \<Rightarrow> job_state \<Rightarrow> job_update" where
  "promotion_update job st = \<lparr>ju_id = j_id job, ju_state = st, ju_runtime = j_runtime job,
     ju_model = j_model job, ju_worktree_path = j_worktree_path job\<rparr>"

definition promotion_event :: "approval_row \<Rightarrow> job_row \<Rightarrow> bundle_row \<Rightarrow> string \<Rightarrow> string \<Rightarrow> event_create" where
  "promotion_event approval job b base event_type = \<lparr>ec_job_id = j_id job, ec_event_type = event_type,
     ec_payload = [(''approval_id'', JStr (a_id approval)), (''bundle_hash'', JStr (b_payload_hash b)),
       (''base_commit'', JStr base), (''file_count'', JInt (file_count (b_payload b)))],
     ec_idempotency_key = None\<rparr>"

definition start_handler :: "exn \<Rightarrow> exn" where
  "start_handler e =
     (if isa e AtomicTransitionConflictError then PromotionConflictError
      else if isa e AtomicTransitionError then PromotionUnavailableError else e)"

definition finish_handler :: "exn \<Rightarrow> exn" where
  "finish_handler e =
     (if isa e ProcessRunnerError \<or> isa e DiffServiceError \<or> isa e TargetConflictError \<or>
         isa e TargetUnavailableError \<or> isa e AtomicTransitionError \<or> isa e ValueErr
      then PromotionReconciliationError else e)"

text \<open>From the committed start on: the patch is applied, the target compared, the completion recorded.\<close>

definition promotion_finish ::
  "(string \<Rightarrow> string) \<Rightarrow> (nat \<Rightarrow> world) \<Rightarrow> job_row \<Rightarrow> job_row \<Rightarrow> event_create \<Rightarrow> string \<Rightarrow> string \<Rightarrow> string
   \<Rightarrow> (string \<times> file_state) list \<Rightarrow> micros \<Rightarrow> db
   \<Rightarrow> (exn + job_row \<times> event_row) \<times> db \<times> (string \<times> string) list" where
  "promotion_finish sha obs job started completion root base patch states t d =
     (case require_clean_target (obs 8) root base of
        Inl e \<Rightarrow> (Inl e, d, [])
      | Inr _ \<Rightarrow>
          (case bindE (apply_patch (obs 9) root patch False) (\<lambda>code.
                if code \<noteq> 0 then Inl PromotionReconciliationError
                else bindE (w_collect (obs 10) root base) (assert_applied (obs 11) root states)) of
             Inl e \<Rightarrow> (Inl e, d, [(root, patch)])
           | Inr _ \<Rightarrow>
               (case transition sha (promotion_update job Completed) completion (Some started) t d of
                  (r, d') \<Rightarrow> (r, d', [(root, patch)]))))"

record promotion_response =
  pr_approval_id :: string
  pr_job_id :: string
  pr_bundle_hash :: string
  pr_job_state :: job_state
  pr_started_event_id :: int
  pr_completed_event_id :: int

definition promotion_report ::
  "approval_row \<Rightarrow> job_row \<Rightarrow> bundle_row \<Rightarrow> event_row \<Rightarrow> job_row \<times> event_row \<Rightarrow> promotion_response" where
  "promotion_report approval job b started_event completed =
     \<lparr>pr_approval_id = a_id approval, pr_job_id = j_id job, pr_bundle_hash = b_payload_hash b,
       pr_job_state = j_state (fst completed), pr_started_event_id = e_id started_event,
       pr_completed_event_id = e_id (snd completed)\<rparr>"

definition promotion_apply ::
  "(string \<Rightarrow> string) \<Rightarrow> (nat \<Rightarrow> world) \<Rightarrow> micros \<times> micros \<Rightarrow> (db \<Rightarrow> db) \<Rightarrow> approval_row \<Rightarrow> job_row
   \<Rightarrow> bundle_row \<Rightarrow> string \<Rightarrow> string \<Rightarrow> db \<Rightarrow> (exn + promotion_response) \<times> db \<times> (string \<times> string) list" where
  "promotion_apply sha obs t meanwhile approval job b root base d =
     (case promotion_preflight sha obs job b root base of
        Inl e \<Rightarrow> (Inl e, d, [])
      | Inr (patch, states) \<Rightarrow>
          (case transition sha (promotion_update job Applying)
                  (promotion_event approval job b base ''job.promotion.started'') (Some job) (fst t) d of
             (Inl e, d1) \<Rightarrow> (Inl (start_handler e), d1, [])
           | (Inr (started, started_event), d1) \<Rightarrow>
               (case promotion_finish sha obs job started
                       (promotion_event approval job b base ''job.promotion.completed'')
                       root base patch states (snd t) (meanwhile d1) of
                  (r, d2, written) \<Rightarrow>
                    (bindE (handle finish_handler r) (\<lambda>completed.
                       Inr (promotion_report approval job b started_event completed)), d2, written))))"

definition promotion_lock_handler :: "exn \<Rightarrow> exn" where
  "promotion_lock_handler e =
     (if isa e TargetConflictError then PromotionConflictError
      else if isa e TargetUnavailableError then PromotionUnavailableError else e)"

definition promote ::
  "(string \<Rightarrow> string) \<Rightarrow> string \<Rightarrow> (nat \<Rightarrow> world) \<Rightarrow> micros \<times> micros \<Rightarrow> (db \<Rightarrow> db) \<Rightarrow> string \<Rightarrow> json \<Rightarrow> db \<Rightarrow> db
   \<Rightarrow> (exn + promotion_response) \<times> db \<times> (string \<times> string) list" where
  "promote sha locks_root obs t meanwhile approval_id body d0 d =
     (case promotion_check sha approval_id body d0 of
        Inl e \<Rightarrow> (Inl e, d, [])
      | Inr (approval, job, b, root, base) \<Rightarrow>
          (case target_lock sha (obs 0) root locks_root
                  (promotion_apply sha obs t meanwhile approval job b root base) d of
             (r, d', written) \<Rightarrow> (handle promotion_lock_handler r, d', written)))"

subsection \<open>The transitions of a promotion\<close>

lemma expected_transition:
  assumes tr: "transition sha u e (Some job) now d = (Inr (j, ev), d')" and key: "ec_idempotency_key e = None"
  shows "select_job d (ju_id u) = Some job" "lifecycle_step (j_state job) (ju_state u)" "j = set_job now u job"
    "select_job d' (ju_id u) = Some j" "events d' = events d @ [ev]" "e_event_type ev = ec_event_type e"
    "e_job_id ev = ju_id u" "d' \<noteq> d"
proof -
  obtain data where v: "validate_event sha e = Inr data" "ju_id u = ec_job_id e"
    and tx: "transition_tx sha now u e data (Some job) d = Inr ((j, ev), d')"
    using tr by (auto simp: transition_Inr)
  have m: "matching_idempotent_event sha e (fst (snd data)) (snd (snd data)) d'' = Inr None" for d''
    using v key by (cases data) (simp add: matching_idempotent_event_def validate_event_iff)
  obtain app: "event_append_tx sha now e data (put_job now u d) = Inr (ev, d')"
    and old: "select_job d (ju_id u) = Some job" "ju_state u \<in> set (ALLOWED_JOB_TRANSITIONS (j_state job))"
      "j = set_job now u job"
    using transition_tx_Inr [OF tx] m by auto
  have ev: "ev = next_event now e data d" "d' = add_event ev (put_job now u d)"
    using event_append_tx_Inr [OF app] m by auto
  have evs: "events d' = events d @ [ev]" using ev by (simp add: put_job_def)
  show "select_job d (ju_id u) = Some job" "lifecycle_step (j_state job) (ju_state u)" "j = set_job now u job"
    "select_job d' (ju_id u) = Some j" "events d' = events d @ [ev]" "e_event_type ev = ec_event_type e"
    "e_job_id ev = ju_id u"
    using old v(2) evs ev by (auto simp: lifecycle_step_iff select_job_put_event next_event_def new_event_row_def)
  show "d' \<noteq> d" using evs by auto
qed

lemma promotion_update_simps [simp]:
  "ju_id (promotion_update job st) = j_id job"
  "ju_state (promotion_update job st) = st"
  "set_job now (promotion_update job st) job = job\<lparr>j_state := st, j_updated_at := now\<rparr>"
  by (simp_all add: promotion_update_def set_job_def)

lemma promotion_event_simps [simp]:
  "ec_idempotency_key (promotion_event approval job b base k) = None"
  "ec_event_type (promotion_event approval job b base k) = k"
  by (simp_all add: promotion_event_def)

lemma job_get_id:
  assumes "job_get i d = Inr job"
  shows "j_id job = i"
proof -
  obtain row where "select_job d i = Some row" "job_to_record row = Inr job"
    using assms by (auto simp: job_get_def bindE_eq_Inr validate_job_text_def split: option.splits if_splits)
  then show ?thesis using job_to_record_Inr select_job_Some by blast
qed

definition past_approval :: "job_state set" where
  "past_approval = {Applying, Completed, Failed, Blocked, Cancelled}"

lemma past_approval_step: "s \<in> past_approval \<Longrightarrow> t \<in> set (ALLOWED_JOB_TRANSITIONS s) \<Longrightarrow> t \<in> past_approval"
  by (cases s) (auto simp: transition_defs past_approval_def)

lemma past_approval_path: "s \<in> past_approval \<Longrightarrow> lifecycle_path s path \<Longrightarrow> last (s # path) \<in> past_approval"
proof (induction path arbitrary: s)
  case (Cons t path)
  then have "t \<in> past_approval" using past_approval_step by simp
  then show ?case using Cons.IH [of t] Cons.prems by simp
qed simp

lemma applying_path: "lifecycle_path Applying path \<Longrightarrow> last (Applying # path) \<noteq> Approved"
  using past_approval_path [of Applying path] by (auto simp: past_approval_def)

subsection \<open>What a promotion has checked\<close>

lemma promotion_check_Inr:
  assumes "promotion_check sha approval_id body d = Inr (approval, job, b, root, base)"
  shows "promotion_hash body = Inr (b_payload_hash b) \<and> approval_get approval_id d = Inr approval \<and>
    job_get (a_job_id approval) d = Inr job \<and> bundle_get sha (j_id job) d = Inr b \<and>
    (\<exists>requested decided. binds_bundle sha (b_payload_hash b) approval job b requested decided) \<and>
    j_state job = Approved \<and>
    (\<exists>project. project_get (j_project_id job) d = Inr project \<and> p_root project = root \<and>
       p_permission_mode project = SandboxedWrite)"
proof -
  obtain viewed_hash requested decided where
    h: "promotion_hash body = Inr viewed_hash"
    and l: "promotion_load sha approval_id d = Inr (approval, job, b, requested, decided)"
    and bb: "binds_bundle sha viewed_hash approval job b requested decided" "j_state job = Approved"
    and t: "promotion_target job d = Inr (root, base)"
    using assms by (auto simp: promotion_check_def bindE_eq_Inr split: if_splits)
  have "\<exists>project. project_get (j_project_id job) d = Inr project \<and> p_root project = root \<and>
       p_permission_mode project = SandboxedWrite"
    using t by (auto simp: promotion_target_def bindE_eq_Inr split: option.splits json.splits if_splits)
  then show ?thesis
    using h l bb by (auto simp: promotion_load_def bindE_eq_Inr binds_bundle_def)
qed

lemma promotion_check_base:
  assumes "promotion_check sha approval_id body d = Inr (approval, job, b, root, base)"
  shows "\<exists>head. map_of (j_request_snapshot job) ''repo_head'' = Some (JStr head) \<and> base = map lower_char head"
  using assms
  by (auto simp: promotion_check_def promotion_target_def bindE_eq_Inr split: if_splits option.splits json.splits)

lemma promotion_preflight_Inr:
  assumes "promotion_preflight sha obs job b root base = Inr (patch, states)"
  shows "\<exists>paths source diff. frozen_patch (b_payload b) base = Inr (patch, paths) \<and> w_bound (obs 1) job = Inr () \<and>
    authorize_all (obs 2) root paths = Inr () \<and>
    make_boundary (w_files (obs 3)) (worktree_of job) [''.''] = Inr source \<and>
    map fst states = remdups paths \<and> holds_states (obs 3) source states \<and>
    live_content sha (w_collect (obs 4)) job b diff \<and> clean_target (obs 5) root base \<and>
    w_apply (obs 6) root patch True = Inr 0 \<and> clean_target (obs 7) root base"
proof -
  obtain paths where p: "bound_live sha (obs 1) job b = Inr ()" "frozen_patch (b_payload b) base = Inr (patch, paths)"
      "authorize_all (obs 2) root paths = Inr ()" "reviewed_states sha (obs 3) (obs 4) job b paths = Inr states"
      "clean_target (obs 5) root base" "apply_patch (obs 6) root patch True = Inr 0" "clean_target (obs 7) root base"
    using assms by (auto simp: promotion_preflight_def bindE_eq_Inr require_clean_iff split: if_splits)
  obtain source where s: "make_boundary (w_files (obs 3)) (worktree_of job) [''.''] = Inr source"
      "mapE (\<lambda>path. bindE (file_state (obs 3) source path) (\<lambda>state. Inr (path, state))) (remdups paths) = Inr states"
      "assert_live sha (w_collect (obs 4)) job b = Inr ()"
    using p(4) by (auto simp: reviewed_states_def bindE_eq_Inr)
  have "map fst states = ps \<and> holds_states (obs 3) source states"
    if "mapE (\<lambda>path. bindE (file_state (obs 3) source path) (\<lambda>state. Inr (path, state))) ps = Inr states" for ps
    using that by (induction ps arbitrary: states) (auto simp: holds_states_def bindE_eq_Inr)
  moreover obtain diff where "live_content sha (w_collect (obs 4)) job b diff"
    using assert_live_Inr [OF s(3)] by blast
  ultimately show ?thesis
    using p s by (auto simp: bound_live_def apply_patch_def bindE_eq_Inr)
qed

text \<open>A promotion that hands a patch to Git, or writes to the store, has passed every check and its start is committed.\<close>

lemma promote_started:
  assumes "promote sha locks_root obs t meanwhile approval_id body d0 d = (r, d', written)"
    and "written \<noteq> [] \<or> d' \<noteq> d"
  shows "\<exists>approval job b root base patch states started event d1 r1.
    promotion_check sha approval_id body d0 = Inr (approval, job, b, root, base) \<and>
    promotion_preflight sha obs job b root base = Inr (patch, states) \<and>
    transition sha (promotion_update job Applying)
      (promotion_event approval job b base ''job.promotion.started'') (Some job) (fst t) d = (Inr (started, event), d1) \<and>
    promotion_finish sha obs job started (promotion_event approval job b base ''job.promotion.completed'')
      root base patch states (snd t) (meanwhile d1) = (r1, d', written) \<and>
    r = handle promotion_lock_handler (handle lock_failure (bindE (handle finish_handler r1)
      (\<lambda>completed. Inr (promotion_report approval job b event completed))))"
proof -
  obtain approval job b root base where c: "promotion_check sha approval_id body d0 = Inr (approval, job, b, root, base)"
    using assms by (cases "promotion_check sha approval_id body d0") (auto simp: promote_def)
  obtain r' where a: "promotion_apply sha obs t meanwhile approval job b root base d = (r', d', written)"
    and r: "r = handle promotion_lock_handler (handle lock_failure r')"
    using assms c by (auto simp: promote_def target_lock_def split: sum.splits prod.splits)
  obtain patch states where p: "promotion_preflight sha obs job b root base = Inr (patch, states)"
    using a assms(2) by (auto simp: promotion_apply_def split: sum.splits)
  obtain started event d1 where s: "transition sha (promotion_update job Applying)
      (promotion_event approval job b base ''job.promotion.started'') (Some job) (fst t) d = (Inr (started, event), d1)"
  proof (cases "transition sha (promotion_update job Applying)
      (promotion_event approval job b base ''job.promotion.started'') (Some job) (fst t) d")
    case (Pair x d1)
    then show ?thesis
      using a assms(2) p that transition_rollback by (cases x) (fastforce simp: promotion_apply_def)+
  qed
  show ?thesis
    using a c p s r by (auto simp: promotion_apply_def split: prod.splits)
qed

lemma promote_Inr:
  assumes "promote sha locks_root obs t meanwhile approval_id body d0 d = (Inr resp, d', written)"
  shows "written \<noteq> []"
  using assms
  by (auto simp: promote_def target_lock_def promotion_apply_def promotion_finish_def split: sum.splits prod.splits)

subsection \<open>How the last part can fail\<close>

lemma honest_calls:
  "honest w \<Longrightarrow> fs_lstat (w_files w) p = Inl e \<Longrightarrow> isa e OsErr"
  "honest w \<Longrightarrow> w_open w p = Inl e \<Longrightarrow> isa e OsErr"
  "honest w \<Longrightarrow> w_collect w r b = Inl e \<Longrightarrow> isa e DiffServiceError \<or> isa e ValueErr \<or> isa e OsErr"
  "honest w \<Longrightarrow> w_porcelain w r b = Inl e \<Longrightarrow> isa e DiffServiceError \<or> isa e ValueErr \<or> isa e OsErr"
  "honest w \<Longrightarrow> w_apply w r patch check = Inl e \<Longrightarrow> isa e ProcessRunnerError \<or> isa e ValueErr \<or> isa e OsErr"
  unfolding honest_def by blast+

lemma make_boundary_Inl:
  assumes "honest w" and "make_boundary (w_files w) path [''.''] = Inl e"
  shows "e = ValueErr \<or> e = WriteBoundaryError"
  using assms unfolding honest_def
  by (fastforce simp: make_boundary_def load_root_def relative_parts_def rethrow_def bindE_eq_Inl Let_def control_char_def
      split: if_splits sum.splits)

lemma inspect_Inl:
  "\<forall>p e. lstat p = Inl e \<longrightarrow> isa e OsErr \<Longrightarrow> fs_lstat fs = lstat \<Longrightarrow> inspect fs device current parts = Inl e
   \<Longrightarrow> e = WriteBoundaryError"
  by (induction parts arbitrary: current) (auto split: sum.splits if_splits)

lemma relative_parts_Inl: "relative_parts allow v = Inl e \<Longrightarrow> e = WriteBoundaryError"
  by (auto simp: relative_parts_def Let_def split: if_splits)

lemma authorize_Inl:
  assumes w: "honest w" and a: "boundary_authorize (w_files w) boundary path = Inl e"
  shows "e = WriteBoundaryError"
proof -
  have l: "\<forall>p e. fs_lstat (w_files w) p = Inl e \<longrightarrow> isa e OsErr" using w by (simp add: honest_def)
  then show ?thesis
    using a inspect_Inl [OF l refl] relative_parts_Inl
    by (auto simp: boundary_authorize_def authorize_parts_def boundary_verify_def candidate_parts_def rethrow_def
        bindE_eq_Inl Let_def split: if_splits sum.splits)
qed

lemma file_state_Inl:
  assumes w: "honest w" and f: "file_state w boundary path = Inl e"
  shows "e = WriteBoundaryError \<or> isa e OsErr \<or> e = TargetConflictError"
proof (cases "boundary_authorize (w_files w) boundary path")
  case (Inl x)
  then show ?thesis using f authorize_Inl [OF w Inl] by (simp add: file_state_def)
next
  case (Inr target)
  note authorized = this
  show ?thesis
  proof (cases "w_open w target")
    case (Inl x)
    then show ?thesis
      using f w authorized by (auto simp: file_state_def honest_def split: if_splits)
  next
    case (Inr opened)
    have reads: "isa x OsErr" if "of_before opened = Inl x \<or> of_data opened = Inl x \<or> of_after opened = Inl x" for x
      using w Inr that unfolding honest_def by blast
    show ?thesis
      using f reads authorized Inr
      by (cases "of_before opened"; cases "of_data opened"; cases "of_after opened")
        (auto simp: file_state_def split: if_splits)
  qed
qed

lemma compare_states_Inl:
  assumes w: "honest w"
  shows "compare_states w boundary states = Inl e \<Longrightarrow> e = WriteBoundaryError \<or> isa e OsErr \<or> e = TargetConflictError"
proof (induction states)
  case (Cons s rest)
  then show ?case
    by (cases s; cases "file_state w boundary (fst s)")
      (auto split: if_splits dest: file_state_Inl [OF w])
qed simp

lemma require_clean_Inl:
  assumes w: "honest w" and f: "require_clean_target w root base = Inl e"
  shows "finish_handler e = PromotionReconciliationError \<or>
    isa e OsErr \<and> (w_collect w root base = Inl e \<or> w_porcelain w root base = Inl e)"
  using f honest_calls(3,4) [OF w]
  by (fastforce simp: require_clean_target_def finish_handler_def bindE_eq_Inl rethrow_def split: if_splits sum.splits)

lemma assert_applied_Inl:
  assumes w: "honest w" and f: "assert_applied w root states actual = Inl e"
  shows "finish_handler e = PromotionReconciliationError"
proof -
  note p = honest_calls(4) [OF w]
  show ?thesis
    using f make_boundary_Inl [OF w] compare_states_Inl [OF w] p
    by (fastforce simp: assert_applied_def finish_handler_def bindE_eq_Inl rethrow_def split: if_splits sum.splits)
qed

lemma transition_Inl:
  assumes dig: "digest_fun sha" and wf: "core_wf sha d" and tr: "transition sha u e expected now d = (Inl x, d')"
  shows "isa x AtomicTransitionError"
proof (cases "transition_request sha u e")
  case (Inl y)
  then show ?thesis using tr transition_request_Inl [OF Inl] by (auto simp: transition_def isa_def)
next
  case (Inr data)
  then have v: "validate_job_update u = Inr ()" "validate_event sha e = Inr data"
    by (auto simp: transition_request_iff)
  have jwf: "jobs_wf d" using wf by (simp add: core_wf_def)
  show ?thesis
  proof (cases "ju_id u = ec_job_id e")
    case True
    note tx = transition_tx_cases [OF dig wf v True, unfolded resolve_retry_wf [OF jwf]]
    show ?thesis
      using Inr True tr
      by (auto simp: transition_def tx write_connection_def connection_def handle_def
          transition_handler_def isa_def is_integrity_error_def split: option.splits if_splits)
  next
    case False
    then show ?thesis using tr Inr by (auto simp: transition_def isa_def)
  qed
qed

lemma finish_reconciles: "finish_handler PromotionReconciliationError = PromotionReconciliationError"
  by (simp add: finish_handler_def isa_def)

text \<open>An error of the operating system that comes out of the calls after the start is not an outcome of its own.\<close>

definition unreadable :: "(nat \<Rightarrow> world) \<Rightarrow> string \<Rightarrow> string \<Rightarrow> string \<Rightarrow> exn \<Rightarrow> bool" where
  "unreadable obs root base patch e \<longleftrightarrow> isa e OsErr \<and>
     (w_collect (obs 8) root base = Inl e \<or> w_porcelain (obs 8) root base = Inl e \<or>
      w_apply (obs 9) root patch False = Inl e \<or> w_collect (obs 10) root base = Inl e)"

lemma apply_checked_Inl:
  assumes w: "honest w9" "honest w10" "honest w11"
    and f: "bindE (apply_patch w9 root patch False) (\<lambda>code. if code \<noteq> 0 then Inl PromotionReconciliationError
      else bindE (w_collect w10 root base) (assert_applied w11 root states)) = Inl e"
  shows "finish_handler e = PromotionReconciliationError \<or>
    isa e OsErr \<and> (w_apply w9 root patch False = Inl e \<or> w_collect w10 root base = Inl e)"
proof (cases "w_apply w9 root patch False")
  case (Inl x)
  then show ?thesis
    using f honest_calls(5) [OF w(1) Inl] by (auto simp: apply_patch_def finish_handler_def)
next
  case (Inr code)
  note applied = this
  show ?thesis
  proof (cases "w_collect w10 root base")
    case (Inl x)
    then show ?thesis
      using f applied honest_calls(3) [OF w(2) Inl] finish_reconciles
      by (auto simp: apply_patch_def split: if_splits) (auto simp: finish_handler_def)
  next
    case (Inr actual)
    then show ?thesis
      using f applied assert_applied_Inl [OF w(3)] finish_reconciles
      by (auto simp: apply_patch_def split: if_splits)
  qed
qed

lemma promotion_finish_Inl:
  assumes dig: "digest_fun sha" and wf: "core_wf sha d" and w: "\<forall>n\<in>{8..11}. honest (obs n)"
    and f: "promotion_finish sha obs job started completion root base patch states now d = (Inl e, d', written)"
  shows "finish_handler e = PromotionReconciliationError \<or> unreadable obs root base patch e"
proof -
  let ?m = "bindE (apply_patch (obs 9) root patch False) (\<lambda>code. if code \<noteq> 0 then Inl PromotionReconciliationError
      else bindE (w_collect (obs 10) root base) (assert_applied (obs 11) root states))"
  have h: "honest (obs 8)" "honest (obs 9)" "honest (obs 10)" "honest (obs 11)" using w by simp_all
  show ?thesis
  proof (cases "require_clean_target (obs 8) root base")
    case (Inl x)
    then show ?thesis using f require_clean_Inl [OF h(1) Inl] by (auto simp: promotion_finish_def unreadable_def)
  next
    case (Inr _)
    note clean = this
    show ?thesis
    proof (cases ?m)
      case (Inl x)
      then have "x = e" using f clean by (simp only: promotion_finish_def sum.case prod.inject sum.inject)
      then show ?thesis using apply_checked_Inl [OF h(2-4) Inl] unfolding unreadable_def by blast
    next
      case (Inr _)
      then have "transition sha (promotion_update job Completed) completion (Some started) now d = (Inl e, d')"
        using f clean by (simp only: promotion_finish_def sum.case prod.inject split: prod.splits)
      then show ?thesis using transition_Inl [OF dig wf] by (auto simp: finish_handler_def)
    qed
  qed
qed

subsection \<open>Samples\<close>

definition approved_row :: approval_row where
  "approved_row = decide_row 200 live_resolution sample_pending_row"

definition approved_event :: event_row where
  "approved_event = \<lparr>e_id = 3, e_job_id = ''job-1'', e_sequence = 3, e_event_type = ''approval.decided'',
     e_payload = decision_payload ''appr-1'' (JStr (replicate 64 CHR ''0'')) (JStr ''local'') DApproved Approved,
     e_payload_hash = replicate 64 CHR ''0'', e_idempotency_key = Some (decision_key ''appr-1''), e_created_at = 200\<rparr>"

definition approved_db :: db where
  "approved_db = (live_db Approved)\<lparr>approvals := [approved_row],
     events := [sample_ready, sample_requested, approved_event]\<rparr>"

definition promotion_body :: json where
  "promotion_body = JObj [(''bundle_hash'', JStr (replicate 64 CHR ''0''))]"

definition sample_base :: string where
  "sample_base = replicate 40 CHR ''a''"

definition sample_meta :: file_meta where
  "sample_meta = \<lparr>fm_regular = True, fm_nlink = 1, fm_dev = 1, fm_ino = 9, fm_size = 2, fm_mtime = 5,
     fm_executable = False, fm_owned = True, fm_private = True\<rparr>"

definition promotion_files :: file_system where
  "promotion_files = \<lparr>fs_lstat = (\<lambda>p.
       if p \<in> set [[''srv'', ''demo''], [''srv'', ''wt'', ''job-1''], [''srv'', ''locks'']]
       then Inr \<lparr>st_kind = Directory, st_dev = 1, st_ino = 10, st_nlink = 2\<rparr> else Inl FileNotFoundErr),
     fs_resolve = Inr\<rparr>"

definition empty_diff :: unified_diff where
  "empty_diff = \<lparr>ud_base_commit = sample_base, ud_files = [], ud_patch_bytes = 0, ud_truncated = False\<rparr>"

text \<open>The target shows nothing until the patch is applied, and then the change of the reviewed worktree.\<close>

definition promotion_world :: "string \<Rightarrow> nat \<Rightarrow> world" where
  "promotion_world status n = \<lparr>w_files = promotion_files,
     w_open = (\<lambda>p. Inr \<lparr>of_before = Inr sample_meta, of_data = Inr (''x'' @ [CHR 0x0A]), of_after = Inr sample_meta\<rparr>),
     w_flock = (\<lambda>p. Inr True),
     w_collect = (if n = 5 \<or> n = 7 \<or> n = 8 then (\<lambda>r b. Inr empty_diff) else live_collect),
     w_porcelain = (\<lambda>r b. Inr (if n = 5 then status else if n = 11 then '' M f'' @ [NUL] else [])),
     w_bound = (\<lambda>job. Inr ()), w_apply = (\<lambda>r patch check. Inr 0)\<rparr>"

lemma promotion_world_honest: "honest (promotion_world status n)"
  by (auto simp: honest_def promotion_world_def promotion_files_def live_collect_def isa_def split: if_splits)

lemma sample_promotion_check:
  "promotion_check sample_sha ''appr-1'' promotion_body approved_db
   = Inr (approved_row, live_job Approved, live_bundle, ''/srv/demo'', sample_base)"
  by code_simp

lemma sample_lock: "take_lock sample_sha (promotion_world [] 0) ''/srv/demo'' ''/srv/locks'' = Inr ()"
  by code_simp

lemma sample_bound: "bound_live sample_sha (promotion_world status 1) (live_job Approved) live_bundle = Inr ()"
  by (simp add: bound_live_def promotion_world_def live_asserted del: live_job_fields)

lemma sample_frozen: "frozen_patch (b_payload live_bundle) sample_base = Inr (live_patch, [''f''])"
  by code_simp

lemma sample_authorized: "authorize_all (promotion_world status 2) ''/srv/demo'' [''f''] = Inr ()"
  unfolding promotion_world_def by code_simp

lemma sample_source:
  "make_boundary (w_files (promotion_world status 3)) (worktree_of (live_job Approved)) [''.'']
   = Inr \<lparr>wb_root = [''srv'', ''wt'', ''job-1''], wb_root_identity = (1, 10), wb_device = 1, wb_scopes = [[]],
       wb_writable_identities = None\<rparr>"
  unfolding promotion_world_def by code_simp

lemma sample_file_state:
  "file_state (promotion_world status 3) \<lparr>wb_root = [''srv'', ''wt'', ''job-1''], wb_root_identity = (1, 10),
     wb_device = 1, wb_scopes = [[]], wb_writable_identities = None\<rparr> ''f'' = Inr (Some (False, ''x'' @ [CHR 0x0A]))"
  unfolding promotion_world_def by code_simp

lemma sample_states:
  "reviewed_states sample_sha (promotion_world status 3) (promotion_world status 4) (live_job Approved) live_bundle [''f'']
   = Inr [(''f'', Some (False, ''x'' @ [CHR 0x0A]))]"
proof -
  have "w_collect (promotion_world status 4) = live_collect" by (simp add: promotion_world_def)
  then show ?thesis
    by (simp add: reviewed_states_def sample_source sample_file_state live_asserted del: live_job_fields append.simps)
qed

lemma sample_clean:
  "require_clean_target (promotion_world status 5) r b = (if status = [] then Inr () else Inl TargetConflictError)"
  "require_clean_target (promotion_world status 7) r b = Inr ()"
  "require_clean_target (promotion_world status 8) r b = Inr ()"
  by (simp_all add: require_clean_target_def promotion_world_def empty_diff_def)

lemma sample_apply: "w_apply (promotion_world status n) r patch check = Inr 0"
  by (simp add: promotion_world_def)

lemma sample_preflight:
  "promotion_preflight sample_sha (promotion_world status) (live_job Approved) live_bundle ''/srv/demo'' sample_base
   = (if status = [] then Inr (live_patch, [(''f'', Some (False, ''x'' @ [CHR 0x0A]))]) else Inl TargetConflictError)"
  by (simp add: promotion_preflight_def sample_bound sample_frozen sample_authorized sample_states sample_clean apply_patch_def
      sample_apply del: live_job_fields append.simps One_nat_def)

definition sample_started :: "(exn + job_row \<times> event_row) \<times> db" where
  "sample_started = transition sample_sha (promotion_update (live_job Approved) Applying)
     (promotion_event approved_row (live_job Approved) live_bundle sample_base ''job.promotion.started'')
     (Some (live_job Approved)) 300 approved_db"

definition sample_completed :: "job_row \<Rightarrow> db \<Rightarrow> (exn + job_row \<times> event_row) \<times> db" where
  "sample_completed started = transition sample_sha (promotion_update (live_job Approved) Completed)
     (promotion_event approved_row (live_job Approved) live_bundle sample_base ''job.promotion.completed'')
     (Some started) 301"

lemma sample_transitions:
  "\<exists>started event d1 completed d2. sample_started = (Inr (started, event), d1) \<and>
     sample_completed started d1 = (Inr completed, d2)"
proof -
  have "case sample_started of (Inr (started, event), d1) \<Rightarrow>
      (case fst (sample_completed started d1) of Inr x \<Rightarrow> True | Inl e \<Rightarrow> False) | _ \<Rightarrow> False" by code_simp
  from resolved_result [OF this] obtain started event d1 where s: "sample_started = (Inr (started, event), d1)"
      and c: "case fst (sample_completed started d1) of Inr x \<Rightarrow> True | Inl e \<Rightarrow> False" by (elim exE conjE) (rule that)
  from run_result [OF c] s show ?thesis by blast
qed

definition sample_promotion :: "(exn + promotion_response) \<times> db \<times> (string \<times> string) list" where
  "sample_promotion = promote sample_sha ''/srv/locks'' (promotion_world []) (300, 301) (\<lambda>d. d) ''appr-1''
     promotion_body approved_db approved_db"

lemma sample_applied:
  "bindE (apply_patch (promotion_world [] 9) ''/srv/demo'' live_patch False) (\<lambda>code.
     if code \<noteq> 0 then Inl PromotionReconciliationError
     else bindE (w_collect (promotion_world [] 10) ''/srv/demo'' sample_base)
       (assert_applied (promotion_world [] 11) ''/srv/demo'' [(''f'', Some (False, ''x'' @ [CHR 0x0A]))])) = Inr ()"
  by code_simp

lemma sample_promoted:
  "\<exists>resp d'. sample_promotion = (Inr resp, d', [(''/srv/demo'', live_patch)])"
proof -
  obtain started event d1 completed d2 where s: "sample_started = (Inr (started, event), d1)"
      "sample_completed started d1 = (Inr completed, d2)" using sample_transitions by blast
  then have "promotion_finish sample_sha (promotion_world []) (live_job Approved) started
      (promotion_event approved_row (live_job Approved) live_bundle sample_base ''job.promotion.completed'')
      ''/srv/demo'' sample_base live_patch [(''f'', Some (False, ''x'' @ [CHR 0x0A]))] 301 d1
      = (Inr completed, d2, [(''/srv/demo'', live_patch)])"
    by (simp only: promotion_finish_def sample_clean sample_applied sample_completed_def sum.case prod.case)
  then show ?thesis
    using s(1) [unfolded sample_started_def]
    by (simp add: sample_promotion_def promote_def sample_promotion_check target_lock_def sample_lock promotion_apply_def
        sample_preflight del: live_job_fields append.simps)
qed

text \<open>The same promotion, when a file of the target cannot be read after the patch was applied.\<close>

definition unreadable_world :: "nat \<Rightarrow> world" where
  "unreadable_world n = (if n = 10 then (promotion_world [] n)\<lparr>w_collect := (\<lambda>r b. Inl OsErr)\<rparr> else promotion_world [] n)"

lemma unreadable_world_honest: "honest (unreadable_world n)"
  using promotion_world_honest [of "[]" n] by (auto simp: honest_def unreadable_world_def isa_def)

lemma unreadable_world_same: "n \<noteq> 10 \<Longrightarrow> unreadable_world n = promotion_world [] n"
  by (simp add: unreadable_world_def)

lemma approved_wf: "core_wf sample_sha approved_db"
proof -
  have wf: "review_wf sample_sha live_waiting_db" by (rule live_waiting_wf)
  then have ok: "event_ok sample_sha sample_ready" "event_ok sample_sha sample_requested" "projects_wf live_waiting_db"
    by (simp_all add: review_wf_def core_wf_def events_wf_def live_waiting_db_def)
  have event: "event_ok sample_sha approved_event" and job: "job_ok (live_job Approved)" by code_simp+
  have "projects_wf approved_db = projects_wf live_waiting_db"
    by (simp add: projects_wf_def approved_db_def live_waiting_db_def live_db_def)
  moreover have "jobs_wf approved_db"
    using job by (simp add: jobs_wf_def approved_db_def live_db_def) (simp add: sample_job_def sample_project_def)
  moreover have "events_wf sample_sha approved_db"
    using ok(1,2) event
    by (auto simp: events_wf_def keyed_events_def key_of_def job_events_def approved_db_def live_db_def decision_key_def
        sample_ready_def sample_requested_def approved_event_def numbered_def less_Suc_eq sample_job_def)
  ultimately show ?thesis using ok(3) by (simp add: core_wf_def)
qed

definition unreadable_promotion :: "(exn + promotion_response) \<times> db \<times> (string \<times> string) list" where
  "unreadable_promotion = promote sample_sha ''/srv/locks'' unreadable_world (300, 301) (\<lambda>d. d) ''appr-1''
     promotion_body approved_db approved_db"

lemma unreadable_promoted:
  "\<exists>d'. unreadable_promotion = (Inl PromotionUnavailableError, d', [(''/srv/demo'', live_patch)])"
proof -
  obtain started event d1 where s: "sample_started = (Inr (started, event), d1)"
    using sample_transitions by blast
  have pre: "promotion_preflight sample_sha unreadable_world (live_job Approved) live_bundle ''/srv/demo'' sample_base
      = Inr (live_patch, [(''f'', Some (False, ''x'' @ [CHR 0x0A]))])"
  proof -
    have w: "unreadable_world 1 = promotion_world [] 1" "unreadable_world 2 = promotion_world [] 2"
        "unreadable_world 3 = promotion_world [] 3" "unreadable_world 4 = promotion_world [] 4"
        "unreadable_world 5 = promotion_world [] 5" "unreadable_world 6 = promotion_world [] 6"
        "unreadable_world 7 = promotion_world [] 7"
      by (simp_all only: unreadable_world_def) simp_all
    have "promotion_preflight sample_sha unreadable_world (live_job Approved) live_bundle ''/srv/demo'' sample_base
        = promotion_preflight sample_sha (promotion_world []) (live_job Approved) live_bundle ''/srv/demo'' sample_base"
      by (simp only: promotion_preflight_def w)
    then show ?thesis by (simp add: sample_preflight)
  qed
  have "promotion_finish sample_sha unreadable_world (live_job Approved) started
      (promotion_event approved_row (live_job Approved) live_bundle sample_base ''job.promotion.completed'')
      ''/srv/demo'' sample_base live_patch [(''f'', Some (False, ''x'' @ [CHR 0x0A]))] 301 d1
      = (Inl OsErr, d1, [(''/srv/demo'', live_patch)])"
    using sample_clean(3) sample_apply
    by (simp add: promotion_finish_def unreadable_world_same apply_patch_def del: live_job_fields append.simps)
      (simp add: unreadable_world_def)
  then show ?thesis
    using s(1) [unfolded sample_started_def] pre
    by (simp add: unreadable_promotion_def promote_def sample_promotion_check target_lock_def unreadable_world_same
        sample_lock promotion_apply_def finish_handler_def lock_failure_def promotion_lock_handler_def isa_def
        del: live_job_fields append.simps)
qed

subsection \<open>Properties\<close>

text \<open>
  C19: a patch is handed to Git only for an approved review. The one patch written is the frozen patch of the
  bundle the person approved and the caller named; the worktree had just shown exactly that diff again, free
  of secrets; the target is the registered, writable project of the job, without changes of its own; Git had
  accepted the patch in a dry run; and the job, untouched since it was read, has durably left
  \<open>approved\<close> for \<open>applying\<close> with its event.
\<close>

theorem promotion_writes_approved_patch:
  assumes "promote sha locks_root obs t meanwhile approval_id body d0 d = (r, d', written)" and "written \<noteq> []"
  shows "\<exists>approval job b project base patch paths diff started event d1.
    written = [(p_root project, patch)] \<and>
    approval_get approval_id d0 = Inr approval \<and> a_decision approval = Some DApproved \<and>
    job_get (a_job_id approval) d0 = Inr job \<and> bundle_get sha (j_id job) d0 = Inr b \<and>
    promotion_hash body = Inr (b_payload_hash b) \<and>
    payload_hash sha (approval_binding (j_id job) (b_scan_event_id b) (b_payload_hash b)) = Inr (a_payload_hash approval) \<and>
    project_get (j_project_id job) d0 = Inr project \<and> p_permission_mode project = SandboxedWrite \<and>
    frozen_patch (b_payload b) base = Inr (patch, paths) \<and> live_content sha (w_collect (obs 4)) job b diff \<and>
    w_apply (obs 6) (p_root project) patch True = Inr 0 \<and> clean_target (obs 8) (p_root project) base \<and>
    select_job d (j_id job) = Some job \<and> j_state job = Approved \<and>
    transition sha (promotion_update job Applying)
      (promotion_event approval job b base ''job.promotion.started'') (Some job) (fst t) d = (Inr (started, event), d1) \<and>
    select_job d1 (j_id job) = Some started \<and> j_state started = Applying \<and> events d1 = events d @ [event]"
proof -
  obtain approval job b root base patch states started event d1 r1 where
    c: "promotion_check sha approval_id body d0 = Inr (approval, job, b, root, base)"
    and p: "promotion_preflight sha obs job b root base = Inr (patch, states)"
    and s: "transition sha (promotion_update job Applying)
      (promotion_event approval job b base ''job.promotion.started'') (Some job) (fst t) d = (Inr (started, event), d1)"
    and f: "promotion_finish sha obs job started (promotion_event approval job b base ''job.promotion.completed'')
      root base patch states (snd t) (meanwhile d1) = (r1, d', written)"
    using promote_started [OF assms(1)] assms(2) by blast
  have w: "written = [(root, patch)]" "clean_target (obs 8) root base"
    using f assms(2) by (auto simp: promotion_finish_def require_clean_iff split: sum.splits prod.splits)
  note pre = promotion_preflight_Inr [OF p] and chk = promotion_check_Inr [OF c]
  note st = expected_transition [OF s promotion_event_simps(1), simplified]
  from chk obtain project where project: "project_get (j_project_id job) d0 = Inr project" "p_root project = root"
      "p_permission_mode project = SandboxedWrite" by blast
  from pre obtain paths diff where l: "frozen_patch (b_payload b) base = Inr (patch, paths)"
      "live_content sha (w_collect (obs 4)) job b diff" "w_apply (obs 6) root patch True = Inr 0" by blast
  have bound: "a_decision approval = Some DApproved"
    "payload_hash sha (approval_binding (j_id job) (b_scan_event_id b) (b_payload_hash b)) = Inr (a_payload_hash approval)"
    using chk unfolding binds_bundle_def by blast+
  have "written = [(p_root project, patch)] \<and> w_apply (obs 6) (p_root project) patch True = Inr 0 \<and>
      clean_target (obs 8) (p_root project) base \<and> j_state started = Applying"
    using w project(2) l(3) st(3) by simp
  then show ?thesis using chk bound project(1,3) l(1,2) s st(1,4,5) by blast
qed

theorem promotion_writes_approved_patch_witness:
  "\<exists>resp d' (project :: project_row). sample_promotion = (Inr resp, d', [(p_root project, live_patch)]) \<and>
     p_permission_mode project = SandboxedWrite"
proof -
  obtain resp d' where run: "sample_promotion = (Inr resp, d', [(''/srv/demo'', live_patch)])"
    using sample_promoted by blast
  from promotion_writes_approved_patch [OF run [unfolded sample_promotion_def] list.distinct(2)]
  obtain project :: project_row and patch where "[(''/srv/demo'', live_patch)] = [(p_root project, patch)]"
      "p_permission_mode project = SandboxedWrite" by blast
  then show ?thesis using run by auto
qed


text \<open>
  C20: how a promotion that fails reports what it did. A failure after anything was written, to the target or
  to the store, asks for reconciliation, with one exception: an error of the operating system that comes out
  of inspecting or patching the project after the start was committed is reported as if the promotion had
  been unavailable. Every other failure comes before any write.
\<close>

theorem promotion_failure_reported:
  assumes "digest_fun sha" and "core_wf sha d" and "\<And>d'. core_wf sha d' \<Longrightarrow> core_wf sha (meanwhile d')"
    and "\<forall>n\<in>{8..11}. honest (obs n)"
    and "promote sha locks_root obs t meanwhile approval_id body d0 d = (Inl e, d', written)"
    and "written \<noteq> [] \<or> d' \<noteq> d"
  shows "e = PromotionReconciliationError \<or>
    e = PromotionUnavailableError \<and> (\<exists>approval job b root base patch states cause.
      promotion_check sha approval_id body d0 = Inr (approval, job, b, root, base) \<and>
      promotion_preflight sha obs job b root base = Inr (patch, states) \<and> unreadable obs root base patch cause)"
proof -
  from promote_started [OF assms(5,6)] obtain approval job b root base patch states started event d1 r1 where
    c: "promotion_check sha approval_id body d0 = Inr (approval, job, b, root, base)"
      "promotion_preflight sha obs job b root base = Inr (patch, states)"
    and s: "transition sha (promotion_update job Applying)
      (promotion_event approval job b base ''job.promotion.started'') (Some job) (fst t) d = (Inr (started, event), d1)"
    and fin: "promotion_finish sha obs job started (promotion_event approval job b base ''job.promotion.completed'')
      root base patch states (snd t) (meanwhile d1) = (r1, d', written)"
    and r: "Inl e = handle promotion_lock_handler (handle lock_failure (bindE (handle finish_handler r1)
      (\<lambda>completed. Inr (promotion_report approval job b event completed))))"
    by blast
  have wf: "core_wf sha (meanwhile d1)" using assms(3) transition_wf [OF assms(2) s] by blast
  obtain cause where cause: "r1 = Inl cause" using r by (cases r1) auto
  then have e: "e = promotion_lock_handler (lock_failure (finish_handler cause))" using r by simp
  have "finish_handler cause = PromotionReconciliationError \<or> unreadable obs root base patch cause"
    using promotion_finish_Inl [OF assms(1) wf assms(4)] fin cause by blast
  then show ?thesis
  proof
    assume "finish_handler cause = PromotionReconciliationError"
    then show ?thesis using e by (simp add: lock_failure_def promotion_lock_handler_def isa_def)
  next
    assume u: "unreadable obs root base patch cause"
    show ?thesis
    proof (cases "finish_handler cause = PromotionReconciliationError")
      case True
      then show ?thesis using e by (simp add: lock_failure_def promotion_lock_handler_def isa_def)
    next
      case False
      then have "finish_handler cause = cause" by (auto simp: finish_handler_def)
      moreover have "lock_failure cause = TargetUnavailableError" using u by (simp add: unreadable_def lock_failure_def)
      ultimately have "e = PromotionUnavailableError" using e by (simp add: promotion_lock_handler_def isa_def)
      then show ?thesis using c u by blast
    qed
  qed
qed

theorem promotion_failure_reported_witness:
  "\<exists>d' cause. unreadable_promotion = (Inl PromotionUnavailableError, d', [(''/srv/demo'', live_patch)]) \<and>
     unreadable unreadable_world ''/srv/demo'' sample_base live_patch cause"
proof -
  obtain d' where run: "unreadable_promotion = (Inl PromotionUnavailableError, d', [(''/srv/demo'', live_patch)])"
    using unreadable_promoted by blast
  from promotion_failure_reported [OF sample_sha_digest approved_wf _ _ run [unfolded unreadable_promotion_def]]
  obtain approval job b root base patch states cause where
    c: "promotion_check sample_sha ''appr-1'' promotion_body approved_db = Inr (approval, job, b, root, base)"
      "promotion_preflight sample_sha unreadable_world job b root base = Inr (patch, states)"
      "unreadable unreadable_world root base patch cause"
    using unreadable_world_honest by auto
  have "unreadable unreadable_world ''/srv/demo'' sample_base patch cause \<and> patch = live_patch"
    using c sample_promotion_check sample_frozen promotion_preflight_Inr [OF c(2)] by auto
  then show ?thesis using run by blast
qed


text \<open>
  C21: a job is promoted once. A promotion writes nothing, neither to the target nor to the store, when the
  job has left \<open>approved\<close> by the time it would start, however stale its own reads are; the first promotion
  takes the job to \<open>applying\<close>, from where no lifecycle step leads back.
\<close>

theorem promotion_starts_once:
  assumes "promote sha locks_root obs t meanwhile approval_id body d0 d = (r, d', written)"
    and "approval_get approval_id d0 = Inr approval" and "select_job d (a_job_id approval) = Some j"
    and "lifecycle_path Applying path" and "j_state j = last (Applying # path)"
  shows "written = [] \<and> d' = d"
proof (rule ccontr)
  assume "\<not> ?thesis"
  then have "written \<noteq> [] \<or> d' \<noteq> d" by blast
  from promote_started [OF assms(1) this] obtain approval' job b root base started event d1 where
    c: "promotion_check sha approval_id body d0 = Inr (approval', job, b, root, base)"
    and s: "transition sha (promotion_update job Applying)
      (promotion_event approval' job b base ''job.promotion.started'') (Some job) (fst t) d = (Inr (started, event), d1)"
    by blast
  have job: "job_get (a_job_id approval) d0 = Inr job" "j_state job = Approved"
    using promotion_check_Inr [OF c] assms(2) by auto
  have "select_job d (j_id job) = Some job" using expected_transition [OF s promotion_event_simps(1)] by simp
  moreover have "j_id job = a_job_id approval" using job_get_id [OF job(1)] .
  ultimately have "j_state j = Approved" using assms(3) job(2) by simp
  then show False using assms(4,5) applying_path by metis
qed

theorem promotion_starts_once_witness:
  "snd (promote sample_sha ''/srv/locks'' (promotion_world []) (400, 401) (\<lambda>d. d) ''appr-1'' promotion_body
     approved_db (live_db Completed)) = (live_db Completed, [])"
proof -
  let ?run = "promote sample_sha ''/srv/locks'' (promotion_world []) (400, 401) (\<lambda>d. d) ''appr-1'' promotion_body
     approved_db (live_db Completed)"
  obtain r d' written where run: "?run = (r, d', written)" by (cases ?run) auto
  have read: "approval_get ''appr-1'' approved_db = Inr approved_row" by code_simp
  have job: "select_job (live_db Completed) (a_job_id approved_row) = Some (live_job Completed)" by code_simp
  show ?thesis
    using promotion_starts_once [OF run read job, of "[Completed]"] run by (simp add: transition_defs sample_job_def)
qed


text \<open>
  C22: what a completed promotion reports is so. The answer names the approval that was asked for, its job and
  the latest bundle of that job, whose hash the caller named; after the frozen patch of that bundle was applied
  to the registered project of the job, Git showed in the project exactly the approved paths, each file there
  was equal, content and executable bit, to the file of the worktree of that job that was reviewed, and the
  job is completed with the two events the answer names.
\<close>

theorem promotion_completion_reproduces_review:
  assumes "promote sha locks_root obs t meanwhile approval_id body d0 d = (Inr resp, d', written)"
  shows "\<exists>approval job b project base patch paths source states actual target completed started_event event d1.
    approval_get approval_id d0 = Inr approval \<and> a_decision approval = Some DApproved \<and>
    job_get (a_job_id approval) d0 = Inr job \<and> bundle_get sha (j_id job) d0 = Inr b \<and>
    promotion_hash body = Inr (b_payload_hash b) \<and>
    pr_approval_id resp = a_id approval \<and> pr_job_id resp = j_id job \<and> pr_bundle_hash resp = b_payload_hash b \<and>
    project_get (j_project_id job) d0 = Inr project \<and>
    map_of (j_request_snapshot job) ''repo_head'' = Some (JStr base) \<and>
    written = [(p_root project, patch)] \<and>
    frozen_patch (b_payload b) (map lower_char base) = Inr (patch, paths) \<and>
    make_boundary (w_files (obs 3)) (worktree_of job) [''.''] = Inr source \<and>
    map fst states = remdups paths \<and> holds_states (obs 3) source states \<and>
    w_collect (obs 10) (p_root project) (map lower_char base) = Inr actual \<and>
    set (concat (map entry_paths (ud_files actual))) = set paths \<and>
    make_boundary (w_files (obs 11)) (p_root project) [''.''] = Inr target \<and> holds_states (obs 11) target states \<and>
    select_job d (j_id job) = Some job \<and>
    events d1 = events d @ [started_event] \<and> events d' = events (meanwhile d1) @ [event] \<and>
    e_event_type started_event = ''job.promotion.started'' \<and> e_job_id started_event = j_id job \<and>
    e_event_type event = ''job.promotion.completed'' \<and> e_job_id event = j_id job \<and>
    pr_started_event_id resp = e_id started_event \<and> pr_completed_event_id resp = e_id event \<and>
    select_job d' (j_id job) = Some completed \<and> j_state completed = Completed \<and> pr_job_state resp = Completed"
proof -
  let ?begun = "\<lambda>approval job b base. promotion_event approval job b base ''job.promotion.started''"
  let ?done = "\<lambda>approval job b base. promotion_event approval job b base ''job.promotion.completed''"
  have "written \<noteq> [] \<or> d' \<noteq> d"
    using assms promote_Inr by blast
  from promote_started [OF assms this] obtain approval job b root base patch states started event d1 r1 where
    chk: "promotion_check sha approval_id body d0 = Inr (approval, job, b, root, base)"
    and p: "promotion_preflight sha obs job b root base = Inr (patch, states)"
    and s: "transition sha (promotion_update job Applying) (?begun approval job b base) (Some job) (fst t) d
      = (Inr (started, event), d1)"
    and f: "promotion_finish sha obs job started (?done approval job b base)
      root base patch states (snd t) (meanwhile d1) = (r1, d', written)"
    and r: "Inr resp = handle promotion_lock_handler (handle lock_failure (bindE (handle finish_handler r1)
      (\<lambda>completed. Inr (promotion_report approval job b event completed))))"
    by blast
  obtain completed last_event where r1: "r1 = Inr (completed, last_event)"
      "resp = promotion_report approval job b event (completed, last_event)"
    using r by (cases r1) auto
  obtain actual where ac: "w_collect (obs 10) root base = Inr actual" "target_applied (obs 11) root states actual"
    and w: "written = [(root, patch)]"
    and tr: "transition sha (promotion_update job Completed) (?done approval job b base) (Some started) (snd t) (meanwhile d1)
      = (Inr (completed, last_event), d')"
    using f r1 by (auto simp: promotion_finish_def bindE_eq_Inr assert_applied_iff split: sum.splits prod.splits if_splits)
  note st = expected_transition [OF s promotion_event_simps(1), simplified]
  note en = expected_transition [OF tr promotion_event_simps(1), simplified]
  have c: "j_state completed = Completed" using en(3) st(3) by (simp add: set_job_def promotion_update_def)
  from promotion_preflight_Inr [OF p] obtain paths source where pre:
      "frozen_patch (b_payload b) base = Inr (patch, paths)"
      "make_boundary (w_files (obs 3)) (worktree_of job) [''.''] = Inr source"
      "map fst states = remdups paths" "holds_states (obs 3) source states" by blast
  have "fst ` set states = set paths" using arg_cong [OF pre(3), of set] by simp
  then obtain target where ta: "set (concat (map entry_paths (ud_files actual))) = set paths"
      "make_boundary (w_files (obs 11)) root [''.''] = Inr target" "holds_states (obs 11) target states"
    using ac(2) unfolding target_applied_def by metis
  have rep: "pr_approval_id resp = a_id approval" "pr_job_id resp = j_id job" "pr_bundle_hash resp = b_payload_hash b"
      "pr_started_event_id resp = e_id event" "pr_completed_event_id resp = e_id last_event" "pr_job_state resp = Completed"
    using r1(2) c by (simp_all add: promotion_report_def)
  note ck = promotion_check_Inr [OF chk]
  obtain project where project: "project_get (j_project_id job) d0 = Inr project" "root = p_root project"
    using ck by blast
  obtain head where head: "map_of (j_request_snapshot job) ''repo_head'' = Some (JStr head)" "base = map lower_char head"
    using promotion_check_base [OF chk] by blast
  have named: "approval_get approval_id d0 = Inr approval" "a_decision approval = Some DApproved"
      "job_get (a_job_id approval) d0 = Inr job" "bundle_get sha (j_id job) d0 = Inr b"
      "promotion_hash body = Inr (b_payload_hash b)"
    using ck by (auto simp: binds_bundle_def)
  note facts = named rep project(1) head(1) w [unfolded project(2)] pre(1) [unfolded head(2)] pre(2-4)
    ac(1) [unfolded project(2) head(2)] ta(1) ta(2) [unfolded project(2)] ta(3) st(1,5) en(5) st(6,7) en(6,7,4) c
  show ?thesis
    by (rule exI [of _ approval], rule exI [of _ job], rule exI [of _ b], rule exI [of _ project], rule exI [of _ head],
        rule exI [of _ patch], rule exI [of _ paths], rule exI [of _ source], rule exI [of _ states], rule exI [of _ actual],
        rule exI [of _ target], rule exI [of _ completed], rule exI [of _ event], rule exI [of _ last_event],
        rule exI [of _ d1], intro conjI facts)
qed

theorem promotion_completion_reproduces_review_witness:
  "\<exists>resp d' completed. sample_promotion = (Inr resp, d', [(''/srv/demo'', live_patch)]) \<and>
     select_job d' (pr_job_id resp) = Some completed \<and> j_state completed = Completed"
proof -
  obtain resp d' where run: "sample_promotion = (Inr resp, d', [(''/srv/demo'', live_patch)])"
    using sample_promoted by blast
  from promotion_completion_reproduces_review [OF run [unfolded sample_promotion_def]]
  obtain job :: job_row and completed where "pr_job_id resp = j_id job" "select_job d' (j_id job) = Some completed"
      "j_state completed = Completed" by (elim exE conjE) (rule that)
  then show ?thesis using run by (intro exI conjI) (assumption, simp_all)
qed

end
