(* ===== verification/Spec2Isabelle.thy ===== *)
theory Spec2Isabelle
  imports Workflow Planner MemoryRefs Evidence NativeLane RemoteCommands StreamSpec PlanningService Cancellation PhoneSafety Submission SecretGate WriteBoundary LiveReview Promotion
begin

text \<open>
  Verification of the local agent workbench (src/src/local_agent_workbench).

  The workbench runs coding agents on local projects. A job is submitted for a project, planned, run in a
  linked Git worktree, scanned for secrets, frozen as a review bundle, decided by a person and, once approved,
  promoted to the project. Everything durable is one SQLite database (db.py); the services around it read,
  check and write it in short transactions, and talk to Git, to the provider of the agent and to a phone. The
  development models the database and the services whose correctness decides what is written, shown to a
  person, sent to a phone or applied to a project.

  \<^bold>\<open>State.\<close> The record \<open>db\<close> of Schema is the database: one list of row records per table in insertion order,
  with the \<open>CHECK\<close>, \<open>UNIQUE\<close> and foreign key constraints and the triggers of the embedded migrations as the
  insert, update and delete operations. Store holds \<open>_Repository\<close>: a transaction is a function from a store to an
  error or a result with a new store, and \<open>write_connection\<close> rolls back on every error. An operation is
  \<open>db \<Rightarrow> (exn + result) \<times> db\<close>; a read is \<open>db \<Rightarrow> exn + result\<close>. Errors has the exception classes with their
  hierarchy, so that each \<open>except\<close> clause is a test with \<open>isa\<close>. Prelude and Json hold what the rest shares:
  the error monad, \<open>strip\<close>, UTF-8 lengths, keyed lists, and the canonical JSON text of \<open>json.dumps\<close>.

  \<^bold>\<open>Theories, in the order of the flow of a job.\<close>
  \<^item> Lifecycle (engine.py: \<open>JobState\<close>, \<open>ALLOWED_JOB_TRANSITIONS\<close>, \<open>validate_job_transition\<close>), Projects, Jobs,
    Events, Transitions (db.py: \<open>ProjectRepository\<close>, \<open>JobRepository\<close>, \<open>EventRepository\<close>,
    \<open>AtomicTransitionService\<close>): a job moves along the table together with its event or not at all; keyed
    events are written once; the ledger of a job is numbered without gaps.
  \<^item> Submission (job_submission.py), PlanningService (planning.py), Planner, MemoryRefs and Evidence (db.py):
    what a job freezes when it is submitted, the keyed plan of a job, planner items, memory references and
    verification evidence.
  \<^item> Numbers and TeamConfig (team_config.py), Teams (team_store.py), RuntimeEvents and Streams (engine.py: sessions,
    capabilities, \<open>RuntimeEvent\<close>, \<open>RuntimeEventStreamNormalizer\<close>), Native (native_store.py), Cancellation
    (cancellation.py): who may run, the single native lane, what a provider reports, and how a run is stopped.
    StreamSpec has the reference of the normalizer, NativeLane the guarantees of the lane over all runs.
  \<^item> Diffs (diff_types.py), Patterns, SecretScan and SecretGate (secret_gate.py), WriteBoundary
    (write_boundary.py): the change set of a worktree, the scanner, the gate before the review, and the
    paths that may be written.
  \<^item> Approvals, ReviewBundles and Workflow (db.py: \<open>ApprovalRepository\<close>, \<open>ReviewBundleRepository\<close>,
    \<open>ApprovalWorkflowRepository\<close>), LiveReview (approval_service.py), PromotionTarget and Promotion
    (promotion_target.py, promotion.py): the decision on a review, its binding to the live worktree, and the
    patch that is applied for it.
  \<^item> RemoteCommands (remote_commands.py) and PhoneStore (phone_store.py), with PhoneSafety: the journal of remote
    updates and the actions and messages of the phone, delivered at most once.
  \<^item> History holds the locale of tables that only grow, interpreted on approvals, native attempts, receipts,
    actions and messages; Samples the small store on which the witnesses are evaluated.

  \<^bold>\<open>Arguments.\<close> What the code calls but does not contain is an argument: the clock (microseconds since 1970), new
  identities and random tokens, SHA-256 (assumed, where it matters, to give 64 lower case hex digits and no
  collision), the UTF-8 and JSON decoder of the stream, Git (\<open>collect\<close>, exit codes and output), the file system
  one call observes, the provider's answers and the eligibility of a phone message. Two arguments stand for
  code of this repository that is not modelled: \<open>ReadOnlyDiffService.collect\<close> (diff_service.py) and
  \<open>WorktreeManager.verify_bound\<close> with \<open>worktree_identity\<close> (worktree.py). A service that reads, waits for Git and
  then writes takes the store of its reads and the store of its write separately, so other operations may
  have changed it in between.

  \<^bold>\<open>What the lemmas show.\<close> Each component has a well-formedness predicate (\<open>core_wf\<close>, \<open>review_wf\<close>, \<open>native_wf\<close>,
  \<open>journal_wf\<close>, \<open>phone_wf\<close> and those they consist of), proved of every operation that writes; the functional
  outcome of its operations on every branch (\<open>transition_outcome\<close>, \<open>planner_promote_outcome\<close>, ...); and the
  properties that span operations: retries and redeliveries have the effect of one delivery, a decision is
  written only on an unchanged, live, clean review, a patch is applied only for it and once, one native writer,
  messages and replies leave at most once, refusals leave no trace. The abstract specifications are the
  delivery automaton of remote updates (\<open>delivery_step\<close>), the line by line reference of the stream
  (\<open>stream_all\<close>) and the histories of growing tables.

  \<^bold>\<open>Bounds and fuel.\<close> No recursion needs fuel. The loop of the planning service makes at most the five attempts of
  the code, and \<open>planning_completes\<close> shows that they are enough. Sequence numbers, timestamps and stored integers
  keep the bounds the code checks; a \<open>datetime\<close> ends with the year 9999.

  \<^bold>\<open>Conventions.\<close> Text is a \<open>string\<close> whose characters are the code points 0 to 255; bytes are the same
  characters. JSON numbers keep their spelling: \<open>1\<close>, \<open>1.0\<close> and \<open>true\<close>, which Python's \<open>==\<close> identifies, are
  different values here. Messages of exceptions are not modelled. \<open>set\<close> iteration in the code is a list in
  order of first occurrence.

  \<^bold>\<open>Not modelled.\<close>
  \<^item> The command line, the HTTP application and its web page (app.py, workspace_control.py, workspace_ui,
    logging_setup.py): routing, rendering and process start, which call the modelled services.
  \<^item> The adapters (codex_adapter.py, codex_accounts.py, codex_events.py, native_execution.py,
    task_workflow.py, model_library.py, verification.py): subprocesses and asynchronous orchestration around the
    modelled stores.
  \<^item> The Git side (diff_service.py, worktree.py): their results are arguments, as said above.
  \<^item> Retention (retention.py), the assembly of a bundle (review_bundle.py), the event stream of the client
    (event_stream.py) and the phone front end (phone_control.py, phone_gateway.py, phone_policy.py,
    phone_notifications.py, telegram_gateway.py): not reached yet; the repository operations they write with are
    modelled.
  \<^item> In db.py: migrations, backup, recovery and the usage repository; in engine.py: the parsing of the
    configuration file, \<open>run_process\<close>, the consultant and the fake provider.
\<close>

end
